(* ===== verification/Prelude.thy ===== *)
theory Prelude
  imports Main "HOL-Library.Word"
begin

text \<open>
  Prelude of the development: the named collections that the component theories
  feed, and the text utilities of the JavaScript and Python standard libraries
  that the source uses.

  Text. A string of the program is a HOL \<open>string\<close> (a list of 8-bit characters)
  holding its UTF-8 encoding, so that every non-ASCII character the source writes is the
  byte sequence of its encoding.  The source takes slices and lengths only of ASCII texts
  (hexadecimal keys, npubs), where bytes, code units and code points coincide; lengths of
  user supplied labels are counted in code points (\<open>code_points\<close>).
\<close>

named_theorems js_defs "definitions of handlers, unfolded for symbolic execution"
named_theorems wp_rules "weakest preconditions of the effect monad"
named_theorems run_rules "evaluation rules of the effect monad"
named_theorems store_laws "laws of the stores"

subsection \<open>Characters and numerals\<close>

definition code_of :: "char \<Rightarrow> nat" where
  "code_of c = of_char c"

definition chr :: "nat \<Rightarrow> char" where
  "chr n = char_of n"

lemma code_of_chr [simp]: "n < 256 \<Longrightarrow> code_of (chr n) = n"
  by (simp add: code_of_def chr_def)

lemma chr_code_of [simp]: "chr (code_of c) = c"
  by (simp add: code_of_def chr_def)

lemma code_of_less [simp]: "code_of c < 256"
  by (simp add: code_of_def)

lemma code_of_inject [simp]: "code_of c = code_of d \<longleftrightarrow> c = d"
  by (simp add: code_of_def)

lemma chr_eq_iff: "n < 256 \<Longrightarrow> chr n = c \<longleftrightarrow> code_of c = n"
  by (metis chr_code_of code_of_chr)

lemma eq_chr_iff: "n < 256 \<Longrightarrow> c = chr n \<longleftrightarrow> code_of c = n"
  using chr_eq_iff by metis

text \<open>Number of code points of a UTF-8 text: the bytes that are not continuation bytes.\<close>

definition code_points :: "string \<Rightarrow> nat" where
  "code_points s = length (filter (\<lambda>c. \<not> (128 \<le> code_of c \<and> code_of c < 192)) s)"

definition hex_digit :: "nat \<Rightarrow> char" where
  "hex_digit n = (if n < 10 then chr (48 + n) else chr (87 + n))"

definition hex_val :: "char \<Rightarrow> nat option" where
  "hex_val c = (let n = code_of c in
     if 48 \<le> n \<and> n \<le> 57 then Some (n - 48)
     else if 97 \<le> n \<and> n \<le> 102 then Some (n - 87)
     else if 65 \<le> n \<and> n \<le> 70 then Some (n - 55)
     else None)"

lemma hex_val_digit [simp]: "n < 16 \<Longrightarrow> hex_val (hex_digit n) = Some n"
  by (simp add: hex_val_def hex_digit_def Let_def)

lemma hex_val_less: "hex_val c = Some n \<Longrightarrow> n < 16"
  by (auto simp: hex_val_def Let_def split: if_splits)

text \<open>\<open>n.toString(16)\<close> and \<open>n.toString()\<close> for a natural number.\<close>

fun to_hex :: "nat \<Rightarrow> string" where
  "to_hex n = (if n < 16 then [hex_digit n] else to_hex (n div 16) @ [hex_digit (n mod 16)])"

fun to_dec :: "nat \<Rightarrow> string" where
  "to_dec n = (if n < 10 then [chr (48 + n)] else to_dec (n div 10) @ [chr (48 + n mod 10)])"

declare to_hex.simps [simp del] to_dec.simps [simp del]

definition int_to_dec :: "int \<Rightarrow> string" where
  "int_to_dec i = (if i < 0 then CHR ''-'' # to_dec (nat (- i)) else to_dec (nat i))"

definition dec_val :: "char \<Rightarrow> nat option" where
  "dec_val c = (let n = code_of c in if 48 \<le> n \<and> n \<le> 57 then Some (n - 48) else None)"

definition is_dec :: "char \<Rightarrow> bool" where
  "is_dec c \<longleftrightarrow> dec_val c \<noteq> None"

lemma dec_val_chr [simp]: "n < 10 \<Longrightarrow> dec_val (chr (48 + n)) = Some n"
  by (simp add: dec_val_def Let_def)

fun read_dec :: "nat \<Rightarrow> string \<Rightarrow> nat \<times> string" where
  "read_dec acc [] = (acc, [])"
| "read_dec acc (c # cs) =
     (case dec_val c of None \<Rightarrow> (acc, c # cs) | Some d \<Rightarrow> read_dec (acc * 10 + d) cs)"

lemma to_dec_nonempty [simp]: "to_dec n \<noteq> []"
  by (subst to_dec.simps) simp

lemma set_to_dec: "c \<in> set (to_dec n) \<Longrightarrow> is_dec c"
proof (induction n rule: to_dec.induct)
  case (1 n)
  then show ?case
    by (subst (asm) (2) to_dec.simps) (auto simp: is_dec_def split: if_splits)
qed

lemma read_dec_append:
  "read_dec a (to_dec n @ s) = read_dec (a * 10 ^ length (to_dec n) + n) s"
proof (induction n arbitrary: a s rule: to_dec.induct)
  case (1 n)
  show ?case
  proof (cases "n < 10")
    case True
    then show ?thesis
      by (simp add: to_dec.simps [of n])
  next
    case False
    have eq: "10 * (n div 10) + n mod 10 = n" by simp
    have "read_dec a (to_dec n @ s) =
        read_dec (a * 10 ^ length (to_dec (n div 10)) + n div 10) (chr (48 + n mod 10) # s)"
      using False "1.IH" [of a "chr (48 + n mod 10) # s"] by (simp add: to_dec.simps [of n])
    also have "\<dots> = read_dec ((a * 10 ^ length (to_dec (n div 10)) + n div 10) * 10 + n mod 10) s"
      by simp
    also have "(a * 10 ^ length (to_dec (n div 10)) + n div 10) * 10 + n mod 10
        = a * 10 ^ length (to_dec n) + n"
      using False eq by (simp add: to_dec.simps [of n] algebra_simps)
    finally show ?thesis .
  qed
qed

lemma read_dec_stop: "(case s of [] \<Rightarrow> True | c # _ \<Rightarrow> \<not> is_dec c) \<Longrightarrow> read_dec a s = (a, s)"
  by (cases s) (auto simp: is_dec_def)

lemma read_dec_to_dec:
  "(case s of [] \<Rightarrow> True | c # _ \<Rightarrow> \<not> is_dec c) \<Longrightarrow> read_dec 0 (to_dec n @ s) = (n, s)"
  by (simp add: read_dec_append read_dec_stop)

lemma read_dec_length: "read_dec a s = (n, t) \<Longrightarrow> length t \<le> length s"
  by (induction a s rule: read_dec.induct) (fastforce split: option.splits)+

end
