(* ===== verification/Text_Util.thy ===== *)
theory Text_Util
  imports Prelude
begin

text \<open>
  String operations of the JavaScript standard library that the browser code uses:
  \<open>trim\<close>, \<open>includes\<close>, \<open>slice\<close>, \<open>join\<close>, \<open>padStart\<close>, \<open>repeat\<close>, \<open>encodeURIComponent\<close> and
  \<open>parseInt(_, 16)\<close>.  Whitespace is given as the list of the UTF-8 encodings of the
  white characters, so that trimming is exact on UTF-8 text.
\<close>

fun starts_with :: "string \<Rightarrow> string \<Rightarrow> bool" where
  "starts_with [] s = True"
| "starts_with (c # cs) [] = False"
| "starts_with (c # cs) (d # ds) = (c = d \<and> starts_with cs ds)"

lemma starts_with_iff: "starts_with p s \<longleftrightarrow> (\<exists>t. s = p @ t)"
  by (induction p s rule: starts_with.induct) auto

lemma starts_with_append: "starts_with p s \<Longrightarrow> starts_with p (s @ t)"
  by (auto simp: starts_with_iff)

text \<open>\<open>haystack.includes(needle)\<close>\<close>

fun js_includes :: "string \<Rightarrow> string \<Rightarrow> bool" where
  "js_includes needle [] = starts_with needle []"
| "js_includes needle (c # cs) = (starts_with needle (c # cs) \<or> js_includes needle cs)"

lemma includes_iff: "js_includes p s \<longleftrightarrow> (\<exists>a b. s = a @ p @ b)"
proof (induction s)
  case Nil
  show ?case by (cases p) auto
next
  case (Cons c s)
  have "(\<exists>a b. c # s = a @ p @ b) \<longleftrightarrow> (\<exists>b. c # s = p @ b) \<or> (\<exists>a b. s = a @ p @ b)"
  proof
    assume "\<exists>a b. c # s = a @ p @ b"
    then obtain a b where "c # s = a @ p @ b" by blast
    then show "(\<exists>b. c # s = p @ b) \<or> (\<exists>a b. s = a @ p @ b)" by (cases a) auto
  next
    assume "(\<exists>b. c # s = p @ b) \<or> (\<exists>a b. s = a @ p @ b)"
    then show "\<exists>a b. c # s = a @ p @ b" by (metis append_Cons append_Nil)
  qed
  with Cons show ?case by (simp add: starts_with_iff)
qed

subsection \<open>Trimming\<close>

definition js_white :: "string list" where
  "js_white = map (\<lambda>n. [chr n]) [9, 10, 11, 12, 13, 32]
     @ map (map chr)
        [[0xC2, 0xA0], [0xE1, 0x9A, 0x80], [0xE2, 0x80, 0x80], [0xE2, 0x80, 0x81],
         [0xE2, 0x80, 0x82], [0xE2, 0x80, 0x83], [0xE2, 0x80, 0x84], [0xE2, 0x80, 0x85],
         [0xE2, 0x80, 0x86], [0xE2, 0x80, 0x87], [0xE2, 0x80, 0x88], [0xE2, 0x80, 0x89],
         [0xE2, 0x80, 0x8A], [0xE2, 0x80, 0xA8], [0xE2, 0x80, 0xA9], [0xE2, 0x80, 0xAF],
         [0xE2, 0x81, 0x9F], [0xE3, 0x80, 0x80], [0xEF, 0xBB, 0xBF]]"

text \<open>Python's \<open>str.strip\<close>: also the separators 28 to 31 and U+0085, not the byte order mark.\<close>

definition py_white :: "string list" where
  "py_white = map (\<lambda>n. [chr n]) [28, 29, 30, 31] @ [[chr 0xC2, chr 0x85]]
     @ filter (\<lambda>w. w \<noteq> [chr 0xEF, chr 0xBB, chr 0xBF]) js_white"

definition strip_one :: "string list \<Rightarrow> string \<Rightarrow> string option" where
  "strip_one ws s = (case filter (\<lambda>w. w \<noteq> [] \<and> starts_with w s) ws of
     [] \<Rightarrow> None | w # _ \<Rightarrow> Some (drop (length w) s))"

lemma strip_one_Some:
  "strip_one ws s = Some t \<Longrightarrow> \<exists>w \<in> set ws. w \<noteq> [] \<and> s = w @ t"
proof -
  assume a: "strip_one ws s = Some t"
  then obtain w r where f: "filter (\<lambda>w. w \<noteq> [] \<and> starts_with w s) ws = w # r"
    by (auto simp: strip_one_def split: list.splits)
  then have "w \<in> set (filter (\<lambda>w. w \<noteq> [] \<and> starts_with w s) ws)" by simp
  then have "w \<in> set ws" "w \<noteq> []" "starts_with w s" by auto
  moreover from a f have "t = drop (length w) s" by (simp add: strip_one_def)
  ultimately show ?thesis by (auto simp: starts_with_iff)
qed

lemma strip_one_None:
  "strip_one ws s = None \<longleftrightarrow> (\<forall>w \<in> set ws. w \<noteq> [] \<longrightarrow> \<not> starts_with w s)"
proof -
  have "strip_one ws s = None \<longleftrightarrow> filter (\<lambda>w. w \<noteq> [] \<and> starts_with w s) ws = []"
    by (simp add: strip_one_def split: list.splits)
  then show ?thesis by (auto simp: filter_empty_conv)
qed

lemma strip_one_length: "strip_one ws s = Some t \<Longrightarrow> length t < length s"
  using strip_one_Some by fastforce

function trim_start :: "string list \<Rightarrow> string \<Rightarrow> string" where
  "trim_start ws s = (case strip_one ws s of None \<Rightarrow> s | Some t \<Rightarrow> trim_start ws t)"
  by pat_completeness auto
termination
  by (relation "measure (\<lambda>(ws, s). length s)") (auto simp: strip_one_length)

declare trim_start.simps [simp del]

definition trim_end :: "string list \<Rightarrow> string \<Rightarrow> string" where
  "trim_end ws s = rev (trim_start (map rev ws) (rev s))"

definition trim_with :: "string list \<Rightarrow> string \<Rightarrow> string" where
  "trim_with ws s = trim_end ws (trim_start ws s)"

definition js_trim :: "string \<Rightarrow> string" where
  "js_trim s = trim_with js_white s"

definition py_strip :: "string \<Rightarrow> string" where
  "py_strip s = trim_with py_white s"

lemma trim_start_stop: "strip_one ws (trim_start ws s) = None"
proof (induction ws s rule: trim_start.induct)
  case (1 ws s)
  then show ?case
    by (subst trim_start.simps) (auto split: option.splits)
qed

lemma trim_start_fix: "strip_one ws s = None \<Longrightarrow> trim_start ws s = s"
  by (subst trim_start.simps) simp

lemma trim_start_suffix: "\<exists>p. s = p @ trim_start ws s"
proof (induction ws s rule: trim_start.induct)
  case (1 ws s)
  show ?case
  proof (cases "strip_one ws s")
    case None
    then show ?thesis by (simp add: trim_start_fix)
  next
    case (Some t)
    with "1" obtain p where "t = p @ trim_start ws t" by blast
    moreover obtain w where "s = w @ t" using Some strip_one_Some by blast
    ultimately have "s = (w @ p) @ trim_start ws t" by simp
    then show ?thesis using Some by (subst trim_start.simps) (metis option.simps(5))
  qed
qed

lemma trim_end_prefix: "\<exists>q. s = trim_end ws s @ q"
proof -
  obtain p where "rev s = p @ trim_start (map rev ws) (rev s)"
    using trim_start_suffix by blast
  then have "s = rev (trim_start (map rev ws) (rev s)) @ rev p"
    by (metis rev_append rev_rev_ident)
  then show ?thesis by (auto simp: trim_end_def)
qed

lemma strip_one_trim_end:
  assumes "strip_one ws s = None"
  shows "strip_one ws (trim_end ws s) = None"
proof -
  obtain q where q: "s = trim_end ws s @ q" using trim_end_prefix by blast
  have "\<not> starts_with w (trim_end ws s)" if "w \<in> set ws" "w \<noteq> []" for w
  proof
    assume "starts_with w (trim_end ws s)"
    then have "starts_with w s" using q starts_with_append by metis
    with assms that show False by (auto simp: strip_one_None)
  qed
  then show ?thesis by (auto simp: strip_one_None)
qed

lemma trim_end_idem: "trim_end ws (trim_end ws s) = trim_end ws s"
  by (simp add: trim_end_def trim_start_fix trim_start_stop)

text \<open>Trimming twice is trimming once, and a trimmed text has no white character at its ends.\<close>

lemma trim_with_idem: "trim_with ws (trim_with ws s) = trim_with ws s"
  by (simp add: trim_with_def trim_start_fix strip_one_trim_end trim_start_stop trim_end_idem)

lemma js_trim_idem [simp]: "js_trim (js_trim s) = js_trim s"
  by (simp add: js_trim_def trim_with_idem)

lemma trim_start_Nil [simp]: "trim_start ws [] = []"
  using trim_start_suffix [of "[]" ws] by auto

lemma trim_end_Nil [simp]: "trim_end ws [] = []"
  by (simp add: trim_end_def)

lemma js_trim_Nil [simp]: "js_trim [] = []"
  by (simp add: js_trim_def trim_with_def)

text \<open>A text whose first and last bytes are no white byte is left as it is.\<close>

lemma js_trim_id:
  assumes "strip_one js_white s = None" and "strip_one (map rev js_white) (rev s) = None"
  shows "js_trim s = s"
  using assms by (simp add: js_trim_def trim_with_def trim_end_def trim_start_fix)

subsection \<open>Slices, padding, joining\<close>

text \<open>\<open>s.slice(0, n)\<close> and \<open>s.slice(-n)\<close> for \<open>n > 0\<close>.\<close>

definition slice_first :: "nat \<Rightarrow> string \<Rightarrow> string" where
  "slice_first n s = take n s"

definition slice_last :: "nat \<Rightarrow> string \<Rightarrow> string" where
  "slice_last n s = drop (length s - n) s"

definition pad_start :: "nat \<Rightarrow> char \<Rightarrow> string \<Rightarrow> string" where
  "pad_start n c s = replicate (n - length s) c @ s"

fun join :: "string \<Rightarrow> string list \<Rightarrow> string" where
  "join sep [] = []"
| "join sep [s] = s"
| "join sep (s # t # ts) = s @ sep @ join sep (t # ts)"

definition repeat_str :: "nat \<Rightarrow> string \<Rightarrow> string" where
  "repeat_str n s = concat (replicate n s)"

subsection \<open>\<open>encodeURIComponent\<close>\<close>

definition uri_unreserved :: "char \<Rightarrow> bool" where
  "uri_unreserved c = (let n = code_of c in
     48 \<le> n \<and> n \<le> 57 \<or> 65 \<le> n \<and> n \<le> 90 \<or> 97 \<le> n \<and> n \<le> 122 \<or> c \<in> set ''-_.!~*'' \<or> n \<in> {39, 40, 41})"

definition upper_hex_digit :: "nat \<Rightarrow> char" where
  "upper_hex_digit n = (if n < 10 then chr (48 + n) else chr (55 + n))"

definition uri_byte :: "char \<Rightarrow> string" where
  "uri_byte c = (if uri_unreserved c then [c]
     else [CHR ''%'', upper_hex_digit (code_of c div 16), upper_hex_digit (code_of c mod 16)])"

definition encodeURIComponent :: "string \<Rightarrow> string" where
  "encodeURIComponent s = concat (map uri_byte s)"

subsection \<open>\<open>parseInt(s, 16)\<close>\<close>

fun read_hex :: "nat \<Rightarrow> string \<Rightarrow> nat" where
  "read_hex acc [] = acc"
| "read_hex acc (c # cs) = (case hex_val c of None \<Rightarrow> acc | Some d \<Rightarrow> read_hex (acc * 16 + d) cs)"

definition parse_sign :: "string \<Rightarrow> int \<times> string" where
  "parse_sign s = (case s of [] \<Rightarrow> (1, []) | c # cs \<Rightarrow>
     if c = CHR ''-'' then (-1, cs) else if c = CHR ''+'' then (1, cs) else (1, c # cs))"

text \<open>\<open>None\<close> is NaN: no digit after white space, sign and an optional \<open>0x\<close>.\<close>

definition parseInt16 :: "string \<Rightarrow> int option" where
  "parseInt16 s = (let (sgn, t) = parse_sign (trim_start js_white s);
       u = (if starts_with ''0x'' t \<or> starts_with ''0X'' t then drop 2 t else t)
     in case u of [] \<Rightarrow> None
        | c # cs \<Rightarrow> if hex_val c = None then None else Some (sgn * int (read_hex 0 (c # cs))))"

end
