(* ===== verification/Js_Value.thy ===== *)
theory Js_Value
  imports Text_Util
begin

text \<open>
  JavaScript values: the one type of everything the browser code passes around.
  Numbers are the integers (every number of the protocol is one: event kinds, Unix
  times, database ids, HTTP statuses).  \<open>Bytes\<close> is a \<open>Uint8Array\<close>.  An object is the list
  of its own properties in insertion order.  A function is a \<open>Closure\<close>: a name of the code it
  runs and the values it captured (the code of the source's own closures is in the
  theories of the scripts; every other name is a function of the host or of a vendored
  library).
\<close>

type_synonym byte = "8 word"

datatype jsval =
    Undefined
  | Null
  | Bool bool
  | Num int
  | Str string
  | Bytes "byte list"
  | Arr "jsval list"
  | Obj "(string \<times> jsval) list"
  | Closure string "jsval list"

text \<open>\<open>ToBoolean\<close>, \<open>a || b\<close> and \<open>a && b\<close> on values.\<close>

fun truthy :: "jsval \<Rightarrow> bool" where
  "truthy Undefined = False"
| "truthy Null = False"
| "truthy (Bool b) = b"
| "truthy (Num n) = (n \<noteq> 0)"
| "truthy (Str s) = (s \<noteq> [])"
| "truthy _ = True"

definition js_or :: "jsval \<Rightarrow> jsval \<Rightarrow> jsval" where
  "js_or a b = (if truthy a then a else b)"

definition is_function :: "jsval \<Rightarrow> bool" where
  "is_function v = (case v of Closure _ _ \<Rightarrow> True | _ \<Rightarrow> False)"

definition nullish :: "jsval \<Rightarrow> bool" where
  "nullish v \<longleftrightarrow> v = Undefined \<or> v = Null"

text \<open>An \<open>Error\<close> object; what the host throws when a property of \<open>undefined\<close> is read.\<close>

definition js_error :: "string \<Rightarrow> jsval" where
  "js_error msg = Obj [(''message'', Str msg)]"

definition type_error :: jsval where
  "type_error = js_error ''TypeError''"

text \<open>Reading a property.  A result \<open>Inl e\<close> is the exception \<open>e\<close>.\<close>

definition js_prop :: "(string \<times> jsval) list \<Rightarrow> string \<Rightarrow> jsval" where
  "js_prop ps k = (case map_of ps k of None \<Rightarrow> Undefined | Some v \<Rightarrow> v)"

fun js_get :: "jsval \<Rightarrow> string \<Rightarrow> jsval + jsval" where
  "js_get Undefined k = Inl type_error"
| "js_get Null k = Inl type_error"
| "js_get (Obj ps) k = Inr (js_prop ps k)"
| "js_get (Str s) k = Inr (if k = ''length'' then Num (int (length s)) else Undefined)"
| "js_get (Arr vs) k = Inr (if k = ''length'' then Num (int (length vs)) else Undefined)"
| "js_get (Bytes bs) k = Inr (if k = ''length'' then Num (int (length bs)) else Undefined)"
| "js_get _ k = Inr Undefined"

text \<open>\<open>String(v)\<close>.\<close>

fun js_string :: "jsval \<Rightarrow> string" where
  "js_string Undefined = ''undefined''"
| "js_string Null = ''null''"
| "js_string (Bool b) = (if b then ''true'' else ''false'')"
| "js_string (Num n) = int_to_dec n"
| "js_string (Str s) = s"
| "js_string (Bytes bs) = join '','' (map (\<lambda>b. to_dec (unat b)) bs)"
| "js_string (Arr vs) = join '','' (map (\<lambda>v. if nullish v then [] else js_string v) vs)"
| "js_string (Obj ps) = ''[object Object]''"
| "js_string (Closure n vs) = ''function''"

text \<open>\<open>element.textContent = v\<close>: null and undefined become the empty text.\<close>

definition js_text :: "jsval \<Rightarrow> string" where
  "js_text v = (if nullish v then [] else js_string v)"

text \<open>Setting an own property: an existing one keeps its place.\<close>

fun obj_set :: "(string \<times> jsval) list \<Rightarrow> string \<times> jsval \<Rightarrow> (string \<times> jsval) list" where
  "obj_set [] (k, v) = [(k, v)]"
| "obj_set ((k', v') # ps) (k, v) = (if k' = k then (k, v) # ps else (k', v') # obj_set ps (k, v))"

lemma truthy_Str [simp]: "truthy (Str s) \<longleftrightarrow> s \<noteq> []"
  by simp

lemma js_or_simps [simp]:
  "truthy a \<Longrightarrow> js_or a b = a"
  "\<not> truthy a \<Longrightarrow> js_or a b = b"
  by (simp_all add: js_or_def)

lemma is_function_simps [simp]:
  "is_function (Closure n vs)" "\<not> is_function Undefined" "\<not> is_function Null"
  "\<not> is_function (Bool b)" "\<not> is_function (Num i)" "\<not> is_function (Str s)"
  "\<not> is_function (Bytes bs)" "\<not> is_function (Arr xs)" "\<not> is_function (Obj ps)"
  by (simp_all add: is_function_def)

lemma nullish_simps [simp]:
  "nullish Undefined" "nullish Null" "\<not> nullish (Bool b)" "\<not> nullish (Num i)"
  "\<not> nullish (Str s)" "\<not> nullish (Bytes bs)" "\<not> nullish (Arr xs)" "\<not> nullish (Obj ps)"
  "\<not> nullish (Closure n vs)"
  by (simp_all add: nullish_def)

lemma js_get_error: "js_get v k = Inl e \<Longrightarrow> nullish v \<and> e = type_error"
  by (cases v) auto

lemma js_prop_simps [simp]:
  "js_prop [] k = Undefined"
  "js_prop ((k', v) # ps) k = (if k' = k then v else js_prop ps k)"
  by (auto simp: js_prop_def)

end
