(* ===== verification/Json.thy ===== *)
theory Json
  imports Js_Value
begin

text \<open>
  \<open>JSON.stringify\<close> and \<open>JSON.parse\<close> on the values of \<open>Js_Value\<close>, with the round trip.
  The text of a request body, of a response and of a stored signer is produced and
  read by these two functions.  Numbers are integers: a literal with a fraction or an
  exponent is refused by \<open>json_parse\<close>, which the protocol never sends.  The parser is
  written with fuel; \<open>json_parse\<close> gives it the length of the text, and
  \<open>json_value_fuel\<close> shows that more fuel never changes a result.
\<close>

subsection \<open>Printing\<close>

definition json_escape_char :: "char \<Rightarrow> string" where
  "json_escape_char c = (let n = code_of c in
     if n = 34 then [CHR 0x5C, CHR 0x22]
     else if n = 92 then [CHR 0x5C, CHR 0x5C]
     else if n = 8 then [CHR 0x5C, CHR ''b'']
     else if n = 12 then [CHR 0x5C, CHR ''f'']
     else if n = 10 then [CHR 0x5C, CHR ''n'']
     else if n = 13 then [CHR 0x5C, CHR ''r'']
     else if n = 9 then [CHR 0x5C, CHR ''t'']
     else if n < 32 then [CHR 0x5C, CHR ''u'', CHR ''0'', CHR ''0'', hex_digit (n div 16), hex_digit (n mod 16)]
     else [c])"

definition json_quote :: "string \<Rightarrow> string" where
  "json_quote s = CHR 0x22 # concat (map json_escape_char s) @ [CHR 0x22]"

text \<open>
  A value that has no JSON text (undefined, a function) is dropped as a property and
  printed as \<open>null\<close> in an array.  A typed array prints as an object of its elements.
\<close>

fun json_absent :: "jsval \<Rightarrow> bool" where
  "json_absent Undefined = True"
| "json_absent (Closure n vs) = True"
| "json_absent v = False"

definition json_bytes :: "byte list \<Rightarrow> string" where
  "json_bytes bs = ''{'' @ join '','' (map (\<lambda>i. json_quote (to_dec i) @ '':'' @ to_dec (unat (bs ! i))) [0..<length bs]) @ ''}''"

fun json_stringify :: "jsval \<Rightarrow> string" where
  "json_stringify Undefined = ''null''"
| "json_stringify Null = ''null''"
| "json_stringify (Bool b) = (if b then ''true'' else ''false'')"
| "json_stringify (Num n) = int_to_dec n"
| "json_stringify (Str s) = json_quote s"
| "json_stringify (Bytes bs) = json_bytes bs"
| "json_stringify (Arr vs) = ''['' @ join '','' (map json_stringify vs) @ '']''"
| "json_stringify (Obj ps) =
     ''{'' @ join '','' (map (\<lambda>p. json_quote (fst p) @ '':'' @ json_stringify (snd p))
                        (filter (\<lambda>p. \<not> json_absent (snd p)) ps)) @ ''}''"
| "json_stringify (Closure n vs) = ''null''"

subsection \<open>Parsing\<close>

definition json_space :: "char \<Rightarrow> bool" where
  "json_space c \<longleftrightarrow> code_of c \<in> {9, 10, 13, 32}"

definition skip_ws :: "string \<Rightarrow> string" where
  "skip_ws s = dropWhile json_space s"

text \<open>A code point as UTF-8.\<close>

definition utf8 :: "nat \<Rightarrow> string" where
  "utf8 n = (if n < 128 then [chr n]
     else if n < 2048 then [chr (192 + n div 64), chr (128 + n mod 64)]
     else if n < 65536 then [chr (224 + n div 4096), chr (128 + n div 64 mod 64), chr (128 + n mod 64)]
     else [chr (240 + n div 262144), chr (128 + n div 4096 mod 64), chr (128 + n div 64 mod 64),
           chr (128 + n mod 64)])"

fun hex4 :: "string \<Rightarrow> (nat \<times> string) option" where
  "hex4 (a # b # c # d # s) = (case (hex_val a, hex_val b, hex_val c, hex_val d) of
      (Some w, Some x, Some y, Some z) \<Rightarrow> Some (((w * 16 + x) * 16 + y) * 16 + z, s)
    | _ \<Rightarrow> None)"
| "hex4 _ = None"

text \<open>The code point after \<open>\u\<close>: two surrogate escapes make one code point.\<close>

definition json_u :: "string \<Rightarrow> (string \<times> string) option" where
  "json_u s = (case hex4 s of None \<Rightarrow> None
    | Some (n, t) \<Rightarrow>
        if 0xD800 \<le> n \<and> n < 0xDC00 \<and> starts_with [CHR 0x5C, CHR ''u''] t then
          (case hex4 (drop 2 t) of None \<Rightarrow> None
           | Some (m, t') \<Rightarrow>
               if 0xDC00 \<le> m \<and> m < 0xE000
               then Some (utf8 (0x10000 + (n - 0xD800) * 1024 + (m - 0xDC00)), t')
               else Some (utf8 n, t))
        else Some (utf8 n, t))"

fun json_string :: "nat \<Rightarrow> string \<Rightarrow> (string \<times> string) option" where
  "json_string 0 s = None"
| "json_string (Suc k) [] = None"
| "json_string (Suc k) (c # s) =
     (if c = CHR 0x22 then Some ([], s)
      else if c = CHR 0x5C then
        (case s of [] \<Rightarrow> None
         | e # t \<Rightarrow>
           (let cont = (\<lambda>x r. map_option (\<lambda>(y, r'). (x @ y, r')) (json_string k r)) in
            if e = CHR 0x22 \<or> e = CHR 0x5C \<or> e = CHR ''/'' then cont [e] t
            else if e = CHR ''b'' then cont [chr 8] t
            else if e = CHR ''f'' then cont [chr 12] t
            else if e = CHR ''n'' then cont [chr 10] t
            else if e = CHR ''r'' then cont [chr 13] t
            else if e = CHR ''t'' then cont [chr 9] t
            else if e = CHR ''u'' then
              (case json_u t of None \<Rightarrow> None | Some (x, r) \<Rightarrow> cont x r)
            else None))
      else if code_of c < 32 then None
      else map_option (\<lambda>(y, r). (c # y, r)) (json_string k s))"

text \<open>An integer literal: no leading zero, nothing of a fraction or exponent after it.\<close>

definition json_digits :: "string \<Rightarrow> (nat \<times> string) option" where
  "json_digits s = (case s of [] \<Rightarrow> None
    | c # t \<Rightarrow>
      if \<not> is_dec c then None
      else (case (if c = CHR ''0'' then (0, t) else read_dec 0 (c # t)) of (n, r) \<Rightarrow>
        (case r of [] \<Rightarrow> Some (n, r)
         | d # _ \<Rightarrow> if is_dec d \<or> d \<in> {CHR ''.'', CHR ''e'', CHR ''E''} then None else Some (n, r))))"

definition json_number :: "string \<Rightarrow> (jsval \<times> string) option" where
  "json_number s = (case s of [] \<Rightarrow> None
    | c # t \<Rightarrow>
      if c = CHR ''-'' then map_option (\<lambda>(n, r). (Num (- int n), r)) (json_digits t)
      else map_option (\<lambda>(n, r). (Num (int n), r)) (json_digits s))"

text \<open>\<open>JSON.parse\<close> keeps one property per name, the last value at the first place.\<close>

definition obj_put :: "string \<Rightarrow> jsval \<Rightarrow> (string \<times> jsval) list \<Rightarrow> (string \<times> jsval) list" where
  "obj_put k v ps = (if k \<in> fst ` set ps then map (\<lambda>p. if fst p = k then (k, v) else p) ps
                     else ps @ [(k, v)])"

fun json_value :: "nat \<Rightarrow> string \<Rightarrow> (jsval \<times> string) option"
  and json_elems :: "nat \<Rightarrow> string \<Rightarrow> (jsval list \<times> string) option"
  and json_members :: "nat \<Rightarrow> (string \<times> jsval) list \<Rightarrow> string \<Rightarrow> ((string \<times> jsval) list \<times> string) option" where
  "json_value 0 s = None"
| "json_value (Suc k) s =
    (let s' = skip_ws s in
     if starts_with ''null'' s' then Some (Null, drop 4 s')
     else if starts_with ''true'' s' then Some (Bool True, drop 4 s')
     else if starts_with ''false'' s' then Some (Bool False, drop 5 s')
     else if starts_with [CHR 0x22] s' then
       map_option (\<lambda>(x, r). (Str x, r)) (json_string k (drop 1 s'))
     else if starts_with ''['' s' then
       (let t = skip_ws (drop 1 s') in
        if starts_with '']'' t then Some (Arr [], drop 1 t)
        else map_option (\<lambda>(vs, r). (Arr vs, r)) (json_elems k t))
     else if starts_with ''{'' s' then
       (let t = skip_ws (drop 1 s') in
        if starts_with ''}'' t then Some (Obj [], drop 1 t)
        else map_option (\<lambda>(ps, r). (Obj ps, r)) (json_members k [] t))
     else json_number s')"
| "json_elems 0 s = None"
| "json_elems (Suc k) s =
    (case json_value k s of None \<Rightarrow> None
     | Some (v, r) \<Rightarrow>
       (case skip_ws r of [] \<Rightarrow> None
        | c # t \<Rightarrow>
          if c = CHR '','' then map_option (\<lambda>(vs, r'). (v # vs, r')) (json_elems k t)
          else if c = CHR '']'' then Some ([v], t)
          else None))"
| "json_members 0 acc s = None"
| "json_members (Suc k) acc s =
    (let s' = skip_ws s in
     if \<not> starts_with [CHR 0x22] s' then None
     else (case json_string k (drop 1 s') of None \<Rightarrow> None
      | Some (key, r) \<Rightarrow>
        (let r' = skip_ws r in
         if \<not> starts_with '':'' r' then None
         else (case json_value k (drop 1 r') of None \<Rightarrow> None
          | Some (v, r2) \<Rightarrow>
            (case skip_ws r2 of [] \<Rightarrow> None
             | c # t \<Rightarrow>
               if c = CHR '','' then json_members k (obj_put key v acc) t
               else if c = CHR ''}'' then Some (obj_put key v acc, t)
               else None)))))"

definition json_parse :: "string \<Rightarrow> jsval option" where
  "json_parse s = (case json_value (Suc (2 * length s)) s of None \<Rightarrow> None
     | Some (v, r) \<Rightarrow> if skip_ws r = [] then Some v else None)"

subsection \<open>Reading back what was printed\<close>

lemma to_dec_head:
  "\<exists>c cs. to_dec n = c # cs \<and> is_dec c \<and> (c = CHR ''0'' \<longleftrightarrow> n = 0) \<and> (n = 0 \<longrightarrow> cs = [])"
proof (induction n rule: to_dec.induct)
  case (1 n)
  show ?case
  proof (cases "n < 10")
    case True
    have "chr (48 + n) = CHR ''0'' \<longleftrightarrow> n = 0"
      using True by (simp add: chr_eq_iff) (auto simp: code_of_def)
    then show ?thesis using True by (subst to_dec.simps) (simp add: is_dec_def)
  next
    case False
    with "1" obtain c cs where "to_dec (n div 10) = c # cs" "is_dec c"
      "c = CHR ''0'' \<longleftrightarrow> n div 10 = 0" by auto
    then show ?thesis using False by (subst to_dec.simps) auto
  qed
qed

lemma is_dec_code: "is_dec c \<longleftrightarrow> 48 \<le> code_of c \<and> code_of c \<le> 57"
  by (simp add: is_dec_def dec_val_def Let_def)

definition json_end :: "string \<Rightarrow> bool" where
  "json_end s = (case s of [] \<Rightarrow> True | c # _ \<Rightarrow> c \<in> {CHR '','', CHR '']'', CHR ''}'', CHR 0x0A})"

lemma json_end_not_dec:
  "json_end s \<Longrightarrow> (case s of [] \<Rightarrow> True | c # _ \<Rightarrow> \<not> is_dec c)"
  by (cases s) (auto simp: json_end_def is_dec_code code_of_def)

lemma json_digits_to_dec: "json_end r \<Longrightarrow> json_digits (to_dec n @ r) = Some (n, r)"
proof -
  assume e: "json_end r"
  obtain c cs where d: "to_dec n = c # cs" "is_dec c" "c = CHR ''0'' \<longleftrightarrow> n = 0" "n = 0 \<longrightarrow> cs = []"
    using to_dec_head by blast
  have rd: "read_dec 0 (to_dec n @ r) = (n, r)"
    using json_end_not_dec [OF e] by (rule read_dec_to_dec)
  have tail: "(case r of [] \<Rightarrow> Some (m, r)
      | d # _ \<Rightarrow> if is_dec d \<or> d \<in> {CHR ''.'', CHR ''e'', CHR ''E''} then None else Some (m, r)) = Some (m, r)" for m
    using e by (cases r) (auto simp: json_end_def is_dec_code code_of_def)
  show ?thesis
  proof (cases "n = 0")
    case True
    with d tail [of 0] show ?thesis by (simp add: json_digits_def)
  next
    case False
    with d tail [of n] rd show ?thesis by (simp add: json_digits_def)
  qed
qed

lemma json_number_dec: "json_end r \<Longrightarrow> json_number (int_to_dec i @ r) = Some (Num i, r)"
proof (cases "i < 0")
  case True
  assume "json_end r"
  then show ?thesis
    using True by (simp add: json_number_def int_to_dec_def json_digits_to_dec)
next
  case False
  assume e: "json_end r"
  obtain c cs where d: "to_dec (nat i) = c # cs" "is_dec c"
    using to_dec_head by blast
  then have "c \<noteq> CHR ''-''" by (auto simp: is_dec_code code_of_def)
  then show ?thesis
    using False d json_digits_to_dec [OF e, of "nat i"] by (simp add: json_number_def int_to_dec_def)
qed

lemma json_string_escape:
  "json_string (Suc k) (json_escape_char c @ t) = map_option (\<lambda>(y, r). (c # y, r)) (json_string k t)"
proof -
  define n where "n = code_of c"
  have c: "c = chr n" "n < 256" by (simp_all add: n_def)
  have q: "CHR 0x22 = chr 34" "CHR 0x5C = chr 92" by (simp_all add: eq_chr_iff) (simp_all add: code_of_def)
  have neq: "chr n = chr m \<longleftrightarrow> n = m" if "m < 256" for m
    using code_of_inject [of "chr n" "chr m"] c that by simp
  consider "n \<in> {8, 9, 10, 12, 13, 34, 92}" | "n < 32" "n \<notin> {8, 9, 10, 12, 13, 34, 92}"
    | "32 \<le> n" "n \<notin> {34, 92}" by force
  then show ?thesis
  proof cases
    case 1
    have lits: "chr 8 = CHR 0x08" "chr 9 = CHR 0x09" "chr 10 = CHR 0x0A" "chr 12 = CHR 0x0C" "chr 13 = CHR 0x0D"
      by (simp_all add: chr_eq_iff code_of_def)
    from 1 have "c \<in> {chr 8, chr 9, chr 10, chr 12, chr 13, chr 34, chr 92}"
      using c(1) by auto
    then have "c \<in> {CHR 0x08, CHR 0x09, CHR 0x0A, CHR 0x0C, CHR 0x0D, CHR 0x22, CHR 0x5C}"
      by (simp only: lits q)
    then show ?thesis
      by (elim insertE emptyE) (simp_all add: json_escape_char_def code_of_def lits Let_def)
  next
    case 2
    have "hex_val (CHR ''0'') = Some 0" by (simp add: hex_val_def code_of_def)
    moreover have "n div 16 < 16" "n mod 16 < 16" using c(2) by auto
    ultimately have "json_u (CHR ''0'' # CHR ''0'' # hex_digit (n div 16) # hex_digit (n mod 16) # t) = Some ([chr n], t)"
      using 2 by (auto simp: json_u_def utf8_def)
    with 2 show ?thesis
      by (auto simp: json_escape_char_def c Let_def)
  next
    case 3
    then show ?thesis
      using c neq [of 34] neq [of 92] by (auto simp: json_escape_char_def Let_def q)
  qed
qed

lemma json_string_quote:
  "length s < k \<Longrightarrow> json_string k (concat (map json_escape_char s) @ CHR 0x22 # r) = Some (s, r)"
proof (induction s arbitrary: k)
  case Nil
  then show ?case by (cases k) auto
next
  case (Cons c s)
  then obtain k' where k': "k = Suc k'" "length s < k'" by (cases k) auto
  then show ?case using Cons.IH [of k'] by (simp add: json_string_escape)
qed

text \<open>Values with a JSON text that reads back as themselves.\<close>

fun json_ok :: "jsval \<Rightarrow> bool" where
  "json_ok Undefined = False"
| "json_ok (Closure n vs) = False"
| "json_ok (Bytes bs) = False"
| "json_ok (Arr vs) = (\<forall>v \<in> set vs. json_ok v)"
| "json_ok (Obj ps) = (distinct (map fst ps) \<and> (\<forall>p \<in> set ps. json_ok (snd p)))"
| "json_ok _ = True"

lemma json_ok_present: "json_ok v \<Longrightarrow> \<not> json_absent v"
  by (cases v) auto

text \<open>A property of all texts of a value.\<close>

fun json_texts :: "(string \<Rightarrow> bool) \<Rightarrow> jsval \<Rightarrow> bool" where
  "json_texts good (Str s) = good s"
| "json_texts good (Arr vs) = (\<forall>v \<in> set vs. json_texts good v)"
| "json_texts good (Obj ps) = (\<forall>p \<in> set ps. good (fst p) \<and> json_texts good (snd p))"
| "json_texts good _ = True"

lemma json_texts_all: "(\<And>s. good s) \<Longrightarrow> json_texts good v"
  by (induction v) auto

lemma obj_put_append: "k \<notin> fst ` set ps \<Longrightarrow> obj_put k v ps = ps @ [(k, v)]"
  by (simp add: obj_put_def)

lemma not_space_head: "\<not> json_space c \<Longrightarrow> skip_ws (c # s) = c # s"
  by (simp add: skip_ws_def)

definition json_start :: "char \<Rightarrow> bool" where
  "json_start c \<longleftrightarrow> is_dec c \<or> c \<in> {CHR ''-'', CHR ''n'', CHR ''t'', CHR ''f'', CHR 0x22, CHR ''['', CHR ''{''}"

lemma json_start_not:
  "json_start c \<Longrightarrow> \<not> json_space c \<and> c \<noteq> CHR '']'' \<and> c \<noteq> CHR ''}''"
  by (auto simp: json_start_def json_space_def is_dec_code code_of_def)

lemma int_to_dec_head:
  obtains c cs where "int_to_dec i = c # cs" "is_dec c \<or> c = CHR ''-''"
proof (cases "i < 0")
  case False
  obtain c cs where "to_dec (nat i) = c # cs" "is_dec c" using to_dec_head by blast
  with False that show ?thesis by (simp add: int_to_dec_def)
qed (auto simp: int_to_dec_def intro: that)

lemma join_Cons: "join sep (x # xs) = (if xs = [] then x else x @ sep @ join sep xs)"
  by (cases xs) auto

text \<open>White space before a value, an element or a member.\<close>

lemma json_gap:
  assumes "list_all json_space gap"
  shows "json_value k (gap @ s) = json_value k s" and "json_elems k (gap @ s) = json_elems k s"
    and "json_members k acc (gap @ s) = json_members k acc s"
proof -
  have skip: "skip_ws (gap @ s) = skip_ws s"
    using assms by (simp add: skip_ws_def list_all_iff dropWhile_append2)
  have at_value: "json_value k (gap @ s) = json_value k s" for k
    by (cases k) (simp_all add: skip)
  show "json_value k (gap @ s) = json_value k s" by (rule at_value)
  show "json_elems k (gap @ s) = json_elems k s"
    by (cases k) (simp_all add: at_value)
  show "json_members k acc (gap @ s) = json_members k acc s"
    by (cases k) (simp_all add: skip)
qed

subsection \<open>The interface of a printer\<close>

text \<open>
  What the parser relies on in a printer of JSON: how it writes each kind of value, that it puts
  only white space after its separators, and that the texts it writes can be read.  Every such printer is read back.
\<close>

locale json_printer =
  fixes dump :: "jsval \<Rightarrow> string"
    and quoted :: "string \<Rightarrow> string"
    and gap :: string
    and good :: "string \<Rightarrow> bool"
  assumes dump_atoms: "dump Null = ''null''" "dump (Bool b) = (if b then ''true'' else ''false'')"
      "dump (Num i) = int_to_dec i" "dump (Str s) = quoted s"
    and dump_Arr: "dump (Arr vs) = ''['' @ join ('','' @ gap) (map dump vs) @ '']''"
    and dump_Obj: "json_ok (Obj ps) \<Longrightarrow> dump (Obj ps) =
      ''{'' @ join ('','' @ gap) (map (\<lambda>p. quoted (fst p) @ '':'' @ gap @ dump (snd p)) ps) @ ''}''"
    and gap_space: "list_all json_space gap"
    and quoted_head: "\<exists>b. quoted s = CHR 0x22 # b"
    and quoted_reads: "good s \<Longrightarrow> length (quoted s) \<le> Suc k \<Longrightarrow> json_string k (tl (quoted s) @ r) = Some (s, r)"
begin

lemma quoted_split:
  obtains b where "quoted s = CHR 0x22 # b"
    and "\<And>k r. good s \<Longrightarrow> length b \<le> k \<Longrightarrow> json_string k (b @ r) = Some (s, r)"
proof -
  obtain b where b: "quoted s = CHR 0x22 # b" using quoted_head by blast
  then show thesis using quoted_reads [of s] by (intro that [OF b]) simp
qed

lemma dump_start: "json_ok v \<Longrightarrow> \<exists>c s. dump v = c # s \<and> json_start c"
proof (cases v)
  case (Num i)
  obtain c cs where "int_to_dec i = c # cs" "is_dec c \<or> c = CHR ''-''" by (rule int_to_dec_head)
  then show ?thesis by (auto simp: Num dump_atoms json_start_def)
next
  case (Str s)
  obtain b where "quoted s = CHR 0x22 # b" using quoted_head by blast
  then show ?thesis by (simp add: Str dump_atoms json_start_def)
qed (auto simp: dump_atoms dump_Arr dump_Obj json_start_def)

lemma elems_text:
  assumes IH: "\<And>v k r. v \<in> set vs \<Longrightarrow> length (dump v) \<le> k \<Longrightarrow> json_end r \<Longrightarrow> json_value k (dump v @ r) = Some (v, r)"
    and "vs \<noteq> []" and "length (join ('','' @ gap) (map dump vs)) < k"
  shows "json_elems k (join ('','' @ gap) (map dump vs) @ CHR '']'' # r) = Some (vs, r)"
  using assms
proof (induction vs arbitrary: k)
  case Nil
  then show ?case by simp
next
  case (Cons v vs)
  then obtain k' where k: "k = Suc k'" by (cases k) auto
  show ?case
  proof (cases "vs = []")
    case True
    have "json_value k' (dump v @ CHR '']'' # r) = Some (v, CHR '']'' # r)"
      using Cons.prems True k by (intro Cons.prems(1)) (auto simp: json_end_def)
    then show ?thesis using True k by (simp add: skip_ws_def json_space_def code_of_def)
  next
    case False
    let ?rest = "join ('','' @ gap) (map dump vs) @ CHR '']'' # r"
    have "json_value k' (dump v @ CHR '','' # gap @ ?rest) = Some (v, CHR '','' # gap @ ?rest)"
      using Cons.prems False k by (intro Cons.prems(1)) (auto simp: json_end_def join_Cons)
    moreover have "json_elems k' (gap @ ?rest) = Some (vs, r)"
      unfolding json_gap(2) [OF gap_space]
      using Cons.prems False k by (intro Cons.IH) (auto simp: join_Cons)
    ultimately show ?thesis using False k
      by (simp add: join_Cons skip_ws_def json_space_def code_of_def)
  qed
qed

lemma members_text:
  assumes IH: "\<And>p k r. p \<in> set ps \<Longrightarrow> length (dump (snd p)) \<le> k \<Longrightarrow> json_end r \<Longrightarrow>
      json_value k (dump (snd p) @ r) = Some (snd p, r)"
    and "\<forall>p \<in> set ps. good (fst p)" and "ps \<noteq> []" and "distinct (map fst (acc @ ps))"
    and "length (join ('','' @ gap) (map (\<lambda>p. quoted (fst p) @ '':'' @ gap @ dump (snd p)) ps)) < k"
  shows "json_members k acc (join ('','' @ gap) (map (\<lambda>p. quoted (fst p) @ '':'' @ gap @ dump (snd p)) ps)
           @ CHR ''}'' # r) = Some (acc @ ps, r)"
  using assms
proof (induction ps arbitrary: k acc)
  case Nil
  then show ?case by simp
next
  case (Cons p ps)
  then obtain k' where k: "k = Suc k'" by (cases k) auto
  obtain key v where p: "p = (key, v)" by (cases p)
  obtain b where b: "quoted key = CHR 0x22 # b"
    and reads: "\<And>r. length b \<le> k' \<Longrightarrow> json_string k' (b @ r) = Some (key, r)"
    using quoted_split [of key] Cons.prems(2) p by (metis fst_conv list.set_intros(1))
  let ?rest = "join ('','' @ gap) (map (\<lambda>p. quoted (fst p) @ '':'' @ gap @ dump (snd p)) ps) @ CHR ''}'' # r"
  let ?tail = "if ps = [] then CHR ''}'' # r else CHR '','' # gap @ ?rest"
  have shape: "join ('','' @ gap) (map (\<lambda>p. quoted (fst p) @ '':'' @ gap @ dump (snd p)) (p # ps)) @ CHR ''}'' # r
      = CHR 0x22 # b @ CHR '':'' # gap @ dump v @ ?tail"
    by (simp add: join_Cons p b)
  have len: "length b \<le> k'" "length (dump v) \<le> k'"
    using Cons.prems(5) k p b by (auto simp: join_Cons split: if_splits)
  have val: "json_value k' (gap @ dump v @ ?tail) = Some (v, ?tail)"
    using Cons.prems(1) [of p] len(2) p by (auto simp: json_end_def json_gap [OF gap_space])
  have put: "obj_put key v acc = acc @ [p]"
    using Cons.prems(4) p by (intro obj_put_append [THEN trans]) auto
  show ?case
  proof (cases "ps = []")
    case True
    with reads [OF len(1)] val put k show ?thesis unfolding shape
      by (simp add: skip_ws_def json_space_def code_of_def p)
  next
    case False
    have "json_members k' (acc @ [p]) (gap @ ?rest) = Some ((acc @ [p]) @ ps, r)"
      unfolding json_gap(3) [OF gap_space]
      using Cons.prems False k by (intro Cons.IH) (auto simp: join_Cons)
    with False reads [OF len(1)] val put k show ?thesis unfolding shape
      by (simp add: skip_ws_def json_space_def code_of_def p)
  qed
qed

lemma value_text:
  "json_ok v \<Longrightarrow> json_texts good v \<Longrightarrow> length (dump v) \<le> k \<Longrightarrow> json_end r \<Longrightarrow>
     json_value k (dump v @ r) = Some (v, r)"
proof (induction v arbitrary: k r)
  case (Num i)
  obtain c cs where h: "int_to_dec i = c # cs" "is_dec c \<or> c = CHR ''-''" by (rule int_to_dec_head)
  with Num obtain k' where k: "k = Suc k'" by (cases k) (auto simp: dump_atoms)
  have ne: "c \<notin> {CHR ''n'', CHR ''t'', CHR ''f'', CHR 0x22, CHR ''['', CHR ''{''}" "\<not> json_space c"
    using h(2) by (auto simp: is_dec_code code_of_def json_space_def)
  show ?case
    using json_number_dec [OF Num.prems(4), of i] ne
    by (auto simp: k h(1) not_space_head Let_def dump_atoms)
next
  case (Str s)
  obtain b where b: "quoted s = CHR 0x22 # b"
    and reads: "\<And>k r. length b \<le> k \<Longrightarrow> json_string k (b @ r) = Some (s, r)"
    using quoted_split [of s] Str.prems(2) by (metis json_texts.simps(1))
  obtain k' where k: "k = Suc k'" "length b \<le> k'" using Str.prems(3) by (cases k) (auto simp: b dump_atoms)
  then show ?case
    using reads [of k' r] by (simp add: b dump_atoms Let_def skip_ws_def json_space_def code_of_def)
next
  case (Arr vs)
  then obtain k' where k: "k = Suc k'" by (cases k) (auto simp: dump_Arr)
  show ?case
  proof (cases "vs = []")
    case True
    then show ?thesis by (simp add: dump_Arr k skip_ws_def json_space_def code_of_def Let_def)
  next
    case False
    have el: "json_elems k' (join ('','' @ gap) (map dump vs) @ CHR '']'' # r) = Some (vs, r)"
      using Arr False k by (intro elems_text) (auto simp: dump_Arr)
    obtain v vs' where vs: "vs = v # vs'" using False by (cases vs) auto
    obtain c s where cs: "dump v = c # s" "json_start c"
      using dump_start [of v] Arr.prems(1) vs by auto
    obtain w where head: "join ('','' @ gap) (map dump vs) @ CHR '']'' # r = c # w"
      using vs cs by (cases "vs' = []") (auto simp: join_Cons)
    have stops: "\<not> json_space c" "CHR '']'' \<noteq> c" using json_start_not [OF cs(2)] by auto
    have "dump (Arr vs) @ r = CHR ''['' # c # w" using head by (simp add: dump_Arr)
    moreover have "json_elems k' (c # w) = Some (vs, r)" using el head by simp
    moreover have "skip_ws (CHR ''['' # c # w) = CHR ''['' # c # w"
      by (simp add: skip_ws_def json_space_def code_of_def)
    moreover have "skip_ws (c # w) = c # w"
      using stops by (simp add: not_space_head)
    ultimately show ?thesis
      using stops by (simp only: k json_value.simps Let_def) simp
  qed
next
  case (Obj ps)
  note obj = dump_Obj [OF Obj.prems(1)]
  obtain k' where k: "k = Suc k'" using Obj.prems(3) by (cases k) (auto simp: obj)
  show ?case
  proof (cases "ps = []")
    case True
    then have "dump (Obj ps) = ''{}''" using obj by simp
    then show ?thesis by (simp add: True k skip_ws_def json_space_def code_of_def Let_def)
  next
    case False
    let ?j = "join ('','' @ gap) (map (\<lambda>p. quoted (fst p) @ '':'' @ gap @ dump (snd p)) ps)"
    have len: "length ?j < k'" using Obj.prems(3) by (simp add: obj k)
    have mem: "json_members k' [] (?j @ CHR ''}'' # r) = Some ([] @ ps, r)"
      using Obj.prems False len Obj.IH by (intro members_text) (auto simp: snds.simps)
    obtain p ps' where p: "ps = p # ps'" using False by (cases ps) auto
    obtain b where "quoted (fst p) = CHR 0x22 # b" using quoted_head by blast
    then obtain w where head: "?j @ CHR ''}'' # r = CHR 0x22 # w"
      using p by (cases "ps' = []") (auto simp: join_Cons)
    have "dump (Obj ps) @ r = CHR ''{'' # CHR 0x22 # w"
      using head by (simp add: obj)
    moreover have "json_members k' [] (CHR 0x22 # w) = Some (ps, r)"
      using mem head by (metis append_Nil)
    ultimately show ?thesis
      by (simp only: k json_value.simps Let_def) (simp add: skip_ws_def json_space_def code_of_def)
  qed
qed (case_tac [!] k, auto simp: dump_atoms skip_ws_def json_space_def code_of_def Let_def split: if_splits)

text \<open>What is printed is read back, alone or as a line.\<close>

lemma round_trip: "json_ok v \<Longrightarrow> json_texts good v \<Longrightarrow> json_parse (dump v) = Some v"
  using value_text [of v "Suc (2 * length (dump v))" "[]"]
  by (simp add: json_parse_def json_end_def skip_ws_def)

lemma line_round_trip: "json_ok v \<Longrightarrow> json_texts good v \<Longrightarrow> json_parse (dump v @ [CHR 0x0A]) = Some v"
  using value_text [of v "Suc (2 * length (dump v @ [CHR 0x0A]))" "[CHR 0x0A]"]
  by (simp add: json_parse_def json_end_def skip_ws_def json_space_def code_of_def)

end

subsection \<open>\<open>JSON.stringify\<close> is such a printer\<close>

lemma json_quote_length: "length s + 2 \<le> length (json_quote s)"
proof -
  have "length s \<le> length (concat (map json_escape_char s))"
  proof (induction s)
    case (Cons c s)
    have "1 \<le> length (json_escape_char c)" by (simp add: json_escape_char_def Let_def)
    with Cons show ?case by simp
  qed simp
  then show ?thesis by (simp add: json_quote_def)
qed

interpretation js: json_printer json_stringify json_quote "[]" "\<lambda>_. True"
proof unfold_locales
  show "json_stringify (Obj ps) =
      ''{'' @ join ('','' @ []) (map (\<lambda>p. json_quote (fst p) @ '':'' @ [] @ json_stringify (snd p)) ps) @ ''}''"
    if "json_ok (Obj ps)" for ps
  proof -
    have "filter (\<lambda>p. \<not> json_absent (snd p)) ps = ps"
      using that by (auto simp: filter_id_conv json_ok_present)
    then show ?thesis by simp
  qed
  show "json_string k (tl (json_quote s) @ r) = Some (s, r)" if "length (json_quote s) \<le> Suc k" for s k r
    using that json_quote_length [of s] json_string_quote [of s k r] by (simp add: json_quote_def)
qed (simp_all add: json_quote_def)

text \<open>What \<open>JSON.stringify\<close> prints, \<open>JSON.parse\<close> reads back.\<close>

lemma json_round_trip: "json_ok v \<Longrightarrow> json_parse (json_stringify v) = Some v"
  by (rule js.round_trip) (simp_all add: json_texts_all)

subsection \<open>Consumption and fuel\<close>

text \<open>Every reader consumes text, and enough fuel is enough.\<close>

lemma hex4_length: "hex4 s = Some (n, r) \<Longrightarrow> length r < length s"
  by (induction s rule: hex4.induct) (auto split: option.splits)

lemma json_u_length: "json_u s = Some (x, r) \<Longrightarrow> length r < length s"
  by (auto simp: json_u_def dest!: hex4_length split: option.splits if_splits)

lemma json_string_length: "json_string k s = Some (x, r) \<Longrightarrow> length r < length s"
proof (induction k s arbitrary: x r rule: json_string.induct)
  case (3 k c s)
  show ?case
    using "3.prems" "3.IH"
    by (auto simp: Let_def split: if_splits list.splits option.splits dest!: json_u_length)
      (fastforce dest: json_u_length)+
qed auto

lemma json_string_fuel: "length s < k \<Longrightarrow> json_string (Suc k) s = json_string k s"
proof (induction k arbitrary: s)
  case (Suc k)
  show ?case
  proof (cases s)
    case (Cons c t)
    have tl: "json_string (Suc k) r = json_string k r" if "length r \<le> length t" for r
      using Suc that Cons by simp
    have u: "json_string (Suc k) r = json_string k r" if "json_u w = Some (x, r)" "t = d # w" for x r w d
      using tl json_u_length [OF that(1)] that(2) by simp
    show ?thesis
      using tl u unfolding Cons json_string.simps(3)
      by (simp add: Let_def split: list.splits option.splits)
  qed simp
qed simp

lemma skip_ws_length: "length (skip_ws s) \<le> length s"
  by (simp add: skip_ws_def length_dropWhile_le)

lemma starts_with_length: "starts_with p s \<Longrightarrow> length p \<le> length s"
  by (auto simp: starts_with_iff)

lemma json_digits_length: "json_digits s = Some (n, r) \<Longrightarrow> length r < length s"
proof -
  assume a: "json_digits s = Some (n, r)"
  then obtain c t where s: "s = c # t" "is_dec c" by (auto simp: json_digits_def split: list.splits if_splits)
  show ?thesis
  proof (cases "c = CHR ''0''")
    case True
    with a s show ?thesis by (auto simp: json_digits_def split: list.splits if_splits)
  next
    case False
    obtain d where d: "dec_val c = Some d" using s(2) by (auto simp: is_dec_def)
    obtain m q where q: "read_dec (0 * 10 + d) t = (m, q)" by fastforce
    with read_dec_length have "length q \<le> length t" by blast
    with a s False d q show ?thesis by (auto simp: json_digits_def split: list.splits if_splits)
  qed
qed

lemma json_number_length: "json_number s = Some (v, r) \<Longrightarrow> length r < length s"
  by (auto simp: json_number_def dest!: json_digits_length split: list.splits if_splits)

lemma json_value_length_step:
  assumes E: "\<And>s vs r. json_elems k s = Some (vs, r) \<Longrightarrow> length r < length s"
    and M: "\<And>acc s ps r. json_members k acc s = Some (ps, r) \<Longrightarrow> length r < length s"
    and v: "json_value (Suc k) s = Some (v, r)"
  shows "length r < length s"
proof -
  define a where "a = skip_ws s"
  define t where "t = skip_ws (drop 1 a)"
  have len: "length a \<le> length s" "length t \<le> length a - 1"
    using skip_ws_length [of s] skip_ws_length [of "drop 1 a"] by (simp_all add: a_def t_def)
  have "length r < length a"
    using v len unfolding json_value.simps Let_def a_def [symmetric] t_def [symmetric]
    by (auto split: if_splits
        dest!: json_string_length json_number_length starts_with_length E M)
  with len show ?thesis by simp
qed

lemma json_elems_length_step:
  assumes V: "\<And>s v r. json_value k s = Some (v, r) \<Longrightarrow> length r < length s"
    and E: "\<And>s vs r. json_elems k s = Some (vs, r) \<Longrightarrow> length r < length s"
    and e: "json_elems (Suc k) s = Some (vs, r)"
  shows "length r < length s"
proof -
  from e obtain v r1 where v: "json_value k s = Some (v, r1)"
    by (auto split: option.splits)
  with e obtain c t where t: "skip_ws r1 = c # t" by (auto split: list.splits)
  have "length t < length r1" using skip_ws_length [of r1] t by simp
  moreover have "length r \<le> length t"
    using e v t by (auto split: if_splits dest!: E)
  ultimately show ?thesis using V [OF v] by simp
qed

lemma json_members_length_step:
  assumes V: "\<And>s v r. json_value k s = Some (v, r) \<Longrightarrow> length r < length s"
    and M: "\<And>acc s ps r. json_members k acc s = Some (ps, r) \<Longrightarrow> length r < length s"
    and m: "json_members (Suc k) acc s = Some (ps, r)"
  shows "length r < length s"
proof -
  from m obtain key r1 where key: "starts_with [CHR 0x22] (skip_ws s)"
      "json_string k (drop 1 (skip_ws s)) = Some (key, r1)"
    by (auto simp: Let_def split: if_splits option.splits)
  with m obtain v r2 where v: "json_value k (drop 1 (skip_ws r1)) = Some (v, r2)"
    by (auto simp: Let_def split: if_splits option.splits)
  with key m obtain c t where t: "skip_ws r2 = c # t"
    by (auto simp: Let_def split: list.splits if_splits)
  have "length r1 < length s"
    using json_string_length [OF key(2)] skip_ws_length [of s] by simp
  moreover have "length r2 < length r1"
    using V [OF v] skip_ws_length [of r1] by simp
  moreover have "length t < length r2" using skip_ws_length [of r2] t by simp
  moreover have "length r \<le> length t"
    using m key v t by (auto simp: Let_def split: if_splits dest!: M)
  ultimately show ?thesis by simp
qed

lemma json_lengths:
  "(\<forall>s v r. json_value k s = Some (v, r) \<longrightarrow> length r < length s) \<and>
   (\<forall>s vs r. json_elems k s = Some (vs, r) \<longrightarrow> length r < length s) \<and>
   (\<forall>acc s ps r. json_members k acc s = Some (ps, r) \<longrightarrow> length r < length s)"
proof (induction k)
  case (Suc k)
  then show ?case
    using json_value_length_step [of k] json_elems_length_step [of k] json_members_length_step [of k]
    by (metis (no_types, lifting))
qed simp

lemma json_value_length: "json_value k s = Some (v, r) \<Longrightarrow> length r < length s"
  using json_lengths by blast

lemma json_value_fuel_step:
  assumes E: "\<And>s. 2 * length s + 1 < k \<Longrightarrow> json_elems (Suc k) s = json_elems k s"
    and M: "\<And>acc s. 2 * length s + 1 < k \<Longrightarrow> json_members (Suc k) acc s = json_members k acc s"
    and len: "2 * length s < Suc k"
  shows "json_value (Suc (Suc k)) s = json_value (Suc k) s"
proof -
  define a where "a = skip_ws s"
  define t where "t = skip_ws (drop 1 a)"
  have la: "length a \<le> length s" "length t \<le> length a - 1"
    using skip_ws_length [of s] skip_ws_length [of "drop 1 a"] by (simp_all add: a_def t_def)
  have str: "json_string (Suc k) (drop 1 a) = json_string k (drop 1 a)" if "starts_with [c] a" for c
    using starts_with_length [OF that] la len by (intro json_string_fuel) simp
  have el: "json_elems (Suc k) t = json_elems k t" if "starts_with [c] a" for c
    using starts_with_length [OF that] la len by (intro E) simp
  have mem: "json_members (Suc k) [] t = json_members k [] t" if "starts_with [c] a" for c
    using starts_with_length [OF that] la len by (intro M) simp
  show ?thesis
    unfolding json_value.simps Let_def a_def [symmetric] t_def [symmetric]
    using str el mem by simp
qed

lemma json_elems_fuel_step:
  assumes V: "\<And>s. 2 * length s < k \<Longrightarrow> json_value (Suc k) s = json_value k s"
    and E: "\<And>s. 2 * length s + 1 < k \<Longrightarrow> json_elems (Suc k) s = json_elems k s"
    and len: "2 * length s + 1 < Suc k"
  shows "json_elems (Suc (Suc k)) s = json_elems (Suc k) s"
proof -
  have v: "json_value (Suc k) s = json_value k s" using len by (intro V) simp
  have "json_elems (Suc k) t = json_elems k t"
    if "json_value k s = Some (v, r)" "skip_ws r = c # t" for v r c t
    using json_value_length [OF that(1)] skip_ws_length [of r] that(2) len by (intro E) simp
  then show ?thesis
    unfolding json_elems.simps v by (auto split: option.splits list.splits)
qed

lemma json_members_fuel_step:
  assumes V: "\<And>s. 2 * length s < k \<Longrightarrow> json_value (Suc k) s = json_value k s"
    and M: "\<And>acc s. 2 * length s + 1 < k \<Longrightarrow> json_members (Suc k) acc s = json_members k acc s"
    and len: "2 * length s + 1 < Suc k"
  shows "json_members (Suc (Suc k)) acc s = json_members (Suc k) acc s"
proof -
  define a where "a = skip_ws s"
  have la: "length a \<le> length s" by (simp add: a_def skip_ws_length)
  have str: "json_string (Suc k) (drop 1 a) = json_string k (drop 1 a)" if "starts_with [CHR 0x22] a"
    using starts_with_length [OF that] la len by (intro json_string_fuel) simp
  have val: "json_value (Suc k) (drop 1 (skip_ws r)) = json_value k (drop 1 (skip_ws r))"
    if "json_string k (drop 1 a) = Some (x, r)" for x r
    using json_string_length [OF that] skip_ws_length [of r] la len by (intro V) simp
  have mem: "json_members (Suc k) acc' t = json_members k acc' t"
    if "json_string k (drop 1 a) = Some (x, r)" "json_value k (drop 1 (skip_ws r)) = Some (v, r2)"
      "skip_ws r2 = c # t" for x r v r2 c t acc'
    using json_string_length [OF that(1)] json_value_length [OF that(2)] skip_ws_length [of r]
      skip_ws_length [of r2] that(3) la len by (intro M) simp
  show ?thesis
    unfolding json_members.simps(2) [of "Suc k" acc s] json_members.simps(2) [of k acc s] Let_def a_def [symmetric]
    using str val mem
    by (auto simp del: json_value.simps json_elems.simps json_members.simps json_string.simps
        split: option.splits list.splits)
qed

lemma json_fuel:
  "(\<forall>s. 2 * length s < k \<longrightarrow> json_value (Suc k) s = json_value k s) \<and>
   (\<forall>s. 2 * length s + 1 < k \<longrightarrow> json_elems (Suc k) s = json_elems k s) \<and>
   (\<forall>acc s. 2 * length s + 1 < k \<longrightarrow> json_members (Suc k) acc s = json_members k acc s)"
proof (induction k)
  case (Suc k)
  then have V: "\<And>s. 2 * length s < k \<Longrightarrow> json_value (Suc k) s = json_value k s"
    and E: "\<And>s. 2 * length s + 1 < k \<Longrightarrow> json_elems (Suc k) s = json_elems k s"
    and M: "\<And>acc s. 2 * length s + 1 < k \<Longrightarrow> json_members (Suc k) acc s = json_members k acc s"
    by blast+
  show ?case
    using json_value_fuel_step [OF E M] json_elems_fuel_step [OF V E] json_members_fuel_step [OF V M]
    by blast
qed simp

lemma json_value_fuel: "2 * length s < k \<Longrightarrow> json_value (k + n) s = json_value k s"
proof (induction n)
  case (Suc n)
  have "json_value (Suc (k + n)) s = json_value (k + n) s"
    using json_fuel Suc.prems trans_less_add1 by blast
  with Suc show ?case by simp
qed simp

declare json_value.simps [simp del] json_elems.simps [simp del] json_members.simps [simp del]
  json_string.simps [simp del] json_stringify.simps [simp del]

end
