(* ===== verification/Js_Effect.thy ===== *)
theory Js_Effect
  imports Json
begin

text \<open>
  The behaviour of a piece of JavaScript.  A value of type \<open>('s, 'a) js\<close> is a tree: it
  returns, throws, reads or writes the state \<open>'s\<close> of the page, calls a function of the
  host or of a vendored library synchronously (\<open>Call\<close>), or awaits a promise (\<open>Await\<close>).
  The answer to a call or to an awaited promise is \<open>Inr v\<close> (a value) or \<open>Inl e\<close> (an exception,
  a rejection), chosen by the environment.  Between \<open>Await\<close> and its answer other handlers
  of the page may run; a \<open>Call\<close> runs to completion.  Awaiting an \<open>async\<close> function of the
  source itself is the bind of its tree: what its body awaits are the only suspensions.
  A tree is finite, so every handler settles once all its promises have.
\<close>

datatype ('s, 'a) js =
    Return 'a
  | Throw jsval
  | Get "'s \<Rightarrow> ('s, 'a) js"
  | Put 's "('s, 'a) js"
  | Call string "jsval list" "jsval + jsval \<Rightarrow> ('s, 'a) js"
  | Await string "jsval list" "jsval + jsval \<Rightarrow> ('s, 'a) js"

type_synonym event = "string \<times> jsval list \<times> (jsval + jsval)"

subsection \<open>Statements and control flow\<close>

primrec js_bind :: "('s, 'a) js \<Rightarrow> ('a \<Rightarrow> ('s, 'b) js) \<Rightarrow> ('s, 'b) js" where
  "js_bind (Return x) f = f x"
| "js_bind (Throw e) f = Throw e"
| "js_bind (Get k) f = Get (\<lambda>s. js_bind (k s) f)"
| "js_bind (Put s m) f = Put s (js_bind m f)"
| "js_bind (Call n as k) f = Call n as (\<lambda>r. js_bind (k r) f)"
| "js_bind (Await n as k) f = Await n as (\<lambda>r. js_bind (k r) f)"

text \<open>\<open>try { m } catch (e) { h e }\<close>\<close>

primrec try_catch :: "('s, 'a) js \<Rightarrow> (jsval \<Rightarrow> ('s, 'a) js) \<Rightarrow> ('s, 'a) js" where
  "try_catch (Return x) h = Return x"
| "try_catch (Throw e) h = h e"
| "try_catch (Get k) h = Get (\<lambda>s. try_catch (k s) h)"
| "try_catch (Put s m) h = Put s (try_catch m h)"
| "try_catch (Call n as k) h = Call n as (\<lambda>r. try_catch (k r) h)"
| "try_catch (Await n as k) h = Await n as (\<lambda>r. try_catch (k r) h)"

text \<open>\<open>try { m } finally { fin }\<close>: \<open>fin\<close> runs after \<open>m\<close> however it ends.\<close>

primrec try_finally :: "('s, 'a) js \<Rightarrow> ('s, unit) js \<Rightarrow> ('s, 'a) js" where
  "try_finally (Return x) fin = js_bind fin (\<lambda>_. Return x)"
| "try_finally (Throw e) fin = js_bind fin (\<lambda>_. Throw e)"
| "try_finally (Get k) fin = Get (\<lambda>s. try_finally (k s) fin)"
| "try_finally (Put s m) fin = Put s (try_finally m fin)"
| "try_finally (Call n as k) fin = Call n as (\<lambda>r. try_finally (k r) fin)"
| "try_finally (Await n as k) fin = Await n as (\<lambda>r. try_finally (k r) fin)"

definition gets :: "('s \<Rightarrow> 'a) \<Rightarrow> ('s, 'a) js" where
  "gets f = Get (\<lambda>s. Return (f s))"

definition modify :: "('s \<Rightarrow> 's) \<Rightarrow> ('s, unit) js" where
  "modify f = Get (\<lambda>s. Put (f s) (Return ()))"

fun block :: "('s, unit) js list \<Rightarrow> ('s, unit) js" where
  "block [] = Return ()"
| "block [m] = m"
| "block (m # n # ms) = js_bind m (\<lambda>_. block (n # ms))"

definition of_result :: "jsval + jsval \<Rightarrow> ('s, jsval) js" where
  "of_result r = (case r of Inl e \<Rightarrow> Throw e | Inr v \<Rightarrow> Return v)"

definition call :: "string \<Rightarrow> jsval list \<Rightarrow> ('s, jsval) js" where
  "call n as = Call n as of_result"

definition await :: "string \<Rightarrow> jsval list \<Rightarrow> ('s, jsval) js" where
  "await n as = Await n as of_result"

definition do_call :: "string \<Rightarrow> jsval list \<Rightarrow> ('s, unit) js" where
  "do_call n as = js_bind (call n as) (\<lambda>_. Return ())"

definition do_await :: "string \<Rightarrow> jsval list \<Rightarrow> ('s, unit) js" where
  "do_await n as = js_bind (await n as) (\<lambda>_. Return ())"

text \<open>\<open>v.k\<close>\<close>

definition get_prop :: "jsval \<Rightarrow> string \<Rightarrow> ('s, jsval) js" where
  "get_prop v k = of_result (js_get v k)"

subsection \<open>Running a tree\<close>

text \<open>
  An environment answers every call and every awaited promise from its own state \<open>'w\<close>,
  and while a promise is awaited it may also change the page (other handlers, the user).
  The run returns how the tree ended, the final page and environment, and the events.
\<close>

type_synonym ('s, 'w) env = "string \<Rightarrow> jsval list \<Rightarrow> 's \<Rightarrow> 'w \<Rightarrow> (jsval + jsval) \<times> 's \<times> 'w"

primrec run :: "('s, 'w) env \<Rightarrow> ('s, 'a) js \<Rightarrow> 's \<Rightarrow> 'w \<Rightarrow> event list \<Rightarrow>
    (jsval + 'a) \<times> 's \<times> 'w \<times> event list" where
  "run env (Return x) = (\<lambda>s w l. (Inr x, s, w, l))"
| "run env (Throw e) = (\<lambda>s w l. (Inl e, s, w, l))"
| "run env (Get k) = (\<lambda>s. run env (k s) s)"
| "run env (Put s' m) = (\<lambda>s. run env m s')"
| "run env (Call n as k) = (\<lambda>s w l. case env n as s w of (r, _, w') \<Rightarrow> run env (k r) s w' (l @ [(n, as, r)]))"
| "run env (Await n as k) = (\<lambda>s w l. case env n as s w of (r, s', w') \<Rightarrow> run env (k r) s' w' (l @ [(n, as, r)]))"

subsection \<open>Weakest preconditions with interference\<close>

text \<open>
  \<open>wp R G m Q s l\<close>: started in page \<open>s\<close> after the events \<open>l\<close>, the tree \<open>m\<close> establishes
  \<open>Q\<close> of its result, the final page and the events, whatever the answers are, provided
  the rest of the page only makes changes allowed by the rely \<open>R\<close> while \<open>m\<close> is suspended;
  and at every suspension \<open>m\<close> has established the guarantee \<open>G\<close>.
\<close>

primrec wp :: "('s \<Rightarrow> event list \<Rightarrow> 's \<Rightarrow> event list \<Rightarrow> bool) \<Rightarrow> ('s \<Rightarrow> event list \<Rightarrow> bool) \<Rightarrow>
    ('s, 'a) js \<Rightarrow> (jsval + 'a \<Rightarrow> 's \<Rightarrow> event list \<Rightarrow> bool) \<Rightarrow> 's \<Rightarrow> event list \<Rightarrow> bool" where
  "wp R G (Return x) = (\<lambda>Q s l. Q (Inr x) s l)"
| "wp R G (Throw e) = (\<lambda>Q s l. Q (Inl e) s l)"
| "wp R G (Get k) = (\<lambda>Q s l. wp R G (k s) Q s l)"
| "wp R G (Put s' m) = (\<lambda>Q s l. wp R G m Q s' l)"
| "wp R G (Call n as k) = (\<lambda>Q s l. \<forall>r. wp R G (k r) Q s (l @ [(n, as, r)]))"
| "wp R G (Await n as k) = (\<lambda>Q s l. G s l \<and>
     (\<forall>r s' l'. R s l s' l' \<longrightarrow> wp R G (k r) Q s' (l' @ [(n, as, r)])))"

text \<open>The relies used below: nobody else runs; others keep an invariant and can only add to
  the events; others may change the page in any way.\<close>

definition undisturbed :: "'s \<Rightarrow> event list \<Rightarrow> 's \<Rightarrow> event list \<Rightarrow> bool" where
  "undisturbed s l s' l' \<longleftrightarrow> s' = s \<and> l' = l"

definition keeps :: "('s \<Rightarrow> event list \<Rightarrow> bool) \<Rightarrow> 's \<Rightarrow> event list \<Rightarrow> 's \<Rightarrow> event list \<Rightarrow> bool" where
  "keeps I s l s' l' \<longleftrightarrow> I s' l' \<and> set l \<subseteq> set l'"

definition anything :: "'s \<Rightarrow> event list \<Rightarrow> 's \<Rightarrow> event list \<Rightarrow> bool" where
  "anything s l s' l' \<longleftrightarrow> l' = l"

abbreviation no_guarantee :: "'s \<Rightarrow> event list \<Rightarrow> bool" where
  "no_guarantee \<equiv> \<lambda>s l. True"

lemma wp_mono:
  "wp R G m Q s l \<Longrightarrow> (\<And>r s l. Q r s l \<Longrightarrow> Q' r s l) \<Longrightarrow> wp R G m Q' s l"
  by (induction m arbitrary: s l) auto

lemma wp_conj: "wp R G m Q s l \<Longrightarrow> wp R G m Q' s l \<Longrightarrow> wp R G m (\<lambda>r s l. Q r s l \<and> Q' r s l) s l"
  by (induction m arbitrary: s l) auto

lemma wp_top: "(\<And>r s l. Q r s l) \<Longrightarrow> (\<And>s l. G s l) \<Longrightarrow> wp R G m Q s l"
  by (induction m arbitrary: s l) auto

lemma wp_bind [wp_rules]: "wp R G (js_bind m f) Q s l =
    wp R G m (\<lambda>r s l. case r of Inl e \<Rightarrow> Q (Inl e) s l | Inr x \<Rightarrow> wp R G (f x) Q s l) s l"
  by (induction m arbitrary: s l) simp_all

lemma wp_try_catch [wp_rules]: "wp R G (try_catch m h) Q s l =
    wp R G m (\<lambda>r s l. case r of Inl e \<Rightarrow> wp R G (h e) Q s l | Inr x \<Rightarrow> Q (Inr x) s l) s l"
  by (induction m arbitrary: s l) simp_all

lemma wp_try_finally [wp_rules]: "wp R G (try_finally m fin) Q s l =
    wp R G m (\<lambda>r s l. wp R G fin (\<lambda>r' s l. case r' of Inl e \<Rightarrow> Q (Inl e) s l | Inr _ \<Rightarrow> Q r s l) s l) s l"
  by (induction m arbitrary: s l) (simp_all add: wp_bind cong: sum.case_cong)

lemma wp_gets [wp_rules]: "wp R G (gets f) Q s l = Q (Inr (f s)) s l"
  by (simp add: gets_def)

lemma wp_modify [wp_rules]: "wp R G (modify f) Q s l = Q (Inr ()) (f s) l"
  by (simp add: modify_def)

lemma wp_of_result [wp_rules]: "wp R G (of_result r) Q s l = Q r s l"
  by (cases r) (simp_all add: of_result_def)

lemma wp_call [wp_rules]: "wp R G (call n as) Q s l \<longleftrightarrow> (\<forall>r. Q r s (l @ [(n, as, r)]))"
  by (simp add: call_def wp_of_result)

lemma wp_await [wp_rules]: "wp R G (await n as) Q s l \<longleftrightarrow>
    G s l \<and> (\<forall>r s' l'. R s l s' l' \<longrightarrow> Q r s' (l' @ [(n, as, r)]))"
  by (simp add: await_def wp_of_result)

lemma wp_do_call [wp_rules]: "wp R G (do_call n as) Q s l \<longleftrightarrow>
    (\<forall>r. Q (case r of Inl e \<Rightarrow> Inl e | Inr _ \<Rightarrow> Inr ()) s (l @ [(n, as, r)]))"
  by (auto simp: do_call_def wp_bind wp_call split: sum.splits)

lemma wp_get_prop [wp_rules]: "wp R G (get_prop v k) Q s l = Q (js_get v k) s l"
  by (simp add: get_prop_def wp_of_result)

text \<open>What a run does is within what \<open>wp\<close> allows.\<close>

definition env_within :: "('s \<Rightarrow> event list \<Rightarrow> 's \<Rightarrow> event list \<Rightarrow> bool) \<Rightarrow> ('s, 'w) env \<Rightarrow> bool" where
  "env_within R env \<longleftrightarrow> (\<forall>n as s w l. R s l (fst (snd (env n as s w))) l)"

lemma wp_run:
  assumes "env_within R env"
  shows "wp R G m Q s l \<Longrightarrow> (case run env m s w l of (r, s', w', l') \<Rightarrow> Q r s' l')"
proof (induction m arbitrary: s w l)
  case (Call n as k)
  obtain r s1 w1 where e: "env n as s w = (r, s1, w1)" by (cases "env n as s w")
  then show ?case using Call.IH [of "k r" s "l @ [(n, as, r)]" w1] Call.prems by simp
next
  case (Await n as k)
  obtain r s1 w1 where e: "env n as s w = (r, s1, w1)" by (cases "env n as s w")
  then have "R s l s1 l" using assms by (metis env_within_def fst_conv snd_conv)
  then show ?case using e Await.IH [of "k r" s1 "l @ [(n, as, r)]" w1] Await.prems by simp
qed auto

definition sequential :: "('s, 'w) env \<Rightarrow> bool" where
  "sequential env \<longleftrightarrow> (\<forall>n as s w. fst (snd (env n as s w)) = s)"

lemma sequential_within: "sequential env \<Longrightarrow> env_within undisturbed env"
  by (simp add: sequential_def env_within_def undisturbed_def)

lemmas wp_sequential_run = wp_run [OF sequential_within]

lemma any_within: "env_within anything env"
  by (simp add: env_within_def anything_def)

lemmas wp_any_run = wp_run [OF any_within]

lemma wp_any_result:
  "run env m s w l = (r, s', w', l') \<Longrightarrow> wp anything no_guarantee m Q s l \<Longrightarrow> Q r s' l'"
  using wp_any_run [of no_guarantee m Q s l env w] by simp

lemma wp_sequential_result:
  "sequential env \<Longrightarrow> run env m s w l = (r, s', w', l') \<Longrightarrow>
     wp undisturbed no_guarantee m Q s l \<Longrightarrow> Q r s' l'"
  using wp_sequential_run [of env no_guarantee m Q s l w] by simp

subsection \<open>Evaluation rules\<close>

lemma run_bind [run_rules]: "run env (js_bind m f) s w l =
    (case run env m s w l of (r, s', w', l') \<Rightarrow>
       (case r of Inl e \<Rightarrow> (Inl e, s', w', l') | Inr x \<Rightarrow> run env (f x) s' w' l'))"
  by (induction m arbitrary: s w l) (simp_all split: prod.splits)

lemma run_try_catch [run_rules]: "run env (try_catch m h) s w l =
    (case run env m s w l of (r, s', w', l') \<Rightarrow>
       (case r of Inl e \<Rightarrow> run env (h e) s' w' l' | Inr x \<Rightarrow> (Inr x, s', w', l')))"
  by (induction m arbitrary: s w l) (simp_all split: prod.splits)

lemma run_try_finally [run_rules]: "run env (try_finally m fin) s w l =
    (case run env m s w l of (r, s', w', l') \<Rightarrow>
       (case run env fin s' w' l' of (r', s2, w2, l2) \<Rightarrow>
          (case r' of Inl e \<Rightarrow> Inl e | Inr _ \<Rightarrow> r, s2, w2, l2)))"
  by (induction m arbitrary: s w l) (simp_all add: run_bind split: prod.splits sum.splits)

lemma run_gets [run_rules]: "run env (gets f) s w l = (Inr (f s), s, w, l)"
  by (simp add: gets_def)

lemma run_modify [run_rules]: "run env (modify f) s w l = (Inr (), f s, w, l)"
  by (simp add: modify_def)

lemma run_of_result [run_rules]: "run env (of_result r) s w l = (r, s, w, l)"
  by (cases r) (simp_all add: of_result_def)

lemma run_call [run_rules]: "run env (call n as) s w l =
    (case env n as s w of (r, _, w') \<Rightarrow> (r, s, w', l @ [(n, as, r)]))"
  by (simp add: call_def run_of_result split: prod.splits)

lemma run_await [run_rules]: "run env (await n as) s w l =
    (case env n as s w of (r, s', w') \<Rightarrow> (r, s', w', l @ [(n, as, r)]))"
  by (simp add: await_def run_of_result split: prod.splits)

lemma run_do_call [run_rules]: "run env (do_call n as) s w l =
    (case env n as s w of (r, _, w') \<Rightarrow>
      (case r of Inl e \<Rightarrow> Inl e | Inr _ \<Rightarrow> Inr (), s, w', l @ [(n, as, r)]))"
  by (simp add: do_call_def run_bind run_call split: prod.splits sum.splits)

lemma run_get_prop [run_rules]: "run env (get_prop v k) s w l = (js_get v k, s, w, l)"
  by (simp add: get_prop_def run_of_result)

subsection \<open>Preserving an invariant\<close>

text \<open>\<open>m\<close> keeps \<open>I\<close> at every suspension and at its end, however it ends.\<close>

definition safe :: "('s \<Rightarrow> event list \<Rightarrow> bool) \<Rightarrow> ('s, 'a) js \<Rightarrow> bool" where
  "safe I m \<longleftrightarrow> (\<forall>s l. I s l \<longrightarrow> wp (keeps I) I m (\<lambda>_. I) s l)"

text \<open>A run without interference keeps what the tree keeps.\<close>

lemma wp_keeps_run:
  assumes "sequential env"
  shows "wp (keeps I) I m Q s l \<Longrightarrow> (case run env m s w l of (r, s', w', l') \<Rightarrow> Q r s' l')"
proof (induction m arbitrary: s w l)
  case (Call n as k)
  obtain r s1 w1 where e: "env n as s w = (r, s1, w1)" by (cases "env n as s w")
  then show ?case using Call.IH [of "k r" s "l @ [(n, as, r)]" w1] Call.prems by simp
next
  case (Await n as k)
  obtain r s1 w1 where e: "env n as s w = (r, s1, w1)" by (cases "env n as s w")
  then have "s1 = s" using assms by (metis sequential_def fst_conv snd_conv)
  then show ?case using e Await.IH [of "k r" s "l @ [(n, as, r)]" w1] Await.prems by (simp add: keeps_def)
qed auto

lemma safe_run: "sequential env \<Longrightarrow> safe I m \<Longrightarrow> I s l \<Longrightarrow> run env m s w l = (r, s', w', l') \<Longrightarrow> I s' l'"
  using wp_keeps_run [of env I m "\<lambda>_. I" s l w] by (simp add: safe_def)

text \<open>
  An invariant that is not broken by a call or an awaited promise that is \<open>allowed\<close>: then
  only the writes of \<open>m\<close> matter.
\<close>

locale event_inv =
  fixes I :: "'s \<Rightarrow> event list \<Rightarrow> bool"
    and allowed :: "string \<Rightarrow> jsval list \<Rightarrow> bool"
  assumes grows_snoc: "I s l \<Longrightarrow> allowed n as \<Longrightarrow> I s (l @ [(n, as, r)])"
begin

lemma safe_return: "safe I (Return x)"
  by (simp add: safe_def)

lemma safe_throw: "safe I (Throw e)"
  by (simp add: safe_def)

lemma safe_gets: "safe I (gets f)"
  by (simp add: safe_def wp_rules)

lemma safe_modify: "(\<And>s l. I s l \<Longrightarrow> I (f s) l) \<Longrightarrow> safe I (modify f)"
  by (simp add: safe_def wp_rules)

lemma safe_of_result: "safe I (of_result r)"
  by (simp add: safe_def wp_rules)

lemma safe_get_prop: "safe I (get_prop v k)"
  by (simp add: safe_def wp_rules)

lemma safe_call: "allowed n as \<Longrightarrow> safe I (call n as)"
  by (simp add: safe_def wp_rules grows_snoc)

lemma safe_do_call: "allowed n as \<Longrightarrow> safe I (do_call n as)"
  by (simp add: safe_def wp_rules grows_snoc)

lemma safe_await: "allowed n as \<Longrightarrow> safe I (await n as)"
  unfolding safe_def wp_await keeps_def by (blast intro: grows_snoc)

lemma wp_safe_mono: "safe I m \<Longrightarrow> I s l \<Longrightarrow> (\<And>r s l. I s l \<Longrightarrow> Q r s l) \<Longrightarrow> wp (keeps I) I m Q s l"
  unfolding safe_def by (blast intro: wp_mono)

lemma safe_bind: "safe I m \<Longrightarrow> (\<And>x. safe I (f x)) \<Longrightarrow> safe I (js_bind m f)"
  unfolding safe_def [of I "js_bind m f"] wp_bind
  by (auto intro!: wp_safe_mono split: sum.split)

text \<open>The same when what follows needs to know something of the value.\<close>

lemma safe_bind_post:
  assumes "\<And>s l. I s l \<Longrightarrow> wp (keeps I) I m (\<lambda>r s l. I s l \<and> (case r of Inl e \<Rightarrow> True | Inr x \<Rightarrow> P x)) s l"
    and "\<And>x. P x \<Longrightarrow> safe I (f x)"
  shows "safe I (js_bind m f)"
  unfolding safe_def wp_bind
  by (intro allI impI, rule wp_mono [OF assms(1)]) (use assms(2) in \<open>auto simp: safe_def split: sum.splits\<close>)

lemma safe_do_await: "allowed n as \<Longrightarrow> safe I (do_await n as)"
  unfolding do_await_def by (intro safe_bind safe_await safe_return)

lemma safe_try_catch: "safe I m \<Longrightarrow> (\<And>e. safe I (h e)) \<Longrightarrow> safe I (try_catch m h)"
  unfolding safe_def [of I "try_catch m h"] wp_try_catch
  by (auto intro!: wp_safe_mono split: sum.split)

lemma safe_try_finally: "safe I m \<Longrightarrow> safe I fin \<Longrightarrow> safe I (try_finally m fin)"
  unfolding safe_def [of I "try_finally m fin"] wp_try_finally
  by (auto intro!: wp_safe_mono [of m] wp_safe_mono [of fin] split: sum.split)

lemma safe_block: "(\<forall>m \<in> set ms. safe I m) \<Longrightarrow> safe I (block ms)"
  by (induction ms rule: block.induct) (auto intro: safe_return safe_bind)

lemma safe_if: "safe I m \<Longrightarrow> safe I n \<Longrightarrow> safe I (if b then m else n)"
  by simp

lemmas safe_rules = safe_return safe_throw safe_gets safe_of_result safe_get_prop safe_call
  safe_do_call safe_await safe_do_await safe_bind safe_try_catch safe_try_finally safe_if

end

subsection \<open>What the environment goes through\<close>

text \<open>The events before a run do not matter to it.\<close>

lemma run_log: "run env m s w l = (case run env m s w [] of (r, s', w', l') \<Rightarrow> (r, s', w', l @ l'))"
proof (induction m arbitrary: s w l)
  case (Call n as k)
  obtain r s1 w1 where e: "env n as s w = (r, s1, w1)" by (cases "env n as s w")
  have "run env (k r) s w1 (l @ [(n, as, r)]) = (case run env (k r) s w1 [] of (x, s', w', l') \<Rightarrow> (x, s', w', (l @ [(n, as, r)]) @ l'))"
    "run env (k r) s w1 [(n, as, r)] = (case run env (k r) s w1 [] of (x, s', w', l') \<Rightarrow> (x, s', w', [(n, as, r)] @ l'))"
    by (rule Call.IH, simp)+
  then show ?case by (simp add: e split: prod.split)
next
  case (Await n as k)
  obtain r s1 w1 where e: "env n as s w = (r, s1, w1)" by (cases "env n as s w")
  have "run env (k r) s1 w1 (l @ [(n, as, r)]) = (case run env (k r) s1 w1 [] of (x, s', w', l') \<Rightarrow> (x, s', w', (l @ [(n, as, r)]) @ l'))"
    "run env (k r) s1 w1 [(n, as, r)] = (case run env (k r) s1 w1 [] of (x, s', w', l') \<Rightarrow> (x, s', w', [(n, as, r)] @ l'))"
    by (rule Await.IH, simp)+
  then show ?case by (simp add: e split: prod.split)
next
  case (Get k)
  show ?case unfolding run.simps by (rule Get.IH) simp
next
  case (Put s1 m)
  show ?case unfolding run.simps by (rule Put.IH)
qed simp_all

text \<open>What every event of the run keeps of the environment, the run keeps.\<close>

lemma run_keeps:
  assumes step: "\<And>n as s w. allowed n as \<Longrightarrow> J w \<Longrightarrow> J (snd (snd (env n as s w)))"
  shows "run env m s w l = (r, s', w', l') \<Longrightarrow> (\<forall>(n, as, a) \<in> set l'. allowed n as) \<Longrightarrow> J w \<Longrightarrow> J w'"
proof (induction m arbitrary: s w l)
  case (Call n as k)
  obtain a s1 w1 where e: "env n as s w = (a, s1, w1)" by (cases "env n as s w")
  have next1: "run env (k a) s w1 (l @ [(n, as, a)]) = (r, s', w', l')" using Call.prems(1) e by simp
  then have "(n, as, a) \<in> set l'" by (subst (asm) run_log) (auto split: prod.splits)
  then have "J w1" using step [of n as w s] Call.prems(2,3) e by auto
  then show ?case using Call.IH [OF _ next1 Call.prems(2)] by simp
next
  case (Await n as k)
  obtain a s1 w1 where e: "env n as s w = (a, s1, w1)" by (cases "env n as s w")
  have next1: "run env (k a) s1 w1 (l @ [(n, as, a)]) = (r, s', w', l')" using Await.prems(1) e by simp
  then have "(n, as, a) \<in> set l'" by (subst (asm) run_log) (auto split: prod.splits)
  then have "J w1" using step [of n as w s] Await.prems(2,3) e by auto
  then show ?case using Await.IH [OF _ next1 Await.prems(2)] by simp
next
  case (Get k)
  show ?case using Get.IH [of "k s" s w l] Get.prems by simp
qed simp_all

subsection \<open>Concrete runs\<close>

text \<open>An environment that answers from a script of replies, for concrete runs.\<close>

definition script :: "('s, (jsval + jsval) list) env" where
  "script n as s w = (case w of [] \<Rightarrow> (Inl Undefined, s, []) | r # rs \<Rightarrow> (r, s, rs))"

lemma script_simps [run_rules]:
  "script n as s (r # rs) = (r, s, rs)"
  "script n as s [] = (Inl Undefined, s, [])"
  by (simp_all add: script_def)

lemma sequential_script: "sequential script"
  by (simp add: sequential_def script_def split: list.splits)

end
