(* ===== verification/Event_Loop.thy ===== *)
theory Event_Loop
  imports Js_Effect
begin

text \<open>
  The browser's event loop.  A page is a state, the handlers that are suspended at an
  \<open>await\<close>, and the history of answered calls.  A step starts the handler of an enabled
  event, or delivers the answer of a promise to a suspended handler; either way the
  handler runs to its next \<open>await\<close> without interruption.  A third kind of step is a change made
  from outside the scripts (typing, an extension injecting \<open>window.nostr\<close>).  The order of
  the steps is not determined, so every interleaving is a run.
\<close>

type_synonym 's suspended = "string \<times> jsval list \<times> (jsval + jsval \<Rightarrow> ('s, unit) js)"

record 's world =
  page :: 's
  pending :: "'s suspended list"
  history :: "event list"

text \<open>One uninterrupted segment: up to the next \<open>await\<close> or the end.\<close>

inductive segment :: "('s, unit) js \<Rightarrow> 's \<Rightarrow> event list \<Rightarrow> 's \<Rightarrow> event list \<Rightarrow> 's suspended option \<Rightarrow> bool" where
  seg_return: "segment (Return x) s l s l None"
| seg_throw: "segment (Throw e) s l s l None"
| seg_get: "segment (k s) s l s' l' p \<Longrightarrow> segment (Get k) s l s' l' p"
| seg_put: "segment m s1 l s' l' p \<Longrightarrow> segment (Put s1 m) s l s' l' p"
| seg_call: "segment (k r) s (l @ [(n, as, r)]) s' l' p \<Longrightarrow> segment (Call n as k) s l s' l' p"
| seg_await: "segment (Await n as k) s l s l (Some (n, as, k))"

inductive_cases segment_ReturnE: "segment (Return x) s l s' l' p"
inductive_cases segment_ThrowE: "segment (Throw e) s l s' l' p"
inductive_cases segment_GetE: "segment (Get k) s l s' l' p"
inductive_cases segment_PutE: "segment (Put s1 m) s l s' l' p"
inductive_cases segment_CallE: "segment (Call n as k) s l s' l' p"
inductive_cases segment_AwaitE: "segment (Await n as k) s l s' l' p"

lemmas segment_elims = segment_ReturnE segment_ThrowE segment_GetE segment_PutE segment_CallE segment_AwaitE

text \<open>The same segment computed, with the answers of its synchronous calls given in advance.\<close>

primrec advance :: "('s, unit) js \<Rightarrow> (jsval + jsval) list \<Rightarrow> 's \<Rightarrow> event list \<Rightarrow>
    's \<times> event list \<times> 's suspended option" where
  "advance (Return x) = (\<lambda>rs s l. (s, l, None))"
| "advance (Throw e) = (\<lambda>rs s l. (s, l, None))"
| "advance (Get k) = (\<lambda>rs s l. advance (k s) rs s l)"
| "advance (Put s' m) = (\<lambda>rs s l. advance m rs s' l)"
| "advance (Call n as k) = (\<lambda>rs s l. case rs of
     [] \<Rightarrow> advance (k (Inl Undefined)) [] s (l @ [(n, as, Inl Undefined)])
   | r # rs' \<Rightarrow> advance (k r) rs' s (l @ [(n, as, r)]))"
| "advance (Await n as k) = (\<lambda>rs s l. (s, l, Some (n, as, k)))"

lemma advance_segment: "advance m rs s l = (s', l', p) \<Longrightarrow> segment m s l s' l' p"
proof (induction m arbitrary: rs s l)
  case (Call n as k)
  show ?case
  proof (cases rs)
    case Nil
    with Call.prems show ?thesis by (intro seg_call [where r = "Inl Undefined"] Call.IH [OF rangeI]) simp
  next
    case (Cons r rs')
    with Call.prems show ?thesis by (intro seg_call [where r = r] Call.IH [OF rangeI]) simp
  qed
qed (auto intro: segment.intros)

definition suspend :: "'s suspended option \<Rightarrow> 's suspended list" where
  "suspend p = (case p of None \<Rightarrow> [] | Some q \<Rightarrow> [q])"

inductive loop_step :: "('ev \<Rightarrow> ('s, unit) js) \<Rightarrow> ('ev \<Rightarrow> 's \<Rightarrow> bool) \<Rightarrow> ('s \<Rightarrow> 's \<Rightarrow> bool) \<Rightarrow>
    's world \<Rightarrow> 's world \<Rightarrow> bool"
  for handler :: "'ev \<Rightarrow> ('s, unit) js" and enabled :: "'ev \<Rightarrow> 's \<Rightarrow> bool" and outside :: "'s \<Rightarrow> 's \<Rightarrow> bool" where
  fire: "enabled e s \<Longrightarrow> segment (handler e) s l s' l' p \<Longrightarrow>
     loop_step handler enabled outside \<lparr>page = s, pending = ps, history = l\<rparr>
       \<lparr>page = s', pending = ps @ suspend p, history = l'\<rparr>"
| resume: "segment (k r) s (l @ [(n, as, r)]) s' l' p \<Longrightarrow>
     loop_step handler enabled outside \<lparr>page = s, pending = ps @ (n, as, k) # qs, history = l\<rparr>
       \<lparr>page = s', pending = ps @ qs @ suspend p, history = l'\<rparr>"
| other: "outside s s' \<Longrightarrow>
     loop_step handler enabled outside \<lparr>page = s, pending = ps, history = l\<rparr>
       \<lparr>page = s', pending = ps, history = l\<rparr>"

inductive loop_reach :: "('ev \<Rightarrow> ('s, unit) js) \<Rightarrow> ('ev \<Rightarrow> 's \<Rightarrow> bool) \<Rightarrow> ('s \<Rightarrow> 's \<Rightarrow> bool) \<Rightarrow>
    's world \<Rightarrow> 's world \<Rightarrow> bool"
  for handler enabled outside w0 where
  reach_start: "loop_reach handler enabled outside w0 w0"
| reach_step: "loop_reach handler enabled outside w0 w \<Longrightarrow> loop_step handler enabled outside w w' \<Longrightarrow>
     loop_reach handler enabled outside w0 w'"

text \<open>The two steps in computed form.\<close>

lemma fire_advance: "enabled e s \<Longrightarrow> advance (handler e) rs s l = (s', l', p) \<Longrightarrow>
    loop_step handler enabled outside \<lparr>page = s, pending = ps, history = l\<rparr>
       \<lparr>page = s', pending = ps @ suspend p, history = l'\<rparr>"
  by (rule fire [OF _ advance_segment])

lemma resume_advance:
  assumes "advance (k r) rs s (l @ [(n, as, r)]) = (s', l', p)"
  shows "loop_step handler enabled outside \<lparr>page = s, pending = [(n, as, k)], history = l\<rparr>
       \<lparr>page = s', pending = suspend p, history = l'\<rparr>"
  using resume [where k = k and r = r and l = l and n = n and as = as and ps = "[]" and qs = "[]",
      OF advance_segment [OF assms]] by simp

text \<open>
  What a suspended handler still has to do is safe for \<open>I\<close> from every page in \<open>I\<close> whose
  history contains the events \<open>h\<close> it has seen.
\<close>

definition safe_rest :: "('s \<Rightarrow> event list \<Rightarrow> bool) \<Rightarrow> event set \<Rightarrow> 's suspended \<Rightarrow> bool" where
  "safe_rest I h q = (case q of (n, as, k) \<Rightarrow>
     \<forall>r s l. I s l \<and> h \<subseteq> set l \<longrightarrow> wp (keeps I) I (k r) (\<lambda>_. I) s (l @ [(n, as, r)]))"

lemma safe_rest_mono: "safe_rest I h q \<Longrightarrow> h \<subseteq> h' \<Longrightarrow> safe_rest I h' q"
  unfolding safe_rest_def by (cases q) blast

lemma segment_history: "segment m s l s' l' p \<Longrightarrow> set l \<subseteq> set l'"
  by (induction rule: segment.induct) auto

lemma segment_safe:
  "segment m s l s' l' p \<Longrightarrow> wp (keeps I) I m (\<lambda>_. I) s l \<Longrightarrow>
     I s' l' \<and> (\<forall>q \<in> set (suspend p). safe_rest I (set l') q)"
proof (induction rule: segment.induct)
  case (seg_call k r s l n as s' l' p)
  then show ?case by simp
next
  case (seg_await n as k s l)
  then have "I s l"
    and k: "\<And>r s' l'. keeps I s l s' l' \<Longrightarrow> wp (keeps I) I (k r) (\<lambda>_. I) s' (l' @ [(n, as, r)])"
    by simp_all
  have "wp (keeps I) I (k r) (\<lambda>_. I) s' (l' @ [(n, as, r)])" if "I s' l' \<and> set l \<subseteq> set l'" for r s' l'
    using that by (intro k) (simp add: keeps_def)
  with \<open>I s l\<close> show ?case by (simp add: suspend_def safe_rest_def)
qed (simp_all add: suspend_def)

text \<open>
  The interface of a page: its handlers, when they may start, what may happen outside
  them, and an invariant that each of them keeps at every suspension and at its end.
\<close>

locale page_loop =
  fixes handler :: "'ev \<Rightarrow> ('s, unit) js"
    and enabled :: "'ev \<Rightarrow> 's \<Rightarrow> bool"
    and outside :: "'s \<Rightarrow> 's \<Rightarrow> bool"
    and inv :: "'s \<Rightarrow> event list \<Rightarrow> bool"
  assumes handler_safe: "inv s l \<Longrightarrow> enabled e s \<Longrightarrow> wp (keeps inv) inv (handler e) (\<lambda>_. inv) s l"
    and outside_safe: "inv s l \<Longrightarrow> outside s s' \<Longrightarrow> inv s' l"
begin

definition good :: "'s world \<Rightarrow> bool" where
  "good w \<longleftrightarrow> inv (page w) (history w) \<and> (\<forall>q \<in> set (pending w). safe_rest inv (set (history w)) q)"

lemma step_good: "loop_step handler enabled outside w w' \<Longrightarrow> good w \<Longrightarrow> good w'"
proof (induction rule: loop_step.induct)
  case (fire e s l s' l' p ps)
  then have "inv s l" by (simp add: good_def)
  have "inv s' l' \<and> (\<forall>q \<in> set (suspend p). safe_rest inv (set l') q)"
    by (rule segment_safe [OF fire(2) handler_safe [OF \<open>inv s l\<close> fire(1)]])
  with fire segment_history [OF fire(2)] show ?case
    by (auto simp: good_def intro: safe_rest_mono)
next
  case (resume k r s l n as s' l' p ps qs)
  then have "inv s l" "safe_rest inv (set l) (n, as, k)" by (simp_all add: good_def)
  then have "wp (keeps inv) inv (k r) (\<lambda>_. inv) s (l @ [(n, as, r)])"
    by (simp add: safe_rest_def)
  with resume(1) have "inv s' l' \<and> (\<forall>q \<in> set (suspend p). safe_rest inv (set l') q)"
    by (rule segment_safe)
  moreover have "set l \<subseteq> set l'" using segment_history [OF resume(1)] by simp
  ultimately show ?case using resume(2) by (auto simp: good_def intro: safe_rest_mono)
next
  case (other s s' ps l)
  then show ?case using outside_safe by (auto simp: good_def)
qed

lemma reach_good: "loop_reach handler enabled outside w0 w \<Longrightarrow> good w0 \<Longrightarrow> good w"
proof (induction rule: loop_reach.induct)
  case (reach_step w w')
  then show ?case using step_good by simp
qed

text \<open>Every interleaving of the handlers keeps the invariant.\<close>

lemma reach_inv:
  assumes "loop_reach handler enabled outside \<lparr>page = s, pending = [], history = []\<rparr> w" and "inv s []"
  shows "inv (page w) (history w)"
  using reach_good [OF assms(1)] assms(2) by (simp add: good_def)

end

end
