(* ===== verification/Browser.thy ===== *)
theory Browser
  imports Event_Loop
begin

text \<open>
  What the scripts see of the browser: the elements of the page (by the names of their
  ids), \<open>localStorage\<close>, the location, the global objects, and the abort controllers.
  \<open>storage_readable\<close> and \<open>storage_writable\<close> say whether an access to \<open>localStorage\<close> works
  (a browser may deny it, and a write may exceed the quota); otherwise it throws.
\<close>

record elem =
  e_text :: string
  e_class :: string
  e_value :: string
  e_src :: string
  e_hidden :: bool
  e_disabled :: bool
  e_checked :: bool

record 'i browser =
  el :: "'i \<Rightarrow> elem"
  storage :: "string \<Rightarrow> string option"
  storage_readable :: bool
  storage_writable :: bool
  href :: string
  doc_title :: string
  win_nostr :: jsval
  has_ConnectUI :: bool
  has_Passkey :: bool
  aborted :: "nat list"
  next_controller :: nat

text \<open>A page before its script has run: nothing stored, nothing hidden.\<close>

definition blank_elem :: elem where
  "blank_elem = \<lparr>e_text = [], e_class = [], e_value = [], e_src = [],
     e_hidden = False, e_disabled = False, e_checked = False\<rparr>"

definition fresh_browser :: "'i browser" where
  "fresh_browser = \<lparr>el = (\<lambda>_. blank_elem), storage = Map.empty, storage_readable = True,
     storage_writable = True, href = [], doc_title = [], win_nostr = Undefined,
     has_ConnectUI = True, has_Passkey = True, aborted = [], next_controller = 0\<rparr>"

subsection \<open>Elements\<close>

definition upd_el :: "'i \<Rightarrow> (elem \<Rightarrow> elem) \<Rightarrow> ('i, 'z) browser_scheme \<Rightarrow> ('i, 'z) browser_scheme" where
  "upd_el i f s = s\<lparr>el := (el s)(i := f (el s i))\<rparr>"

definition set_text :: "'i \<Rightarrow> string \<Rightarrow> (('i, 'z) browser_scheme, unit) js" where
  "set_text i t = modify (upd_el i (\<lambda>e. e\<lparr>e_text := t\<rparr>))"

definition set_class :: "'i \<Rightarrow> string \<Rightarrow> (('i, 'z) browser_scheme, unit) js" where
  "set_class i t = modify (upd_el i (\<lambda>e. e\<lparr>e_class := t\<rparr>))"

definition set_value :: "'i \<Rightarrow> string \<Rightarrow> (('i, 'z) browser_scheme, unit) js" where
  "set_value i t = modify (upd_el i (\<lambda>e. e\<lparr>e_value := t\<rparr>))"

definition set_src :: "'i \<Rightarrow> string \<Rightarrow> (('i, 'z) browser_scheme, unit) js" where
  "set_src i t = modify (upd_el i (\<lambda>e. e\<lparr>e_src := t\<rparr>))"

definition set_hidden :: "'i \<Rightarrow> bool \<Rightarrow> (('i, 'z) browser_scheme, unit) js" where
  "set_hidden i b = modify (upd_el i (\<lambda>e. e\<lparr>e_hidden := b\<rparr>))"

definition set_disabled :: "'i \<Rightarrow> bool \<Rightarrow> (('i, 'z) browser_scheme, unit) js" where
  "set_disabled i b = modify (upd_el i (\<lambda>e. e\<lparr>e_disabled := b\<rparr>))"

definition set_checked :: "'i \<Rightarrow> bool \<Rightarrow> (('i, 'z) browser_scheme, unit) js" where
  "set_checked i b = modify (upd_el i (\<lambda>e. e\<lparr>e_checked := b\<rparr>))"

lemmas dom_defs = set_text_def set_class_def set_value_def set_src_def set_hidden_def
  set_disabled_def set_checked_def

lemma upd_el_simps [simp]:
  "el (upd_el i f s) = (el s)(i := f (el s i))"
  "storage (upd_el i f s) = storage s"
  "storage_readable (upd_el i f s) = storage_readable s"
  "storage_writable (upd_el i f s) = storage_writable s"
  "href (upd_el i f s) = href s"
  "doc_title (upd_el i f s) = doc_title s"
  "win_nostr (upd_el i f s) = win_nostr s"
  "has_ConnectUI (upd_el i f s) = has_ConnectUI s"
  "has_Passkey (upd_el i f s) = has_Passkey s"
  "aborted (upd_el i f s) = aborted s"
  "next_controller (upd_el i f s) = next_controller s"
  by (simp_all add: upd_el_def)

lemma upd_el_more [simp]: "browser.more (upd_el i f s) = browser.more s"
  by (simp add: upd_el_def)

text \<open>A user's click reaches a button that is shown and not disabled.\<close>

definition clickable :: "'i \<Rightarrow> ('i, 'z) browser_scheme \<Rightarrow> bool" where
  "clickable i s \<longleftrightarrow> \<not> e_disabled (el s i) \<and> \<not> e_hidden (el s i)"

subsection \<open>\<open>localStorage\<close>\<close>

definition security_error :: jsval where
  "security_error = js_error ''SecurityError''"

definition quota_error :: jsval where
  "quota_error = js_error ''QuotaExceededError''"

definition getItem :: "string \<Rightarrow> (('i, 'z) browser_scheme, jsval) js" where
  "getItem k = js_bind (gets (\<lambda>s. if storage_readable s
       then Inr (case storage s k of None \<Rightarrow> Null | Some t \<Rightarrow> Str t) else Inl security_error)) of_result"

definition setItem :: "string \<Rightarrow> string \<Rightarrow> (('i, 'z) browser_scheme, unit) js" where
  "setItem k t = js_bind (gets storage_writable) (\<lambda>ok.
     if ok then modify (\<lambda>s. s\<lparr>storage := (storage s)(k \<mapsto> t)\<rparr>) else Throw quota_error)"

definition removeItem :: "string \<Rightarrow> (('i, 'z) browser_scheme, unit) js" where
  "removeItem k = js_bind (gets storage_readable) (\<lambda>ok.
     if ok then modify (\<lambda>s. s\<lparr>storage := (storage s)(k := None)\<rparr>) else Throw security_error)"

lemma wp_getItem [wp_rules]: "wp R G (getItem k) Q s l =
    Q (if storage_readable s then Inr (case storage s k of None \<Rightarrow> Null | Some t \<Rightarrow> Str t)
       else Inl security_error) s l"
  by (simp add: getItem_def wp_rules)

lemma wp_setItem [wp_rules]: "wp R G (setItem k t) Q s l =
    (if storage_writable s then Q (Inr ()) (s\<lparr>storage := (storage s)(k \<mapsto> t)\<rparr>) l
     else Q (Inl quota_error) s l)"
  by (simp add: setItem_def wp_rules)

lemma wp_removeItem [wp_rules]: "wp R G (removeItem k) Q s l =
    (if storage_readable s then Q (Inr ()) (s\<lparr>storage := (storage s)(k := None)\<rparr>) l
     else Q (Inl security_error) s l)"
  by (simp add: removeItem_def wp_rules)

lemma run_getItem [run_rules]: "run env (getItem k) s w l =
    (if storage_readable s then Inr (case storage s k of None \<Rightarrow> Null | Some t \<Rightarrow> Str t)
       else Inl security_error, s, w, l)"
  by (simp add: getItem_def run_rules)

lemma run_setItem [run_rules]: "run env (setItem k t) s w l =
    (if storage_writable s then (Inr (), s\<lparr>storage := (storage s)(k \<mapsto> t)\<rparr>, w, l)
     else (Inl quota_error, s, w, l))"
  by (simp add: setItem_def run_rules)

lemma run_removeItem [run_rules]: "run env (removeItem k) s w l =
    (if storage_readable s then (Inr (), s\<lparr>storage := (storage s)(k := None)\<rparr>, w, l)
     else (Inl security_error, s, w, l))"
  by (simp add: removeItem_def run_rules)

lemma wp_set_dom [wp_rules]:
  "wp R G (set_text i t) Q s l = Q (Inr ()) (upd_el i (\<lambda>e. e\<lparr>e_text := t\<rparr>) s) l"
  "wp R G (set_class i t) Q s l = Q (Inr ()) (upd_el i (\<lambda>e. e\<lparr>e_class := t\<rparr>) s) l"
  "wp R G (set_value i t) Q s l = Q (Inr ()) (upd_el i (\<lambda>e. e\<lparr>e_value := t\<rparr>) s) l"
  "wp R G (set_src i t) Q s l = Q (Inr ()) (upd_el i (\<lambda>e. e\<lparr>e_src := t\<rparr>) s) l"
  "wp R G (set_hidden i b) Q s l = Q (Inr ()) (upd_el i (\<lambda>e. e\<lparr>e_hidden := b\<rparr>) s) l"
  "wp R G (set_disabled i b) Q s l = Q (Inr ()) (upd_el i (\<lambda>e. e\<lparr>e_disabled := b\<rparr>) s) l"
  "wp R G (set_checked i b) Q s l = Q (Inr ()) (upd_el i (\<lambda>e. e\<lparr>e_checked := b\<rparr>) s) l"
  by (simp_all add: dom_defs wp_rules)

lemma run_set_dom [run_rules]:
  "run env (set_text i t) s w l = (Inr (), upd_el i (\<lambda>e. e\<lparr>e_text := t\<rparr>) s, w, l)"
  "run env (set_class i t) s w l = (Inr (), upd_el i (\<lambda>e. e\<lparr>e_class := t\<rparr>) s, w, l)"
  "run env (set_value i t) s w l = (Inr (), upd_el i (\<lambda>e. e\<lparr>e_value := t\<rparr>) s, w, l)"
  "run env (set_src i t) s w l = (Inr (), upd_el i (\<lambda>e. e\<lparr>e_src := t\<rparr>) s, w, l)"
  "run env (set_hidden i b) s w l = (Inr (), upd_el i (\<lambda>e. e\<lparr>e_hidden := b\<rparr>) s, w, l)"
  "run env (set_disabled i b) s w l = (Inr (), upd_el i (\<lambda>e. e\<lparr>e_disabled := b\<rparr>) s, w, l)"
  "run env (set_checked i b) s w l = (Inr (), upd_el i (\<lambda>e. e\<lparr>e_checked := b\<rparr>) s, w, l)"
  by (simp_all add: dom_defs run_rules)

subsection \<open>Calling methods of host objects\<close>

text \<open>
  \<open>v.m(args)\<close> on an object whose method is a host function: the call carries the captured
  values, the receiver and the arguments, under the name of the function after a dot (so that
  it is no call of a host function by its own name).  A missing method is a \<open>TypeError\<close>.
\<close>

definition method_name :: "string \<Rightarrow> string" where
  "method_name n = CHR ''.'' # n"

lemma method_name_simps [simp]:
  "method_name m = method_name n \<longleftrightarrow> m = n" "method_name n \<noteq> ''fetch''" "''fetch'' \<noteq> method_name n"
  by (simp_all add: method_name_def)

definition call_method :: "jsval \<Rightarrow> string \<Rightarrow> jsval list \<Rightarrow> ('s, jsval) js" where
  "call_method v m args = js_bind (get_prop v m) (\<lambda>f. case f of
      Closure n caps \<Rightarrow> call (method_name n) (caps @ v # args) | _ \<Rightarrow> Throw type_error)"

definition await_method :: "jsval \<Rightarrow> string \<Rightarrow> jsval list \<Rightarrow> ('s, jsval) js" where
  "await_method v m args = js_bind (get_prop v m) (\<lambda>f. case f of
      Closure n caps \<Rightarrow> await (method_name n) (caps @ v # args) | _ \<Rightarrow> Throw type_error)"

text \<open>\<open>fetch(url, options)\<close>, and \<open>response.json()\<close>, each awaited.  \<open>fetchJSON\<close> of the
  pages and \<open>api\<close> of the admin page are built on these.\<close>

definition js_fetch :: "string \<Rightarrow> jsval \<Rightarrow> ('s, jsval) js" where
  "js_fetch url options = await ''fetch'' [Str url, options]"

definition response_json :: "jsval \<Rightarrow> ('s, jsval) js" where
  "response_json response = await ''response.json'' [response]"

subsection \<open>Abort controllers\<close>

definition signal_of :: "nat \<Rightarrow> jsval" where
  "signal_of c = Obj [(''AbortSignal'', Num (int c))]"

definition new_AbortController :: "(('i, 'z) browser_scheme, nat) js" where
  "new_AbortController = js_bind (gets next_controller) (\<lambda>c.
     js_bind (modify (\<lambda>s. s\<lparr>next_controller := Suc c\<rparr>)) (\<lambda>_. Return c))"

definition abort :: "nat \<Rightarrow> (('i, 'z) browser_scheme, unit) js" where
  "abort c = modify (\<lambda>s. s\<lparr>aborted := c # aborted s\<rparr>)"

lemma wp_new_AbortController [wp_rules]:
  "wp R G new_AbortController Q s l =
     Q (Inr (next_controller s)) (s\<lparr>next_controller := Suc (next_controller s)\<rparr>) l"
  by (simp add: new_AbortController_def wp_rules)

lemma wp_abort [wp_rules]:
  "wp R G (abort c) Q s l = Q (Inr ()) (s\<lparr>aborted := c # aborted s\<rparr>) l"
  by (simp_all add: new_AbortController_def abort_def wp_rules)

lemma run_abort [run_rules]:
  "run env new_AbortController s w l =
     (Inr (next_controller s), s\<lparr>next_controller := Suc (next_controller s)\<rparr>, w, l)"
  "run env (abort c) s w l = (Inr (), s\<lparr>aborted := c # aborted s\<rparr>, w, l)"
  by (simp_all add: new_AbortController_def abort_def run_rules)

end
