(* ===== verification/Connect_UI.thy ===== *)
theory Connect_UI
  imports Browser
begin

text \<open>
  \<open>src/src/yunohost_nostr_auth/web/static/nostr-connect-ui.js\<close>: the signer helpers
  shared by the login and the account page.  The vendored library (\<open>NostrConnectVendor\<close>)
  is the environment of the tree: its synchronous functions are calls, its promises are
  awaited, by their names.  A secret key is a byte array; a signer is an object whose
  methods are closures.
\<close>

definition BUNKER_STORAGE_KEY :: string where
  "BUNKER_STORAGE_KEY = ''nostrAuthSavedSigner''"

definition LOCAL_KEY_STORAGE_KEY :: string where
  "LOCAL_KEY_STORAGE_KEY = ''nostrAuthLocalKey''"

definition DEFAULT_QR_RELAYS :: jsval where
  "DEFAULT_QR_RELAYS = Arr [Str ''wss://relay.nsec.app'', Str ''wss://relay.damus.io'']"

definition CONNECT_TIMEOUT_MS :: int where
  "CONNECT_TIMEOUT_MS = 120000"

lemma storage_keys_differ [simp]:
  "BUNKER_STORAGE_KEY \<noteq> LOCAL_KEY_STORAGE_KEY" "LOCAL_KEY_STORAGE_KEY \<noteq> BUNKER_STORAGE_KEY"
  by (simp_all add: BUNKER_STORAGE_KEY_def LOCAL_KEY_STORAGE_KEY_def)

subsection \<open>Hexadecimal keys\<close>

text \<open>The loop of \<open>bytesToHex\<close> appends the two digits of each byte in turn.\<close>

fun bytesToHex_loop :: "string \<Rightarrow> byte list \<Rightarrow> string" where
  "bytesToHex_loop hex [] = hex"
| "bytesToHex_loop hex (b # bs) =
     bytesToHex_loop (hex @ pad_start 2 (CHR ''0'') (to_hex (unat b))) bs"

definition bytesToHex :: "byte list \<Rightarrow> string" where
  "bytesToHex bytes = bytesToHex_loop [] bytes"

text \<open>
  \<open>new Uint8Array(hex.length / 2)\<close> rounds an odd half down; storing NaN stores 0 and
  storing any other integer stores it modulo 256.
\<close>

definition hexToBytes :: "string \<Rightarrow> byte list" where
  "hexToBytes hex = map (\<lambda>i. case parseInt16 (take 2 (drop (i * 2) hex)) of
       None \<Rightarrow> 0 | Some n \<Rightarrow> word_of_int n) [0..<length hex div 2]"

text \<open>
  The same two on any JavaScript value: \<open>v.toString(16)\<close> of an element, an array and a
  text read by index, and nothing to read in a value without a length.  A value with no
  elements that is not nullish has none to convert, and one that is no string has no
  \<open>substr\<close>.  (An object with a \<open>length\<close> of its own is not considered: the vendored library
  documents byte arrays.)
\<close>

fun js_toString16 :: "jsval \<Rightarrow> string option" where
  "js_toString16 Undefined = None"
| "js_toString16 Null = None"
| "js_toString16 (Num n) = Some (if n < 0 then CHR ''-'' # to_hex (nat (- n)) else to_hex (nat n))"
| "js_toString16 v = Some (js_string v)"

fun js_bytesToHex_loop :: "string \<Rightarrow> jsval list \<Rightarrow> string option" where
  "js_bytesToHex_loop hex [] = Some hex"
| "js_bytesToHex_loop hex (v # vs) = (case js_toString16 v of None \<Rightarrow> None
     | Some d \<Rightarrow> js_bytesToHex_loop (hex @ pad_start 2 (CHR ''0'') d) vs)"

definition of_option :: "'a option \<Rightarrow> ('s, 'a) js" where
  "of_option r = (case r of None \<Rightarrow> Throw type_error | Some x \<Rightarrow> Return x)"

definition js_hex :: "jsval \<Rightarrow> string option" where
  "js_hex v = (case v of
      Bytes bs \<Rightarrow> Some (bytesToHex bs)
    | Arr vs \<Rightarrow> js_bytesToHex_loop [] vs
    | Str t \<Rightarrow> js_bytesToHex_loop [] (map (\<lambda>c. Str [c]) t)
    | Undefined \<Rightarrow> None
    | Null \<Rightarrow> None
    | _ \<Rightarrow> Some [])"

definition js_bytesToHex :: "jsval \<Rightarrow> ('s, string) js" where
  "js_bytesToHex v = of_option (js_hex v)"

definition js_hexToBytes :: "jsval \<Rightarrow> ('s, jsval) js" where
  "js_hexToBytes v = (case v of
      Str hex \<Rightarrow> Return (Bytes (hexToBytes hex))
    | Undefined \<Rightarrow> Throw type_error | Null \<Rightarrow> Throw type_error
    | Arr vs \<Rightarrow> if length vs div 2 = 0 then Return (Bytes []) else Throw type_error
    | Bytes bs \<Rightarrow> if length bs div 2 = 0 then Return (Bytes []) else Throw type_error
    | _ \<Rightarrow> Return (Bytes []))"

subsection \<open>The saved remote signer\<close>

definition syntax_error :: jsval where
  "syntax_error = js_error ''SyntaxError''"

definition JSON_parse :: "string \<Rightarrow> ('s, jsval) js" where
  "JSON_parse t = (case json_parse t of None \<Rightarrow> Throw syntax_error | Some v \<Rightarrow> Return v)"

definition loadSavedBunker :: "(('i, 'z) browser_scheme, jsval) js" where
  "loadSavedBunker = try_catch
     (js_bind (getItem BUNKER_STORAGE_KEY) (\<lambda>raw.
        case raw of Str t \<Rightarrow> if t = [] then Return Null else JSON_parse t | _ \<Rightarrow> Return Null))
     (\<lambda>e. Return Null)"

definition saved_signer :: "string \<Rightarrow> jsval \<Rightarrow> jsval" where
  "saved_signer hex bunkerPointer = Obj [(''clientSecretKeyHex'', Str hex), (''bunkerPointer'', bunkerPointer)]"

definition saveBunker :: "jsval \<Rightarrow> jsval \<Rightarrow> (('i, 'z) browser_scheme, unit) js" where
  "saveBunker clientSecretKey bunkerPointer = try_catch
     (js_bind (js_bytesToHex clientSecretKey) (\<lambda>hex.
        setItem BUNKER_STORAGE_KEY (json_stringify (saved_signer hex bunkerPointer))))
     (\<lambda>e. Return ())"

definition clearSaved :: "(('i, 'z) browser_scheme, unit) js" where
  "clearSaved = try_catch (removeItem BUNKER_STORAGE_KEY) (\<lambda>e. Return ())"

definition hasSaved :: "(('i, 'z) browser_scheme, bool) js" where
  "hasSaved = js_bind loadSavedBunker (\<lambda>saved. Return (truthy saved))"

definition getSavedInfo :: "(('i, 'z) browser_scheme, jsval) js" where
  "getSavedInfo = js_bind loadSavedBunker (\<lambda>saved.
     if \<not> truthy saved then Return Null
     else js_bind (get_prop saved ''bunkerPointer'') (\<lambda>bp.
          js_bind (get_prop bp ''relays'') (\<lambda>relays.
          js_bind (get_prop saved ''bunkerPointer'') (\<lambda>bp'.
          js_bind (get_prop bp' ''pubkey'') (\<lambda>pubkey.
          js_bind (call ''NostrConnectVendor.npubEncode'' [pubkey]) (\<lambda>npub.
          Return (Obj [(''relays'', relays), (''remoteNpub'', npub)])))))))"

definition connectViaBunkerUri :: "string \<Rightarrow> (('i, 'z) browser_scheme, jsval) js" where
  "connectViaBunkerUri bunkerUriOrNip05 =
     js_bind (await ''NostrConnectVendor.parseBunkerInput'' [Str bunkerUriOrNip05]) (\<lambda>bp.
     if \<not> truthy bp
     then Throw (js_error ''That doesn't look like a valid bunker:// link or NIP-05 signer address.'')
     else js_bind (call ''NostrConnectVendor.generateSecretKey'' []) (\<lambda>clientSecretKey.
          js_bind (call ''NostrConnectVendor.BunkerSigner.fromBunker'' [clientSecretKey, bp]) (\<lambda>signer.
          js_bind (await_method signer ''connect'' []) (\<lambda>_.
          js_bind (saveBunker clientSecretKey bp) (\<lambda>_.
          Return signer)))))"

definition connectViaQr :: "(jsval \<Rightarrow> jsval \<Rightarrow> (('i, 'z) browser_scheme, unit) js) \<Rightarrow> jsval \<Rightarrow>
    (('i, 'z) browser_scheme, jsval) js" where
  "connectViaQr onUriReady abortSignal =
     js_bind (call ''NostrConnectVendor.generateSecretKey'' []) (\<lambda>clientSecretKey.
     js_bind (call ''NostrConnectVendor.getPublicKey'' [clientSecretKey]) (\<lambda>clientPubkey.
     js_bind (call ''NostrConnectVendor.generateSecretKey'' []) (\<lambda>secretKey.
     js_bind (js_bytesToHex secretKey) (\<lambda>secretHex.
     js_bind (gets doc_title) (\<lambda>title.
     js_bind (call ''NostrConnectVendor.createNostrConnectURI''
        [Obj [(''clientPubkey'', clientPubkey), (''relays'', DEFAULT_QR_RELAYS),
              (''secret'', Str (slice_first 16 secretHex)), (''name'', Str title)]]) (\<lambda>uri.
     js_bind (await ''NostrConnectVendor.QRCode.toDataURL''
        [uri, Obj [(''width'', Num 240), (''margin'', Num 1)]]) (\<lambda>qrDataUrl.
     js_bind (onUriReady uri qrDataUrl) (\<lambda>_.
     js_bind (await ''NostrConnectVendor.BunkerSigner.fromURI''
        [clientSecretKey, uri, Obj [], js_or abortSignal (Num CONNECT_TIMEOUT_MS)]) (\<lambda>signer.
     js_bind (get_prop signer ''bp'') (\<lambda>bp.
     js_bind (saveBunker clientSecretKey bp) (\<lambda>_.
     Return signer)))))))))))"

definition reconnectSaved :: "(('i, 'z) browser_scheme, jsval) js" where
  "reconnectSaved = js_bind loadSavedBunker (\<lambda>saved.
     if \<not> truthy saved then Return Null
     else js_bind (get_prop saved ''clientSecretKeyHex'') (\<lambda>hex.
          js_bind (js_hexToBytes hex) (\<lambda>clientSecretKey.
          js_bind (get_prop saved ''bunkerPointer'') (\<lambda>bp.
          js_bind (call ''NostrConnectVendor.BunkerSigner.fromBunker'' [clientSecretKey, bp]) (\<lambda>signer.
          js_bind (await_method signer ''connect'' []) (\<lambda>_.
          Return signer))))))"

subsection \<open>The locally generated key\<close>

definition generateLocalKeypair :: "(('i, 'z) browser_scheme, jsval) js" where
  "generateLocalKeypair =
     js_bind (call ''NostrConnectVendor.generateSecretKey'' []) (\<lambda>secretKey.
     js_bind (call ''NostrConnectVendor.getPublicKey'' [secretKey]) (\<lambda>pubkeyHex.
     js_bind (js_bytesToHex secretKey) (\<lambda>hex.
     js_bind (call ''NostrConnectVendor.nsecEncode'' [secretKey]) (\<lambda>nsec.
     js_bind (call ''NostrConnectVendor.npubEncode'' [pubkeyHex]) (\<lambda>npub.
     Return (Obj [(''secretKeyHex'', Str hex), (''pubkeyHex'', pubkeyHex),
                  (''nsec'', nsec), (''npub'', npub)]))))))"

text \<open>The signer built here: its \<open>signEvent\<close> captures the key, its \<open>close\<close> does nothing.\<close>

definition createLocalSigner :: "jsval \<Rightarrow> ('s, jsval) js" where
  "createLocalSigner secretKeyHex = js_bind (js_hexToBytes secretKeyHex) (\<lambda>secretKey.
     Return (Obj [(''signEvent'', Closure ''localSigner.signEvent'' [secretKey]),
                  (''close'', Closure ''localSigner.close'' [])]))"

definition localSigner_signEvent :: "jsval list \<Rightarrow> jsval \<Rightarrow> ('s, jsval) js" where
  "localSigner_signEvent caps event = call ''NostrConnectVendor.finalizeEvent'' (event # caps)"

text \<open>\<open>await signer.signEvent(event)\<close> for any signer: the local signer's own code, or the
  method of the extension, the remote signer or the passkey signer.\<close>

definition signer_signEvent :: "jsval \<Rightarrow> jsval \<Rightarrow> ('s, jsval) js" where
  "signer_signEvent signer event = js_bind (get_prop signer ''signEvent'') (\<lambda>f. case f of
      Closure n caps \<Rightarrow>
        if n = ''localSigner.signEvent'' then localSigner_signEvent caps event
        else await (method_name n) (caps @ [signer, event])
    | _ \<Rightarrow> Throw type_error)"

text \<open>\<open>if (typeof signer.m === "function") signer.m();\<close> (the promise is not awaited).\<close>

definition call_if_function :: "jsval \<Rightarrow> string \<Rightarrow> ('s, unit) js" where
  "call_if_function signer m = js_bind (get_prop signer m) (\<lambda>f. case f of
      Closure n caps \<Rightarrow>
        if n = ''localSigner.close'' then Return () else do_call (method_name n) (caps @ [signer])
    | _ \<Rightarrow> Return ())"

definition saveLocalKey :: "jsval \<Rightarrow> (('i, 'z) browser_scheme, unit) js" where
  "saveLocalKey secretKeyHex =
     try_catch (setItem LOCAL_KEY_STORAGE_KEY (js_string secretKeyHex)) (\<lambda>e. Return ())"

definition hasLocalKey :: "(('i, 'z) browser_scheme, bool) js" where
  "hasLocalKey = try_catch
     (js_bind (getItem LOCAL_KEY_STORAGE_KEY) (\<lambda>v. Return (truthy v))) (\<lambda>e. Return False)"

definition loadLocalSigner :: "(('i, 'z) browser_scheme, jsval) js" where
  "loadLocalSigner = js_bind
     (try_catch (js_bind (getItem LOCAL_KEY_STORAGE_KEY) (\<lambda>v. Return (Some v))) (\<lambda>e. Return None))
     (\<lambda>r. case r of None \<Rightarrow> Return Null
        | Some secretKeyHex \<Rightarrow> if truthy secretKeyHex then createLocalSigner secretKeyHex else Return Null)"

definition clearLocalKey :: "(('i, 'z) browser_scheme, unit) js" where
  "clearLocalKey = try_catch (removeItem LOCAL_KEY_STORAGE_KEY) (\<lambda>e. Return ())"

definition clearAllSaved :: "(('i, 'z) browser_scheme, unit) js" where
  "clearAllSaved = block [clearSaved, clearLocalKey]"

subsection \<open>The two texts of a key\<close>

definition byte_hex :: "byte \<Rightarrow> string" where
  "byte_hex b = [hex_digit (unat b div 16), hex_digit (unat b mod 16)]"

lemma unat_byte_less: "unat (b::byte) < 256"
proof -
  have "unat b < 2 ^ LENGTH(8)" by (rule unsigned_less)
  then show ?thesis by simp
qed

lemma pad_byte: "pad_start 2 (CHR ''0'') (to_hex (unat (b::byte))) = byte_hex b"
proof (cases "unat b < 16")
  case True
  have "CHR ''0'' = hex_digit 0" by (simp add: hex_digit_def eq_chr_iff) (simp add: code_of_def)
  with True show ?thesis by (simp add: pad_start_def byte_hex_def to_hex.simps [of "unat b"])
next
  case False
  have "unat b div 16 < 16" using unat_byte_less [of b] by auto
  with False show ?thesis
    by (simp add: pad_start_def byte_hex_def to_hex.simps [of "unat b"] to_hex.simps [of "unat b div 16"])
qed

lemma bytesToHex_loop_eq: "bytesToHex_loop hex bs = hex @ concat (map byte_hex bs)"
  by (induction bs arbitrary: hex) (simp_all add: pad_byte)

lemma bytesToHex_eq: "bytesToHex bs = concat (map byte_hex bs)"
  by (simp add: bytesToHex_def bytesToHex_loop_eq)

lemma length_bytesToHex [simp]: "length (bytesToHex bs) = 2 * length bs"
  by (induction bs) (simp_all add: bytesToHex_eq byte_hex_def)

lemma take_bytesToHex:
  "i < length bs \<Longrightarrow> take 2 (drop (i * 2) (bytesToHex bs)) = byte_hex (bs ! i)"
proof (induction bs arbitrary: i)
  case (Cons b bs)
  then show ?case
    by (cases i) (simp_all add: bytesToHex_eq byte_hex_def numeral_2_eq_2)
qed simp

lemma hex_digit_code:
  "n < 16 \<Longrightarrow> 48 \<le> code_of (hex_digit n) \<and> code_of (hex_digit n) \<le> 57 \<or>
     97 \<le> code_of (hex_digit n) \<and> code_of (hex_digit n) \<le> 102"
  by (simp add: hex_digit_def)

lemma strip_one_hex:
  assumes "n < 16"
  shows "strip_one js_white (hex_digit n # s) = None"
proof -
  let ?c = "hex_digit n"
  have c: "code_of ?c \<in> {48..57} \<union> {97..102}" using hex_digit_code [OF assms] by auto
  have "code_of ?c \<noteq> code_of d" if "w \<in> set js_white" "w = d # ds" for w d ds
    using c that by (auto simp: js_white_def)
  then have "\<not> starts_with w (?c # s)" if "w \<in> set js_white" "w \<noteq> []" for w
    using that by (cases w) auto
  then show ?thesis by (auto simp: strip_one_None)
qed

lemma parseInt16_byte:
  assumes "a < 16" "b < 16"
  shows "parseInt16 [hex_digit a, hex_digit b] = Some (int (a * 16 + b))"
proof -
  have t: "trim_start js_white [hex_digit a, hex_digit b] = [hex_digit a, hex_digit b]"
    using assms by (simp add: trim_start_fix strip_one_hex)
  have s: "hex_digit a \<noteq> CHR ''-''" "hex_digit a \<noteq> CHR ''+''"
    and x: "hex_digit b \<noteq> CHR ''x''" "hex_digit b \<noteq> CHR ''X''"
    using hex_digit_code [OF assms(1)] hex_digit_code [OF assms(2)]
    by (auto simp: code_of_inject [symmetric] simp del: code_of_inject) (simp_all add: code_of_def)
  show ?thesis
    using assms s x by (auto simp: parseInt16_def t parse_sign_def)
qed

lemma hex_round_trip: "hexToBytes (bytesToHex bs) = bs"
proof -
  have "(case parseInt16 (take 2 (drop (i * 2) (bytesToHex bs))) of None \<Rightarrow> 0 | Some n \<Rightarrow> word_of_int n) = bs ! i"
    if "i < length bs" for i
  proof -
    have "unat (bs ! i) div 16 < 16" using unat_byte_less [of "bs ! i"] by auto
    then have "parseInt16 (byte_hex (bs ! i)) = Some (int (unat (bs ! i)))"
      using parseInt16_byte [of "unat (bs ! i) div 16" "unat (bs ! i) mod 16"] by (simp add: byte_hex_def)
    then show ?thesis using that by (simp add: take_bytesToHex)
  qed
  then show ?thesis
    by (intro nth_equalityI) (auto simp: hexToBytes_def)
qed

text \<open>The other direction, for the texts \<open>bytesToHex\<close> produces.\<close>

definition lower_hex :: "char \<Rightarrow> bool" where
  "lower_hex c \<longleftrightarrow> (\<exists>n < 16. c = hex_digit n)"

lemma lower_hex_digit: "n < 16 \<Longrightarrow> lower_hex (hex_digit n)"
  by (auto simp: lower_hex_def)

lemma lower_hex_bytesToHex: "c \<in> set (bytesToHex bs) \<Longrightarrow> lower_hex c"
proof -
  assume "c \<in> set (bytesToHex bs)"
  then obtain b :: byte where "c \<in> set (byte_hex b)" by (auto simp: bytesToHex_eq)
  moreover have "unat b div 16 < 16" "unat b mod 16 < 16" using unat_byte_less [of b] by auto
  ultimately show ?thesis by (auto simp: byte_hex_def intro: lower_hex_digit)
qed

fun hex_pairs :: "string \<Rightarrow> byte list" where
  "hex_pairs (a # b # s) = (case parseInt16 [a, b] of None \<Rightarrow> 0 | Some n \<Rightarrow> word_of_int n) # hex_pairs s"
| "hex_pairs _ = []"

lemma hexToBytes_pairs: "hexToBytes h = hex_pairs h"
proof (induction h rule: hex_pairs.induct)
  case (1 a b s)
  have "[0..<length (a # b # s) div 2] = 0 # map Suc [0..<length s div 2]"
    by (simp add: upt_conv_Cons map_Suc_upt del: upt_Suc)
  then have "hexToBytes (a # b # s) =
      (case parseInt16 [a, b] of None \<Rightarrow> 0 | Some n \<Rightarrow> word_of_int n) # hexToBytes s"
    by (simp add: hexToBytes_def comp_def del: upt_Suc)
  with "1" show ?case by simp
qed (simp_all add: hexToBytes_def)

lemma byte_hex_pair:
  "a < 16 \<Longrightarrow> b < 16 \<Longrightarrow> byte_hex (word_of_int (int (a * 16 + b))) = [hex_digit a, hex_digit b]"
proof -
  assume ab: "a < 16" "b < 16"
  have "unat (word_of_int (int (a * 16 + b)) :: byte) = a * 16 + b"
  proof -
    have "unat (word_of_nat (a * 16 + b) :: byte) = (a * 16 + b) mod 2 ^ LENGTH(8)"
      by (rule unat_of_nat)
    with ab show ?thesis by simp
  qed
  with ab show ?thesis by (simp add: byte_hex_def)
qed

lemma hex_round_trip_text:
  "even (length h) \<Longrightarrow> (\<forall>c \<in> set h. lower_hex c) \<Longrightarrow> bytesToHex (hexToBytes h) = h"
proof (induction h rule: hex_pairs.induct)
  case (1 a b s)
  then obtain m n where "a = hex_digit m" "b = hex_digit n" "m < 16" "n < 16"
    by (auto simp: lower_hex_def)
  moreover from this have "parseInt16 [a, b] = Some (int (m * 16 + n))"
    using parseInt16_byte by simp
  moreover have "bytesToHex (hexToBytes s) = s" using "1" by simp
  ultimately show ?case
    using byte_hex_pair [of m n] by (simp add: hexToBytes_pairs bytesToHex_eq)
qed (simp_all add: hexToBytes_def bytesToHex_eq)

subsection \<open>The two saved slots\<close>

definition bunker_value :: "('i, 'z) browser_scheme \<Rightarrow> jsval" where
  "bunker_value s = (if storage_readable s then
     (case storage s BUNKER_STORAGE_KEY of None \<Rightarrow> Null
      | Some t \<Rightarrow> if t = [] then Null else (case json_parse t of None \<Rightarrow> Null | Some v \<Rightarrow> v)) else Null)"

lemma wp_JSON_parse [wp_rules]: "wp R G (JSON_parse t) Q s l =
    Q (case json_parse t of None \<Rightarrow> Inl syntax_error | Some v \<Rightarrow> Inr v) s l"
  by (simp add: JSON_parse_def split: option.splits)

lemma run_JSON_parse [run_rules]: "run env (JSON_parse t) s w l =
    (case json_parse t of None \<Rightarrow> Inl syntax_error | Some v \<Rightarrow> Inr v, s, w, l)"
  by (simp add: JSON_parse_def split: option.splits)

text \<open>Reading the saved signer never throws: a missing, unreadable or malformed one is null.\<close>

lemma wp_loadSavedBunker [wp_rules]:
  "wp R G loadSavedBunker Q s l = Q (Inr (bunker_value s)) s l"
  by (simp add: loadSavedBunker_def wp_rules bunker_value_def split: option.splits)

lemma run_loadSavedBunker [run_rules]:
  "run env loadSavedBunker s w l = (Inr (bunker_value s), s, w, l)"
  by (simp add: loadSavedBunker_def run_rules bunker_value_def split: option.splits)

definition has_saved :: "('i, 'z) browser_scheme \<Rightarrow> bool" where
  "has_saved s = truthy (bunker_value s)"

definition local_key :: "('i, 'z) browser_scheme \<Rightarrow> string option" where
  "local_key s = (if storage_readable s then
     (case storage s LOCAL_KEY_STORAGE_KEY of Some (c # cs) \<Rightarrow> Some (c # cs) | _ \<Rightarrow> None) else None)"

lemma wp_hasSaved [wp_rules]: "wp R G hasSaved Q s l = Q (Inr (has_saved s)) s l"
  by (simp add: hasSaved_def wp_rules has_saved_def)

lemma run_hasSaved [run_rules]: "run env hasSaved s w l = (Inr (has_saved s), s, w, l)"
  by (simp add: hasSaved_def run_rules has_saved_def)

lemma wp_hasLocalKey [wp_rules]: "wp R G hasLocalKey Q s l = Q (Inr (local_key s \<noteq> None)) s l"
  by (auto simp: hasLocalKey_def wp_rules local_key_def split: option.splits list.splits)

lemma run_hasLocalKey [run_rules]: "run env hasLocalKey s w l = (Inr (local_key s \<noteq> None), s, w, l)"
  by (auto simp: hasLocalKey_def run_rules local_key_def split: option.splits list.splits)

definition remove_key :: "string \<Rightarrow> ('i, 'z) browser_scheme \<Rightarrow> ('i, 'z) browser_scheme" where
  "remove_key k s = (if storage_readable s then s\<lparr>storage := (storage s)(k := None)\<rparr> else s)"

lemma wp_clear [wp_rules]:
  "wp R G clearSaved Q s l = Q (Inr ()) (remove_key BUNKER_STORAGE_KEY s) l"
  "wp R G clearLocalKey Q s l = Q (Inr ()) (remove_key LOCAL_KEY_STORAGE_KEY s) l"
  "wp R G clearAllSaved Q s l =
     Q (Inr ()) (remove_key LOCAL_KEY_STORAGE_KEY (remove_key BUNKER_STORAGE_KEY s)) l"
  by (simp_all add: clearSaved_def clearLocalKey_def clearAllSaved_def wp_rules remove_key_def)

lemma run_clear [run_rules]:
  "run env clearSaved s w l = (Inr (), remove_key BUNKER_STORAGE_KEY s, w, l)"
  "run env clearLocalKey s w l = (Inr (), remove_key LOCAL_KEY_STORAGE_KEY s, w, l)"
  "run env clearAllSaved s w l =
     (Inr (), remove_key LOCAL_KEY_STORAGE_KEY (remove_key BUNKER_STORAGE_KEY s), w, l)"
  by (simp_all add: clearSaved_def clearLocalKey_def clearAllSaved_def run_rules remove_key_def)

lemma remove_key_simps [simp]:
  "el (remove_key k s) = el s"
  "storage_readable (remove_key k s) = storage_readable s"
  "storage_writable (remove_key k s) = storage_writable s"
  "href (remove_key k s) = href s"
  "has_ConnectUI (remove_key k s) = has_ConnectUI s"
  "has_Passkey (remove_key k s) = has_Passkey s"
  "win_nostr (remove_key k s) = win_nostr s"
  "aborted (remove_key k s) = aborted s"
  "storage_readable s \<Longrightarrow> storage (remove_key k s) = (storage s)(k := None)"
  by (simp_all add: remove_key_def)

text \<open>
  The contract both slots keep: asking does not change the page or throw, and after a
  clear nothing is found, whether or not the storage can be accessed.
\<close>

locale saved_slot =
  fixes has :: "(('i, 'z) browser_scheme, bool) js"
    and clear :: "(('i, 'z) browser_scheme, unit) js"
    and present :: "('i, 'z) browser_scheme \<Rightarrow> bool"
    and cleared :: "('i, 'z) browser_scheme \<Rightarrow> ('i, 'z) browser_scheme"
  assumes has_law: "wp R G has Q s l = Q (Inr (present s)) s l"
    and clear_law: "wp R G clear Q' s l = Q' (Inr ()) (cleared s) l"
    and cleared_absent: "\<not> present (cleared s)"
begin

lemma clear_then_has: "wp R G (js_bind clear (\<lambda>_. has)) Q s l = Q (Inr False) (cleared s) l"
  by (simp add: wp_bind has_law clear_law cleared_absent)

end

lemma bunker_removed: "\<not> has_saved (remove_key BUNKER_STORAGE_KEY s)"
  by (simp add: has_saved_def bunker_value_def remove_key_def)

lemma local_removed: "local_key (remove_key LOCAL_KEY_STORAGE_KEY s) = None"
  by (simp add: local_key_def remove_key_def)

interpretation bunker_slot: saved_slot hasSaved clearSaved has_saved "remove_key BUNKER_STORAGE_KEY"
  by unfold_locales (simp_all add: wp_hasSaved wp_clear bunker_removed)

interpretation local_slot: saved_slot hasLocalKey clearLocalKey "\<lambda>s. local_key s \<noteq> None"
    "remove_key LOCAL_KEY_STORAGE_KEY"
  by unfold_locales (simp_all add: wp_hasLocalKey wp_clear local_removed)

lemma removed_other [simp]:
  "has_saved (remove_key LOCAL_KEY_STORAGE_KEY s) = has_saved s"
  "local_key (remove_key BUNKER_STORAGE_KEY s) = local_key s"
  by (simp_all add: has_saved_def bunker_value_def local_key_def remove_key_def)

subsection \<open>What is saved, and when\<close>

definition bunker_saved :: "jsval \<Rightarrow> jsval \<Rightarrow> ('i, 'z) browser_scheme \<Rightarrow> ('i, 'z) browser_scheme" where
  "bunker_saved sk bp s = (case js_hex sk of None \<Rightarrow> s
     | Some hex \<Rightarrow> if storage_writable s
         then s\<lparr>storage := (storage s)(BUNKER_STORAGE_KEY \<mapsto> json_stringify (saved_signer hex bp))\<rparr>
         else s)"

lemma wp_of_option [wp_rules]: "wp R G (of_option x) Q s l =
    Q (case x of None \<Rightarrow> Inl type_error | Some y \<Rightarrow> Inr y) s l"
  by (simp add: of_option_def split: option.splits)

lemma run_of_option [run_rules]: "run env (of_option x) s w l =
    (case x of None \<Rightarrow> Inl type_error | Some y \<Rightarrow> Inr y, s, w, l)"
  by (simp add: of_option_def split: option.splits)

lemma wp_saveBunker [wp_rules]: "wp R G (saveBunker sk bp) Q s l = Q (Inr ()) (bunker_saved sk bp s) l"
  by (simp add: saveBunker_def js_bytesToHex_def wp_rules bunker_saved_def split: option.splits)

lemma run_saveBunker [run_rules]: "run env (saveBunker sk bp) s w l = (Inr (), bunker_saved sk bp s, w, l)"
  by (simp add: saveBunker_def js_bytesToHex_def run_rules bunker_saved_def split: option.splits)

lemma bunker_saved_simps [simp]:
  "el (bunker_saved sk bp s) = el s"
  "storage_readable (bunker_saved sk bp s) = storage_readable s"
  "storage_writable (bunker_saved sk bp s) = storage_writable s"
  "href (bunker_saved sk bp s) = href s"
  "k \<noteq> BUNKER_STORAGE_KEY \<Longrightarrow> storage (bunker_saved sk bp s) k = storage s k"
  by (simp_all add: bunker_saved_def split: option.splits)

lemma saved_signer_simps [simp]:
  "truthy (saved_signer hex bp)"
  "js_get (saved_signer hex bp) ''clientSecretKeyHex'' = Inr (Str hex)"
  "js_get (saved_signer hex bp) ''bunkerPointer'' = Inr bp"
  by (simp_all add: saved_signer_def)

lemma json_ok_saved_signer: "json_ok bp \<Longrightarrow> json_ok (saved_signer hex bp)"
  by (simp add: saved_signer_def)

lemma bunker_value_saved:
  assumes "json_ok bp" and "storage_readable s" and "storage_writable s"
  shows "bunker_value (bunker_saved (Bytes sk) bp s) = saved_signer (bytesToHex sk) bp"
proof -
  let ?t = "json_stringify (saved_signer (bytesToHex sk) bp)"
  have "?t \<noteq> []" by (simp add: saved_signer_def json_stringify.simps)
  moreover have "json_parse ?t = Some (saved_signer (bytesToHex sk) bp)"
    using assms(1) json_ok_saved_signer by (intro json_round_trip)
  ultimately show ?thesis using assms(2,3) by (simp add: bunker_value_def bunker_saved_def js_hex_def)
qed

lemma local_key_saved:
  "h \<noteq> [] \<Longrightarrow> storage_readable s \<Longrightarrow>
     local_key (s\<lparr>storage := (storage s)(LOCAL_KEY_STORAGE_KEY \<mapsto> h)\<rparr>) = Some h"
  by (cases h) (simp_all add: local_key_def)

lemma wp_saveLocalKey [wp_rules]: "wp R G (saveLocalKey v) Q s l = Q (Inr ())
    (if storage_writable s then s\<lparr>storage := (storage s)(LOCAL_KEY_STORAGE_KEY \<mapsto> js_string v)\<rparr> else s) l"
  by (simp add: saveLocalKey_def wp_rules)

lemma run_saveLocalKey [run_rules]: "run env (saveLocalKey v) s w l = (Inr (),
    (if storage_writable s then s\<lparr>storage := (storage s)(LOCAL_KEY_STORAGE_KEY \<mapsto> js_string v)\<rparr> else s), w, l)"
  by (simp add: saveLocalKey_def run_rules)

definition local_signer :: "byte list \<Rightarrow> jsval" where
  "local_signer sk = Obj [(''signEvent'', Closure ''localSigner.signEvent'' [Bytes sk]),
     (''close'', Closure ''localSigner.close'' [])]"

lemma createLocalSigner_Str: "createLocalSigner (Str h) = Return (local_signer (hexToBytes h))"
  by (simp add: createLocalSigner_def js_hexToBytes_def local_signer_def)

lemma local_signer_simps [simp]: "truthy (local_signer sk)" "local_signer sk \<noteq> Null"
  "js_get (local_signer sk) ''signEvent'' = Inr (Closure ''localSigner.signEvent'' [Bytes sk])"
  "js_get (local_signer sk) ''close'' = Inr (Closure ''localSigner.close'' [])"
  "js_get (local_signer sk) ''destroy'' = Inr Undefined"
  by (simp_all add: local_signer_def)

definition loaded_signer :: "('i, 'z) browser_scheme \<Rightarrow> jsval" where
  "loaded_signer s = (case local_key s of None \<Rightarrow> Null | Some h \<Rightarrow> local_signer (hexToBytes h))"

lemma wp_loadLocalSigner [wp_rules]: "wp R G loadLocalSigner Q s l = Q (Inr (loaded_signer s)) s l"
  by (auto simp: loadLocalSigner_def wp_rules loaded_signer_def local_key_def createLocalSigner_Str
      split: option.splits list.splits)

lemma run_loadLocalSigner [run_rules]: "run env loadLocalSigner s w l = (Inr (loaded_signer s), s, w, l)"
  by (auto simp: loadLocalSigner_def run_rules loaded_signer_def local_key_def createLocalSigner_Str
      split: option.splits list.splits)

subsection \<open>Properties\<close>

text \<open>
  C17. A saved remote signer is restored exactly: after \<open>saveBunker\<close> in a storage that can be
  read and written, \<open>reconnectSaved\<close> builds the client from the same secret key bytes and
  the same bunker pointer that were saved, and then connects it.
\<close>

theorem saved_bunker_restored:
  assumes "json_ok bp" and "storage_readable s" and "storage_writable s"
  shows "run env (js_bind (saveBunker (Bytes sk) bp) (\<lambda>_. reconnectSaved)) s w l =
     run env (js_bind (call ''NostrConnectVendor.BunkerSigner.fromBunker'' [Bytes sk, bp])
        (\<lambda>signer. js_bind (await_method signer ''connect'' []) (\<lambda>_. Return signer)))
       (s\<lparr>storage := (storage s)(BUNKER_STORAGE_KEY \<mapsto>
            json_stringify (saved_signer (bytesToHex sk) bp))\<rparr>) w l"
proof -
  have "bunker_saved (Bytes sk) bp s = s\<lparr>storage := (storage s)(BUNKER_STORAGE_KEY \<mapsto>
            json_stringify (saved_signer (bytesToHex sk) bp))\<rparr>"
    using assms(3) by (simp add: bunker_saved_def js_hex_def)
  then show ?thesis
    using bunker_value_saved [OF assms, of sk]
    by (simp add: run_rules reconnectSaved_def js_hexToBytes_def hex_round_trip)
qed

theorem saved_bunker_restored_witness:
  "json_ok (Obj [(''pubkey'', Str ''ab''), (''relays'', Arr [Str ''wss://r''])]) \<and>
   run script (js_bind (saveBunker (Bytes [1, 255]) (Obj [(''pubkey'', Str ''ab''), (''relays'', Arr [Str ''wss://r''])]))
        (\<lambda>_. reconnectSaved)) (fresh_browser :: unit browser)
      [Inr (Obj [(''connect'', Closure ''connect'' [])]), Inr Undefined] [] =
    (Inr (Obj [(''connect'', Closure ''connect'' [])]),
     fresh_browser\<lparr>storage := [BUNKER_STORAGE_KEY \<mapsto> json_stringify (saved_signer (bytesToHex [1, 255])
        (Obj [(''pubkey'', Str ''ab''), (''relays'', Arr [Str ''wss://r''])]))]\<rparr>, [],
     [(''NostrConnectVendor.BunkerSigner.fromBunker'',
        [Bytes [1, 255], Obj [(''pubkey'', Str ''ab''), (''relays'', Arr [Str ''wss://r''])]],
        Inr (Obj [(''connect'', Closure ''connect'' [])])),
      (''.connect'', [Obj [(''connect'', Closure ''connect'' [])]], Inr Undefined)])"
proof -
  have ok: "json_ok (Obj [(''pubkey'', Str ''ab''), (''relays'', Arr [Str ''wss://r''])])"
    "storage_readable (fresh_browser :: unit browser)" "storage_writable (fresh_browser :: unit browser)"
    by (simp_all add: fresh_browser_def)
  show ?thesis
    using ok(1) by (simp only: saved_bunker_restored [OF ok])
      (simp add: run_rules await_method_def method_name_def fresh_browser_def)
qed

text \<open>
  C18. The remote signer is saved only after it has connected: when \<open>connectViaBunkerUri\<close>
  fails, whatever the library answers, the page and the storage are as before; when it
  returns, exactly the bunker slot may have been written.
\<close>

theorem bunker_saved_only_when_connected:
  assumes "sequential env" and "run env (connectViaBunkerUri uri) s w [] = (res, s', w', l)"
  shows "case res of Inl e \<Rightarrow> s' = s
     | Inr signer \<Rightarrow> (\<exists>n caps sk bp v. js_get signer ''connect'' = Inr (Closure n caps) \<and>
           last l = (method_name n, caps @ [signer], Inr v) \<and>
           (''NostrConnectVendor.generateSecretKey'', [], Inr sk) \<in> set l \<and>
           (''NostrConnectVendor.parseBunkerInput'', [Str uri], Inr bp) \<in> set l \<and>
           s' = bunker_saved sk bp s)"
proof -
  let ?Q = "\<lambda>r s' l. case r of Inl e \<Rightarrow> s' = s
     | Inr signer \<Rightarrow> (\<exists>n caps sk bp v. js_get signer ''connect'' = Inr (Closure n caps) \<and>
           last l = (method_name n, caps @ [signer], Inr v) \<and>
           (''NostrConnectVendor.generateSecretKey'', [], Inr sk) \<in> set l \<and>
           (''NostrConnectVendor.parseBunkerInput'', [Str uri], Inr bp) \<in> set l \<and>
           s' = bunker_saved sk bp s)"
  have "wp undisturbed no_guarantee (connectViaBunkerUri uri) ?Q s []"
    by (auto simp: connectViaBunkerUri_def await_method_def wp_rules undisturbed_def
        split: sum.splits jsval.splits)
  from wp_sequential_run [OF assms(1) this, of w] show ?thesis
    by (simp add: assms(2))
qed

theorem bunker_saved_only_when_connected_witness:
  "fst (snd (run script (connectViaBunkerUri ''bunker://x'') (fresh_browser :: unit browser)
        [Inr (Obj []), Inr (Bytes [7]), Inr (Obj [(''connect'', Closure ''connect'' [])]), Inl Undefined] []))
     = fresh_browser"
proof -
  let ?signer = "Obj [(''connect'', Closure ''connect'' [])]"
  have r: "run script (connectViaBunkerUri ''bunker://x'') (fresh_browser :: unit browser)
        [Inr (Obj []), Inr (Bytes [7]), Inr ?signer, Inl Undefined] [] =
     (Inl Undefined, fresh_browser, [],
      [(''NostrConnectVendor.parseBunkerInput'', [Str ''bunker://x''], Inr (Obj [])),
       (''NostrConnectVendor.generateSecretKey'', [], Inr (Bytes [7])),
       (''NostrConnectVendor.BunkerSigner.fromBunker'', [Bytes [7], Obj []], Inr ?signer),
       (''.connect'', [?signer], Inl Undefined)])"
    by (simp add: connectViaBunkerUri_def await_method_def method_name_def run_rules)
  show ?thesis using bunker_saved_only_when_connected [OF sequential_script r] r by simp
qed

text \<open>
  Generating a key pair writes nothing: whatever the library answers, the page and
  its storage are unchanged, so the secret key is kept only if it is saved explicitly.
\<close>

theorem generated_key_not_saved:
  assumes "sequential env" and "run env generateLocalKeypair s w [] = (res, s', w', l)"
  shows "s' = s"
proof -
  have "wp undisturbed no_guarantee generateLocalKeypair (\<lambda>r s' l. s' = s) s []"
    by (auto simp: generateLocalKeypair_def js_bytesToHex_def wp_rules split: sum.splits option.splits)
  from wp_sequential_run [OF assms(1) this, of w] show ?thesis
    by (simp add: assms(2))
qed

theorem generated_key_not_saved_witness:
  "fst (snd (run script generateLocalKeypair (fresh_browser :: unit browser)
      [Inr (Bytes [7]), Inr (Str ''ab''), Inr (Str ''nsec1''), Inr (Str ''npub1'')] [])) = fresh_browser \<and>
   fst (run script generateLocalKeypair (fresh_browser :: unit browser)
      [Inr (Bytes [7]), Inr (Str ''ab''), Inr (Str ''nsec1''), Inr (Str ''npub1'')] []) =
     Inr (Obj [(''secretKeyHex'', Str (bytesToHex [7])), (''pubkeyHex'', Str ''ab''),
               (''nsec'', Str ''nsec1''), (''npub'', Str ''npub1'')])"
proof -
  have r: "run script generateLocalKeypair (fresh_browser :: unit browser)
      [Inr (Bytes [7]), Inr (Str ''ab''), Inr (Str ''nsec1''), Inr (Str ''npub1'')] [] =
     (Inr (Obj [(''secretKeyHex'', Str (bytesToHex [7])), (''pubkeyHex'', Str ''ab''),
               (''nsec'', Str ''nsec1''), (''npub'', Str ''npub1'')]), fresh_browser, [],
      [(''NostrConnectVendor.generateSecretKey'', [], Inr (Bytes [7])),
       (''NostrConnectVendor.getPublicKey'', [Bytes [7]], Inr (Str ''ab'')),
       (''NostrConnectVendor.nsecEncode'', [Bytes [7]], Inr (Str ''nsec1'')),
       (''NostrConnectVendor.npubEncode'', [Str ''ab''], Inr (Str ''npub1''))])"
    by (simp add: generateLocalKeypair_def js_bytesToHex_def js_hex_def run_rules)
  show ?thesis using generated_key_not_saved [OF sequential_script r] r by simp
qed

text \<open>
  A remembered key signs as itself: after \<open>saveLocalKey\<close> of the hexadecimal key that
  \<open>generateLocalKeypair\<close> shows, the signer that \<open>loadLocalSigner\<close> builds signs an event by
  the library's \<open>finalizeEvent\<close> with exactly the original key bytes, with no relay or
  extension involved.
\<close>

theorem remembered_key_signs:
  assumes "sk \<noteq> []" and "storage_readable s" and "storage_writable s"
  shows "run env (js_bind (saveLocalKey (Str (bytesToHex sk))) (\<lambda>_.
        js_bind loadLocalSigner (\<lambda>signer. signer_signEvent signer event))) s w l =
     run env (call ''NostrConnectVendor.finalizeEvent'' [event, Bytes sk])
       (s\<lparr>storage := (storage s)(LOCAL_KEY_STORAGE_KEY \<mapsto> bytesToHex sk)\<rparr>) w l"
proof -
  have "bytesToHex sk \<noteq> []" using assms(1) by (metis length_0_conv length_bytesToHex mult_eq_0_iff zero_neq_numeral)
  then show ?thesis
    using assms(2,3)
    by (simp add: run_rules loaded_signer_def local_key_saved hex_round_trip signer_signEvent_def
        localSigner_signEvent_def)
qed

theorem remembered_key_signs_witness:
  "fst (run script (js_bind (saveLocalKey (Str (bytesToHex [0, 171]))) (\<lambda>_.
        js_bind loadLocalSigner (\<lambda>signer. signer_signEvent signer (Obj [])))) (fresh_browser :: unit browser)
        [Inr (Obj [(''sig'', Str ''00'')])] []) = Inr (Obj [(''sig'', Str ''00'')])"
proof -
  have h: "[0, 171] \<noteq> ([] :: byte list)" "storage_readable (fresh_browser :: unit browser)"
    "storage_writable (fresh_browser :: unit browser)"
    by (simp_all add: fresh_browser_def)
  show ?thesis by (simp only: remembered_key_signs [OF h]) (simp add: run_rules)
qed

text \<open>
  Clearing everything leaves neither signer behind: after \<open>clearAllSaved\<close> both
  \<open>hasSaved\<close> and \<open>hasLocalKey\<close> are false, even where the storage cannot be accessed, and
  nothing else of the page or the storage has changed.
\<close>

theorem all_saved_cleared:
  "run env (js_bind clearAllSaved (\<lambda>_. js_bind hasSaved (\<lambda>a. js_bind hasLocalKey (\<lambda>b. Return (a, b))))) s w l =
     (Inr (False, False),
      (if storage_readable s
       then s\<lparr>storage := (storage s)(BUNKER_STORAGE_KEY := None, LOCAL_KEY_STORAGE_KEY := None)\<rparr>
       else s), w, l)"
  using bunker_slot.cleared_absent [of s] local_slot.cleared_absent [of "remove_key BUNKER_STORAGE_KEY s"]
  by (simp add: run_rules) (simp add: remove_key_def)

end
