(* ===== verification/Page_Script.thy ===== *)
theory Page_Script
  imports Connect_UI
begin

text \<open>
  What \<open>nostr-login-page.js\<close> and \<open>nostr-account-page.js\<close> have in common: each script has its
  own copy of these functions, the same up to the options that the account page adds to a
  request (the line ranges of the manifest are those of the login page).
\<close>

text \<open>The UTF-8 text of the ellipsis character.\<close>

definition ellipsis :: string where
  "ellipsis = [chr 0xE2, chr 0x80, chr 0xA6]"

subsection \<open>Requests\<close>

definition fetchJSON :: "string \<Rightarrow> jsval \<Rightarrow> ('s, jsval) js" where
  "fetchJSON url options =
     js_bind (js_fetch url options) (\<lambda>response.
     js_bind (try_catch (response_json response) (\<lambda>e. Return Null)) (\<lambda>body.
     js_bind (get_prop response ''ok'') (\<lambda>ok.
     js_bind (get_prop response ''status'') (\<lambda>status.
     Return (Obj [(''ok'', ok), (''status'', status), (''body'', body)])))))"

text \<open>\<open>Math.floor(Date.now() / 1000)\<close>; a quotient that is not a number would be printed as null.\<close>

definition unix_seconds :: "jsval \<Rightarrow> jsval" where
  "unix_seconds now = (case now of Num ms \<Rightarrow> Num (ms div 1000) | _ \<Rightarrow> Null)"

definition unsigned_event :: "jsval \<Rightarrow> ('s, jsval) js" where
  "unsigned_event challenge =
     js_bind (get_prop challenge ''kind'') (\<lambda>kind.
     js_bind (call ''Date.now'' []) (\<lambda>now.
     js_bind (get_prop challenge ''nonce'') (\<lambda>nonce.
     js_bind (get_prop challenge ''domain'') (\<lambda>domain.
     js_bind (get_prop challenge ''action'') (\<lambda>action.
     Return (Obj
       [(''kind'', kind),
        (''created_at'', unix_seconds now),
        (''tags'', Arr [Arr [Str ''challenge'', nonce], Arr [Str ''domain'', domain],
                        Arr [Str ''action'', action]]),
        (''content'', Str [])]))))))"

definition post_json :: "jsval \<Rightarrow> jsval" where
  "post_json body = Obj
     [(''method'', Str ''POST''),
      (''headers'', Obj [(''Content-Type'', Str ''application/json'')]),
      (''body'', Str (json_stringify body))]"

text \<open>\<open>(result.body && result.body.error) || fallback\<close>\<close>

definition error_text :: "jsval \<Rightarrow> string \<Rightarrow> ('s, jsval) js" where
  "error_text result fallback =
     js_bind (get_prop result ''body'') (\<lambda>body.
     if truthy body then js_bind (get_prop body ''error'') (\<lambda>err. Return (js_or err (Str fallback)))
     else Return (js_or body (Str fallback)))"

subsection \<open>Signers\<close>

definition hasNip07 :: "('i, 'z) browser_scheme \<Rightarrow> bool" where
  "hasNip07 s = (truthy (win_nostr s) \<and>
     (case js_get (win_nostr s) ''signEvent'' of Inl e \<Rightarrow> False | Inr f \<Rightarrow> is_function f))"

definition hasStoredPasskey :: "(('i, 'z) browser_scheme, bool) js" where
  "hasStoredPasskey = try_catch
     (js_bind (gets has_Passkey) (\<lambda>b.
        if b then js_bind (call ''NostrPasskey.hasStoredPasskeyIdentity'' []) (\<lambda>v. Return (truthy v))
        else Return False))
     (\<lambda>e. Return False)"

text \<open>\<open>window.nostr.signEvent(event)\<close>, read when the signature is asked for.\<close>

definition nip07_signEvent :: "jsval \<Rightarrow> (('i, 'z) browser_scheme, jsval) js" where
  "nip07_signEvent event = js_bind (gets win_nostr) (\<lambda>nostr. signer_signEvent nostr event)"

definition disposeSigner :: "jsval \<Rightarrow> ('s, unit) js" where
  "disposeSigner signer =
     (if \<not> truthy signer then Return ()
      else block [call_if_function signer ''close'', call_if_function signer ''destroy''])"

text \<open>\<open>window.NostrConnectUI.f(...)\<close> and \<open>window.NostrPasskey.f(...)\<close>: a \<open>TypeError\<close> where the
  script that defines the global object was not loaded.\<close>

definition with_ConnectUI :: "(('i, 'z) browser_scheme, 'a) js \<Rightarrow> (('i, 'z) browser_scheme, 'a) js" where
  "with_ConnectUI m = js_bind (gets has_ConnectUI) (\<lambda>b. if b then m else Throw type_error)"

definition with_Passkey :: "(('i, 'z) browser_scheme, 'a) js \<Rightarrow> (('i, 'z) browser_scheme, 'a) js" where
  "with_Passkey m = js_bind (gets has_Passkey) (\<lambda>b. if b then m else Throw type_error)"

text \<open>\<open>e.message || fallback\<close>\<close>

definition message_or :: "jsval \<Rightarrow> string \<Rightarrow> ('s, jsval) js" where
  "message_or e fallback = js_bind (get_prop e ''message'') (\<lambda>m. Return (js_or m (Str fallback)))"


lemma saved_upd_el [simp]:
  "bunker_value (upd_el i f s) = bunker_value s" "has_saved (upd_el i f s) = has_saved s"
  "local_key (upd_el i f s) = local_key s"
  "bunker_value (s\<lparr>el := g\<rparr>) = bunker_value s" "has_saved (s\<lparr>el := g\<rparr>) = has_saved s"
  "local_key (s\<lparr>el := g\<rparr>) = local_key s"
  by (simp_all add: bunker_value_def has_saved_def local_key_def)

subsection \<open>What a request tells\<close>

text \<open>\<open>v\<close> is what \<open>fetchJSON\<close> made of an answer to the request that is among the events.\<close>

definition fetched :: "string \<Rightarrow> jsval \<Rightarrow> jsval \<Rightarrow> event list \<Rightarrow> bool" where
  "fetched url options v l \<longleftrightarrow> (\<exists>response ok. (''fetch'', [Str url, options], Inr response) \<in> set l \<and>
     js_get response ''ok'' = Inr ok \<and> js_get v ''ok'' = Inr ok)"

text \<open>The server accepted a request to \<open>url\<close>.\<close>

definition accepted_by :: "string \<Rightarrow> event list \<Rightarrow> bool" where
  "accepted_by url l \<longleftrightarrow> (\<exists>options response ok. (''fetch'', [Str url, options], Inr response) \<in> set l \<and>
     js_get response ''ok'' = Inr ok \<and> truthy ok)"

lemma accepted_by_mono: "accepted_by url l \<Longrightarrow> set l \<subseteq> set l' \<Longrightarrow> accepted_by url l'"
  unfolding accepted_by_def by blast

lemma fetched_accepted:
  "fetched url options v l \<Longrightarrow> js_get v ''ok'' = Inr ok \<Longrightarrow> truthy ok \<Longrightarrow> accepted_by url l"
  by (auto simp: fetched_def accepted_by_def)

subsection \<open>What the shared code keeps\<close>

text \<open>
  The interface between the shared code and an invariant of a page: it allows every call
  but \<open>fetch\<close>, which depends on the request, and does not depend on the elements, the two
  saved slots and the abort controllers.
\<close>

locale script_inv = event_inv I allowed
  for I :: "('i, 'z) browser_scheme \<Rightarrow> event list \<Rightarrow> bool"
    and allowed :: "string \<Rightarrow> jsval list \<Rightarrow> bool" +
  assumes host_allowed: "n \<noteq> ''fetch'' \<Longrightarrow> allowed n as"
    and el_write: "I s l \<Longrightarrow> I (s\<lparr>el := f\<rparr>) l"
    and slot_write: "k \<in> {BUNKER_STORAGE_KEY, LOCAL_KEY_STORAGE_KEY} \<Longrightarrow> I s l \<Longrightarrow>
           I (s\<lparr>storage := (storage s)(k := v)\<rparr>) l"
    and controller_write: "I s l \<Longrightarrow> I (s\<lparr>next_controller := c\<rparr>) l"
    and abort_write: "I s l \<Longrightarrow> I (s\<lparr>aborted := cs\<rparr>) l"
begin

lemma wp_fetchJSON_inv:
  assumes "I s l" and "allowed ''fetch'' [Str url, options]"
  shows "wp (keeps I) I (fetchJSON url options)
     (\<lambda>r s l. I s l \<and> (case r of Inl e \<Rightarrow> True | Inr v \<Rightarrow> fetched url options v l)) s l"
  using assms host_allowed unfolding fetchJSON_def js_fetch_def response_json_def fetched_def
  by (auto simp: wp_rules keeps_def grows_snoc split: sum.splits)

lemma safe_fetchJSON: "allowed ''fetch'' [Str url, options] \<Longrightarrow> safe I (fetchJSON url options)"
  unfolding safe_def by (blast intro: wp_mono [OF wp_fetchJSON_inv])

text \<open>What follows an accepted request may rely on it.\<close>

lemma safe_fetch_then:
  assumes req: "allowed ''fetch'' [Str url, options]"
    and refused: "\<And>v. safe I (refused v)"
    and acc: "\<And>v s l. I s l \<Longrightarrow> accepted_by url l \<Longrightarrow> wp (keeps I) I (acc v) (\<lambda>_. I) s l"
  shows "safe I (js_bind (fetchJSON url options) (\<lambda>v. js_bind (get_prop v ''ok'') (\<lambda>ok.
     if truthy ok then acc v else refused v)))"
  unfolding safe_def wp_bind
proof (intro allI impI wp_mono [OF wp_fetchJSON_inv [OF _ req]], assumption)
  fix r s l assume a: "I s l \<and> (case r of Inl e \<Rightarrow> True | Inr v \<Rightarrow> fetched url options v l)"
  show "case r of Inl e \<Rightarrow> I s l | Inr v \<Rightarrow> wp (keeps I) I (get_prop v ''ok'')
      (\<lambda>r s l. case r of Inl e \<Rightarrow> I s l
        | Inr ok \<Rightarrow> wp (keeps I) I (if truthy ok then acc v else refused v) (\<lambda>_. I) s l) s l"
  proof (cases r)
    case (Inr v)
    then have "js_get v ''ok'' = Inr ok \<Longrightarrow> truthy ok \<Longrightarrow> wp (keeps I) I (acc v) (\<lambda>_. I) s l" for ok
      using a by (auto intro: acc fetched_accepted)
    then show ?thesis using a Inr refused [of v]
      by (auto simp: wp_get_prop safe_def split: sum.split)
  qed (use a in simp)
qed

lemmas host_rules = safe_rules host_allowed

lemma safe_dom:
  "safe I (set_text i t)" "safe I (set_class i t)" "safe I (set_value i t)" "safe I (set_src i t)"
  "safe I (set_hidden i b)" "safe I (set_disabled i b)" "safe I (set_checked i b)"
  by (auto simp: dom_defs upd_el_def intro!: safe_modify el_write)

lemma safe_controllers: "safe I new_AbortController" "safe I (abort c)"
  by (auto simp: new_AbortController_def abort_def intro!: safe_rules safe_modify controller_write abort_write)

lemma safe_of_option: "safe I (of_option x)"
  by (auto simp: of_option_def intro!: safe_rules split: option.split)

lemma safe_await_method: "safe I (await_method v m args)"
  by (auto simp: await_method_def intro!: host_rules split: jsval.split)

lemma safe_globals:
  "safe I m \<Longrightarrow> safe I (with_ConnectUI m)" "safe I m \<Longrightarrow> safe I (with_Passkey m)"
  by (auto simp: with_ConnectUI_def with_Passkey_def intro!: safe_rules)

lemma safe_hexToBytes: "safe I (js_hexToBytes v)"
  by (auto simp: js_hexToBytes_def intro!: safe_rules split: jsval.split)

lemma safe_bytesToHex: "safe I (js_bytesToHex v)"
  by (simp add: js_bytesToHex_def safe_of_option)

lemma safe_slots:
  "safe I loadSavedBunker" "safe I hasSaved" "safe I hasLocalKey" "safe I loadLocalSigner"
  by (simp_all add: safe_def wp_rules)

lemma remove_key_write:
  "k \<in> {BUNKER_STORAGE_KEY, LOCAL_KEY_STORAGE_KEY} \<Longrightarrow> I s l \<Longrightarrow> I (remove_key k s) l"
  by (simp add: remove_key_def slot_write)

lemma safe_clear: "safe I clearSaved" "safe I clearLocalKey" "safe I clearAllSaved"
  by (simp_all add: safe_def wp_rules remove_key_write)

lemma safe_save: "safe I (saveBunker sk bp)" "safe I (saveLocalKey v)"
  by (auto simp: safe_def wp_rules bunker_saved_def slot_write split: option.split)

lemmas safe_connect_rules = host_rules safe_dom safe_of_option safe_await_method safe_globals safe_hexToBytes
  safe_bytesToHex safe_slots safe_clear safe_save safe_controllers

lemma safe_connect:
  "safe I reconnectSaved" "safe I (connectViaBunkerUri uri)" "safe I getSavedInfo"
  "safe I generateLocalKeypair" "safe I (createLocalSigner v)"
  "(\<And>u d. safe I (g u d)) \<Longrightarrow> safe I (connectViaQr g signal)"
  by (auto simp: reconnectSaved_def connectViaBunkerUri_def connectViaQr_def getSavedInfo_def
      generateLocalKeypair_def createLocalSigner_def intro!: safe_connect_rules)

lemma safe_signer_signEvent: "safe I (signer_signEvent signer event)"
  unfolding signer_signEvent_def localSigner_signEvent_def
  by (auto intro!: host_rules split: jsval.split)

lemma safe_nip07_signEvent: "safe I (nip07_signEvent event)"
  unfolding nip07_signEvent_def by (auto intro!: safe_rules safe_signer_signEvent)

lemma safe_call_if_function: "safe I (call_if_function signer m)"
  unfolding call_if_function_def by (auto intro!: host_rules split: jsval.split)

lemma safe_disposeSigner: "safe I (disposeSigner signer)"
  unfolding disposeSigner_def by (auto intro!: safe_rules safe_call_if_function)

lemma safe_hasStoredPasskey: "safe I hasStoredPasskey"
  by (auto simp: hasStoredPasskey_def intro!: host_rules)

lemma safe_unsigned_event: "safe I (unsigned_event challenge)"
  unfolding unsigned_event_def by (auto intro!: host_rules)

lemma safe_texts: "safe I (error_text result fallback)" "safe I (message_or e fallback)"
  by (auto simp: error_text_def message_or_def intro!: safe_rules)

lemmas safe_script_rules = safe_connect_rules safe_connect safe_signer_signEvent safe_nip07_signEvent
  safe_disposeSigner safe_hasStoredPasskey safe_unsigned_event safe_texts

end

subsection \<open>Requests and events in one step\<close>

definition js_field :: "jsval \<Rightarrow> string \<Rightarrow> jsval" where
  "js_field v k = (case js_get v k of Inl e \<Rightarrow> Undefined | Inr x \<Rightarrow> x)"

lemma js_get_field: "js_get v k = (if nullish v then Inl type_error else Inr (js_field v k))"
  by (cases v) (simp_all add: js_field_def)

lemma js_field_Obj [simp]: "js_field (Obj ps) k = js_prop ps k"
  by (simp add: js_field_def)

definition fetch_result :: "jsval \<Rightarrow> jsval + jsval \<Rightarrow> jsval + jsval" where
  "fetch_result response r = (if nullish response then Inl type_error
     else Inr (Obj [(''ok'', js_field response ''ok''), (''status'', js_field response ''status''),
                    (''body'', case r of Inl e \<Rightarrow> Null | Inr b \<Rightarrow> b)]))"

lemma wp_fetchJSON: "wp R G (fetchJSON url options) Q s l \<longleftrightarrow>
    G s l \<and> (\<forall>r s1 l1. R s l s1 l1 \<longrightarrow> (case r of
        Inl e \<Rightarrow> Q (Inl e) s1 (l1 @ [(''fetch'', [Str url, options], Inl e)])
      | Inr response \<Rightarrow> G s1 (l1 @ [(''fetch'', [Str url, options], Inr response)]) \<and>
          (\<forall>r2 s2 l2. R s1 (l1 @ [(''fetch'', [Str url, options], Inr response)]) s2 l2 \<longrightarrow>
             Q (fetch_result response r2) s2 (l2 @ [(''response.json'', [response], r2)]))))"
proof -
  have tail: "wp R G (js_bind (try_catch (response_json response) (\<lambda>e. Return Null)) (\<lambda>body.
     js_bind (get_prop response ''ok'') (\<lambda>ok. js_bind (get_prop response ''status'') (\<lambda>status.
     Return (Obj [(''ok'', ok), (''status'', status), (''body'', body)]))))) Q s l \<longleftrightarrow>
     G s l \<and> (\<forall>r2 s2 l2. R s l s2 l2 \<longrightarrow>
             Q (fetch_result response r2) s2 (l2 @ [(''response.json'', [response], r2)]))" for response s l
    by (auto simp: response_json_def fetch_result_def wp_rules js_get_field split: sum.splits)
      (metis sum.exhaust)
  show ?thesis
    unfolding fetchJSON_def js_fetch_def
    by (subst wp_bind) (simp add: wp_await tail cong: sum.case_cong)
qed

lemma run_fetchJSON [run_rules]: "run env (fetchJSON url options) s w l =
    (case env ''fetch'' [Str url, options] s w of (r, s1, w1) \<Rightarrow> (case r of
        Inl e \<Rightarrow> (Inl e, s1, w1, l @ [(''fetch'', [Str url, options], Inl e)])
      | Inr response \<Rightarrow> (case env ''response.json'' [response] s1 w1 of (r2, s2, w2) \<Rightarrow>
          (fetch_result response r2, s2, w2, l @ [(''fetch'', [Str url, options], Inr response),
             (''response.json'', [response], r2)]))))"
proof -
  have tail: "run env (js_bind (try_catch (response_json response) (\<lambda>e. Return Null)) (\<lambda>body.
     js_bind (get_prop response ''ok'') (\<lambda>ok. js_bind (get_prop response ''status'') (\<lambda>status.
     Return (Obj [(''ok'', ok), (''status'', status), (''body'', body)]))))) s w l =
     (case env ''response.json'' [response] s w of (r2, s2, w2) \<Rightarrow>
          (fetch_result response r2, s2, w2, l @ [(''response.json'', [response], r2)]))" for response s w l
    by (auto simp: response_json_def fetch_result_def run_rules js_get_field split: sum.splits prod.splits)
  show ?thesis
    unfolding fetchJSON_def js_fetch_def
    by (subst run_bind) (simp add: run_await tail split: prod.split sum.split)
qed

text \<open>The event that the scripts ask to sign.\<close>

definition event_of :: "jsval \<Rightarrow> jsval \<Rightarrow> jsval" where
  "event_of challenge now = Obj
     [(''kind'', js_field challenge ''kind''), (''created_at'', unix_seconds now),
      (''tags'', Arr [Arr [Str ''challenge'', js_field challenge ''nonce''],
                      Arr [Str ''domain'', js_field challenge ''domain''],
                      Arr [Str ''action'', js_field challenge ''action'']]),
      (''content'', Str [])]"

lemma wp_unsigned_event: "wp R G (unsigned_event challenge) Q s l \<longleftrightarrow>
    (if nullish challenge then Q (Inl type_error) s l
     else (\<forall>r. Q (case r of Inl e \<Rightarrow> Inl e | Inr now \<Rightarrow> Inr (event_of challenge now)) s
            (l @ [(''Date.now'', [], r)])))"
  by (auto simp: unsigned_event_def event_of_def wp_rules js_get_field split: sum.splits)

lemma run_unsigned_event [run_rules]: "run env (unsigned_event challenge) s w l =
    (if nullish challenge then (Inl type_error, s, w, l)
     else (case env ''Date.now'' [] s w of (r, _, w1) \<Rightarrow>
       (case r of Inl e \<Rightarrow> Inl e | Inr now \<Rightarrow> Inr (event_of challenge now), s, w1,
            l @ [(''Date.now'', [], r)])))"
  by (auto simp: unsigned_event_def event_of_def run_rules js_get_field split: sum.splits prod.splits)

lemma wp_error_text: "wp R G (error_text (Obj [(''ok'', a), (''status'', b), (''body'', c)]) t) Q s l =
    Q (Inr (if truthy c then js_or (js_field c ''error'') (Str t) else Str t)) s l"
  by (cases c) (auto simp: error_text_def wp_rules js_get_field)

lemma run_error_text [run_rules]: "run env (error_text (Obj [(''ok'', a), (''status'', b), (''body'', c)]) t) s w l =
    (Inr (if truthy c then js_or (js_field c ''error'') (Str t) else Str t), s, w, l)"
  by (cases c) (auto simp: error_text_def run_rules js_get_field)

lemma truthy_not_nullish: "truthy (js_field v k) \<Longrightarrow> \<not> nullish v"
  by (auto simp: nullish_def js_field_def)

lemma accepted_byI:
  "(''fetch'', [Str url, options], Inr response) \<in> set l \<Longrightarrow> truthy (js_field response ''ok'') \<Longrightarrow>
     accepted_by url l"
  using truthy_not_nullish unfolding accepted_by_def by (force simp: js_get_field)

end
