(* ===== verification/Account_Page.thy ===== *)
theory Account_Page
  imports Page_Script
begin

text \<open>
  \<open>src/src/yunohost_nostr_auth/web/static/nostr-account-page.js\<close>: the page on which a signed-in
  user links, renames, revokes and unlinks Nostr identities, generates keys and uses
  passkeys.  The state is the browser, the script's own variables, and the identity cards it
  has rendered.  \<open>A_linkingOption\<close> stands for all elements of the class \<open>linking-option\<close>,
  which the script only ever changes together.
\<close>

datatype account_el =
    A_app | A_subtitle | A_signedOut | A_signedIn | A_identityList | A_unlinkedNote
  | A_linkModeLabel | A_linkMode | A_identityLabel | A_linkBtn | A_unlinkBtn | A_goLoginBtn
  | A_messageEl | A_bunkerInput | A_bunkerConnectBtn | A_qrShowBtn | A_qrBox | A_qrImage
  | A_qrUriText | A_qrCancelBtn | A_generateBtn | A_passkeyBtn | A_passkeyForgetBtn
  | A_passkeyRecoveryBtn | A_passkeyRecoveryCopyBtn | A_passkeyRecoveryValue
  | A_passkeyRecoveryHint | A_passkeyRecoveryInput | A_passkeyRestoreBtn | A_passkeyRestoreHint
  | A_passkeyHint | A_generatedKeyBox | A_generatedNpub | A_generatedNsec | A_revealNsecBtn
  | A_copyNsecBtn | A_rememberKeyCheckbox | A_useGeneratedKeyBtn | A_savedSignersPanel
  | A_savedBunkerRow | A_savedBunkerRelay | A_savedLocalKeyRow | A_forgetBunkerBtn
  | A_forgetLocalKeyBtn | A_linkingOption

text \<open>An identity card: its two texts and its buttons (or the note that it is revoked).\<close>

datatype card_action = Rename_button jsval | Revoke_button jsval | Revoked_note

record card =
  card_name :: string
  card_meta :: string
  card_actions :: "card_action list"

record account_page = "account_el browser" +
  allowIdentityLinking :: bool
  generatedKeypair :: jsval
  nsecRevealed :: bool
  currentUsername :: jsval
  passkeyRecoveryNsec :: jsval
  currentIdentities :: jsval
  linkAbortController :: "nat option"
  identityListItems :: "card list"

type_synonym 'a account = "(account_page, 'a) js"

text \<open>The UTF-8 texts of the bullet and of the middle dot.\<close>

definition NSEC_MASK :: string where
  "NSEC_MASK = repeat_str 63 [chr 0xE2, chr 0x80, chr 0xA2]"

definition middle_dot :: string where
  "middle_dot = '' '' @ [chr 0xC2, chr 0xB7] @ '' ''"

subsection \<open>Messages, requests, buttons\<close>

definition account_showMessage :: "jsval \<Rightarrow> string \<Rightarrow> unit account" where
  "account_showMessage text kind = block
     [set_text A_messageEl (js_text text),
      set_class A_messageEl (''message '' @ kind)]"

definition account_clearMessage :: "unit account" where
  "account_clearMessage = block [set_text A_messageEl [], set_class A_messageEl ''message'']"

text \<open>The host's local text of \<open>new Date(unixSeconds * 1000)\<close>.\<close>

definition account_formatTimestamp :: "jsval \<Rightarrow> jsval account" where
  "account_formatTimestamp unixSeconds =
     (if \<not> truthy unixSeconds then Return (Str ''never'')
      else call ''new Date(v * 1000).toLocaleString'' [unixSeconds])"

text \<open>\<open>Object.assign({ credentials: "same-origin" }, options || {})\<close>\<close>

definition with_credentials :: "jsval \<Rightarrow> jsval" where
  "with_credentials options = Obj (foldl obj_set [(''credentials'', Str ''same-origin'')]
     (case options of Obj ps \<Rightarrow> ps | _ \<Rightarrow> []))"

definition account_fetchJSON :: "string \<Rightarrow> jsval \<Rightarrow> jsval account" where
  "account_fetchJSON url options = fetchJSON url (with_credentials options)"

definition setLinkButtonsDisabled :: "bool \<Rightarrow> unit account" where
  "setLinkButtonsDisabled disabled = block
     [set_disabled A_linkBtn disabled,
      set_disabled A_bunkerConnectBtn disabled,
      set_disabled A_bunkerInput disabled,
      set_disabled A_qrShowBtn disabled,
      set_disabled A_generateBtn disabled,
      set_disabled A_useGeneratedKeyBtn disabled,
      set_disabled A_passkeyBtn disabled,
      set_disabled A_passkeyForgetBtn disabled,
      set_disabled A_passkeyRecoveryBtn disabled,
      set_disabled A_passkeyRecoveryCopyBtn disabled,
      set_disabled A_passkeyRecoveryInput disabled,
      set_disabled A_passkeyRestoreBtn disabled,
      set_disabled A_linkMode disabled,
      set_disabled A_identityLabel disabled]"

subsection \<open>Saved signers\<close>

text \<open>\<open>v.join(sep)\<close>: only an array has it.\<close>

definition js_join :: "jsval \<Rightarrow> string \<Rightarrow> ('s, string) js" where
  "js_join v sep = (case v of Arr vs \<Rightarrow> Return (join sep (map js_text vs)) | _ \<Rightarrow> Throw type_error)"

definition renderSavedSigners :: "unit account" where
  "renderSavedSigners =
     js_bind (with_ConnectUI getSavedInfo) (\<lambda>bunkerInfo.
     js_bind (with_ConnectUI hasLocalKey) (\<lambda>hasLocal.
     block
       [set_hidden A_savedSignersPanel (\<not> truthy bunkerInfo \<and> \<not> hasLocal),
        set_hidden A_savedBunkerRow (\<not> truthy bunkerInfo),
        (if truthy bunkerInfo then
           js_bind (get_prop bunkerInfo ''relays'') (\<lambda>relays.
           js_bind (js_join relays '', '') (\<lambda>t. set_text A_savedBunkerRelay t))
         else Return ()),
        set_hidden A_savedLocalKeyRow (\<not> hasLocal)]))"

subsection \<open>Identities\<close>

text \<open>The elements that \<open>some\<close>, \<open>filter\<close> and \<open>forEach\<close> go through; only an array has these methods.\<close>

definition js_elements :: "jsval \<Rightarrow> ('s, jsval list) js" where
  "js_elements v = (case v of Arr vs \<Rightarrow> Return vs | _ \<Rightarrow> Throw type_error)"

fun some_enabled :: "jsval list \<Rightarrow> ('s, bool) js" where
  "some_enabled [] = Return False"
| "some_enabled (i # is) = js_bind (get_prop i ''enabled'') (\<lambda>b.
     if truthy b then Return True else some_enabled is)"

definition hasActiveIdentity :: "bool account" where
  "hasActiveIdentity = js_bind (gets currentIdentities) (\<lambda>v. js_bind (js_elements v) some_enabled)"

fun count_enabled :: "jsval list \<Rightarrow> ('s, nat) js" where
  "count_enabled [] = Return 0"
| "count_enabled (i # is) = js_bind (get_prop i ''enabled'') (\<lambda>b.
     js_bind (count_enabled is) (\<lambda>n. Return (if truthy b then Suc n else n)))"

text \<open>The lookup in the object literal; of the signer types, none is a name that every object
  inherits.\<close>

definition signerLabel :: "jsval \<Rightarrow> jsval" where
  "signerLabel signerType = js_or (js_or (js_prop
       [(''nip07'', Str ''Browser extension''),
        (''nip46'', Str ''Remote signer''),
        (''passkey'', Str ''Passkey''),
        (''unknown'', Str ''Local signer'')] (js_string signerType))
     signerType) (Str ''Unknown signer'')"

definition identity_card :: "jsval \<Rightarrow> card account" where
  "identity_card identity =
     js_bind (get_prop identity ''label'') (\<lambda>label.
     js_bind (get_prop identity ''signer_type'') (\<lambda>signer_type.
     js_bind (get_prop identity ''npub'') (\<lambda>npub.
     js_bind (get_prop identity ''last_used'') (\<lambda>last_used.
     js_bind (account_formatTimestamp last_used) (\<lambda>used.
     js_bind (get_prop identity ''enabled'') (\<lambda>enabled.
     js_bind (get_prop identity ''id'') (\<lambda>id.
     Return \<lparr>card_name = js_text (js_or label (Str ''Unnamed identity'')),
       card_meta = js_string (signerLabel signer_type) @ middle_dot @ js_string npub
         @ middle_dot @ ''Last used: '' @ js_string used,
       card_actions = (if truthy enabled then [Rename_button identity, Revoke_button id]
         else [Revoked_note])\<rparr>)))))))"

fun render_cards :: "jsval list \<Rightarrow> unit account" where
  "render_cards [] = Return ()"
| "render_cards (i # is) = js_bind (identity_card i) (\<lambda>c.
     js_bind (modify (\<lambda>s. s\<lparr>identityListItems := identityListItems s @ [c]\<rparr>)) (\<lambda>_. render_cards is))"

text \<open>\<open>linkMode.value === "add" ? "Add identity" : "Replace identity"\<close>\<close>

definition set_link_text :: "unit account" where
  "set_link_text = js_bind (gets (\<lambda>s. e_value (el s A_linkMode))) (\<lambda>v.
     set_text A_linkBtn (if v = ''add'' then ''Add identity'' else ''Replace identity''))"

definition render_linked :: "nat \<Rightarrow> unit account" where
  "render_linked activeCount = block
     [set_text A_subtitle (if activeCount = 1 then ''Your account has one linked Nostr identity.''
        else ''Your account has '' @ to_dec activeCount @ '' linked Nostr identities.''),
      set_hidden A_identityList False,
      set_hidden A_unlinkedNote True,
      set_hidden A_linkModeLabel False,
      set_link_text,
      set_hidden A_unlinkBtn False]"

definition render_unlinked :: "unit account" where
  "render_unlinked = block
     [set_text A_subtitle ''Link a Nostr identity to sign in without your password.'',
      set_hidden A_identityList True,
      set_hidden A_unlinkedNote False,
      set_hidden A_linkModeLabel True,
      set_value A_linkMode ''replace'',
      set_text A_linkBtn ''Link identity'',
      set_hidden A_unlinkBtn True]"

definition render_no_linking :: "unit account" where
  "render_no_linking = block
     [js_bind (gets (\<lambda>s. e_text (el s A_subtitle))) (\<lambda>t. set_text A_subtitle
        (t @ '' Self-service identity linking is currently disabled by the administrator.'')),
      set_hidden A_linkModeLabel True,
      set_hidden A_identityLabel True,
      set_hidden A_linkBtn True,
      set_hidden A_linkingOption True]"

definition renderIdentities :: "jsval \<Rightarrow> unit account" where
  "renderIdentities payload =
     js_bind (set_hidden A_signedOut True) (\<lambda>_.
     js_bind (set_hidden A_signedIn False) (\<lambda>_.
     js_bind (get_prop payload ''identities'') (\<lambda>identities.
     js_bind (modify (\<lambda>s. s\<lparr>currentIdentities := js_or identities (Arr [])\<rparr>)) (\<lambda>_.
     js_bind (get_prop payload ''username'') (\<lambda>username.
     js_bind (modify (\<lambda>s. s\<lparr>currentUsername := js_or username (Str [])\<rparr>)) (\<lambda>_.
     js_bind (js_elements (js_or identities (Arr []))) (\<lambda>items.
     js_bind (count_enabled items) (\<lambda>activeCount.
     js_bind (if activeCount > 0 then render_linked activeCount else render_unlinked) (\<lambda>_.
     js_bind (gets allowIdentityLinking) (\<lambda>allow.
     js_bind (if \<not> allow then render_no_linking else Return ()) (\<lambda>_.
     js_bind (modify (\<lambda>s. s\<lparr>identityListItems := []\<rparr>)) (\<lambda>_.
     render_cards items))))))))))))"

definition loadIdentity :: "unit account" where
  "loadIdentity =
     js_bind (account_fetchJSON ''/policy'' Undefined) (\<lambda>policyResult.
     js_bind (get_prop policyResult ''ok'') (\<lambda>policy_ok.
     js_bind (get_prop policyResult ''body'') (\<lambda>policy.
     js_bind (if truthy policy_ok \<and> truthy policy
        then js_bind (get_prop policy ''allow_identity_linking'') (\<lambda>allow.
             modify (\<lambda>s. s\<lparr>allowIdentityLinking := (allow \<noteq> Bool False)\<rparr>))
        else Return ()) (\<lambda>_.
     js_bind (account_fetchJSON ''/identities'' Undefined) (\<lambda>result.
     js_bind (get_prop result ''status'') (\<lambda>status.
     if status = Num 401
     then block
       [set_text A_subtitle [],
        set_hidden A_signedOut False,
        set_hidden A_signedIn True]
     else
     js_bind (get_prop result ''ok'') (\<lambda>ok.
     if \<not> truthy ok
     then account_showMessage (Str ''Could not load your identity status - please reload the page.'') ''error''
     else
     js_bind (get_prop result ''body'') (\<lambda>body.
     js_bind (renderIdentities body) (\<lambda>_.
     renderSavedSigners)))))))))"

subsection \<open>Passkey controls\<close>

definition passkey_unavailable :: "unit account" where
  "passkey_unavailable = block
     [set_disabled A_passkeyBtn True,
      set_hidden A_passkeyForgetBtn True,
      set_hidden A_passkeyRecoveryBtn True,
      set_hidden A_passkeyRecoveryCopyBtn True,
      set_hidden A_passkeyRecoveryValue True,
      set_hidden A_passkeyRecoveryHint True,
      set_disabled A_passkeyRecoveryInput True,
      set_disabled A_passkeyRestoreBtn True,
      set_text A_passkeyRestoreHint ''Passkey support is unavailable on this page.'',
      set_hidden A_passkeyHint False,
      set_text A_passkeyHint ''Passkey support is unavailable on this page.'']"

definition set_recovery :: "jsval \<Rightarrow> unit account" where
  "set_recovery v = modify (\<lambda>s. s\<lparr>passkeyRecoveryNsec := v\<rparr>)"

definition has_recovery :: "bool account" where
  "has_recovery = gets (\<lambda>s. truthy (passkeyRecoveryNsec s))"

definition has_keypair :: "bool account" where
  "has_keypair = gets (\<lambda>s. truthy (generatedKeypair s))"

definition updatePasskeyUi :: "unit account" where
  "updatePasskeyUi =
     js_bind (gets has_Passkey) (\<lambda>available.
     if \<not> available then passkey_unavailable else
     js_bind hasStoredPasskey (\<lambda>hasStored.
     block
       [set_hidden A_passkeyForgetBtn (\<not> hasStored),
        set_hidden A_passkeyRecoveryBtn (\<not> hasStored),
        js_bind has_recovery (\<lambda>r. set_hidden A_passkeyRecoveryCopyBtn (\<not> hasStored \<or> \<not> r)),
        js_bind has_recovery (\<lambda>r. set_hidden A_passkeyRecoveryHint (\<not> r)),
        (if \<not> hasStored then block
           [set_recovery (Str []),
            set_text A_passkeyRecoveryValue [],
            set_hidden A_passkeyRecoveryValue True,
            set_text A_passkeyRecoveryBtn ''Reveal recovery key'']
         else Return ()),
        set_disabled A_passkeyRestoreBtn hasStored,
        set_text A_passkeyRestoreHint (if hasStored
          then ''Forget the existing local passkey before restoring another recovery key.''
          else ''The recovery key is used only in this browser and is never sent to the server.''),
        js_bind has_keypair (\<lambda>g. set_text A_passkeyBtn (if hasStored then ''Use saved passkey identity''
          else if g then ''Protect generated key with passkey'' else ''Create passkey identity'')),
        set_hidden A_passkeyHint False,
        js_bind has_keypair (\<lambda>g. set_text A_passkeyHint (if hasStored
          then ''A passkey identity is saved on this device. Unlock it to link or add it.''
          else if g then ''The generated key will be encrypted locally and unlocked with this passkey.''
          else ''The passkey will protect a new Nostr identity on this device.''))]))"

subsection \<open>Linking\<close>

definition network_message :: "unit account" where
  "network_message = account_showMessage
     (Str ''Could not reach the server. Check your connection and try again.'') ''error''"

text \<open>The request of \<open>performLink\<close>: where it goes and what it carries.\<close>

definition link_request :: "jsval \<Rightarrow> jsval \<Rightarrow> (string \<times> jsval) account" where
  "link_request signedEvent signerType =
     js_bind hasActiveIdentity (\<lambda>active.
     js_bind (gets (\<lambda>s. e_value (el s A_linkMode))) (\<lambda>mode.
     js_bind (gets (\<lambda>s. js_trim (e_value (el s A_identityLabel)))) (\<lambda>label.
     Return (if active \<and> mode = ''add'' then ''/identities/link'' else ''/link'',
       Obj ([(''event'', signedEvent), (''signer_type'', js_or signerType (Str ''unknown''))]
            @ (if label \<noteq> [] then [(''label'', Str label)] else []))))))"

definition link_send :: "jsval \<Rightarrow> jsval \<Rightarrow> unit account" where
  "link_send signedEvent signerType =
     js_bind (link_request signedEvent signerType) (\<lambda>(endpoint, requestBody).
     js_bind (account_fetchJSON endpoint (post_json requestBody)) (\<lambda>linkResult.
     js_bind (get_prop linkResult ''ok'') (\<lambda>ok.
     if truthy ok
     then block
       [account_showMessage (Str ''Identity linked.'') ''success'',
        set_hidden A_generatedKeyBox True,
        modify (\<lambda>s. s\<lparr>generatedKeypair := Null\<rparr>),
        updatePasskeyUi,
        loadIdentity]
     else
     js_bind (error_text linkResult ''Linking failed - please try again.'')
       (\<lambda>errorText. account_showMessage errorText ''error''))))"

definition link_sign :: "(jsval \<Rightarrow> jsval account) \<Rightarrow> jsval \<Rightarrow> jsval option account" where
  "link_sign signEventFn unsignedEvent = try_catch
     (js_bind (signEventFn unsignedEvent) (\<lambda>e. Return (Some e)))
     (\<lambda>signError. js_bind (account_showMessage
         (Str ''Signature request was rejected, or your signer is unavailable.'') ''error'')
         (\<lambda>_. Return None))"

definition link_exchange :: "(jsval \<Rightarrow> jsval account) \<Rightarrow> jsval \<Rightarrow> unit account" where
  "link_exchange signEventFn signerType =
     js_bind (account_fetchJSON ''/link/challenge'' (Obj [(''method'', Str ''POST'')])) (\<lambda>challengeResult.
     js_bind (get_prop challengeResult ''ok'') (\<lambda>challenge_ok.
     if \<not> truthy challenge_ok
     then account_showMessage (Str ''Could not start linking - please try again.'') ''error''
     else
     js_bind (get_prop challengeResult ''body'') (\<lambda>challenge.
     js_bind (unsigned_event challenge) (\<lambda>unsignedEvent.
     js_bind (link_sign signEventFn unsignedEvent) (\<lambda>signed_event.
     case signed_event of None \<Rightarrow> Return ()
     | Some signedEvent \<Rightarrow> link_send signedEvent signerType)))))"

definition performLink :: "(jsval \<Rightarrow> jsval account) \<Rightarrow> jsval \<Rightarrow> unit account" where
  "performLink signEventFn signerType =
     js_bind account_clearMessage (\<lambda>_.
     js_bind (setLinkButtonsDisabled True) (\<lambda>_.
     try_finally
       (try_catch (link_exchange signEventFn signerType) (\<lambda>networkError. network_message))
       (block
         [setLinkButtonsDisabled False,
          set_hidden A_qrBox True])))"

definition linkWithNip07 :: "unit account" where
  "linkWithNip07 = js_bind (gets hasNip07) (\<lambda>found.
     if \<not> found
     then account_showMessage (Str (''No Nostr browser extension was found. Install one (e.g. Alby, nos2x), '' @
            ''or use a remote signer below.'')) ''error''
     else performLink nip07_signEvent (Str ''nip07''))"

definition linkWithSigner :: "jsval \<Rightarrow> string \<Rightarrow> unit account" where
  "linkWithSigner signer signerType = try_finally
     (performLink (\<lambda>event. signer_signEvent signer event) (Str signerType))
     (block [disposeSigner signer, renderSavedSigners])"

subsection \<open>Passkeys\<close>

definition passkey_options :: "jsval account" where
  "passkey_options = js_bind (gets currentUsername) (\<lambda>username. Return (Obj
     [(''rpName'', Str ''YunoHost Nostr Identity''),
      (''userName'', js_or username (Str ''nostr-identity'')),
      (''displayName'', Str ''YunoHost Nostr Identity''),
      (''autoLockTimeout'', Num 300000)]))"

definition import_passkey :: "jsval \<Rightarrow> jsval account" where
  "import_passkey nsec = js_bind passkey_options (\<lambda>options.
     await ''NostrPasskey.importPasskeyIdentityFromNsec'' [nsec, options])"

text \<open>\<open>window.NostrPasskey.buildPasskeySignerShim(identity.secretKey)\<close>, then linking with it.\<close>

definition link_with_passkey :: "jsval \<Rightarrow> unit account" where
  "link_with_passkey identity =
     js_bind (with_Passkey (js_bind (get_prop identity ''secretKey'') (\<lambda>sk.
        call ''NostrPasskey.buildPasskeySignerShim'' [sk]))) (\<lambda>signer.
     linkWithSigner signer ''passkey'')"

definition account_catch :: "string \<Rightarrow> jsval \<Rightarrow> unit account" where
  "account_catch fallback e = js_bind (message_or e fallback) (\<lambda>m. account_showMessage m ''error'')"

definition usePasskeyIdentity :: "unit account" where
  "usePasskeyIdentity =
     js_bind account_clearMessage (\<lambda>_.
     js_bind (setLinkButtonsDisabled True) (\<lambda>_.
     try_finally
       (try_catch
         (js_bind (gets has_Passkey) (\<lambda>available.
          if \<not> available
          then account_showMessage (Str ''Passkey support is unavailable on this page.'') ''error''
          else
          js_bind hasStoredPasskey (\<lambda>stored.
          js_bind (gets generatedKeypair) (\<lambda>keypair.
          js_bind
            (if stored then with_Passkey (await ''NostrPasskey.unlockPasskeyIdentity'' [])
             else if truthy keypair
             then with_Passkey (js_bind (get_prop keypair ''nsec'') (\<lambda>nsec. import_passkey nsec))
             else with_Passkey (js_bind passkey_options (\<lambda>options.
                    await ''NostrPasskey.registerPasskeyIdentity'' [options])))
            (\<lambda>identity. link_with_passkey identity)))))
         (account_catch ''Could not use a passkey on this device.''))
       (block [setLinkButtonsDisabled False, updatePasskeyUi])))"

definition hide_recovery :: "unit account" where
  "hide_recovery = block
     [set_recovery (Str []),
      set_text A_passkeyRecoveryValue [],
      set_hidden A_passkeyRecoveryValue True,
      set_hidden A_passkeyRecoveryCopyBtn True,
      set_hidden A_passkeyRecoveryHint True,
      set_text A_passkeyRecoveryBtn ''Reveal recovery key'']"

definition revealPasskeyRecoveryKey :: "unit account" where
  "revealPasskeyRecoveryKey =
     js_bind hasStoredPasskey (\<lambda>stored.
     if \<not> stored then Return () else
     js_bind has_recovery (\<lambda>shown.
     if shown then hide_recovery else
     js_bind account_clearMessage (\<lambda>_.
     js_bind (set_disabled A_passkeyRecoveryBtn True) (\<lambda>_.
     try_finally
       (try_catch
         (js_bind (with_Passkey (await ''NostrPasskey.exportPasskeyIdentityAsNsec'' [])) (\<lambda>nsec.
          block
           [set_recovery nsec,
            set_text A_passkeyRecoveryValue (js_text nsec),
            set_hidden A_passkeyRecoveryValue False,
            set_hidden A_passkeyRecoveryCopyBtn False,
            set_hidden A_passkeyRecoveryHint False,
            set_text A_passkeyRecoveryBtn ''Hide recovery key'',
            account_showMessage (Str ''Recovery key revealed. Store it securely offline.'') ''success'']))
         (account_catch ''Could not unlock the recovery key.''))
       (set_disabled A_passkeyRecoveryBtn False)))))"

definition copyPasskeyRecoveryKey :: "unit account" where
  "copyPasskeyRecoveryKey =
     js_bind (gets passkeyRecoveryNsec) (\<lambda>nsec.
     if \<not> truthy nsec then Return () else
     try_catch
       (block
         [do_await ''navigator.clipboard.writeText'' [nsec],
          account_showMessage (Str ''Recovery key copied to clipboard.'') ''success''])
       (\<lambda>e. account_showMessage
         (Str ''Could not copy automatically - select the revealed key manually.'') ''error''))"

definition restorePasskeyIdentity :: "unit account" where
  "restorePasskeyIdentity =
     js_bind (gets has_Passkey) (\<lambda>available.
     if \<not> available then Return () else
     js_bind hasStoredPasskey (\<lambda>stored.
     if stored then Return () else
     js_bind (gets (\<lambda>s. js_trim (e_value (el s A_passkeyRecoveryInput)))) (\<lambda>recoveryNsec.
     if recoveryNsec = []
     then account_showMessage (Str ''Enter a recovery nsec first.'') ''error''
     else
     js_bind (block
       [account_clearMessage,
        setLinkButtonsDisabled True,
        set_recovery (Str []),
        set_text A_passkeyRecoveryValue [],
        set_hidden A_passkeyRecoveryValue True,
        set_hidden A_passkeyRecoveryHint True]) (\<lambda>_.
     try_finally
       (try_catch
         (js_bind (with_Passkey (import_passkey (Str recoveryNsec))) (\<lambda>identity.
          link_with_passkey identity))
         (account_catch ''Could not restore the recovery key.''))
       (block
         [set_value A_passkeyRecoveryInput [],
          setLinkButtonsDisabled False,
          updatePasskeyUi])))))"

definition account_on_passkeyForget :: "unit account" where
  "account_on_passkeyForget =
     js_bind (gets has_Passkey) (\<lambda>available.
     if \<not> available then Return () else
     js_bind hasStoredPasskey (\<lambda>stored.
     if \<not> stored then Return () else
     js_bind (call ''window.confirm''
       [Str ''Forget the encrypted passkey identity on this device? The server link will remain.'']) (\<lambda>yes.
     if \<not> truthy yes then Return () else
     block
       [with_Passkey (do_call ''NostrPasskey.clearPasskeyIdentity'' []),
        set_recovery (Str []),
        account_showMessage (Str ''Passkey identity forgotten on this device.'') ''success'',
        updatePasskeyUi])))"

subsection \<open>Unlinking, revoking, renaming\<close>

text \<open>What the three have in common after a refusal or a network error.\<close>

definition refused_with :: "jsval \<Rightarrow> string \<Rightarrow> unit account" where
  "refused_with result fallback =
     js_bind (error_text result fallback) (\<lambda>errorText. account_showMessage errorText ''error'')"

definition unlinkIdentity :: "unit account" where
  "unlinkIdentity =
     js_bind account_clearMessage (\<lambda>_.
     js_bind (call ''window.confirm''
       [Str ''Unlink all Nostr identities? You can link a new one anytime.'']) (\<lambda>yes.
     if \<not> truthy yes then Return () else
     js_bind (set_disabled A_unlinkBtn True) (\<lambda>_.
     try_finally
       (try_catch
         (js_bind (account_fetchJSON ''/unlink'' (Obj [(''method'', Str ''POST'')])) (\<lambda>result.
          js_bind (get_prop result ''ok'') (\<lambda>ok.
          if truthy ok
          then block
            [with_ConnectUI clearAllSaved,
             renderSavedSigners,
             account_showMessage (Str ''Identity unlinked.'') ''success'',
             loadIdentity]
          else refused_with result ''Unlinking failed - please try again.'')))
         (\<lambda>networkError. network_message))
       (set_disabled A_unlinkBtn False))))"

definition identity_url :: "jsval \<Rightarrow> string" where
  "identity_url identityId = ''/identities/'' @ encodeURIComponent (js_string identityId)"

definition revokeIdentity :: "jsval \<Rightarrow> unit account" where
  "revokeIdentity identityId =
     js_bind account_clearMessage (\<lambda>_.
     js_bind (call ''window.confirm''
       [Str ''Revoke this identity? It will no longer be able to sign in.'']) (\<lambda>yes.
     if \<not> truthy yes then Return () else
     try_catch
       (js_bind (account_fetchJSON (identity_url identityId) (Obj [(''method'', Str ''DELETE'')])) (\<lambda>result.
        js_bind (get_prop result ''ok'') (\<lambda>ok.
        if truthy ok
        then block
          [account_showMessage (Str ''Identity revoked.'') ''success'',
           loadIdentity]
        else refused_with result ''Could not revoke that identity.'')))
       (\<lambda>networkError. network_message)))"

definition patch_json :: "jsval \<Rightarrow> jsval" where
  "patch_json body = Obj
     [(''method'', Str ''PATCH''),
      (''headers'', Obj [(''Content-Type'', Str ''application/json'')]),
      (''body'', Str (json_stringify body))]"

definition renameIdentity :: "jsval \<Rightarrow> unit account" where
  "renameIdentity identity =
     js_bind (get_prop identity ''label'') (\<lambda>old.
     js_bind (call ''window.prompt'' [Str ''Label for this identity:'', js_or old (Str [])]) (\<lambda>answer.
     if answer = Null then Return () else
     js_bind (case answer of Str t \<Rightarrow> Return (js_trim t) | _ \<Rightarrow> Throw type_error) (\<lambda>label.
     if label = []
     then account_showMessage (Str ''Enter a label, or cancel to leave it unchanged.'') ''error''
     else
     js_bind account_clearMessage (\<lambda>_.
     try_catch
       (js_bind (get_prop identity ''id'') (\<lambda>id.
        js_bind (account_fetchJSON (identity_url id) (patch_json (Obj [(''label'', Str label)]))) (\<lambda>result.
        js_bind (get_prop result ''ok'') (\<lambda>ok.
        if truthy ok
        then block
          [account_showMessage (Str ''Identity renamed.'') ''success'',
           loadIdentity]
        else refused_with result ''Could not rename that identity.''))))
       (\<lambda>networkError. network_message)))))"

subsection \<open>Remote signers\<close>

definition account_on_bunkerConnect :: "unit account" where
  "account_on_bunkerConnect =
     js_bind account_clearMessage (\<lambda>_.
     js_bind (gets (\<lambda>s. js_trim (e_value (el s A_bunkerInput)))) (\<lambda>value.
     if value = [] then account_showMessage (Str ''Paste a bunker:// link or NIP-05 signer address first.'') ''error''
     else
     js_bind (setLinkButtonsDisabled True) (\<lambda>_.
     js_bind (set_text A_bunkerConnectBtn (''Connecting'' @ ellipsis)) (\<lambda>_.
     try_finally
       (try_catch
         (js_bind (with_ConnectUI (connectViaBunkerUri value)) (\<lambda>signer. linkWithSigner signer ''nip46''))
         (account_catch ''Could not connect to that signer.''))
       (block
         [setLinkButtonsDisabled False,
          set_text A_bunkerConnectBtn ''Connect''])))))"

definition account_signal :: "nat account" where
  "account_signal = js_bind (gets linkAbortController) (\<lambda>c. of_option c)"

definition account_onUriReady :: "jsval \<Rightarrow> jsval \<Rightarrow> unit account" where
  "account_onUriReady uri dataUrl = block
     [set_src A_qrImage (js_string dataUrl),
      set_text A_qrUriText (js_text uri)]"

definition account_on_qrShow :: "unit account" where
  "account_on_qrShow =
     js_bind account_clearMessage (\<lambda>_.
     js_bind new_AbortController (\<lambda>c.
     js_bind (modify (\<lambda>s. s\<lparr>linkAbortController := Some c\<rparr>)) (\<lambda>_.
     js_bind (block [set_hidden A_qrBox False, setLinkButtonsDisabled True]) (\<lambda>_.
     try_finally
       (try_catch
         (js_bind (with_ConnectUI (js_bind account_signal (\<lambda>sig.
             connectViaQr account_onUriReady (signal_of sig)))) (\<lambda>signer.
          block
           [set_hidden A_qrBox True,
            linkWithSigner signer ''nip46'']))
         (\<lambda>e. js_bind account_signal (\<lambda>sig.
          js_bind (gets (\<lambda>s. sig \<in> set (aborted s))) (\<lambda>wasAborted.
          if \<not> wasAborted
          then account_showMessage (Str ''The connection request timed out or was not approved.'') ''error''
          else Return ()))))
       (block
         [set_hidden A_qrBox True,
          setLinkButtonsDisabled False,
          modify (\<lambda>s. s\<lparr>linkAbortController := None\<rparr>)])))))"

definition account_on_qrCancel :: "unit account" where
  "account_on_qrCancel = block
     [js_bind (gets linkAbortController) (\<lambda>c. case c of None \<Rightarrow> Return () | Some c \<Rightarrow> abort c),
      set_hidden A_qrBox True]"

subsection \<open>The generated key\<close>

definition account_on_generate :: "unit account" where
  "account_on_generate =
     js_bind account_clearMessage (\<lambda>_.
     js_bind (with_ConnectUI generateLocalKeypair) (\<lambda>keypair.
     js_bind (modify (\<lambda>s. s\<lparr>generatedKeypair := keypair\<rparr>)) (\<lambda>_.
     js_bind (modify (\<lambda>s. s\<lparr>nsecRevealed := False\<rparr>)) (\<lambda>_.
     js_bind (get_prop keypair ''npub'') (\<lambda>npub.
     block
       [set_text A_generatedNpub (js_text npub),
        set_text A_generatedNsec NSEC_MASK,
        set_text A_revealNsecBtn ''Reveal'',
        set_checked A_rememberKeyCheckbox False,
        set_hidden A_generatedKeyBox False,
        updatePasskeyUi])))))"

text \<open>The listener of the reveal button; a click on the key itself clicks that button.\<close>

definition account_on_revealNsec :: "unit account" where
  "account_on_revealNsec =
     js_bind (gets generatedKeypair) (\<lambda>keypair.
     if \<not> truthy keypair then Return () else
     js_bind (modify (\<lambda>s. s\<lparr>nsecRevealed := \<not> nsecRevealed s\<rparr>)) (\<lambda>_.
     js_bind (gets nsecRevealed) (\<lambda>revealed.
     js_bind (if revealed then js_bind (get_prop keypair ''nsec'') (\<lambda>nsec. Return (js_text nsec))
              else Return NSEC_MASK) (\<lambda>text.
     block
       [set_text A_generatedNsec text,
        set_text A_revealNsecBtn (if revealed then ''Hide'' else ''Reveal'')]))))"

definition account_on_copyNsec :: "unit account" where
  "account_on_copyNsec =
     js_bind (gets generatedKeypair) (\<lambda>keypair.
     if \<not> truthy keypair then Return () else
     try_catch
       (js_bind (get_prop keypair ''nsec'') (\<lambda>nsec.
        block
         [do_await ''navigator.clipboard.writeText'' [nsec],
          account_showMessage (Str ''Private key copied to clipboard.'') ''success'']))
       (\<lambda>e. account_showMessage
         (Str ''Could not copy automatically - click Reveal and copy it manually.'') ''error''))"

definition account_on_useGeneratedKey :: "unit account" where
  "account_on_useGeneratedKey =
     js_bind (gets generatedKeypair) (\<lambda>keypair.
     if \<not> truthy keypair then Return () else
     js_bind (gets (\<lambda>s. e_checked (el s A_rememberKeyCheckbox))) (\<lambda>remember.
     js_bind (if remember
        then with_ConnectUI (js_bind (get_prop keypair ''secretKeyHex'') saveLocalKey) else Return ()) (\<lambda>_.
     js_bind (with_ConnectUI (js_bind (get_prop keypair ''secretKeyHex'') createLocalSigner)) (\<lambda>signer.
     linkWithSigner signer ''unknown''))))"

subsection \<open>The page as an event loop\<close>

definition account_load :: "unit account" where
  "account_load = try_finally loadIdentity
     (block [updatePasskeyUi, set_hidden A_app False])"

datatype account_ev =
    Start_load | Click_link | Click_unlink | Change_linkMode | Click_goLogin | Click_usePasskey
  | Click_passkeyRecovery | Click_passkeyRecoveryCopy | Click_passkeyRestore | Click_passkeyForget
  | Click_bunker | Click_qr | Click_cancelQr | Click_generate | Click_revealNsec | Click_nsec
  | Click_copyNsec | Click_useGeneratedKey | Click_forgetBunker | Click_forgetLocalKey
  | Click_rename jsval | Click_revoke jsval

fun account_handler :: "account_ev \<Rightarrow> unit account" where
  "account_handler Start_load = account_load"
| "account_handler Click_link = linkWithNip07"
| "account_handler Click_unlink = unlinkIdentity"
| "account_handler Change_linkMode = set_link_text"
| "account_handler Click_goLogin = modify (\<lambda>s. s\<lparr>href := ''/yunohost/sso/''\<rparr>)"
| "account_handler Click_usePasskey = usePasskeyIdentity"
| "account_handler Click_passkeyRecovery = revealPasskeyRecoveryKey"
| "account_handler Click_passkeyRecoveryCopy = copyPasskeyRecoveryKey"
| "account_handler Click_passkeyRestore = restorePasskeyIdentity"
| "account_handler Click_passkeyForget = account_on_passkeyForget"
| "account_handler Click_bunker = account_on_bunkerConnect"
| "account_handler Click_qr = account_on_qrShow"
| "account_handler Click_cancelQr = account_on_qrCancel"
| "account_handler Click_generate = account_on_generate"
| "account_handler Click_revealNsec = account_on_revealNsec"
| "account_handler Click_nsec = account_on_revealNsec"
| "account_handler Click_copyNsec = account_on_copyNsec"
| "account_handler Click_useGeneratedKey = account_on_useGeneratedKey"
| "account_handler Click_forgetBunker = block [with_ConnectUI clearSaved, renderSavedSigners]"
| "account_handler Click_forgetLocalKey = block [with_ConnectUI clearLocalKey, renderSavedSigners]"
| "account_handler (Click_rename identity) = renameIdentity identity"
| "account_handler (Click_revoke identityId) = revokeIdentity identityId"

text \<open>A click reaches a shown and enabled element, and a card's button as long as the card is there.\<close>

fun account_enabled :: "account_ev \<Rightarrow> account_page \<Rightarrow> bool" where
  "account_enabled Start_load s = True"
| "account_enabled Click_link s = clickable A_linkBtn s"
| "account_enabled Click_unlink s = clickable A_unlinkBtn s"
| "account_enabled Change_linkMode s = clickable A_linkMode s"
| "account_enabled Click_goLogin s = clickable A_goLoginBtn s"
| "account_enabled Click_usePasskey s = clickable A_passkeyBtn s"
| "account_enabled Click_passkeyRecovery s = clickable A_passkeyRecoveryBtn s"
| "account_enabled Click_passkeyRecoveryCopy s = clickable A_passkeyRecoveryCopyBtn s"
| "account_enabled Click_passkeyRestore s = clickable A_passkeyRestoreBtn s"
| "account_enabled Click_passkeyForget s = clickable A_passkeyForgetBtn s"
| "account_enabled Click_bunker s = clickable A_bunkerConnectBtn s"
| "account_enabled Click_qr s = clickable A_qrShowBtn s"
| "account_enabled Click_cancelQr s = clickable A_qrCancelBtn s"
| "account_enabled Click_generate s = clickable A_generateBtn s"
| "account_enabled Click_revealNsec s = clickable A_revealNsecBtn s"
| "account_enabled Click_nsec s = (clickable A_generatedNsec s \<and> \<not> e_disabled (el s A_revealNsecBtn))"
| "account_enabled Click_copyNsec s = clickable A_copyNsecBtn s"
| "account_enabled Click_useGeneratedKey s = clickable A_useGeneratedKeyBtn s"
| "account_enabled Click_forgetBunker s = clickable A_forgetBunkerBtn s"
| "account_enabled Click_forgetLocalKey s = clickable A_forgetLocalKeyBtn s"
| "account_enabled (Click_rename identity) s =
     list_ex (\<lambda>c. Rename_button identity \<in> set (card_actions c)) (identityListItems s)"
| "account_enabled (Click_revoke identityId) s =
     list_ex (\<lambda>c. Revoke_button identityId \<in> set (card_actions c)) (identityListItems s)"

definition account_outside :: "account_page \<Rightarrow> account_page \<Rightarrow> bool" where
  "account_outside s s' \<longleftrightarrow> (\<exists>f nostr. s' = s\<lparr>el := f, win_nostr := nostr\<rparr>)"

end
