(* ===== verification/Account_Laws.thy ===== *)
theory Account_Laws
  imports Account_Page
begin

text \<open>
  What the account page guarantees: the requests it can send in any interleaving of its
  handlers, the linking, unlinking and renaming flows on their branches, and what becomes of
  generated keys and recovery keys.
\<close>

subsection \<open>The requests of the page\<close>

definition own_label :: "string \<Rightarrow> bool" where
  "own_label t \<longleftrightarrow> t \<noteq> [] \<and> js_trim t = t"

text \<open>The requests the page may send: a link carries a signed event, the kind of the signer and
  perhaps a label, and nothing else.\<close>

definition link_body_ok :: "jsval \<Rightarrow> bool" where
  "link_body_ok body \<longleftrightarrow> (\<exists>ev t lab. body = Obj ([(''event'', ev), (''signer_type'', t)] @ lab) \<and>
     (lab = [] \<or> (\<exists>x. own_label x \<and> lab = [(''label'', Str x)])))"

definition request_ok :: "jsval list \<Rightarrow> bool" where
  "request_ok as \<longleftrightarrow> (\<exists>url options. as = [Str url, with_credentials options] \<and>
     (url \<in> {''/policy'', ''/identities''} \<and> options = Undefined \<or>
      url \<in> {''/link/challenge'', ''/unlink''} \<and> options = Obj [(''method'', Str ''POST'')] \<or>
      url \<in> {''/link'', ''/identities/link''} \<and> (\<exists>body. link_body_ok body \<and> options = post_json body) \<or>
      (\<exists>id. url = identity_url id \<and> (options = Obj [(''method'', Str ''DELETE'')] \<or>
         (\<exists>x. own_label x \<and> options = patch_json (Obj [(''label'', Str x)]))))))"

definition account_inv :: "account_page \<Rightarrow> event list \<Rightarrow> bool" where
  "account_inv s l \<longleftrightarrow> list_all (\<lambda>(n, as, r). n = ''fetch'' \<longrightarrow> request_ok as) l"

definition account_allowed :: "string \<Rightarrow> jsval list \<Rightarrow> bool" where
  "account_allowed n as \<longleftrightarrow> (n = ''fetch'' \<longrightarrow> request_ok as)"

lemma account_allowed_host [simp]: "n \<noteq> ''fetch'' \<Longrightarrow> account_allowed n as"
  by (simp add: account_allowed_def)

lemma request_okI:
  "url \<in> {''/policy'', ''/identities''} \<Longrightarrow> request_ok [Str url, with_credentials Undefined]"
  "url \<in> {''/link/challenge'', ''/unlink''} \<Longrightarrow>
     request_ok [Str url, with_credentials (Obj [(''method'', Str ''POST'')])]"
  "request_ok [Str (identity_url i), with_credentials (Obj [(''method'', Str ''DELETE'')])]"
  unfolding request_ok_def by blast+

lemma account_allowed_fetch: "request_ok as \<Longrightarrow> account_allowed ''fetch'' as"
  by (simp only: account_allowed_def simp_thms)

lemmas account_allowed_simps =
  account_allowed_fetch [OF request_okI(1) [OF insertI1]]
  account_allowed_fetch [OF request_okI(1) [OF insertI2 [OF insertI1]]]
  account_allowed_fetch [OF request_okI(2) [OF insertI1]]
  account_allowed_fetch [OF request_okI(2) [OF insertI2 [OF insertI1]]]
  account_allowed_fetch [OF request_okI(3)]

lemma account_allowed_link:
  assumes "url \<in> {''/link'', ''/identities/link''}" and "link_body_ok body"
  shows "account_allowed ''fetch'' [Str url, with_credentials (post_json body)]"
  using assms unfolding request_ok_def
  by (intro account_allowed_fetch) (unfold request_ok_def, rule exI [of _ url], rule exI [of _ "post_json body"],
      rule conjI, rule refl, rule disjI2, rule disjI2, rule disjI1, blast)

lemma account_allowed_rename:
  assumes "own_label x"
  shows "account_allowed ''fetch'' [Str (identity_url i), with_credentials (patch_json (Obj [(''label'', Str x)]))]"
  using assms
  by (intro account_allowed_fetch) (unfold request_ok_def, rule exI [of _ "identity_url i"],
      rule exI [of _ "patch_json (Obj [(''label'', Str x)])"],
      rule conjI, rule refl, rule disjI2, rule disjI2, rule disjI2, blast)

text \<open>
  What shows the page only reads: it asks for the policy and for the identities, calls the
  libraries, and leaves the generated key.  An invariant that allows that is kept by it.
\<close>

locale account_views = script_inv I allowed
  for I :: "account_page \<Rightarrow> event list \<Rightarrow> bool" and allowed :: "string \<Rightarrow> jsval list \<Rightarrow> bool" +
  assumes page_free: "I s l \<Longrightarrow> generatedKeypair s' = generatedKeypair s \<Longrightarrow> I s' l"
    and reads: "url \<in> {''/policy'', ''/identities''} \<Longrightarrow> allowed ''fetch'' [Str url, with_credentials Undefined]"
begin

lemma safe_page: "(\<And>s. generatedKeypair (g s) = generatedKeypair s) \<Longrightarrow> safe I (modify g)"
  by (rule safe_modify) (rule page_free)

lemma safe_account_fetch:
  "allowed ''fetch'' [Str url, with_credentials options] \<Longrightarrow> safe I (account_fetchJSON url options)"
  by (simp add: account_fetchJSON_def safe_fetchJSON)

lemmas safe_view_rules = safe_script_rules safe_page safe_account_fetch reads [OF insertI1]
  reads [OF insertI2 [OF insertI1]]

lemma safe_messages:
  "safe I (account_showMessage v k)" "safe I account_clearMessage"
  "safe I (setLinkButtonsDisabled d)" "safe I network_message"
  "safe I (refused_with r t)" "safe I (account_catch t e)"
  "safe I account_signal"
  by (auto simp: account_showMessage_def account_clearMessage_def setLinkButtonsDisabled_def network_message_def
      refused_with_def account_catch_def account_signal_def intro!: safe_view_rules)

lemma safe_arrays:
  "safe I (js_join v sep)" "safe I (js_elements v)"
  by (auto simp: js_join_def js_elements_def intro!: safe_view_rules split: jsval.split)

lemma safe_counts: "safe I (some_enabled xs)" "safe I (count_enabled xs)"
  by (induction xs) (auto intro!: safe_view_rules)

lemma safe_cards: "safe I (render_cards xs)"
  by (induction xs) (auto simp: identity_card_def account_formatTimestamp_def intro!: safe_view_rules)

lemmas safe_view_parts = safe_view_rules safe_messages safe_arrays safe_counts
  safe_cards

lemma safe_renderSavedSigners: "safe I renderSavedSigners"
  by (auto simp: renderSavedSigners_def intro!: safe_view_parts)

lemma safe_set_link_text: "safe I set_link_text"
  by (auto simp: set_link_text_def intro!: safe_view_parts)

lemma safe_renderIdentities: "safe I (renderIdentities payload)"
  by (auto simp: renderIdentities_def render_linked_def render_unlinked_def render_no_linking_def
      intro!: safe_view_parts safe_set_link_text)

lemma safe_loadIdentity: "safe I loadIdentity"
  by (auto simp: loadIdentity_def intro!: safe_view_parts safe_renderIdentities
      safe_renderSavedSigners)

lemma safe_updatePasskeyUi: "safe I updatePasskeyUi"
  by (auto simp: updatePasskeyUi_def passkey_unavailable_def set_recovery_def has_recovery_def has_keypair_def
      intro!: safe_view_parts)

lemmas safe_views = safe_view_parts safe_renderSavedSigners safe_set_link_text safe_loadIdentity safe_updatePasskeyUi

end

interpretation account_script: account_views account_inv account_allowed
  by unfold_locales (auto simp: account_inv_def account_allowed_def request_ok_def)

lemma account_safe_modify: "safe account_inv (modify g)"
  by (rule account_script.safe_modify) (simp add: account_inv_def)

lemmas account_safe_fetch = account_script.safe_account_fetch

lemmas account_safe_views = account_script.safe_views account_safe_modify account_allowed_simps

lemma link_request_ok:
  assumes "account_inv s l"
  shows "wp (keeps account_inv) account_inv (link_request ev t)
     (\<lambda>r s l. account_inv s l \<and> (case r of Inl e \<Rightarrow> True
        | Inr (url, body) \<Rightarrow> url \<in> {''/link'', ''/identities/link''} \<and> link_body_ok body)) s l"
proof -
  have ok: "link_body_ok (Obj [(''event'', ev), (''signer_type'', u)])"
    "x \<noteq> [] \<Longrightarrow> js_trim x = x \<Longrightarrow> link_body_ok (Obj [(''event'', ev), (''signer_type'', u), (''label'', Str x)])" for u x
    by (auto simp: link_body_ok_def own_label_def)
  have "safe account_inv hasActiveIdentity"
    by (auto simp: hasActiveIdentity_def intro!: account_safe_views)
  then show ?thesis
    unfolding link_request_def wp_bind
    by (rule account_script.wp_safe_mono) (use assms in \<open>auto simp: wp_rules ok split: sum.splits\<close>)
qed

lemma account_safe_link_send: "safe account_inv (link_send ev t)"
  unfolding link_send_def
proof (rule account_script.safe_bind_post [OF link_request_ok], assumption, clarify)
  fix url body assume "url \<in> {''/link'', ''/identities/link''}" "link_body_ok body"
  then have "safe account_inv (account_fetchJSON url (post_json body))"
    by (intro account_safe_fetch account_allowed_link)
  then show "safe account_inv (js_bind (account_fetchJSON url (post_json body)) (\<lambda>linkResult.
     js_bind (get_prop linkResult ''ok'') (\<lambda>ok.
     if truthy ok
     then block
       [account_showMessage (Str ''Identity linked.'') ''success'',
        set_hidden A_generatedKeyBox True,
        modify (\<lambda>s. s\<lparr>generatedKeypair := Null\<rparr>),
        updatePasskeyUi,
        loadIdentity]
     else
     js_bind (error_text linkResult ''Linking failed - please try again.'')
       (\<lambda>errorText. account_showMessage errorText ''error''))))"
    by (rule account_script.safe_bind) (auto intro!: account_safe_views)
qed

lemma account_safe_performLink:
  "(\<And>e. safe account_inv (f e)) \<Longrightarrow> safe account_inv (performLink f t)"
  unfolding performLink_def link_exchange_def link_sign_def
  by (auto intro!: account_safe_views account_safe_link_send split: option.split)

lemma account_safe_links:
  "safe account_inv (linkWithSigner signer t)" "safe account_inv linkWithNip07"
  by (auto simp: linkWithSigner_def linkWithNip07_def intro!: account_safe_views account_safe_performLink)

lemma account_safe_passkey_parts:
  "safe account_inv passkey_options" "safe account_inv (import_passkey v)" "safe account_inv (link_with_passkey v)"
  by (auto simp: passkey_options_def import_passkey_def link_with_passkey_def
      intro!: account_safe_views account_safe_links)

lemmas account_safe_all = account_safe_views account_safe_links account_safe_passkey_parts

lemma account_safe_passkeys:
  "safe account_inv usePasskeyIdentity" "safe account_inv revealPasskeyRecoveryKey"
  "safe account_inv copyPasskeyRecoveryKey" "safe account_inv restorePasskeyIdentity"
  "safe account_inv account_on_passkeyForget"
  by (auto simp: usePasskeyIdentity_def revealPasskeyRecoveryKey_def copyPasskeyRecoveryKey_def
      restorePasskeyIdentity_def account_on_passkeyForget_def hide_recovery_def set_recovery_def has_recovery_def
      intro!: account_safe_all)

lemma account_safe_rename: "safe account_inv (renameIdentity identity)"
proof -
  have send: "safe account_inv (account_fetchJSON (identity_url i) (patch_json (Obj [(''label'', Str x)])))"
    if "js_trim x = x" "x \<noteq> []" for x i
    using that by (intro account_safe_fetch account_allowed_rename) (simp add: own_label_def)
  have trim: "wp (keeps account_inv) account_inv (case answer of Str t \<Rightarrow> Return (js_trim t) | _ \<Rightarrow> Throw type_error)
      (\<lambda>r s l. account_inv s l \<and> (case r of Inl e \<Rightarrow> True | Inr x \<Rightarrow> js_trim x = x)) s l"
    if "account_inv s l" for answer s l
    using that by (simp split: jsval.split)
  have rest: "safe account_inv (if label = [] then
       account_showMessage (Str ''Enter a label, or cancel to leave it unchanged.'') ''error''
     else js_bind account_clearMessage (\<lambda>_.
     try_catch
       (js_bind (get_prop identity ''id'') (\<lambda>id.
        js_bind (account_fetchJSON (identity_url id) (patch_json (Obj [(''label'', Str label)]))) (\<lambda>result.
        js_bind (get_prop result ''ok'') (\<lambda>ok.
        if truthy ok
        then block [account_showMessage (Str ''Identity renamed.'') ''success'', loadIdentity]
        else refused_with result ''Could not rename that identity.''))))
       (\<lambda>networkError. network_message)))" if "js_trim label = label" for label
  proof (cases "label = []")
    case True
    then show ?thesis by (auto intro!: account_safe_all)
  next
    case False
    note [intro!] = send [OF that False]
    from False show ?thesis by (auto intro!: account_safe_all)
  qed
  show ?thesis
    unfolding renameIdentity_def
    by (intro account_script.safe_bind account_script.safe_get_prop account_script.safe_call
        account_script.safe_if account_script.safe_return account_script.safe_bind_post [OF trim] rest)
      (simp_all add: account_allowed_def)
qed

lemma account_safe_identities:
  "safe account_inv unlinkIdentity" "safe account_inv (revokeIdentity i)"
  by (auto simp: unlinkIdentity_def revokeIdentity_def intro!: account_safe_all)

lemma account_safe_qrShow: "safe account_inv account_on_qrShow"
  by (auto simp: account_on_qrShow_def account_onUriReady_def intro!: account_safe_all)

lemma account_safe_clicks:
  "safe account_inv account_on_bunkerConnect" "safe account_inv account_on_qrCancel"
  "safe account_inv account_on_generate" "safe account_inv account_on_revealNsec"
  "safe account_inv account_on_copyNsec" "safe account_inv account_on_useGeneratedKey"
  "safe account_inv account_load"
  by (auto simp: account_on_bunkerConnect_def account_on_qrCancel_def account_on_generate_def
      account_on_revealNsec_def account_on_copyNsec_def account_on_useGeneratedKey_def account_load_def
      intro!: account_safe_all split: option.split)

lemma account_safe_handler: "safe account_inv (account_handler e)"
  by (cases e) (auto simp: account_safe_clicks account_safe_qrShow account_safe_identities account_safe_rename
      account_safe_passkeys intro!: account_safe_all)

interpretation account_loop: page_loop account_handler account_enabled account_outside account_inv
proof
  fix s l e assume "account_inv s l"
  then show "wp (keeps account_inv) account_inv (account_handler e) (\<lambda>_. account_inv) s l"
    using account_safe_handler by (simp add: safe_def)
qed (simp add: account_inv_def)


subsection \<open>What the helpers do\<close>

definition account_message :: "string \<Rightarrow> string \<Rightarrow> account_page \<Rightarrow> account_page" where
  "account_message t cls s = upd_el A_messageEl (\<lambda>e. e\<lparr>e_text := t, e_class := cls\<rparr>) s"

lemma wp_account_messages [wp_rules]:
  "wp R G (account_showMessage v kind) Q s l =
     Q (Inr ()) (account_message (js_text v) (''message '' @ kind) s) l"
  "wp R G account_clearMessage Q s l = Q (Inr ()) (account_message [] ''message'' s) l"
  by (simp_all add: account_showMessage_def account_clearMessage_def wp_rules account_message_def upd_el_def)

lemma run_account_messages [run_rules]:
  "run env (account_showMessage v kind) s w l =
     (Inr (), account_message (js_text v) (''message '' @ kind) s, w, l)"
  "run env account_clearMessage s w l = (Inr (), account_message [] ''message'' s, w, l)"
  by (simp_all add: account_showMessage_def account_clearMessage_def run_rules account_message_def upd_el_def)

definition link_controls :: "account_el set" where
  "link_controls = {A_linkBtn, A_bunkerConnectBtn, A_bunkerInput, A_qrShowBtn, A_generateBtn,
     A_useGeneratedKeyBtn, A_passkeyBtn, A_passkeyForgetBtn, A_passkeyRecoveryBtn, A_passkeyRecoveryCopyBtn,
     A_passkeyRecoveryInput, A_passkeyRestoreBtn, A_linkMode, A_identityLabel}"

definition links_disabled :: "bool \<Rightarrow> account_page \<Rightarrow> account_page" where
  "links_disabled d s = s\<lparr>el := (\<lambda>i. if i \<in> link_controls then (el s i)\<lparr>e_disabled := d\<rparr> else el s i)\<rparr>"

lemma set_link_buttons: "fold (\<lambda>i. upd_el i (e_disabled_update (\<lambda>_. d)))
    [A_linkBtn, A_bunkerConnectBtn, A_bunkerInput, A_qrShowBtn, A_generateBtn,
     A_useGeneratedKeyBtn, A_passkeyBtn, A_passkeyForgetBtn, A_passkeyRecoveryBtn, A_passkeyRecoveryCopyBtn,
     A_passkeyRecoveryInput, A_passkeyRestoreBtn, A_linkMode, A_identityLabel] s = links_disabled d s"
  by (simp add: upd_el_def links_disabled_def link_controls_def)
    (rule arg_cong [where f = "\<lambda>f. s\<lparr>el := f\<rparr>"], simp add: fun_eq_iff)

lemma wp_setLinkButtonsDisabled [wp_rules]:
  "wp R G (setLinkButtonsDisabled d) Q s l = Q (Inr ()) (links_disabled d s) l"
  by (simp add: setLinkButtonsDisabled_def wp_rules flip: set_link_buttons)

lemma run_setLinkButtonsDisabled [run_rules]:
  "run env (setLinkButtonsDisabled d) s w l = (Inr (), links_disabled d s, w, l)"
  by (simp add: setLinkButtonsDisabled_def run_rules flip: set_link_buttons)

text \<open>Both change elements only; in particular nothing of the script's own state.\<close>

lemma el_only [simp]:
  "storage (account_message t c s) = storage s" "storage (links_disabled d s) = storage s"
  "storage_readable (account_message t c s) = storage_readable s" "storage_readable (links_disabled d s) = storage_readable s"
  "storage_writable (account_message t c s) = storage_writable s" "storage_writable (links_disabled d s) = storage_writable s"
  "has_ConnectUI (account_message t c s) = has_ConnectUI s" "has_ConnectUI (links_disabled d s) = has_ConnectUI s"
  "has_Passkey (account_message t c s) = has_Passkey s" "has_Passkey (links_disabled d s) = has_Passkey s"
  "currentIdentities (account_message t c s) = currentIdentities s" "currentIdentities (links_disabled d s) = currentIdentities s"
  "generatedKeypair (account_message t c s) = generatedKeypair s" "generatedKeypair (links_disabled d s) = generatedKeypair s"
  "passkeyRecoveryNsec (account_message t c s) = passkeyRecoveryNsec s" "passkeyRecoveryNsec (links_disabled d s) = passkeyRecoveryNsec s"
  "allowIdentityLinking (account_message t c s) = allowIdentityLinking s"
  "allowIdentityLinking (links_disabled d s) = allowIdentityLinking s"
  "nsecRevealed (account_message t c s) = nsecRevealed s"
  "href (account_message t c s) = href s" "href (links_disabled d s) = href s"
  by (simp_all add: account_message_def links_disabled_def upd_el_def)

lemma el_message_links [simp]:
  "el (account_message t c s) = (el s)(A_messageEl := (el s A_messageEl)\<lparr>e_text := t, e_class := c\<rparr>)"
  "el (links_disabled d s) i = (if i \<in> link_controls then (el s i)\<lparr>e_disabled := d\<rparr> else el s i)"
  by (simp_all add: account_message_def links_disabled_def)

lemma account_own_upd [simp]:
  "currentIdentities (upd_el i f s) = currentIdentities s"
  "generatedKeypair (upd_el i f s) = generatedKeypair s"
  "passkeyRecoveryNsec (upd_el i f s) = passkeyRecoveryNsec s"
  "nsecRevealed (upd_el i f s) = nsecRevealed s"
  "allowIdentityLinking (upd_el i f s) = allowIdentityLinking s"
  "identityListItems (upd_el i f s) = identityListItems s"
  by (simp_all add: upd_el_def)

lemma not_link_controls [simp]:
  "A_messageEl \<notin> link_controls" "A_qrBox \<notin> link_controls" "A_generatedNsec \<notin> link_controls"
  "A_identityLabel \<in> link_controls" "A_linkMode \<in> link_controls" "A_passkeyRecoveryInput \<in> link_controls"
  by (simp_all add: link_controls_def)

subsection \<open>Linking\<close>

text \<open>
  Whatever happens while \<open>performLink\<close> waits, it ends without throwing, with every control
  of the page that it disabled enabled again and the QR box hidden.
\<close>

theorem link_restores_page:
  "case run env (performLink f t) s w l of (r, s', w', l') \<Rightarrow>
     r = Inr () \<and> link_controls \<subseteq> {i. \<not> e_disabled (el s' i)} \<and> e_hidden (el s' A_qrBox)"
proof -
  have "wp anything no_guarantee (performLink f t)
     (\<lambda>r s' l'. r = Inr () \<and> link_controls \<subseteq> {i. \<not> e_disabled (el s' i)} \<and> e_hidden (el s' A_qrBox)) s l"
    unfolding performLink_def network_message_def
    by (auto simp: wp_rules intro!: wp_top split: sum.split)
  from wp_any_run [OF this, of env w] show ?thesis .
qed

text \<open>An active identity among those the page knows.\<close>

definition active_identity :: "jsval list \<Rightarrow> bool" where
  "active_identity ids = list_ex (\<lambda>i. truthy (js_field i ''enabled'')) ids"

lemma run_some_enabled: "list_all (\<lambda>i. \<not> nullish i) ids \<Longrightarrow>
    run env (some_enabled ids) s w l = (Inr (active_identity ids), s, w, l)"
  by (induction ids) (simp_all add: run_rules js_get_field active_identity_def)

definition link_address :: "jsval list \<Rightarrow> string \<Rightarrow> string" where
  "link_address ids mode = (if active_identity ids \<and> mode = ''add'' then ''/identities/link'' else ''/link'')"

definition link_body :: "jsval \<Rightarrow> jsval \<Rightarrow> string \<Rightarrow> jsval" where
  "link_body ev t typed = Obj ([(''event'', ev), (''signer_type'', js_or t (Str ''unknown''))]
     @ (if js_trim typed \<noteq> [] then [(''label'', Str (js_trim typed))] else []))"

lemma run_link_request:
  "currentIdentities s = Arr ids \<Longrightarrow> list_all (\<lambda>i. \<not> nullish i) ids \<Longrightarrow>
   run env (link_request ev t) s w l =
     (Inr (link_address ids (e_value (el s A_linkMode)), link_body ev t (e_value (el s A_identityLabel))), s, w, l)"
  by (simp add: link_request_def hasActiveIdentity_def js_elements_def run_rules run_some_enabled
      link_address_def link_body_def)

lemma run_account_fetchJSON [run_rules]:
  "run env (account_fetchJSON url options) = run env (fetchJSON url (with_credentials options))"
  by (simp add: account_fetchJSON_def)

text \<open>
  What a link request carries and where it goes: the signed event of the challenge, the kind
  of the signer (\<open>unknown\<close> when none is given) and the trimmed label if there is one, to
  \<open>/identities/link\<close> if the user has an active identity and chose to add, and to \<open>/link\<close>
  otherwise; a refusal shows the server's error and leaves the identities and the
  generated key as they were.
\<close>

theorem link_request_sent:
  assumes "js_get signer ''signEvent'' = Inr (Closure n caps)" "n \<noteq> ''localSigner.signEvent''"
    and "truthy (js_field response ''ok'')" "\<not> nullish challenge"
    and "currentIdentities s = Arr ids" "list_all (\<lambda>i. \<not> nullish i) ids"
    and "\<not> nullish refusal" "\<not> truthy (js_field refusal ''ok'')" "t \<noteq> []"
  shows "case run script (performLink (\<lambda>e. signer_signEvent signer e) signerType) s
      [Inr response, Inr challenge, Inr now, Inr ev, Inr refusal, Inr (Obj [(''error'', Str t)])] [] of
    (r, s', w', l) \<Rightarrow>
     e_text (el s' A_messageEl) = t \<and> currentIdentities s' = currentIdentities s \<and>
     generatedKeypair s' = generatedKeypair s \<and> storage s' = storage s \<and>
     l = [(''fetch'', [Str ''/link/challenge'', with_credentials (Obj [(''method'', Str ''POST'')])], Inr response),
      (''response.json'', [response], Inr challenge),
      (''Date.now'', [], Inr now),
      (method_name n, caps @ [signer, event_of challenge now], Inr ev),
      (''fetch'', [Str (link_address ids (e_value (el s A_linkMode))),
         with_credentials (post_json (link_body ev signerType (e_value (el s A_identityLabel))))], Inr refusal),
      (''response.json'', [refusal], Inr (Obj [(''error'', Str t)]))]"
  using assms truthy_not_nullish [OF assms(3)]
  by (simp add: performLink_def link_exchange_def link_sign_def link_send_def run_rules fetch_result_def
      signer_signEvent_def run_link_request js_text_def js_or_def)

subsection \<open>Unlinking, revoking, renaming\<close>


text \<open>
  Revoking and renaming: nothing is sent when the user declines, cancels or leaves the label
  blank; otherwise exactly one request goes to the address of the identity, its id encoded
  as one path segment, a \<open>DELETE\<close> or a \<open>PATCH\<close> with the trimmed label; a refusal shows
  the server's error.
\<close>

theorem identity_requests:
  assumes "\<not> nullish refusal" "\<not> truthy (js_field refusal ''ok'')" "t \<noteq> []"
    and "\<not> nullish identity" "js_trim typed \<noteq> []" "truthy yes" "\<not> truthy no"
  shows "snd (snd (snd (run script (revokeIdentity i) s [Inr no] []))) =
      [(''window.confirm'', [Str ''Revoke this identity? It will no longer be able to sign in.''], Inr no)] \<and>
    (case run script (revokeIdentity i) s [Inr yes, Inr refusal, Inr (Obj [(''error'', Str t)])] [] of (r, s', w', l) \<Rightarrow>
      e_text (el s' A_messageEl) = t \<and>
      tl l = [(''fetch'', [Str (''/identities/'' @ encodeURIComponent (js_string i)),
                 with_credentials (Obj [(''method'', Str ''DELETE'')])], Inr refusal),
              (''response.json'', [refusal], Inr (Obj [(''error'', Str t)]))]) \<and>
    (case run script (renameIdentity identity) s [Inr Null] [] of (r, s', w', l) \<Rightarrow>
      s' = s \<and> map fst l = [''window.prompt'']) \<and>
    (case run script (renameIdentity identity) s [Inr (Str '' '')] [] of (r, s', w', l) \<Rightarrow>
      e_text (el s' A_messageEl) = ''Enter a label, or cancel to leave it unchanged.'' \<and> map fst l = [''window.prompt'']) \<and>
    (case run script (renameIdentity identity) s [Inr (Str typed), Inr refusal, Inr (Obj [(''error'', Str t)])] [] of
       (r, s', w', l) \<Rightarrow>
      e_text (el s' A_messageEl) = t \<and>
      tl l = [(''fetch'', [Str (''/identities/'' @ encodeURIComponent (js_string (js_field identity ''id''))),
                 with_credentials (patch_json (Obj [(''label'', Str (js_trim typed))]))], Inr refusal),
              (''response.json'', [refusal], Inr (Obj [(''error'', Str t)]))])"
proof -
  have blank: "js_trim '' '' = []" by code_simp
  show ?thesis
    using assms blank
    by (simp add: revokeIdentity_def renameIdentity_def refused_with_def run_rules fetch_result_def js_get_field
        identity_url_def js_text_def js_or_def)
qed

subsection \<open>The generated key\<close>

definition keypair :: "byte list \<Rightarrow> string \<Rightarrow> string \<Rightarrow> string \<Rightarrow> jsval" where
  "keypair sk pk nsec npub = Obj [(''secretKeyHex'', Str (bytesToHex sk)), (''pubkeyHex'', Str pk),
     (''nsec'', Str nsec), (''npub'', Str npub)]"

lemma run_generateLocalKeypair:
  "run script generateLocalKeypair s [Inr (Bytes sk), Inr (Str pk), Inr (Str nsec), Inr (Str npub)] [] =
     (Inr (keypair sk pk nsec npub), s, [],
      [(''NostrConnectVendor.generateSecretKey'', [], Inr (Bytes sk)),
       (''NostrConnectVendor.getPublicKey'', [Bytes sk], Inr (Str pk)),
       (''NostrConnectVendor.nsecEncode'', [Bytes sk], Inr (Str nsec)),
       (''NostrConnectVendor.npubEncode'', [Str pk], Inr (Str npub))])"
  by (simp add: generateLocalKeypair_def js_bytesToHex_def js_hex_def keypair_def run_rules)

lemma keypair_simps [simp]:
  "truthy (keypair sk pk nsec npub)" "js_get (keypair sk pk nsec npub) ''nsec'' = Inr (Str nsec)"
  "js_get (keypair sk pk nsec npub) ''npub'' = Inr (Str npub)"
  by (simp_all add: keypair_def)

definition fresh_key :: "jsval \<Rightarrow> account_page \<Rightarrow> account_page \<Rightarrow> bool" where
  "fresh_key kp s s' \<longleftrightarrow> generatedKeypair s' = kp \<and> \<not> nsecRevealed s' \<and>
     e_text (el s' A_generatedNsec) = NSEC_MASK \<and> \<not> e_checked (el s' A_rememberKeyCheckbox) \<and>
     storage s' = storage s"

lemma passkey_unavailable_fresh:
  "fresh_key kp s s' \<Longrightarrow> \<exists>s''. run env passkey_unavailable s' w l = (Inr (), s'', w, l) \<and> fresh_key kp s s''"
  by (simp add: passkey_unavailable_def run_rules) (simp add: fresh_key_def)

lemma run_generate:
  assumes "has_ConnectUI s" and "\<not> has_Passkey s"
  obtains s' l where "run script account_on_generate s
      [Inr (Bytes sk), Inr (Str pk), Inr (Str nsec), Inr (Str npub)] [] = (Inr (), s', [], l)"
    and "fresh_key (keypair sk pk nsec npub) s s'"
proof -
  define s1 where "s1 = (account_message [] ''message'' s)
      \<lparr>generatedKeypair := keypair sk pk nsec npub, nsecRevealed := False\<rparr>"
  define s2 where "s2 = upd_el A_generatedKeyBox (\<lambda>e. e\<lparr>e_hidden := False\<rparr>)
     (upd_el A_rememberKeyCheckbox (\<lambda>e. e\<lparr>e_checked := False\<rparr>)
     (upd_el A_revealNsecBtn (\<lambda>e. e\<lparr>e_text := ''Reveal''\<rparr>)
     (upd_el A_generatedNsec (\<lambda>e. e\<lparr>e_text := NSEC_MASK\<rparr>)
     (upd_el A_generatedNpub (\<lambda>e. e\<lparr>e_text := npub\<rparr>) s1))))"
  have "fresh_key (keypair sk pk nsec npub) s s2" by (simp add: fresh_key_def s2_def s1_def)
  note fr = passkey_unavailable_fresh [OF this, of script]
  have "\<not> has_Passkey s2" using assms(2) by (simp add: s2_def s1_def)
  then have "run script account_on_generate s [Inr (Bytes sk), Inr (Str pk), Inr (Str nsec), Inr (Str npub)] [] =
      run script passkey_unavailable s2 [] (snd (snd (snd (run script generateLocalKeypair
        (account_message [] ''message'' s) [Inr (Bytes sk), Inr (Str pk), Inr (Str nsec), Inr (Str npub)] []))))"
    using assms(1)
    by (simp add: account_on_generate_def with_ConnectUI_def run_rules run_generateLocalKeypair updatePasskeyUi_def
        js_text_def s1_def flip: s2_def) (simp add: s2_def s1_def)
  then show thesis using fr that by metis
qed

lemma run_reveal:
  assumes "generatedKeypair s = keypair sk pk nsec npub"
  shows "run env account_on_revealNsec s w l = (Inr (),
    upd_el A_revealNsecBtn (\<lambda>e. e\<lparr>e_text := if nsecRevealed s then ''Reveal'' else ''Hide''\<rparr>)
      (upd_el A_generatedNsec (\<lambda>e. e\<lparr>e_text := if nsecRevealed s then NSEC_MASK else nsec\<rparr>)
        (s\<lparr>nsecRevealed := \<not> nsecRevealed s\<rparr>)), w, l)"
  using assms by (simp add: account_on_revealNsec_def run_rules js_text_def)

text \<open>
  A generated key is shown masked and not remembered: after \<open>generateBtn\<close> the page holds
  the key pair, the key field shows only the mask, the remember box is unchecked, and the
  storage is unchanged.  Revealing then shows the private key, and revealing again masks it.
\<close>

theorem generated_key_masked:
  assumes "has_ConnectUI s" and "\<not> has_Passkey s"
  shows "case run script account_on_generate s [Inr (Bytes sk), Inr (Str pk), Inr (Str nsec), Inr (Str npub)] [] of
    (r, s', w', l) \<Rightarrow> r = Inr () \<and> fresh_key (keypair sk pk nsec npub) s s' \<and>
      (case run script account_on_revealNsec s' w' l of (r1, s1, w1, l1) \<Rightarrow>
         e_text (el s1 A_generatedNsec) = nsec \<and>
         (case run script account_on_revealNsec s1 w1 l1 of (r2, s2, w2, l2) \<Rightarrow>
            fresh_key (keypair sk pk nsec npub) s s2))"
proof -
  obtain s' l where r: "run script account_on_generate s
      [Inr (Bytes sk), Inr (Str pk), Inr (Str nsec), Inr (Str npub)] [] = (Inr (), s', [], l)"
    and f: "fresh_key (keypair sk pk nsec npub) s s'" by (rule run_generate [OF assms])
  from f have "generatedKeypair s' = keypair sk pk nsec npub" "\<not> nsecRevealed s'" by (simp_all add: fresh_key_def)
  with r f show ?thesis
    by (simp add: run_reveal [of _ sk pk nsec npub]) (simp add: fresh_key_def)
qed

text \<open>
  C24. The generated key is written to the storage exactly if the remember box is checked (and
  the storage can be written); either way the link is made with a signer of that key.
\<close>

theorem generated_key_saved_only_if_asked:
  assumes "has_ConnectUI s" and "truthy (generatedKeypair s)"
    and "js_field (generatedKeypair s) ''secretKeyHex'' = Str h"
  shows "run env account_on_useGeneratedKey s w l =
    run env (linkWithSigner (local_signer (hexToBytes h)) ''unknown'')
      (if e_checked (el s A_rememberKeyCheckbox) \<and> storage_writable s
       then s\<lparr>storage := (storage s)(LOCAL_KEY_STORAGE_KEY \<mapsto> h)\<rparr> else s) w l"
proof -
  have "\<not> nullish (generatedKeypair s)" using assms(2) by (cases "generatedKeypair s") simp_all
  then show ?thesis
    using assms
    by (simp add: account_on_useGeneratedKey_def run_rules with_ConnectUI_def js_get_field createLocalSigner_Str)
qed

subsection \<open>Rendering\<close>

definition expected_actions :: "jsval \<Rightarrow> card_action list" where
  "expected_actions i = (if truthy (js_field i ''enabled'')
     then [Rename_button i, Revoke_button (js_field i ''id'')] else [Revoked_note])"

lemma wp_identity_card: "wp R G (identity_card i)
    (\<lambda>r s' l'. s' = s \<and> (case r of Inl e \<Rightarrow> True | Inr c \<Rightarrow> card_actions c = expected_actions i)) s l"
  by (auto simp: identity_card_def account_formatTimestamp_def wp_rules js_get_field expected_actions_def
      split: sum.split)

lemma wp_render_cards: "wp R G (render_cards is)
    (\<lambda>r s' l'. r = Inr () \<longrightarrow> el s' = el s \<and> currentIdentities s' = currentIdentities s \<and>
       map card_actions (identityListItems s') = map card_actions (identityListItems s) @ map expected_actions is) s l"
proof (induction "is" arbitrary: s l)
  case (Cons i "is")
  show ?case
    by (simp add: wp_bind, rule wp_mono [OF wp_identity_card])
      (auto simp: wp_rules intro!: wp_mono [OF Cons] split: sum.splits)
qed simp

lemma wp_count_enabled: "wp R G (count_enabled is)
    (\<lambda>r s' l'. s' = s \<and> (case r of Inl e \<Rightarrow> True | Inr n \<Rightarrow> n > 0 \<longleftrightarrow> active_identity is)) s l"
proof (induction "is")
  case (Cons i "is")
  show ?case
    by (auto simp: wp_rules js_get_field active_identity_def intro!: wp_mono [OF Cons] split: sum.splits if_splits)
qed (simp add: active_identity_def)

definition rendered :: "jsval list \<Rightarrow> account_page \<Rightarrow> bool" where
  "rendered ids s \<longleftrightarrow> currentIdentities s = Arr ids \<and>
     map card_actions (identityListItems s) = map expected_actions ids \<and>
     e_hidden (el s A_unlinkBtn) = (\<not> active_identity ids) \<and>
     e_hidden (el s A_signedIn) = False \<and> e_hidden (el s A_signedOut) = True"

lemma wp_renderIdentities:
  assumes "js_field payload ''identities'' = Arr ids"
  shows "wp R G (renderIdentities payload) (\<lambda>r s' l'. r = Inr () \<longrightarrow> rendered ids s') s l"
proof -
  have nn: "\<not> nullish payload" using assms by (auto simp: nullish_def js_field_def)
  show ?thesis
    using assms nn
    apply (simp add: renderIdentities_def js_elements_def wp_bind wp_set_dom wp_get_prop wp_modify js_get_field)
    by (rule wp_mono [OF wp_count_enabled])
      (auto simp: wp_bind wp_gets wp_modify wp_set_dom render_linked_def render_unlinked_def render_no_linking_def
        set_link_text_def rendered_def upd_el_def intro!: wp_mono [OF wp_render_cards] split: sum.splits)
qed

text \<open>
  C25. The list shows the identities the server sent, in its order, one card each: exactly the
  enabled ones can be renamed and revoked (with their own id), the others are marked as
  revoked; the unlink button is shown exactly if some identity is enabled.
\<close>

theorem identities_rendered:
  assumes "js_field payload ''identities'' = Arr ids"
    and "run env (renderIdentities payload) s w l = (Inr (), s', w', l')"
  shows "currentIdentities s' = Arr ids \<and>
     map card_actions (identityListItems s') = map expected_actions ids \<and>
     e_hidden (el s' A_unlinkBtn) = (\<not> active_identity ids)"
  using wp_any_result [OF assms(2) wp_renderIdentities [OF assms(1)]] by (simp add: rendered_def)

text \<open>
  A user without a session sees the sign-in view: when the server answers 401 to
  \<open>/identities\<close>, the signed-out part is shown, the signed-in part hidden, and neither the
  identities nor the saved signers are rendered.
\<close>

theorem no_session_shows_sign_in:
  assumes "\<not> nullish policy" and "js_field response ''status'' = Num 401"
  shows "case run script loadIdentity s [Inr policy, Inl e, Inr response, answer] [] of (r, s', w', l) \<Rightarrow>
     r = Inr () \<and> \<not> e_hidden (el s' A_signedOut) \<and> e_hidden (el s' A_signedIn) \<and>
     identityListItems s' = identityListItems s \<and> currentIdentities s' = currentIdentities s \<and>
     map fst l = [''fetch'', ''response.json'', ''fetch'', ''response.json'']"
proof -
  have "\<not> nullish response" using assms(2) by (auto simp: nullish_def js_field_def)
  with assms show ?thesis
    by (simp add: loadIdentity_def run_rules fetch_result_def)
qed

subsection \<open>Recovery keys\<close>

lemma wp_updatePasskeyUi_value: "wp R no_guarantee updatePasskeyUi
    (\<lambda>r s' l'. e_value (el s' A_passkeyRecoveryInput) = e_value (el s A_passkeyRecoveryInput)) s l"
  by (auto simp: updatePasskeyUi_def passkey_unavailable_def hasStoredPasskey_def set_recovery_def has_recovery_def
      has_keypair_def wp_rules split: sum.split)

text \<open>
  C26. A typed recovery key does not stay on the page: however restoring ends, and whatever
  happens meanwhile, either nothing but the look for a stored passkey has been called, or the
  input is empty again.
\<close>

theorem typed_recovery_key_cleared:
  "case run env restorePasskeyIdentity s w [] of (r, s', w', l) \<Rightarrow>
     set (map fst l) \<subseteq> {''NostrPasskey.hasStoredPasskeyIdentity''} \<or> e_value (el s' A_passkeyRecoveryInput) = []"
proof -
  have "wp anything no_guarantee restorePasskeyIdentity (\<lambda>r s' l.
     set (map fst l) \<subseteq> {''NostrPasskey.hasStoredPasskeyIdentity''} \<or> e_value (el s' A_passkeyRecoveryInput) = []) s []"
    by (auto simp: restorePasskeyIdentity_def hasStoredPasskey_def set_recovery_def wp_rules
        intro!: wp_top wp_mono [OF wp_updatePasskeyUi_value] split: sum.split)
  from wp_any_run [OF this, of env w] show ?thesis .
qed

text \<open>
  A revealed recovery key can be hidden: the next use of the same button removes it from the
  page and from the script, and asks the passkey library for nothing but whether an identity
  is stored.
\<close>

theorem recovery_key_hidden_again:
  assumes "has_Passkey s" and "truthy (passkeyRecoveryNsec s)" and "truthy stored"
  shows "case run script revealPasskeyRecoveryKey s [Inr stored] [] of (r, s', w', l) \<Rightarrow>
     r = Inr () \<and> passkeyRecoveryNsec s' = Str [] \<and> e_text (el s' A_passkeyRecoveryValue) = [] \<and>
     e_hidden (el s' A_passkeyRecoveryValue) \<and> e_hidden (el s' A_passkeyRecoveryCopyBtn) \<and>
     l = [(''NostrPasskey.hasStoredPasskeyIdentity'', [], Inr stored)]"
  using assms
  by (simp add: revealPasskeyRecoveryKey_def hasStoredPasskey_def has_recovery_def hide_recovery_def set_recovery_def
      run_rules)

subsection \<open>Concrete inputs\<close>

definition fresh_account :: account_page where
  "fresh_account = \<lparr>el = (\<lambda>_. blank_elem), storage = Map.empty, storage_readable = True,
     storage_writable = True, href = [], doc_title = [], win_nostr = Undefined,
     has_ConnectUI = True, has_Passkey = True, aborted = [], next_controller = 0,
     allowIdentityLinking = True, generatedKeypair = Null, nsecRevealed = False,
     currentUsername = Str [], passkeyRecoveryNsec = Str [], currentIdentities = Arr [],
     linkAbortController = None, identityListItems = []\<rparr>"

definition account_signer :: jsval where
  "account_signer = Obj [(''signEvent'', Closure ''sign'' [])]"

definition account_http :: "bool \<Rightarrow> int \<Rightarrow> jsval" where
  "account_http b status = Obj [(''ok'', Bool b), (''status'', Num status)]"

lemma account_sample_simps [simp]:
  "js_get account_signer ''signEvent'' = Inr (Closure ''sign'' [])"
  "js_field (account_http b n) ''ok'' = Bool b" "js_field (account_http b n) ''status'' = Num n"
  "\<not> nullish (account_http b n)"
  by (simp_all add: account_signer_def account_http_def)


theorem link_request_sent_witness:
  "e_text (el (fst (snd (run script (performLink (\<lambda>e. signer_signEvent account_signer e) (Str ''nip46'')) fresh_account
      [Inr (account_http True 200), Inr (Obj []), Inr (Num 5), Inr (Obj []), Inr (account_http False 409),
       Inr (Obj [(''error'', Str ''taken'')])] []))) A_messageEl) = ''taken''"
  using link_request_sent [where signer = account_signer and n = "''sign''" and caps = "[]" and s = fresh_account
      and response = "account_http True 200" and challenge = "Obj []" and ids = "[]" and t = "''taken''"
      and refusal = "account_http False 409" and now = "Num 5" and ev = "Obj []" and signerType = "Str ''nip46''"]
  by (auto simp: fresh_account_def split: prod.splits)


theorem identity_requests_witness:
  "snd (snd (snd (run script (revokeIdentity (Num 7)) fresh_account [Inr (Bool False)] []))) =
      [(''window.confirm'', [Str ''Revoke this identity? It will no longer be able to sign in.''], Inr (Bool False))]"
proof -
  have "js_trim ''laptop'' = ''laptop''" by code_simp
  then show ?thesis
    using identity_requests [where refusal = "account_http False 404" and t = "''gone''" and identity = "Obj []"
        and typed = "''laptop''" and yes = "Bool True" and no = "Bool False" and i = "Num 7" and s = fresh_account]
    by simp
qed

theorem generated_key_masked_witness:
  "e_text (el (fst (snd (run script account_on_generate (fresh_account\<lparr>has_Passkey := False\<rparr>)
     [Inr (Bytes [1]), Inr (Str ''pk''), Inr (Str ''nsec1x''), Inr (Str ''npub1x'')] []))) A_generatedNsec) = NSEC_MASK"
  using generated_key_masked [of "fresh_account\<lparr>has_Passkey := False\<rparr>" "[1]" "''pk''" "''nsec1x''" "''npub1x''"]
  by (auto simp: fresh_account_def fresh_key_def split: prod.splits)

theorem generated_key_saved_only_if_asked_witness:
  "run script account_on_useGeneratedKey (fresh_account\<lparr>generatedKeypair := keypair [7] ''pk'' ''ns'' ''np''\<rparr>) [] [] =
    run script (linkWithSigner (local_signer (hexToBytes (bytesToHex [7]))) ''unknown'')
      (fresh_account\<lparr>generatedKeypair := keypair [7] ''pk'' ''ns'' ''np''\<rparr>) [] []"
  using generated_key_saved_only_if_asked [where s = "fresh_account\<lparr>generatedKeypair := keypair [7] ''pk'' ''ns'' ''np''\<rparr>"
      and h = "bytesToHex [7]" and env = script and w = "[]" and l = "[]"]
  by (simp add: fresh_account_def blank_elem_def keypair_def)

theorem identities_rendered_witness:
  "map card_actions (identityListItems (fst (snd (run script
      (renderIdentities (Obj [(''identities'', Arr [Obj [(''id'', Num 3), (''enabled'', Bool True)], Obj []])]))
      fresh_account [] [])))) =
   [[Rename_button (Obj [(''id'', Num 3), (''enabled'', Bool True)]), Revoke_button (Num 3)], [Revoked_note]]"
proof -
  let ?p = "Obj [(''identities'', Arr [Obj [(''id'', Num 3), (''enabled'', Bool True)], Obj []])]"
  have "fst (run script (renderIdentities ?p) fresh_account [] []) = Inr ()"
    by (simp add: renderIdentities_def js_elements_def identity_card_def account_formatTimestamp_def run_rules
        render_linked_def render_no_linking_def set_link_text_def fresh_account_def)
  then obtain s' w' l' where r: "run script (renderIdentities ?p) fresh_account [] [] = (Inr (), s', w', l')"
    by (cases "run script (renderIdentities ?p) fresh_account [] []") auto
  show ?thesis
    using identities_rendered [OF _ r] by (simp add: r expected_actions_def)
qed

theorem no_session_shows_sign_in_witness:
  "e_hidden (el (fst (snd (run script loadIdentity fresh_account
      [Inr (account_http True 200), Inl Undefined, Inr (account_http False 401), Inr Null] []))) A_signedIn)"
  using no_session_shows_sign_in [where policy = "account_http True 200" and response = "account_http False 401"
      and s = fresh_account and e = Undefined and answer = "Inr Null"]
  by (auto split: prod.splits)

theorem recovery_key_hidden_again_witness:
  "passkeyRecoveryNsec (fst (snd (run script revealPasskeyRecoveryKey
     (fresh_account\<lparr>passkeyRecoveryNsec := Str ''nsec1x''\<rparr>) [Inr (Bool True)] []))) = Str []"
  using recovery_key_hidden_again [where s = "fresh_account\<lparr>passkeyRecoveryNsec := Str ''nsec1x''\<rparr>"
      and stored = "Bool True"]
  by (auto simp: fresh_account_def split: prod.splits)

end
