(* ===== verification/Admin_Page.thy ===== *)
theory Admin_Page
  imports Page_Script
begin

text \<open>
  \<open>src/src/yunohost_nostr_auth/web/static/nostr-admin-page.js\<close>: the administrator's list of
  all identities.  The state is the browser, the list of identities, the rendered rows, the
  entries of the form, and the messages whose time-out is pending.  The class \<open>hidden\<close> and
  \<open>style.display\<close> are the hidden flag of the element.  \<open>toLowerCase\<close> is the parameter \<open>lower\<close>:
  the Unicode tables behind it are not part of the source.
\<close>

datatype admin_el =
    D_gate | D_gateTitle | D_gateMessage | D_app | D_whoami | D_banner | D_emptyMessage
  | D_searchInput | D_showRevoked | D_addSubmit | D_refreshButton

datatype row_button = Rename_row jsval | Revoke_row jsval

record admin_row =
  row_html :: string
  row_actions :: "row_button list"

record admin_page = "admin_el browser" +
  identities :: jsval
  tbody :: "admin_row list"
  addForm :: "(string \<times> string) list"
  addForm_defaults :: "(string \<times> string) list"
  banner_timers :: "string list"

type_synonym 'a admin = "(admin_page, 'a) js"

subsection \<open>The banner\<close>

definition showBanner :: "string \<Rightarrow> string \<Rightarrow> unit admin" where
  "showBanner message kind = block
     [set_text D_banner message,
      set_class D_banner kind,
      (if kind = ''success'' then modify (\<lambda>s. s\<lparr>banner_timers := banner_timers s @ [message]\<rparr>)
       else Return ())]"

text \<open>The callback of \<open>window.setTimeout\<close>, 4000 ms after a success.\<close>

definition banner_timeout :: "string \<Rightarrow> unit admin" where
  "banner_timeout message =
     js_bind (modify (\<lambda>s. s\<lparr>banner_timers := remove1 message (banner_timers s)\<rparr>)) (\<lambda>_.
     js_bind (gets (\<lambda>s. e_text (el s D_banner))) (\<lambda>t.
     if t = message then block [set_class D_banner [], set_text D_banner []] else Return ()))"

subsection \<open>Requests\<close>

definition admin_options :: "jsval \<Rightarrow> jsval" where
  "admin_options options =
     (let ps = (case options of Obj ps \<Rightarrow> ps | _ \<Rightarrow> []);
          given = (case js_prop ps ''headers'' of Obj hs \<Rightarrow> hs | _ \<Rightarrow> [])
      in Obj (obj_set ps (''headers'', Obj (foldl obj_set [(''Content-Type'', Str ''application/json'')] given))))"

definition api :: "string \<Rightarrow> jsval \<Rightarrow> jsval admin" where
  "api path options =
     js_bind (js_fetch path (admin_options options)) (\<lambda>response.
     js_bind (try_catch (response_json response) (\<lambda>e. Return Null)) (\<lambda>body.
     js_bind (get_prop response ''ok'') (\<lambda>ok.
     if \<not> truthy ok then
       js_bind (if truthy body then get_prop body ''error'' else Return body) (\<lambda>err.
       js_bind (get_prop response ''status'') (\<lambda>status.
       Throw (js_error (js_string
         (js_or err (Str (''request failed (HTTP '' @ js_string status @ '')'')))))))
     else Return body)))"

subsection \<open>Texts\<close>

definition admin_formatTimestamp :: "jsval \<Rightarrow> jsval admin" where
  "admin_formatTimestamp seconds =
     (if \<not> truthy seconds then Return (Str ''never'')
      else call ''new Date(v * 1000).toLocaleString'' [seconds])"

text \<open>The server sends \<open>npub\<close> as a string of ASCII characters.\<close>

definition truncatePubkey :: "jsval \<Rightarrow> string admin" where
  "truncatePubkey npub =
     (if \<not> truthy npub then Return []
      else case npub of
        Str t \<Rightarrow> Return (if length t \<le> 20 then t else slice_first 12 t @ ellipsis @ slice_last 6 t)
      | _ \<Rightarrow> Throw type_error)"

text \<open>
  \<open>div.textContent = t; div.innerHTML\<close>: the serialisation of a text node.  The no-break
  space is C2 A0 in UTF-8.
\<close>

fun serialize_text :: "string \<Rightarrow> string" where
  "serialize_text [] = []"
| "serialize_text [c] = (if c = CHR ''&'' then ''&amp;'' else if c = CHR ''<'' then ''&lt;''
     else if c = CHR ''>'' then ''&gt;'' else [c])"
| "serialize_text (c # d # t) = (if c = CHR ''&'' then ''&amp;'' @ serialize_text (d # t)
     else if c = CHR ''<'' then ''&lt;'' @ serialize_text (d # t)
     else if c = CHR ''>'' then ''&gt;'' @ serialize_text (d # t)
     else if c = chr 0xC2 \<and> d = chr 0xA0 then ''&nbsp;'' @ serialize_text t
     else c # serialize_text (d # t))"

definition escapeHtml :: "jsval \<Rightarrow> string" where
  "escapeHtml value = serialize_text (js_text value)"

subsection \<open>The table\<close>

definition matchesFilter :: "(string \<Rightarrow> string) \<Rightarrow> jsval \<Rightarrow> string \<Rightarrow> bool admin" where
  "matchesFilter lower identity needle =
     (if needle = [] then Return True else
      js_bind (get_prop identity ''username'') (\<lambda>username.
      js_bind (get_prop identity ''label'') (\<lambda>label.
      js_bind (get_prop identity ''npub'') (\<lambda>npub.
      js_bind (get_prop identity ''pubkey'') (\<lambda>pubkey.
      js_bind (get_prop identity ''signer_type'') (\<lambda>signer_type.
      Return (js_includes needle (lower (join '' ''
        (map js_text [username, js_or label (Str []), npub, pubkey, signer_type]))))))))))"

fun filter_rows :: "(string \<Rightarrow> string) \<Rightarrow> bool \<Rightarrow> string \<Rightarrow> jsval list \<Rightarrow> jsval list admin" where
  "filter_rows lower includeRevoked needle [] = Return []"
| "filter_rows lower includeRevoked needle (i # is) =
     js_bind (if includeRevoked then Return True
              else js_bind (get_prop i ''enabled'') (\<lambda>b. Return (truthy b))) (\<lambda>shown.
     js_bind (if shown then matchesFilter lower i needle else Return False) (\<lambda>keep.
     js_bind (filter_rows lower includeRevoked needle is) (\<lambda>rows.
     Return (if keep then i # rows else rows))))"

text \<open>The template of a row, with the line breaks and the spaces of the source.\<close>

definition newline :: "nat \<Rightarrow> string" where
  "newline n = chr 10 # replicate n (CHR '' '')"

definition row_template :: "string \<Rightarrow> string \<Rightarrow> string \<Rightarrow> string \<Rightarrow> string \<Rightarrow> string \<Rightarrow> string \<Rightarrow> string \<Rightarrow> string" where
  "row_template username pubkey npub signer_type label statusChip created used =
     newline 8 @ ''<td>'' @ username @ ''</td>'' @
     newline 8 @ ''<td class=\"pubkey\" title=\"'' @ pubkey @ ''\">'' @ npub @ ''</td>'' @
     newline 8 @ ''<td>'' @ signer_type @ ''</td>'' @
     newline 8 @ ''<td class=\"label-cell\">'' @ label @ ''</td>'' @
     newline 8 @ ''<td>'' @ statusChip @ ''</td>'' @
     newline 8 @ ''<td>'' @ created @ ''</td>'' @
     newline 8 @ ''<td>'' @ used @ ''</td>'' @
     newline 8 @ ''<td class=\"row-actions\"></td>'' @ newline 6"

definition status_chip :: "jsval \<Rightarrow> string" where
  "status_chip enabled = (if truthy enabled then ''<span class=\"chip\">active</span>''
     else ''<span class=\"chip revoked\">revoked</span>'')"

definition render_row :: "jsval \<Rightarrow> admin_row admin" where
  "render_row identity =
     js_bind (get_prop identity ''enabled'') (\<lambda>enabled.
     js_bind (get_prop identity ''username'') (\<lambda>username.
     js_bind (get_prop identity ''pubkey'') (\<lambda>pubkey.
     js_bind (get_prop identity ''npub'') (\<lambda>npub.
     js_bind (truncatePubkey npub) (\<lambda>short.
     js_bind (get_prop identity ''signer_type'') (\<lambda>signer_type.
     js_bind (get_prop identity ''label'') (\<lambda>label.
     js_bind (get_prop identity ''created_at'') (\<lambda>created_at.
     js_bind (admin_formatTimestamp created_at) (\<lambda>created.
     js_bind (get_prop identity ''last_used'') (\<lambda>last_used.
     js_bind (admin_formatTimestamp last_used) (\<lambda>used.
     Return \<lparr>row_html = row_template (escapeHtml username) (escapeHtml pubkey) (escapeHtml (Str short))
           (escapeHtml signer_type) (escapeHtml (js_or label (Str []))) (status_chip enabled)
           (escapeHtml created) (escapeHtml used),
         row_actions = (if truthy enabled then [Rename_row identity, Revoke_row identity] else [])\<rparr>)))))))))))"

fun append_rows :: "jsval list \<Rightarrow> unit admin" where
  "append_rows [] = Return ()"
| "append_rows (i # is) = js_bind (render_row i) (\<lambda>tr.
     js_bind (modify (\<lambda>s. s\<lparr>tbody := tbody s @ [tr]\<rparr>)) (\<lambda>_. append_rows is))"

text \<open>\<open>identities.filter\<close>: only an array has it.\<close>

definition array_items :: "jsval \<Rightarrow> jsval list admin" where
  "array_items v = (case v of Arr vs \<Rightarrow> Return vs | _ \<Rightarrow> Throw type_error)"

definition renderRows :: "(string \<Rightarrow> string) \<Rightarrow> unit admin" where
  "renderRows lower =
     js_bind (gets (\<lambda>s. lower (js_trim (e_value (el s D_searchInput))))) (\<lambda>needle.
     js_bind (gets (\<lambda>s. e_checked (el s D_showRevoked))) (\<lambda>includeRevoked.
     js_bind (gets identities) (\<lambda>v.
     js_bind (array_items v) (\<lambda>items.
     js_bind (filter_rows lower includeRevoked needle items) (\<lambda>rows.
     js_bind (modify (\<lambda>s. s\<lparr>tbody := []\<rparr>)) (\<lambda>_.
     js_bind (set_hidden D_emptyMessage (rows \<noteq> [])) (\<lambda>_.
     append_rows rows)))))))"

subsection \<open>The operations\<close>

text \<open>\<open>showBanner(`prefix: ${e.message}`, "error")\<close>\<close>

definition failed :: "string \<Rightarrow> jsval \<Rightarrow> unit admin" where
  "failed prefix e = js_bind (get_prop e ''message'') (\<lambda>m. showBanner (prefix @ '': '' @ js_string m) ''error'')"

definition loadIdentities :: "(string \<Rightarrow> string) \<Rightarrow> unit admin" where
  "loadIdentities lower = try_catch
     (js_bind (api ''/nostr-admin/api/identities'' (Obj [(''method'', Str ''GET'')])) (\<lambda>body.
      js_bind (get_prop body ''identities'') (\<lambda>ids.
      js_bind (modify (\<lambda>s. s\<lparr>identities := ids\<rparr>)) (\<lambda>_. renderRows lower))))
     (failed ''Could not load identities'')"

definition admin_post :: "jsval \<Rightarrow> jsval" where
  "admin_post body = Obj [(''method'', Str ''POST''), (''body'', Str (json_stringify body))]"

definition admin_url :: "jsval \<Rightarrow> string \<Rightarrow> string" where
  "admin_url i action = ''/nostr-admin/api/identities/'' @ js_string i @ ''/'' @ action"

definition apostrophe :: string where
  "apostrophe = [chr 39]"

definition admin_renameIdentity :: "(string \<Rightarrow> string) \<Rightarrow> jsval \<Rightarrow> unit admin" where
  "admin_renameIdentity lower identity =
     js_bind (get_prop identity ''username'') (\<lambda>username.
     js_bind (get_prop identity ''label'') (\<lambda>old.
     js_bind (call ''window.prompt''
       [Str (''New label for '' @ js_string username @ apostrophe @ ''s identity:''), js_or old (Str [])]) (\<lambda>answer.
     if answer = Null then Return () else
     js_bind (case answer of Str t \<Rightarrow> Return (js_trim t) | _ \<Rightarrow> Throw type_error) (\<lambda>label.
     if label = [] then showBanner ''Label cannot be empty'' ''error'' else
     try_catch
       (js_bind (get_prop identity ''id'') (\<lambda>i.
        js_bind (api (admin_url i ''rename'') (admin_post (Obj [(''username'', username), (''label'', Str label)]))) (\<lambda>_.
        block
          [showBanner (''Renamed '' @ js_string username @ apostrophe @ ''s identity'') ''success'',
           loadIdentities lower])))
       (failed ''Could not rename identity'')))))"

definition admin_revokeIdentity :: "(string \<Rightarrow> string) \<Rightarrow> jsval \<Rightarrow> unit admin" where
  "admin_revokeIdentity lower identity =
     js_bind (get_prop identity ''username'') (\<lambda>username.
     js_bind (call ''window.confirm''
       [Str (''Revoke this identity for '' @ js_string username @ ''? It can be re-linked later.'')]) (\<lambda>yes.
     if \<not> truthy yes then Return () else
     try_catch
       (js_bind (get_prop identity ''id'') (\<lambda>i.
        js_bind (api (admin_url i ''revoke'') (admin_post (Obj [(''username'', username)]))) (\<lambda>_.
        block
          [showBanner (''Revoked '' @ js_string username @ apostrophe @ ''s identity'') ''success'',
           loadIdentities lower])))
       (failed ''Could not revoke identity'')))"

text \<open>\<open>formData.get(k)\<close>, and \<open>(formData.get(k) || "").toString().trim()\<close>\<close>

definition form_get :: "(string \<times> string) list \<Rightarrow> string \<Rightarrow> jsval" where
  "form_get form k = (case map_of form k of None \<Rightarrow> Null | Some t \<Rightarrow> Str t)"

definition form_text :: "(string \<times> string) list \<Rightarrow> string \<Rightarrow> string" where
  "form_text form k = js_trim (js_string (js_or (form_get form k) (Str [])))"

definition add_request :: "(string \<times> string) list \<Rightarrow> jsval" where
  "add_request form = Obj
     [(''username'', Str (form_text form ''username'')),
      (''pubkey'', Str (form_text form ''pubkey'')),
      (''signer_type'', form_get form ''signer_type''),
      (''label'', js_or (Str (form_text form ''label'')) Null),
      (''replace'', Bool (form_get form ''replace'' = Str ''on''))]"

definition admin_on_submit :: "(string \<Rightarrow> string) \<Rightarrow> unit admin" where
  "admin_on_submit lower =
     js_bind (do_call ''event.preventDefault'' []) (\<lambda>_.
     js_bind (set_disabled D_addSubmit True) (\<lambda>_.
     try_finally
       (try_catch
         (js_bind (gets addForm) (\<lambda>form.
          js_bind (api ''/nostr-admin/api/identities'' (admin_post (add_request form))) (\<lambda>_.
          block
            [showBanner ''Identity linked'' ''success'',
             modify (\<lambda>s. s\<lparr>addForm := addForm_defaults s\<rparr>),
             loadIdentities lower])))
         (failed ''Could not link identity''))
       (set_disabled D_addSubmit False)))"

subsection \<open>The access gate\<close>

definition admin_init :: "(string \<Rightarrow> string) \<Rightarrow> unit admin" where
  "admin_init lower =
     js_bind (set_hidden D_gate False) (\<lambda>_.
     js_bind (try_catch
        (js_bind (api ''/nostr-admin/api/session'' (Obj [(''method'', Str ''GET'')])) (\<lambda>v. Return (Some v)))
        (\<lambda>e. js_bind (set_text D_gateTitle ''Could not check access'') (\<lambda>_.
             js_bind (get_prop e ''message'') (\<lambda>m.
             js_bind (set_text D_gateMessage (js_text m)) (\<lambda>_. Return None))))) (\<lambda>r.
     case r of None \<Rightarrow> Return ()
     | Some session \<Rightarrow>
     js_bind (get_prop session ''authenticated'') (\<lambda>authenticated.
     if \<not> truthy authenticated then block
       [set_text D_gateTitle ''Sign in required'',
        set_text D_gateMessage ''Log in to YunoHost as an administrator, then reload this page.'']
     else
     js_bind (get_prop session ''is_admin'') (\<lambda>is_admin.
     js_bind (get_prop session ''username'') (\<lambda>username.
     if \<not> truthy is_admin then block
       [set_text D_gateTitle ''Admin access required'',
        set_text D_gateMessage (''Signed in as '' @ js_string username @ '', which is not in the \"admins\" group.'')]
     else block
       [set_hidden D_gate True,
        set_hidden D_app False,
        set_text D_whoami (''Signed in as '' @ js_string username),
        loadIdentities lower])))))"

subsection \<open>The page as an event loop\<close>

datatype admin_ev =
    Start_init | Input_search | Change_showRevoked | Click_refresh | Submit_add
  | Timeout_banner string | Click_rename_row jsval | Click_revoke_row jsval

fun admin_handler :: "(string \<Rightarrow> string) \<Rightarrow> admin_ev \<Rightarrow> unit admin" where
  "admin_handler lower Start_init = admin_init lower"
| "admin_handler lower Input_search = renderRows lower"
| "admin_handler lower Change_showRevoked = renderRows lower"
| "admin_handler lower Click_refresh = loadIdentities lower"
| "admin_handler lower Submit_add = admin_on_submit lower"
| "admin_handler lower (Timeout_banner message) = banner_timeout message"
| "admin_handler lower (Click_rename_row identity) = admin_renameIdentity lower identity"
| "admin_handler lower (Click_revoke_row identity) = admin_revokeIdentity lower identity"

fun admin_enabled :: "admin_ev \<Rightarrow> admin_page \<Rightarrow> bool" where
  "admin_enabled Start_init s = True"
| "admin_enabled Input_search s = (\<not> e_hidden (el s D_app))"
| "admin_enabled Change_showRevoked s = (\<not> e_hidden (el s D_app))"
| "admin_enabled Click_refresh s = (\<not> e_hidden (el s D_app))"
| "admin_enabled Submit_add s = (\<not> e_hidden (el s D_app) \<and> \<not> e_disabled (el s D_addSubmit))"
| "admin_enabled (Timeout_banner message) s = (message \<in> set (banner_timers s))"
| "admin_enabled (Click_rename_row identity) s = (\<not> e_hidden (el s D_app) \<and>
     list_ex (\<lambda>r. Rename_row identity \<in> set (row_actions r)) (tbody s))"
| "admin_enabled (Click_revoke_row identity) s = (\<not> e_hidden (el s D_app) \<and>
     list_ex (\<lambda>r. Revoke_row identity \<in> set (row_actions r)) (tbody s))"

text \<open>Typing, ticking, and filling the form.\<close>

definition admin_outside :: "admin_page \<Rightarrow> admin_page \<Rightarrow> bool" where
  "admin_outside s s' \<longleftrightarrow> (\<exists>v c form.
     s' = s\<lparr>el := (\<lambda>i. (el s i)\<lparr>e_value := v i, e_checked := c i\<rparr>), addForm := form\<rparr>)"

end
