(* ===== verification/Admin_Laws.thy ===== *)
theory Admin_Laws
  imports Admin_Page
begin

text \<open>
  The properties of the administration page (\<open>nostr-admin-page.js\<close>): what its table shows, how it
  escapes, the requests of its buttons and of its form, and the access gate, which is an
  invariant of every interleaving of its handlers.
\<close>

subsection \<open>Escaping\<close>

text \<open>Reading the four character references back.\<close>

fun unescape_text :: "string \<Rightarrow> string" where
  "unescape_text [] = []"
| "unescape_text (c # t) =
     (if starts_with ''&amp;'' (c # t) then CHR ''&'' # unescape_text (drop 4 t)
      else if starts_with ''&lt;'' (c # t) then CHR ''<'' # unescape_text (drop 3 t)
      else if starts_with ''&gt;'' (c # t) then CHR ''>'' # unescape_text (drop 3 t)
      else if starts_with ''&nbsp;'' (c # t) then chr 0xC2 # chr 0xA0 # unescape_text (drop 5 t)
      else c # unescape_text t)"

lemma escape_chars [simp]: "chr 0xC2 \<noteq> CHR ''&''" "chr 0xC2 \<noteq> CHR ''<''" "chr 0xC2 \<noteq> CHR ''>''"
  by (simp_all add: chr_eq_iff eq_chr_iff code_of_def)

lemma unescape_serialize: "unescape_text (serialize_text t) = t"
  by (induction t rule: serialize_text.induct) auto

lemma serialize_no_markup: "CHR ''<'' \<notin> set (serialize_text t) \<and> CHR ''>'' \<notin> set (serialize_text t)"
  by (induction t rule: serialize_text.induct) auto

definition lt_count :: "string \<Rightarrow> nat" where
  "lt_count t = count_list t (CHR ''<'')"

lemma lt_count_append [simp]: "lt_count (a @ b) = lt_count a + lt_count b"
  by (simp add: lt_count_def)

lemma lt_count_escape [simp]: "lt_count (escapeHtml v) = 0"
  using serialize_no_markup by (simp add: lt_count_def escapeHtml_def count_list_0_iff)

lemma lt_count_newline [simp]: "lt_count (newline n) = 0"
  by (induction n) (simp_all add: lt_count_def newline_def chr_eq_iff eq_chr_iff code_of_def)

lemma lt_count_chip [simp]: "lt_count (status_chip b) = 2"
  by (simp add: status_chip_def lt_count_def)

lemma lt_count_list [simp]:
  "lt_count [] = 0" "lt_count (c # t) = (if c = CHR ''<'' then Suc (lt_count t) else lt_count t)"
  by (simp_all add: lt_count_def)

lemma lt_count_template: "lt_count (row_template a b c d e f g h) = 16 +
    lt_count a + lt_count b + lt_count c + lt_count d + lt_count e + lt_count f + lt_count g + lt_count h"
  by (simp add: row_template_def)

definition row_buttons :: "jsval \<Rightarrow> row_button list" where
  "row_buttons i = (if truthy (js_field i ''enabled'') then [Rename_row i, Revoke_row i] else [])"

definition row_of :: "jsval \<Rightarrow> admin_row \<Rightarrow> bool" where
  "row_of i tr \<longleftrightarrow> lt_count (row_html tr) = 18 \<and> row_actions tr = row_buttons i"

lemma wp_render_row: "wp R G (render_row i)
    (\<lambda>r s' l'. s' = s \<and> (case r of Inl e \<Rightarrow> True | Inr tr \<Rightarrow> row_of i tr)) s l"
  by (auto simp: render_row_def truncatePubkey_def admin_formatTimestamp_def lt_count_template wp_rules js_get_field
      row_of_def row_buttons_def split: sum.split jsval.split)

lemma wp_append_rows: "wp R G (append_rows is)
    (\<lambda>r s' l'. r = Inr () \<longrightarrow> el s' = el s \<and> identities s' = identities s \<and>
       (\<exists>trs. tbody s' = tbody s @ trs \<and> list_all2 row_of is trs)) s l"
proof (induction "is" arbitrary: s l)
  case (Cons i "is")
  show ?case
    by (simp add: wp_bind, rule wp_mono [OF wp_render_row])
      (auto simp: wp_rules intro!: wp_mono [OF Cons] split: sum.splits)
qed simp

subsection \<open>Filtering\<close>

text \<open>The rows the page is meant to show.\<close>

definition haystack :: "(string \<Rightarrow> string) \<Rightarrow> jsval \<Rightarrow> string" where
  "haystack lower i = lower (join '' '' (map js_text
     [js_field i ''username'', js_or (js_field i ''label'') (Str []), js_field i ''npub'', js_field i ''pubkey'',
      js_field i ''signer_type'']))"

definition wanted :: "(string \<Rightarrow> string) \<Rightarrow> bool \<Rightarrow> string \<Rightarrow> jsval \<Rightarrow> bool" where
  "wanted lower includeRevoked needle i \<longleftrightarrow> (includeRevoked \<or> truthy (js_field i ''enabled'')) \<and>
     (needle = [] \<or> js_includes needle (haystack lower i))"

lemma wp_filter_rows: "list_all (\<lambda>i. \<not> nullish i) is \<Longrightarrow>
    wp R G (filter_rows lower inc needle is) Q s l = Q (Inr (filter (wanted lower inc needle) is)) s l"
  by (induction "is" arbitrary: Q)
    (auto simp: matchesFilter_def wp_rules js_get_field wanted_def haystack_def)

definition search_needle :: "(string \<Rightarrow> string) \<Rightarrow> admin_page \<Rightarrow> string" where
  "search_needle lower s = lower (js_trim (e_value (el s D_searchInput)))"

definition shown_rows :: "(string \<Rightarrow> string) \<Rightarrow> admin_page \<Rightarrow> jsval list \<Rightarrow> jsval list" where
  "shown_rows lower s ids =
     filter (wanted lower (e_checked (el s D_showRevoked)) (search_needle lower s)) ids"

lemma wp_renderRows:
  assumes "identities s = Arr ids" and "list_all (\<lambda>i. \<not> nullish i) ids"
  shows "wp R G (renderRows lower) (\<lambda>r s' l'. r = Inr () \<longrightarrow>
     list_all2 row_of (shown_rows lower s ids) (tbody s') \<and>
     e_hidden (el s' D_emptyMessage) = (shown_rows lower s ids \<noteq> []) \<and> identities s' = Arr ids) s l"
  using assms
  by (auto simp: renderRows_def array_items_def wp_rules wp_filter_rows shown_rows_def search_needle_def upd_el_def
      intro!: wp_mono [OF wp_append_rows])


text \<open>
  Escaping is exact on text: reading the character references of an escaped text back gives
  the text, and an escaped text contains neither \<open><\<close> nor \<open>>\<close>.
\<close>

theorem escape_round_trip:
  "unescape_text (escapeHtml (Str t)) = t \<and> CHR ''<'' \<notin> set (escapeHtml (Str t)) \<and>
     CHR ''>'' \<notin> set (escapeHtml (Str t))"
  using serialize_no_markup by (simp add: escapeHtml_def js_text_def unescape_serialize)

text \<open>
  Escaping does not protect an attribute: a public key that begins with a quotation mark
  closes the \<open>title\<close> attribute of its cell, and the rest of it is read as attributes.
\<close>

theorem title_attribute_not_escaped:
  "\<exists>before after. row_template u (escapeHtml (Str (CHR 0x22 # '' onmouseover=alert(1) x=''))) n t lab st c us =
     before @ ''<td class=\"pubkey\" title=\"\" onmouseover=alert(1) x=\">'' @ after"
proof -
  have e: "escapeHtml (Str (CHR 0x22 # '' onmouseover=alert(1) x='')) = CHR 0x22 # '' onmouseover=alert(1) x=''"
    by code_simp
  show ?thesis
    by (rule exI [of _ "newline 8 @ ''<td>'' @ u @ ''</td>'' @ newline 8"],
        rule exI [of _ "n @ ''</td>'' @ newline 8 @ ''<td>'' @ t @ ''</td>'' @
          newline 8 @ ''<td class=\"label-cell\">'' @ lab @ ''</td>'' @
          newline 8 @ ''<td>'' @ st @ ''</td>'' @ newline 8 @ ''<td>'' @ c @ ''</td>'' @
          newline 8 @ ''<td>'' @ us @ ''</td>'' @
          newline 8 @ ''<td class=\"row-actions\"></td>'' @ newline 6"])
      (simp add: row_template_def e)
qed

text \<open>
  A shortened public key is at most 21 bytes long and keeps the first twelve and the last
  six characters; one of at most twenty is shown whole.
\<close>

theorem short_pubkey_bounds:
  "truncatePubkey (Str t) = Return (if length t \<le> 20 then t else take 12 t @ ellipsis @ drop (length t - 6) t) \<and>
     length (if length t \<le> 20 then t else take 12 t @ ellipsis @ drop (length t - 6) t) \<le> 21"
  by (auto simp: truncatePubkey_def slice_first_def slice_last_def ellipsis_def)

subsection \<open>Requests\<close>

lemma run_api [run_rules]: "run env (api path options) s w l =
    (case env ''fetch'' [Str path, admin_options options] s w of (r, s1, w1) \<Rightarrow> (case r of
        Inl e \<Rightarrow> (Inl e, s1, w1, l @ [(''fetch'', [Str path, admin_options options], Inl e)])
      | Inr response \<Rightarrow> (case env ''response.json'' [response] s1 w1 of (r2, s2, w2) \<Rightarrow>
         (let body = (case r2 of Inl e \<Rightarrow> Null | Inr b \<Rightarrow> b);
              l2 = l @ [(''fetch'', [Str path, admin_options options], Inr response), (''response.json'', [response], r2)]
          in if nullish response then (Inl type_error, s2, w2, l2)
             else if truthy (js_field response ''ok'') then (Inr body, s2, w2, l2)
             else (Inl (js_error (js_string (js_or (if truthy body then js_field body ''error'' else body)
                (Str (''request failed (HTTP '' @ js_string (js_field response ''status'') @ '')''))))), s2, w2, l2)))))"
proof -
  have nn: "truthy b \<Longrightarrow> js_get b ''error'' = Inr (js_field b ''error'')" for b
    by (cases b) (simp_all add: js_field_def)
  have tn: "truthy b \<Longrightarrow> nullish b \<Longrightarrow> False" for b
    by (cases b) simp_all
  show ?thesis
    by (auto dest: tn simp: api_def js_fetch_def response_json_def run_rules nn js_get_field Let_def
        split: sum.splits prod.splits)
qed

lemma run_showBanner [run_rules]: "run env (showBanner t k) s w l =
    (Inr (), (if k = ''success'' then (\<lambda>s. s\<lparr>banner_timers := banner_timers s @ [t]\<rparr>) else id)
       (upd_el D_banner (\<lambda>e. e\<lparr>e_text := t, e_class := k\<rparr>) s), w, l)"
  by (simp add: showBanner_def run_rules upd_el_def)

lemma run_failed [run_rules]: "run env (failed p (js_error m)) s w l =
    run env (showBanner (p @ '': '' @ m) ''error'') s w l"
  by (simp add: failed_def run_rules js_error_def)


subsection \<open>The access gate\<close>

text \<open>The server has answered the session request, and the answer is an administrator's.\<close>

definition admin_confirmed :: "event list \<Rightarrow> bool" where
  "admin_confirmed l \<longleftrightarrow> (\<exists>options response session.
     (''fetch'', [Str ''/nostr-admin/api/session'', options], Inr response) \<in> set l \<and>
     truthy (js_field response ''ok'') \<and>
     (''response.json'', [response], Inr session) \<in> set l \<and>
     truthy (js_field session ''authenticated'') \<and> truthy (js_field session ''is_admin''))"

definition gate_inv :: "admin_page \<Rightarrow> event list \<Rightarrow> bool" where
  "gate_inv s l \<longleftrightarrow> e_hidden (el s D_app) \<or> admin_confirmed l"

lemma admin_confirmed_mono: "admin_confirmed l \<Longrightarrow> set l \<subseteq> set l' \<Longrightarrow> admin_confirmed l'"
  unfolding admin_confirmed_def by blast

lemma admin_confirmed_snoc: "admin_confirmed l \<Longrightarrow> admin_confirmed (l @ l')"
  by (erule admin_confirmed_mono) auto

interpretation admin_events: event_inv gate_inv "\<lambda>_ _. True"
  by unfold_locales (auto simp: gate_inv_def dest: admin_confirmed_snoc)

lemma gate_safe_dom:
  "safe gate_inv (set_text i t)" "safe gate_inv (set_class i t)" "safe gate_inv (set_disabled i b)"
  "i \<noteq> D_app \<Longrightarrow> safe gate_inv (set_hidden i b)"
  by (auto simp: dom_defs gate_inv_def intro!: admin_events.safe_modify)

lemma gate_safe_own:
  "safe gate_inv (modify (identities_update f1))" "safe gate_inv (modify (tbody_update f2))"
  "safe gate_inv (modify (banner_timers_update f3))" "safe gate_inv (modify (\<lambda>s. s\<lparr>addForm := addForm_defaults s\<rparr>))"
  "safe gate_inv (modify (\<lambda>s. s\<lparr>tbody := tbody s @ rs\<rparr>))"
  "safe gate_inv (modify (\<lambda>s. s\<lparr>banner_timers := banner_timers s @ ts\<rparr>))"
  "safe gate_inv (modify (\<lambda>s. s\<lparr>banner_timers := remove1 t (banner_timers s)\<rparr>))"
  by (auto simp: gate_inv_def intro!: admin_events.safe_modify)

lemmas gate_rules = admin_events.safe_rules gate_safe_dom gate_safe_own

lemma gate_safe_api: "safe gate_inv (api path options)"
  by (auto simp: api_def js_fetch_def response_json_def intro!: gate_rules)

lemma gate_safe_showBanner: "safe gate_inv (showBanner t k)"
  by (auto simp: showBanner_def intro!: gate_rules)

lemma gate_safe_failed: "safe gate_inv (failed p e)"
  by (auto simp: failed_def intro!: gate_rules gate_safe_showBanner)

lemma gate_safe_filter: "safe gate_inv (filter_rows lower inc needle is)"
  by (induction "is") (auto simp: matchesFilter_def intro!: gate_rules)

lemma gate_safe_append: "safe gate_inv (append_rows is)"
  by (induction "is") (auto simp: render_row_def truncatePubkey_def admin_formatTimestamp_def
      intro!: gate_rules split: jsval.split)

lemma gate_safe_renderRows: "safe gate_inv (renderRows lower)"
  by (auto simp: renderRows_def array_items_def intro!: gate_rules gate_safe_filter gate_safe_append split: jsval.split)

lemma gate_safe_loadIdentities: "safe gate_inv (loadIdentities lower)"
  by (auto simp: loadIdentities_def intro!: gate_rules gate_safe_api gate_safe_renderRows gate_safe_failed)

lemmas gate_all = gate_rules gate_safe_api gate_safe_showBanner gate_safe_failed gate_safe_renderRows
  gate_safe_loadIdentities

lemma gate_safe_changes:
  "safe gate_inv (admin_renameIdentity lower i)" "safe gate_inv (admin_revokeIdentity lower i)"
  "safe gate_inv (admin_on_submit lower)" "safe gate_inv (banner_timeout t)"
  by (auto simp: admin_renameIdentity_def admin_revokeIdentity_def admin_on_submit_def banner_timeout_def
      intro!: gate_all split: jsval.split)

text \<open>What the session request tells.\<close>

lemma wp_api_session:
  assumes "gate_inv s l"
  shows "wp (keeps gate_inv) gate_inv (api ''/nostr-admin/api/session'' options)
     (\<lambda>r s l. gate_inv s l \<and> (case r of Inl e \<Rightarrow> True | Inr session \<Rightarrow>
        truthy (js_field session ''authenticated'') \<longrightarrow> truthy (js_field session ''is_admin'') \<longrightarrow>
        admin_confirmed l)) s l"
proof -
  have nn: "truthy (js_field Null k) \<Longrightarrow> False" for k by (simp add: js_field_def)
  have ok: "admin_confirmed (l @ [(''response.json'', [response], Inr session)])"
    if "(''fetch'', [Str ''/nostr-admin/api/session'', opts], Inr response) \<in> set l"
      "truthy (js_field response ''ok'')"
      "truthy (js_field session ''authenticated'')" "truthy (js_field session ''is_admin'')"
    for l :: "event list" and opts response session
    using that unfolding admin_confirmed_def
    by (intro exI [of _ opts] exI [of _ response] exI [of _ session]) simp
  show ?thesis
    using assms unfolding api_def js_fetch_def response_json_def
    by (auto simp: wp_rules keeps_def js_get_field admin_events.grows_snoc split: sum.splits
        intro: ok dest: nn)
qed

lemma gate_safe_init: "safe gate_inv (admin_init lower)"
proof -
  let ?ask = "try_catch
        (js_bind (api ''/nostr-admin/api/session'' (Obj [(''method'', Str ''GET'')])) (\<lambda>v. Return (Some v)))
        (\<lambda>e. js_bind (set_text D_gateTitle ''Could not check access'') (\<lambda>_.
             js_bind (get_prop e ''message'') (\<lambda>m.
             js_bind (set_text D_gateMessage (js_text m)) (\<lambda>_. Return None))))"
  let ?P = "\<lambda>r s l. gate_inv s l \<and> (case r of Inr (Some session) \<Rightarrow>
        truthy (js_field session ''authenticated'') \<longrightarrow> truthy (js_field session ''is_admin'') \<longrightarrow>
        admin_confirmed l | _ \<Rightarrow> True)"
  have ask: "wp (keeps gate_inv) gate_inv ?ask ?P s l" if "gate_inv s l" for s l
    unfolding wp_try_catch wp_bind
    by (rule wp_mono [OF wp_api_session [OF that]])
      (auto simp: wp_rules gate_inv_def split: sum.splits)
  have load: "gate_inv s l \<Longrightarrow> wp (keeps gate_inv) gate_inv (loadIdentities lower) (\<lambda>_. gate_inv) s l" for s l
    using gate_safe_loadIdentities by (simp add: safe_def)
  show ?thesis
    unfolding admin_init_def
  proof (rule admin_events.safe_bind)
    show "safe gate_inv (set_hidden D_gate False)" by (rule gate_safe_dom) simp
  next
    fix x :: unit
    show "safe gate_inv (js_bind ?ask (\<lambda>r. case r of None \<Rightarrow> Return () | Some session \<Rightarrow>
      js_bind (get_prop session ''authenticated'') (\<lambda>authenticated.
      if \<not> truthy authenticated then block
       [set_text D_gateTitle ''Sign in required'',
        set_text D_gateMessage ''Log in to YunoHost as an administrator, then reload this page.'']
      else
      js_bind (get_prop session ''is_admin'') (\<lambda>is_admin.
      js_bind (get_prop session ''username'') (\<lambda>username.
      if \<not> truthy is_admin then block
       [set_text D_gateTitle ''Admin access required'',
        set_text D_gateMessage (''Signed in as '' @ js_string username @ '', which is not in the \"admins\" group.'')]
      else block
       [set_hidden D_gate True,
        set_hidden D_app False,
        set_text D_whoami (''Signed in as '' @ js_string username),
        loadIdentities lower])))))"
      unfolding safe_def wp_bind [of _ _ ?ask]
      by (intro allI impI wp_mono [OF ask], assumption)
        (auto simp: wp_rules js_get_field gate_inv_def intro!: load split: sum.splits option.splits)
  qed
qed

lemma gate_safe_handler: "safe gate_inv (admin_handler lower e)"
  by (cases e) (simp_all add: gate_safe_init gate_safe_renderRows gate_safe_loadIdentities gate_safe_changes)

interpretation admin_loop: page_loop "admin_handler lower" admin_enabled admin_outside gate_inv
proof
  fix s l e assume "gate_inv s l"
  then show "wp (keeps gate_inv) gate_inv (admin_handler lower e) (\<lambda>_. gate_inv) s l"
    using gate_safe_handler by (simp add: safe_def)
qed (auto simp: gate_inv_def admin_outside_def)

text \<open>
  C27. The administration is shown only to an administrator: in every interleaving of the
  page's handlers, from a page on which it is hidden, it is visible only after the server has
  answered the session request with a user who is signed in and an administrator.
\<close>

theorem administration_only_for_admins:
  assumes "loop_reach (admin_handler lower) admin_enabled admin_outside \<lparr>page = s, pending = [], history = []\<rparr> w"
    and "e_hidden (el s D_app)" and "\<not> e_hidden (el (page w) D_app)"
  shows "admin_confirmed (history w)"
  using admin_loop.reach_inv [OF assms(1)] assms(2,3) by (simp add: gate_inv_def)

subsection \<open>Concrete inputs\<close>

definition fresh_admin :: admin_page where
  "fresh_admin = \<lparr>el = (\<lambda>i. if i = D_app then blank_elem\<lparr>e_hidden := True\<rparr> else blank_elem), storage = Map.empty,
     storage_readable = True, storage_writable = True, href = [], doc_title = [], win_nostr = Undefined,
     has_ConnectUI = True, has_Passkey = True, aborted = [], next_controller = 0,
     identities = Arr [], tbody = [], addForm = [], addForm_defaults = [], banner_timers = []\<rparr>"

definition admin_http :: "bool \<Rightarrow> jsval" where
  "admin_http b = Obj [(''ok'', Bool b), (''status'', Num (if b then 200 else 403))]"

lemma admin_http_simps [simp]:
  "js_field (admin_http b) ''ok'' = Bool b" "js_get (admin_http b) ''ok'' = Inr (Bool b)" "\<not> nullish (admin_http b)"
  by (simp_all add: admin_http_def)



theorem administration_only_for_admins_witness:
  "\<exists>w. loop_reach (admin_handler id) admin_enabled admin_outside \<lparr>page = fresh_admin, pending = [], history = []\<rparr> w \<and>
     \<not> e_hidden (el (page w) D_app) \<and> admin_confirmed (history w)"
proof -
  let ?session = "Obj [(''authenticated'', Bool True), (''is_admin'', Bool True), (''username'', Str ''ann'')]"
  let ?step = "loop_step (admin_handler id) admin_enabled admin_outside"
  obtain s1 l1 n1 a1 k1 where 1: "advance (admin_handler id Start_init) [] fresh_admin [] = (s1, l1, Some (n1, a1, k1))"
    by (simp add: admin_init_def api_def js_fetch_def await_def set_hidden_def modify_def)
  obtain s2 l2 n2 a2 k2 where 2: "advance (k1 (Inr (admin_http True))) [] s1 (l1 @ [(n1, a1, Inr (admin_http True))]) =
      (s2, l2, Some (n2, a2, k2))"
    using 1 by (auto simp: admin_init_def api_def js_fetch_def await_def set_hidden_def modify_def of_result_def
        response_json_def)
  obtain s3 l3 p3 where 3: "advance (k2 (Inr ?session)) [] s2 (l2 @ [(n2, a2, Inr ?session)]) = (s3, l3, p3)"
    and v: "\<not> e_hidden (el s3 D_app)"
    using 1 2 by (auto simp: admin_init_def api_def js_fetch_def await_def set_hidden_def set_text_def modify_def
        of_result_def response_json_def get_prop_def loadIdentities_def)
  have r: "loop_reach (admin_handler id) admin_enabled admin_outside \<lparr>page = fresh_admin, pending = [], history = []\<rparr>
      \<lparr>page = s3, pending = suspend p3, history = l3\<rparr>"
  proof (rule reach_step [OF reach_step [OF reach_step [OF reach_start]]])
    show "?step \<lparr>page = fresh_admin, pending = [], history = []\<rparr> \<lparr>page = s1, pending = [] @ suspend (Some (n1, a1, k1)), history = l1\<rparr>"
      using 1 by (intro fire_advance [where e = Start_init and rs = "[]"]) simp_all
    show "?step \<lparr>page = s1, pending = [] @ suspend (Some (n1, a1, k1)), history = l1\<rparr>
        \<lparr>page = s2, pending = suspend (Some (n2, a2, k2)), history = l2\<rparr>"
      using resume_advance [where k = k1 and r = "Inr (admin_http True)" and l = l1 and n = n1 and as = a1, OF 2] by (simp add: suspend_def)
    show "?step \<lparr>page = s2, pending = suspend (Some (n2, a2, k2)), history = l2\<rparr>
        \<lparr>page = s3, pending = suspend p3, history = l3\<rparr>"
      using resume_advance [where k = k2 and r = "Inr ?session" and l = l2 and n = n2 and as = a2, OF 3] by (simp add: suspend_def)
  qed
  have "e_hidden (el fresh_admin D_app)" by (simp add: fresh_admin_def)
  from administration_only_for_admins [OF r this] v r show ?thesis by auto
qed

end
