(* ===== verification/Login_Page.thy ===== *)
theory Login_Page
  imports Page_Script
begin

text \<open>
  \<open>src/src/yunohost_nostr_auth/web/static/nostr-login-page.js\<close>: the sign-in page.  The
  state is the browser plus the script's own variable \<open>qrAbortController\<close> and which of the
  conditional click listeners the script registered when it started.
\<close>

datatype login_el =
    L_app | L_button | L_reconnectBtn | L_localKeyBtn | L_passkeyBtn | L_subtitle | L_messageEl
  | L_bunkerInput | L_bunkerConnectBtn | L_qrShowBtn | L_qrBox | L_qrImage | L_qrUriText
  | L_qrCancelBtn | L_details

record login_page = "login_el browser" +
  qrAbortController :: "nat option"
  reconnect_listens :: bool
  localKey_listens :: bool
  passkey_listens :: bool

type_synonym 'a login = "(login_page, 'a) js"

subsection \<open>Messages and buttons\<close>

definition login_showMessage :: "jsval \<Rightarrow> string \<Rightarrow> unit login" where
  "login_showMessage text kind = block
     [set_text L_messageEl (js_text text),
      set_class L_messageEl (''message '' @ kind)]"

definition login_clearMessage :: "unit login" where
  "login_clearMessage = block [set_text L_messageEl [], set_class L_messageEl ''message'']"

definition setAllButtonsDisabled :: "bool \<Rightarrow> unit login" where
  "setAllButtonsDisabled disabled = block
     [set_disabled L_button disabled,
      set_disabled L_reconnectBtn disabled,
      set_disabled L_localKeyBtn disabled,
      set_disabled L_passkeyBtn disabled,
      set_disabled L_bunkerConnectBtn disabled,
      set_disabled L_bunkerInput disabled,
      set_disabled L_qrShowBtn disabled]"

subsection \<open>Signing in\<close>

text \<open>The body of the outer \<open>try\<close> of \<open>performSignIn\<close>; its \<open>return\<close>s end the block.\<close>

definition signIn_authenticate :: "jsval \<Rightarrow> unit login" where
  "signIn_authenticate signedEvent =
     js_bind (fetchJSON ''/authenticate'' (post_json (Obj [(''event'', signedEvent)]))) (\<lambda>authResult.
     js_bind (get_prop authResult ''ok'') (\<lambda>auth_ok.
     if truthy auth_ok
     then block
       [setItem ''isLoggedIn'' ''true'',
        modify (\<lambda>s. s\<lparr>href := ''/yunohost/sso/''\<rparr>)]
     else
     js_bind (error_text authResult ''Sign-in failed. The challenge may have expired - try again.'')
       (\<lambda>errorText. login_showMessage errorText ''error'')))"

text \<open>The inner \<open>try\<close> around the signature; \<open>None\<close> is its \<open>return\<close> from \<open>performSignIn\<close>.\<close>

definition signIn_sign :: "(jsval \<Rightarrow> jsval login) \<Rightarrow> jsval \<Rightarrow> jsval option login" where
  "signIn_sign signEventFn unsignedEvent = try_catch
     (js_bind (signEventFn unsignedEvent) (\<lambda>e. Return (Some e)))
     (\<lambda>signError. js_bind (login_showMessage
         (Str ''Signature request was rejected, or your signer is unavailable.'') ''error'')
         (\<lambda>_. Return None))"

definition signIn_exchange :: "(jsval \<Rightarrow> jsval login) \<Rightarrow> unit login" where
  "signIn_exchange signEventFn =
     js_bind (fetchJSON ''/challenge'' Undefined) (\<lambda>challengeResult.
     js_bind (get_prop challengeResult ''ok'') (\<lambda>challenge_ok.
     if \<not> truthy challenge_ok
     then login_showMessage (Str ''Could not start sign-in - please try again.'') ''error''
     else
     js_bind (get_prop challengeResult ''body'') (\<lambda>challenge.
     js_bind (unsigned_event challenge) (\<lambda>unsignedEvent.
     js_bind (signIn_sign signEventFn unsignedEvent) (\<lambda>signed_event.
     case signed_event of None \<Rightarrow> Return ()
     | Some signedEvent \<Rightarrow> signIn_authenticate signedEvent)))))"

definition performSignIn :: "(jsval \<Rightarrow> jsval login) \<Rightarrow> jsval \<Rightarrow> unit login" where
  "performSignIn signEventFn busyLabel =
     js_bind login_clearMessage (\<lambda>_.
     js_bind (setAllButtonsDisabled True) (\<lambda>_.
     js_bind (gets (\<lambda>s. e_text (el s L_button))) (\<lambda>originalText.
     js_bind (set_text L_button (js_text (js_or busyLabel (Str (''Waiting for signature'' @ ellipsis))))) (\<lambda>_.
     try_finally
       (try_catch (signIn_exchange signEventFn)
         (\<lambda>networkError. login_showMessage
            (Str ''Could not reach the server. Check your connection and try again.'') ''error''))
       (block
         [setAllButtonsDisabled False,
          set_text L_button originalText,
          set_hidden L_qrBox True])))))"

subsection \<open>Signers\<close>

text \<open>One period of \<open>setInterval(_, ms)\<close>: the callback runs when the promise-like wait ends.\<close>

definition timer_tick :: "int \<Rightarrow> unit login" where
  "timer_tick ms = Await ''setInterval'' [Num ms] (\<lambda>_. Return ())"

definition intervalMs :: int where
  "intervalMs = 100"

function (sequential) poll_nip07 :: "int \<Rightarrow> int \<Rightarrow> bool login" where
  "poll_nip07 timeoutMs waited =
     js_bind (timer_tick intervalMs) (\<lambda>_.
     js_bind (gets hasNip07) (\<lambda>found.
       if found then Return True
       else if waited + intervalMs \<ge> timeoutMs then Return False
       else poll_nip07 timeoutMs (waited + intervalMs)))"
  by pat_completeness auto
termination
  by (relation "measure (\<lambda>(timeoutMs, waited). nat (timeoutMs - waited))") (auto simp: intervalMs_def)

declare poll_nip07.simps [simp del]

definition waitForNip07 :: "int \<Rightarrow> bool login" where
  "waitForNip07 timeoutMs = js_bind (gets hasNip07) (\<lambda>found.
     if found then Return True else poll_nip07 timeoutMs 0)"

definition signInWithNip07 :: "unit login" where
  "signInWithNip07 = js_bind (gets hasNip07) (\<lambda>found.
     if \<not> found
     then login_showMessage (Str (''No Nostr browser extension was found. Install one (e.g. Alby, nos2x), '' @
            ''or use a remote signer below.'')) ''error''
     else performSignIn nip07_signEvent Undefined)"

definition signInWithSigner :: "jsval \<Rightarrow> unit login" where
  "signInWithSigner signer = try_finally
     (performSignIn (\<lambda>event. signer_signEvent signer event) Undefined)
     (disposeSigner signer)"

subsection \<open>The administrator's policy\<close>

definition policy_body :: "unit login" where
  "policy_body = block
     [setAllButtonsDisabled True,
      set_hidden L_button True,
      set_hidden L_reconnectBtn True,
      set_hidden L_localKeyBtn True,
      set_hidden L_passkeyBtn True,
      set_hidden L_bunkerConnectBtn True,
      set_hidden L_bunkerInput True,
      set_hidden L_qrShowBtn True,
      set_hidden L_qrBox True,
      set_hidden L_details True,
      set_text L_subtitle (''Nostr login is currently disabled by the administrator. '' @
        ''Use your YunoHost password instead.'')]"

definition applyPolicy :: "unit login" where
  "applyPolicy =
     js_bind (fetchJSON ''/policy'' Undefined) (\<lambda>result.
     js_bind (get_prop result ''ok'') (\<lambda>ok.
     if \<not> truthy ok then Return () else
     js_bind (get_prop result ''body'') (\<lambda>body.
     if \<not> truthy body then Return () else
     js_bind (get_prop body ''allow_nostr_login'') (\<lambda>allow.
     if allow \<noteq> Bool False then Return () else policy_body))))"

subsection \<open>The handlers\<close>

definition login_on_reconnect :: "unit login" where
  "login_on_reconnect =
     js_bind login_clearMessage (\<lambda>_.
     js_bind (setAllButtonsDisabled True) (\<lambda>_.
     try_finally
       (try_catch
         (js_bind (with_ConnectUI reconnectSaved) (\<lambda>signer.
          if \<not> truthy signer then login_showMessage (Str ''No saved signer found.'') ''error''
          else signInWithSigner signer))
         (\<lambda>e. block
           [login_showMessage (Str ''Could not reconnect to your saved signer. Try connecting again below.'') ''error'',
            with_ConnectUI clearSaved,
            set_hidden L_reconnectBtn True]))
       (setAllButtonsDisabled False)))"

definition login_on_localKey :: "unit login" where
  "login_on_localKey =
     js_bind login_clearMessage (\<lambda>_.
     js_bind (with_ConnectUI loadLocalSigner) (\<lambda>signer.
     if \<not> truthy signer then login_showMessage (Str ''No saved key found.'') ''error''
     else signInWithSigner signer))"

definition signInWithPasskey :: "unit login" where
  "signInWithPasskey =
     js_bind login_clearMessage (\<lambda>_.
     js_bind (setAllButtonsDisabled True) (\<lambda>_.
     try_finally
       (try_catch
         (js_bind hasStoredPasskey (\<lambda>stored.
          if \<not> stored then login_showMessage (Str ''No passkey identity found on this device.'') ''error''
          else
          js_bind (with_Passkey (await ''NostrPasskey.unlockPasskeyIdentity'' [])) (\<lambda>identity.
          js_bind (with_Passkey (js_bind (get_prop identity ''secretKey'') (\<lambda>sk.
             call ''NostrPasskey.buildPasskeySignerShim'' [sk]))) (\<lambda>signer.
          signInWithSigner signer))))
         (\<lambda>e. js_bind (message_or e ''Could not unlock the passkey identity.'')
            (\<lambda>m. login_showMessage m ''error'')))
       (setAllButtonsDisabled False)))"

definition login_on_bunkerConnect :: "unit login" where
  "login_on_bunkerConnect =
     js_bind login_clearMessage (\<lambda>_.
     js_bind (gets (\<lambda>s. js_trim (e_value (el s L_bunkerInput)))) (\<lambda>value.
     if value = [] then login_showMessage (Str ''Paste a bunker:// link or NIP-05 signer address first.'') ''error''
     else
     js_bind (setAllButtonsDisabled True) (\<lambda>_.
     js_bind (set_text L_bunkerConnectBtn (''Connecting'' @ ellipsis)) (\<lambda>_.
     try_finally
       (try_catch
         (js_bind (with_ConnectUI (connectViaBunkerUri value)) (\<lambda>signer. signInWithSigner signer))
         (\<lambda>e. js_bind (message_or e ''Could not connect to that signer.'')
            (\<lambda>m. login_showMessage m ''error'')))
       (block
         [setAllButtonsDisabled False,
          set_text L_bunkerConnectBtn ''Connect''])))))"

text \<open>\<open>qrAbortController.signal\<close>, a \<open>TypeError\<close> when the variable is null.\<close>

definition login_signal :: "nat login" where
  "login_signal = js_bind (gets qrAbortController) (\<lambda>c. of_option c)"

definition login_onUriReady :: "jsval \<Rightarrow> jsval \<Rightarrow> unit login" where
  "login_onUriReady uri dataUrl = block
     [set_src L_qrImage (js_string dataUrl),
      set_text L_qrUriText (js_text uri)]"

definition login_on_qrShow :: "unit login" where
  "login_on_qrShow =
     js_bind login_clearMessage (\<lambda>_.
     js_bind new_AbortController (\<lambda>c.
     js_bind (modify (\<lambda>s. s\<lparr>qrAbortController := Some c\<rparr>)) (\<lambda>_.
     js_bind (block
       [set_hidden L_qrBox False,
        set_disabled L_qrShowBtn True,
        set_disabled L_button True,
        set_disabled L_bunkerConnectBtn True,
        set_disabled L_reconnectBtn True]) (\<lambda>_.
     try_finally
       (try_catch
         (js_bind (with_ConnectUI (js_bind login_signal (\<lambda>sig.
             connectViaQr login_onUriReady (signal_of sig)))) (\<lambda>signer.
          block
           [set_hidden L_qrBox True,
            signInWithSigner signer]))
         (\<lambda>e. js_bind login_signal (\<lambda>sig.
          js_bind (gets (\<lambda>s. sig \<in> set (aborted s))) (\<lambda>wasAborted.
          if \<not> wasAborted
          then login_showMessage (Str ''The connection request timed out or was not approved.'') ''error''
          else Return ()))))
       (block
         [set_hidden L_qrBox True,
          set_disabled L_qrShowBtn False,
          set_disabled L_button False,
          set_disabled L_bunkerConnectBtn False,
          js_bind (gets has_ConnectUI) (\<lambda>b.
            if b then js_bind hasSaved (\<lambda>saved. set_disabled L_reconnectBtn (\<not> saved))
            else set_disabled L_reconnectBtn False),
          modify (\<lambda>s. s\<lparr>qrAbortController := None\<rparr>)])))))"

definition login_on_qrCancel :: "unit login" where
  "login_on_qrCancel = block
     [js_bind (gets qrAbortController) (\<lambda>c. case c of None \<Rightarrow> Return () | Some c \<Rightarrow> abort c),
      set_hidden L_qrBox True]"

subsection \<open>Starting, and the page as an event loop\<close>

text \<open>
  The synchronous part of the script: the reconnect, local key and passkey buttons are
  shown and listen only if there is something to use.
\<close>

definition login_start :: "unit login" where
  "login_start = block
     [js_bind (gets has_ConnectUI) (\<lambda>b. if \<not> b then Return () else
        js_bind hasSaved (\<lambda>saved. if \<not> saved then Return () else
          block [set_hidden L_reconnectBtn False, modify (\<lambda>s. s\<lparr>reconnect_listens := True\<rparr>)])),
      js_bind (gets has_ConnectUI) (\<lambda>b. if \<not> b then Return () else
        js_bind hasLocalKey (\<lambda>saved. if \<not> saved then Return () else
          block [set_hidden L_localKeyBtn False, modify (\<lambda>s. s\<lparr>localKey_listens := True\<rparr>)])),
      js_bind hasStoredPasskey (\<lambda>stored. if \<not> stored then Return () else
        block [set_hidden L_passkeyBtn False, modify (\<lambda>s. s\<lparr>passkey_listens := True\<rparr>)]),
      modify (\<lambda>s. s\<lparr>qrAbortController := None\<rparr>)]"

definition login_poll :: "unit login" where
  "login_poll = js_bind (waitForNip07 3000) (\<lambda>found.
     if \<not> found
     then set_text L_subtitle (''No Nostr browser extension detected yet. Install one (e.g. Alby, nos2x) '' @
            ''and click Sign in again, or use a remote signer below.'')
     else Return ())"

definition login_policy :: "unit login" where
  "login_policy = try_finally applyPolicy (set_hidden L_app False)"

datatype login_ev =
    Start_script | Start_poll | Start_policy | Click_signin | Click_reconnect | Click_localKey
  | Click_passkey | Click_bunkerConnect | Click_qrShow | Click_qrCancel

fun login_handler :: "login_ev \<Rightarrow> unit login" where
  "login_handler Start_script = login_start"
| "login_handler Start_poll = login_poll"
| "login_handler Start_policy = login_policy"
| "login_handler Click_signin = signInWithNip07"
| "login_handler Click_reconnect = login_on_reconnect"
| "login_handler Click_localKey = login_on_localKey"
| "login_handler Click_passkey = signInWithPasskey"
| "login_handler Click_bunkerConnect = login_on_bunkerConnect"
| "login_handler Click_qrShow = login_on_qrShow"
| "login_handler Click_qrCancel = login_on_qrCancel"

text \<open>A click reaches a shown and enabled button that listens.\<close>

fun login_enabled :: "login_ev \<Rightarrow> login_page \<Rightarrow> bool" where
  "login_enabled Start_script s = True"
| "login_enabled Start_poll s = True"
| "login_enabled Start_policy s = True"
| "login_enabled Click_signin s = clickable L_button s"
| "login_enabled Click_reconnect s = (reconnect_listens s \<and> clickable L_reconnectBtn s)"
| "login_enabled Click_localKey s = (localKey_listens s \<and> clickable L_localKeyBtn s)"
| "login_enabled Click_passkey s = (passkey_listens s \<and> clickable L_passkeyBtn s)"
| "login_enabled Click_bunkerConnect s = clickable L_bunkerConnectBtn s"
| "login_enabled Click_qrShow s = clickable L_qrShowBtn s"
| "login_enabled Click_qrCancel s = clickable L_qrCancelBtn s"

text \<open>What happens outside the page's script: typing, an extension injecting its object.\<close>

definition login_outside :: "login_page \<Rightarrow> login_page \<Rightarrow> bool" where
  "login_outside s s' \<longleftrightarrow> (\<exists>f nostr. s' = s\<lparr>el := f, win_nostr := nostr\<rparr>)"

subsection \<open>What the helpers do\<close>

definition login_message :: "string \<Rightarrow> string \<Rightarrow> login_page \<Rightarrow> login_page" where
  "login_message t cls s = upd_el L_messageEl (\<lambda>e. e\<lparr>e_text := t, e_class := cls\<rparr>) s"

lemma wp_login_messages [wp_rules]:
  "wp R G (login_showMessage v kind) Q s l =
     Q (Inr ()) (login_message (js_text v) (''message '' @ kind) s) l"
  "wp R G login_clearMessage Q s l = Q (Inr ()) (login_message [] ''message'' s) l"
  by (simp_all add: login_showMessage_def login_clearMessage_def wp_rules login_message_def upd_el_def)

lemma run_login_messages [run_rules]:
  "run env (login_showMessage v kind) s w l =
     (Inr (), login_message (js_text v) (''message '' @ kind) s, w, l)"
  "run env login_clearMessage s w l = (Inr (), login_message [] ''message'' s, w, l)"
  by (simp_all add: login_showMessage_def login_clearMessage_def run_rules login_message_def upd_el_def)

lemma login_message_simps [simp]:
  "el (login_message t c s) = (el s)(L_messageEl := (el s L_messageEl)\<lparr>e_text := t, e_class := c\<rparr>)"
  "storage (login_message t c s) = storage s"
  "storage_readable (login_message t c s) = storage_readable s"
  "storage_writable (login_message t c s) = storage_writable s"
  "href (login_message t c s) = href s"
  "win_nostr (login_message t c s) = win_nostr s"
  "has_ConnectUI (login_message t c s) = has_ConnectUI s"
  "has_Passkey (login_message t c s) = has_Passkey s"
  by (simp_all add: login_message_def)

definition sign_buttons :: "login_el set" where
  "sign_buttons = {L_button, L_reconnectBtn, L_localKeyBtn, L_passkeyBtn, L_bunkerConnectBtn,
     L_bunkerInput, L_qrShowBtn}"

definition buttons_disabled :: "bool \<Rightarrow> login_page \<Rightarrow> login_page" where
  "buttons_disabled d s = s\<lparr>el := (\<lambda>i. if i \<in> sign_buttons then (el s i)\<lparr>e_disabled := d\<rparr> else el s i)\<rparr>"

lemma set_all_buttons: "upd_el L_qrShowBtn (e_disabled_update (\<lambda>_. d)) (upd_el L_bunkerInput (e_disabled_update (\<lambda>_. d))
    (upd_el L_bunkerConnectBtn (e_disabled_update (\<lambda>_. d)) (upd_el L_passkeyBtn (e_disabled_update (\<lambda>_. d))
    (upd_el L_localKeyBtn (e_disabled_update (\<lambda>_. d)) (upd_el L_reconnectBtn (e_disabled_update (\<lambda>_. d))
    (upd_el L_button (e_disabled_update (\<lambda>_. d)) s)))))) = buttons_disabled d s"
  by (simp add: upd_el_def buttons_disabled_def sign_buttons_def)
    (rule arg_cong [where f = "\<lambda>f. s\<lparr>el := f\<rparr>"], simp add: fun_eq_iff)

lemma wp_setAllButtonsDisabled [wp_rules]:
  "wp R G (setAllButtonsDisabled d) Q s l = Q (Inr ()) (buttons_disabled d s) l"
  by (simp add: setAllButtonsDisabled_def wp_rules set_all_buttons)

lemma run_setAllButtonsDisabled [run_rules]:
  "run env (setAllButtonsDisabled d) s w l = (Inr (), buttons_disabled d s, w, l)"
  by (simp add: setAllButtonsDisabled_def run_rules set_all_buttons)

lemma buttons_disabled_simps [simp]:
  "el (buttons_disabled d s) i = (if i \<in> sign_buttons then (el s i)\<lparr>e_disabled := d\<rparr> else el s i)"
  "storage (buttons_disabled d s) = storage s"
  "storage_readable (buttons_disabled d s) = storage_readable s"
  "storage_writable (buttons_disabled d s) = storage_writable s"
  "href (buttons_disabled d s) = href s"
  "win_nostr (buttons_disabled d s) = win_nostr s"
  "has_ConnectUI (buttons_disabled d s) = has_ConnectUI s"
  "has_Passkey (buttons_disabled d s) = has_Passkey s"
  by (simp_all add: buttons_disabled_def)

lemma sign_buttons_simps [simp]:
  "L_button \<in> sign_buttons" "L_reconnectBtn \<in> sign_buttons" "L_localKeyBtn \<in> sign_buttons"
  "L_passkeyBtn \<in> sign_buttons" "L_bunkerConnectBtn \<in> sign_buttons" "L_bunkerInput \<in> sign_buttons"
  "L_qrShowBtn \<in> sign_buttons" "L_qrBox \<notin> sign_buttons" "L_messageEl \<notin> sign_buttons"
  "L_subtitle \<notin> sign_buttons" "L_app \<notin> sign_buttons" "L_details \<notin> sign_buttons"
  "L_qrImage \<notin> sign_buttons" "L_qrUriText \<notin> sign_buttons" "L_qrCancelBtn \<notin> sign_buttons"
  by (simp_all add: sign_buttons_def)

text \<open>The page as performSignIn always leaves it.\<close>

definition signed_out_of :: "string \<Rightarrow> login_page \<Rightarrow> bool" where
  "signed_out_of label s \<longleftrightarrow> (\<forall>i \<in> sign_buttons. \<not> e_disabled (el s i)) \<and>
     e_text (el s L_button) = label \<and> e_hidden (el s L_qrBox)"

lemma performSignIn_restores:
  "wp R no_guarantee (performSignIn f busy)
     (\<lambda>r s' l. r = Inr () \<and> signed_out_of (e_text (el s L_button)) s') s l"
  unfolding performSignIn_def
  by (auto simp: wp_rules signed_out_of_def intro!: wp_top split: sum.split)

text \<open>
  C15. Whatever the signer, the server, the other handlers and the user do while
  \<open>performSignIn\<close> waits, it ends without throwing, with every sign-in control enabled again, the
  sign-in button showing the text it had before, and the QR box hidden.
\<close>

theorem sign_in_restores_page:
  "case run env (performSignIn f busy) s w l of (r, s', w', l') \<Rightarrow>
     r = Inr () \<and> sign_buttons \<subseteq> {i. \<not> e_disabled (el s' i)} \<and>
     e_text (el s' L_button) = e_text (el s L_button) \<and> e_hidden (el s' L_qrBox)"
  using wp_any_run [OF performSignIn_restores [of anything f busy s l], of env w]
  by (auto simp: signed_out_of_def split: prod.splits)

lemma run_timer_tick [run_rules]: "run env (timer_tick ms) s w l =
    (case env ''setInterval'' [Num ms] s w of (r, s', w') \<Rightarrow> (Inr (), s', w', l @ [(''setInterval'', [Num ms], r)]))"
  by (simp add: timer_tick_def)

lemma wp_timer_tick [wp_rules]: "wp R G (timer_tick ms) Q s l \<longleftrightarrow>
    G s l \<and> (\<forall>r s' l'. R s l s' l' \<longrightarrow> Q (Inr ()) s' (l' @ [(''setInterval'', [Num ms], r)]))"
  by (simp add: timer_tick_def)

text \<open>The poll ends after at most \<open>timeoutMs\<close> rounded up to whole periods.\<close>

definition ticks_left :: "int \<Rightarrow> int \<Rightarrow> nat" where
  "ticks_left timeoutMs waited = nat (max 1 ((timeoutMs - waited + 99) div 100))"

definition poll_result :: "nat \<Rightarrow> nat \<Rightarrow> jsval + bool \<Rightarrow> login_page \<Rightarrow> event list \<Rightarrow> bool" where
  "poll_result n most r s l \<longleftrightarrow>
     r = Inr (hasNip07 s) \<and> length l \<le> n + most \<and> (hasNip07 s \<or> length l = n + most)"

lemma ticks_left_last: "timeoutMs \<le> waited + intervalMs \<Longrightarrow> ticks_left timeoutMs waited = 1"
  by (simp add: ticks_left_def intervalMs_def)

lemma ticks_left_step: "\<not> timeoutMs \<le> waited + intervalMs \<Longrightarrow>
    ticks_left timeoutMs waited = Suc (ticks_left timeoutMs (waited + intervalMs))"
  by (simp add: ticks_left_def intervalMs_def)

lemma poll_result_last:
  "poll_result (length l) (Suc k) (Inr (hasNip07 s)) s (l @ [e]) \<longleftrightarrow> hasNip07 s \<or> k = 0"
  by (auto simp: poll_result_def)

lemma wp_poll_nip07:
  "wp anything no_guarantee (poll_nip07 timeoutMs waited)
     (poll_result (length l) (ticks_left timeoutMs waited)) s l"
proof (induction timeoutMs waited arbitrary: s l rule: poll_nip07.induct)
  case (1 timeoutMs waited)
  have found: "poll_result (length l) (ticks_left timeoutMs waited) (Inr True) s' (l @ [e])"
    if "hasNip07 s'" for s' e
    using that by (simp add: poll_result_def ticks_left_def)
  have last: "poll_result (length l) (ticks_left timeoutMs waited) (Inr False) s' (l @ [e])"
    if "\<not> hasNip07 s'" "timeoutMs \<le> waited + intervalMs" for s' e
    using that by (simp add: poll_result_def ticks_left_last)
  have more: "wp anything no_guarantee (poll_nip07 timeoutMs (waited + intervalMs))
      (poll_result (length l) (ticks_left timeoutMs waited)) s' (l @ [e])"
    if "\<not> timeoutMs \<le> waited + intervalMs" for s' e
    by (rule wp_mono [OF 1 [of False]])
      (use that in \<open>auto simp: poll_result_def ticks_left_step split: sum.splits\<close>)
  show ?case
    by (subst poll_nip07.simps) (simp add: wp_rules anything_def found last more)
qed

text \<open>
  C20. Waiting for the extension ends: with a time-out of 3000 ms the poll looks at most thirty
  times after the first look, whatever the page does meanwhile; it answers whether the
  extension is there at that moment, and gives up only after all thirty.
\<close>

theorem poll_for_extension_ends:
  "case run env (waitForNip07 3000) s w [] of (r, s', w', l') \<Rightarrow>
     r = Inr (hasNip07 s') \<and> length l' \<le> 30 \<and> (hasNip07 s' \<or> length l' = 30)"
proof -
  have k: "ticks_left 3000 0 = 30" by (simp add: ticks_left_def)
  have "wp anything no_guarantee (waitForNip07 3000) (poll_result 0 30) s []"
    using wp_poll_nip07 [of 3000 0 "[]" s]
    by (auto simp: waitForNip07_def wp_rules k poll_result_def)
  from wp_any_run [OF this, of env w] show ?thesis
    by (auto simp: poll_result_def split: prod.splits)
qed

subsection \<open>The invariant of every interleaving\<close>

definition signed_in_flag :: "login_page \<Rightarrow> string option" where
  "signed_in_flag s = storage s ''isLoggedIn''"

text \<open>The location and the portal's flag are untouched unless the server accepted a sign-in.\<close>

definition login_inv :: "string \<Rightarrow> string option \<Rightarrow> login_page \<Rightarrow> event list \<Rightarrow> bool" where
  "login_inv h f s l \<longleftrightarrow>
     accepted_by ''/authenticate'' l \<or> href s = h \<and> signed_in_flag s = f"

interpretation login_script: script_inv "login_inv h f" "\<lambda>_ _. True"
  by unfold_locales
    (auto simp: login_inv_def signed_in_flag_def BUNKER_STORAGE_KEY_def LOCAL_KEY_STORAGE_KEY_def
      elim!: accepted_by_mono)

lemma login_safe_modify:
  "(\<And>s. href (g s) = href s \<and> storage (g s) ''isLoggedIn'' = storage s ''isLoggedIn'') \<Longrightarrow>
     safe (login_inv h f) (modify g)"
  by (rule login_script.safe_modify) (simp add: login_inv_def signed_in_flag_def)

lemma login_safe_own:
  "safe (login_inv h f) (modify (qrAbortController_update g))"
  "safe (login_inv h f) (modify (reconnect_listens_update g'))"
  "safe (login_inv h f) (modify (localKey_listens_update g'))"
  "safe (login_inv h f) (modify (passkey_listens_update g'))"
  by (auto intro!: login_safe_modify)

lemmas login_safe_rules = login_script.safe_script_rules login_safe_own

lemma login_safe_messages:
  "safe (login_inv h f) (login_showMessage v k)" "safe (login_inv h f) login_clearMessage"
  "safe (login_inv h f) (setAllButtonsDisabled d)" "safe (login_inv h f) login_signal"
  by (auto simp: login_showMessage_def login_clearMessage_def setAllButtonsDisabled_def login_signal_def
      intro!: login_safe_rules)

lemma login_safe_poll: "safe (login_inv h f) (poll_nip07 timeoutMs waited)"
proof (induction timeoutMs waited rule: poll_nip07.induct)
  case (1 timeoutMs waited)
  have "safe (login_inv h f) (timer_tick ms)" for ms
    by (auto simp: safe_def wp_rules keeps_def intro: login_script.grows_snoc)
  with 1 show ?case
    by (subst poll_nip07.simps) (auto intro!: login_safe_rules)
qed

text \<open>The one place where the flag and the location are written.\<close>

lemma login_safe_authenticate: "safe (login_inv h f) (signIn_authenticate ev)"
  unfolding signIn_authenticate_def
  by (rule login_script.safe_fetch_then)
    (auto intro!: login_safe_rules login_safe_messages simp: wp_rules login_inv_def)

lemma login_safe_performSignIn:
  "(\<And>e. safe (login_inv h f) (signEventFn e)) \<Longrightarrow> safe (login_inv h f) (performSignIn signEventFn b)"
  unfolding performSignIn_def signIn_exchange_def signIn_sign_def
  by (auto intro!: login_safe_rules login_safe_messages login_safe_authenticate login_script.safe_fetchJSON
      split: option.split)

lemma login_safe_sign_in:
  "safe (login_inv h f) (signInWithSigner signer)" "safe (login_inv h f) signInWithNip07"
  by (auto simp: signInWithSigner_def signInWithNip07_def
      intro!: login_safe_rules login_safe_performSignIn login_safe_messages)

lemmas login_safe_all = login_safe_rules login_safe_messages login_safe_sign_in login_safe_poll
  login_script.safe_fetchJSON

lemma login_safe_policy: "safe (login_inv h f) login_policy"
  by (auto simp: login_policy_def applyPolicy_def policy_body_def intro!: login_safe_all)

lemma login_safe_start: "safe (login_inv h f) login_start"
  by (auto simp: login_start_def intro!: login_safe_all)

lemma login_safe_qrShow: "safe (login_inv h f) login_on_qrShow"
  by (auto simp: login_on_qrShow_def login_onUriReady_def intro!: login_safe_all)

lemma login_safe_poll_handler: "safe (login_inv h f) login_poll"
  by (auto simp: login_poll_def waitForNip07_def intro!: login_safe_all)

lemma login_safe_clicks:
  "safe (login_inv h f) login_on_reconnect" "safe (login_inv h f) login_on_localKey"
  "safe (login_inv h f) signInWithPasskey" "safe (login_inv h f) login_on_bunkerConnect"
  "safe (login_inv h f) login_on_qrCancel"
  by (auto simp: login_on_reconnect_def login_on_localKey_def signInWithPasskey_def login_on_bunkerConnect_def
      login_on_qrCancel_def intro!: login_safe_all split: option.split)

lemma login_safe_handler: "safe (login_inv h f) (login_handler e)"
  by (cases e) (simp_all add: login_safe_policy login_safe_start login_safe_qrShow login_safe_sign_in
      login_safe_poll_handler login_safe_clicks)

interpretation login_loop: page_loop login_handler login_enabled login_outside "login_inv h f"
proof
  fix s l e assume "login_inv h f s l"
  then show "wp (keeps (login_inv h f)) (login_inv h f) (login_handler e) (\<lambda>_. login_inv h f) s l"
    using login_safe_handler by (simp add: safe_def)
qed (auto simp: login_inv_def login_outside_def signed_in_flag_def)

text \<open>
  C13. In every interleaving of the page's handlers, from any page, the script changes the
  location and the portal's \<open>isLoggedIn\<close> flag only after the server has accepted an
  \<open>/authenticate\<close> request of the page.
\<close>

theorem portal_entered_only_if_accepted:
  assumes "loop_reach login_handler login_enabled login_outside \<lparr>page = s, pending = [], history = []\<rparr> w"
    and "\<not> accepted_by ''/authenticate'' (history w)"
  shows "href (page w) = href s \<and> storage (page w) ''isLoggedIn'' = storage s ''isLoggedIn''"
  using login_loop.reach_inv [OF assms(1), of "href s" "signed_in_flag s"] assms(2)
  by (simp add: login_inv_def signed_in_flag_def)

text \<open>The signer's own code or the host's method, whichever it is, is one answered call.\<close>

definition sign_call :: "jsval \<Rightarrow> jsval \<Rightarrow> (string \<times> jsval list) option" where
  "sign_call signer event = (case js_get signer ''signEvent'' of
      Inr (Closure n caps) \<Rightarrow> Some
        (if n = ''localSigner.signEvent'' then (''NostrConnectVendor.finalizeEvent'', event # caps)
         else (method_name n, caps @ [signer, event]))
    | _ \<Rightarrow> None)"

lemma wp_signer_signEvent: "(case sign_call signer event of
        None \<Rightarrow> Q (Inl type_error) s l
      | Some (n, as) \<Rightarrow> (\<forall>r s'. Q r s' (l @ [(n, as, r)]))) \<Longrightarrow>
    wp anything no_guarantee (signer_signEvent signer event) Q s l"
  by (auto simp: sign_call_def signer_signEvent_def localSigner_signEvent_def wp_rules anything_def
      split: sum.splits jsval.splits option.splits if_splits dest: js_get_error)

definition signed_challenge :: "jsval \<Rightarrow> event list \<Rightarrow> bool" where
  "signed_challenge ev l \<longleftrightarrow> (\<exists>response challenge now n as.
     (''fetch'', [Str ''/challenge'', Undefined], Inr response) \<in> set l \<and>
     truthy (js_field response ''ok'') \<and>
     (''response.json'', [response], Inr challenge) \<in> set l \<and>
     (''Date.now'', [], Inr now) \<in> set l \<and>
     event_of challenge now \<in> set as \<and>
     (n, as, Inr ev) \<in> set l)"

lemma sign_call_event: "sign_call signer event = Some (n, as) \<Longrightarrow> event \<in> set as"
  by (auto simp: sign_call_def split: sum.splits jsval.splits if_splits)

lemma sign_call_not_fetch [simp]: "sign_call signer event \<noteq> Some (''fetch'', [Str u, v])"
  by (auto simp: sign_call_def append_eq_Cons_conv Cons_eq_append_conv
      split: sum.splits jsval.splits if_splits)

lemma signed_challengeI:
  "(''fetch'', [Str ''/challenge'', Undefined], Inr response) \<in> set l \<Longrightarrow>
   truthy (js_field response ''ok'') \<Longrightarrow>
   (''response.json'', [response], Inr challenge) \<in> set l \<Longrightarrow>
   (''Date.now'', [], Inr now) \<in> set l \<Longrightarrow> event_of challenge now \<in> set as \<Longrightarrow>
   (n, as, Inr ev) \<in> set l \<Longrightarrow> signed_challenge ev l"
  unfolding signed_challenge_def by blast

text \<open>Every authentication request carries an event signed for a challenge the server gave.\<close>

definition requests_signed :: "event list \<Rightarrow> bool" where
  "requests_signed l \<longleftrightarrow> (\<forall>opts a. (''fetch'', [Str ''/authenticate'', opts], a) \<in> set l \<longrightarrow>
     (\<exists>ev. opts = post_json (Obj [(''event'', ev)]) \<and> signed_challenge ev l))"

definition no_request :: "string \<Rightarrow> event list \<Rightarrow> bool" where
  "no_request url l \<longleftrightarrow> (\<forall>opts a. (''fetch'', [Str url, opts], a) \<notin> set l)"

lemma no_request_signed: "no_request ''/authenticate'' l \<Longrightarrow> requests_signed l"
  by (simp add: no_request_def requests_signed_def)

lemma no_request_simps [simp]:
  "no_request url []"
  "no_request url (l @ [(n, as, r)]) \<longleftrightarrow> no_request url l \<and> (n = ''fetch'' \<longrightarrow> (\<forall>opts. as \<noteq> [Str url, opts]))"
  by (auto simp: no_request_def)

lemma signed_challenge_mono: "signed_challenge ev l \<Longrightarrow> set l \<subseteq> set l' \<Longrightarrow> signed_challenge ev l'"
  unfolding signed_challenge_def by blast

lemma requests_signed_step:
  "no_request ''/authenticate'' l \<Longrightarrow> signed_challenge ev l \<Longrightarrow>
     requests_signed (l @ [(''fetch'', [Str ''/authenticate'', post_json (Obj [(''event'', ev)])], r)])"
  by (auto simp: requests_signed_def no_request_def elim!: signed_challenge_mono)

lemma requests_signed_snoc:
  "requests_signed l \<Longrightarrow> n \<noteq> ''fetch'' \<Longrightarrow> requests_signed (l @ [(n, as, r)])"
  by (fastforce simp: requests_signed_def elim!: signed_challenge_mono)

lemma authenticate_requests_signed:
  assumes "no_request ''/authenticate'' l" and "signed_challenge ev l"
  shows "wp anything no_guarantee (signIn_authenticate ev) (\<lambda>r s l. requests_signed l) s l"
proof -
  let ?e = "\<lambda>r. (''fetch'', [Str ''/authenticate'', post_json (Obj [(''event'', ev)])], r)"
  have "requests_signed (l @ [?e r])" "requests_signed (l @ [?e r, (''response.json'', as1, r')])" for r as1 r'
    using requests_signed_step [OF assms] requests_signed_snoc [of "l @ [?e r]"] by simp_all
  then show ?thesis
    unfolding signIn_authenticate_def
    by (auto simp: wp_bind wp_fetchJSON wp_get_prop wp_login_messages wp_error_text wp_setItem wp_modify
        anything_def fetch_result_def split: sum.split)
qed

lemma wp_signIn_sign: "wp R G (signIn_sign f e) Q s l = wp R G (f e)
    (\<lambda>r s l. case r of
        Inl _ \<Rightarrow> Q (Inr None) (login_message ''Signature request was rejected, or your signer is unavailable.'' ''message error'' s) l
      | Inr ev \<Rightarrow> Q (Inr (Some ev)) s l) s l"
  by (simp add: signIn_sign_def wp_try_catch wp_bind wp_login_messages js_text_def cong: sum.case_cong)

lemma exchange_requests_signed:
  "wp anything no_guarantee (signIn_exchange (\<lambda>e. signer_signEvent signer e))
     (\<lambda>r s l. requests_signed l) s []"
proof -
  have ask: "wp anything no_guarantee (signIn_sign (\<lambda>e. signer_signEvent signer e) (event_of challenge now))
     (\<lambda>r s l. case r of Inl e \<Rightarrow> requests_signed l
        | Inr x \<Rightarrow> wp anything no_guarantee (case x of None \<Rightarrow> Return () | Some ev \<Rightarrow> signIn_authenticate ev)
            (\<lambda>r s l. requests_signed l) s l) s
       [(''fetch'', [Str ''/challenge'', Undefined], Inr response), (''response.json'', [response], Inr challenge),
        (''Date.now'', [], Inr now)]"
    if "truthy (js_field response ''ok'')" for response challenge now s
  proof (cases "sign_call signer (event_of challenge now)")
    case None
    then show ?thesis by (auto simp: wp_signIn_sign requests_signed_def intro!: wp_signer_signEvent)
  next
    case (Some c)
    then obtain n as1 where c: "sign_call signer (event_of challenge now) = Some (n, as1)" by (cases c) auto
    let ?l = "[(''fetch'', [Str ''/challenge'', Undefined], Inr response), (''response.json'', [response], Inr challenge),
        (''Date.now'', [], Inr now)]"
    have none: "no_request ''/authenticate'' (?l @ [(n, as1, r)])" for r
      using c by (auto simp: no_request_def)
    have "signed_challenge ev (?l @ [(n, as1, Inr ev)])" for ev
      by (rule signed_challengeI [of response _ challenge now as1 n]) (use that sign_call_event [OF c] in simp_all)
    then show ?thesis
      using c none
      by (auto simp: wp_signIn_sign intro!: wp_signer_signEvent authenticate_requests_signed no_request_signed split: sum.split)
  qed
  show ?thesis
    unfolding signIn_exchange_def
    by (auto simp: wp_bind wp_fetchJSON wp_get_prop wp_login_messages wp_unsigned_event anything_def
        fetch_result_def no_request_signed no_request_def intro!: wp_mono [OF ask] split: sum.splits)
qed


text \<open>A complete sign-in.\<close>

lemmas run_performSignIn = performSignIn_def signIn_exchange_def signIn_sign_def signIn_authenticate_def
  run_rules fetch_result_def signer_signEvent_def

text \<open>
  The complete exchange: with a signer that signs and a server that accepts, the requests are
  exactly the challenge, the signature and the authentication, in this order; then the
  portal's flag is set, the location is the portal's, and no message is shown.
\<close>

theorem sign_in_succeeds:
  assumes "js_get signer ''signEvent'' = Inr (Closure n caps)" "n \<noteq> ''localSigner.signEvent''"
    and "truthy (js_field response ''ok'')" "\<not> nullish challenge"
    and "truthy (js_field response' ''ok'')"
    and "storage_writable s"
  shows "case run script (performSignIn (\<lambda>e. signer_signEvent signer e) busy) s
      [Inr response, Inr challenge, Inr now, Inr ev, Inr response', body] [] of (r, s', w', l) \<Rightarrow>
     href s' = ''/yunohost/sso/'' \<and> storage s' = (storage s)(''isLoggedIn'' \<mapsto> ''true'') \<and>
     e_text (el s' L_messageEl) = [] \<and>
     l = [(''fetch'', [Str ''/challenge'', Undefined], Inr response),
      (''response.json'', [response], Inr challenge),
      (''Date.now'', [], Inr now),
      (method_name n, caps @ [signer, event_of challenge now], Inr ev),
      (''fetch'', [Str ''/authenticate'', post_json (Obj [(''event'', ev)])], Inr response'),
      (''response.json'', [response'], body)]"
  using assms truthy_not_nullish [OF assms(3)] truthy_not_nullish [OF assms(5)]
  by (simp add: run_performSignIn)

definition shown_error :: "string \<Rightarrow> login_page \<Rightarrow> login_page \<Rightarrow> bool" where
  "shown_error t s s' \<longleftrightarrow> e_text (el s' L_messageEl) = t \<and> e_class (el s' L_messageEl) = ''message error'' \<and>
     href s' = href s \<and> storage s' = storage s"


text \<open>
  C21. When the portal's flag cannot be written, an accepted sign-in ends with the message that
  the server could not be reached, and without the redirection, although the server has
  accepted the request.
\<close>

theorem accepted_but_flag_not_writable:
  assumes "js_get signer ''signEvent'' = Inr (Closure n caps)" "n \<noteq> ''localSigner.signEvent''"
    and "truthy (js_field response ''ok'')" "\<not> nullish challenge"
    and "truthy (js_field response' ''ok'')"
    and "\<not> storage_writable s"
  shows "case run script (performSignIn (\<lambda>e. signer_signEvent signer e) busy) s
      [Inr response, Inr challenge, Inr now, Inr ev, Inr response', body] [] of (r, s', w', l) \<Rightarrow>
     accepted_by ''/authenticate'' l \<and>
     shown_error ''Could not reach the server. Check your connection and try again.'' s s'"
  using assms truthy_not_nullish [OF assms(3)] truthy_not_nullish [OF assms(5)]
  by (simp add: run_performSignIn shown_error_def js_text_def)
    (rule accepted_byI [of _ "post_json (Obj [(''event'', ev)])" response'], simp_all)


definition policy_hidden :: "login_page \<Rightarrow> bool" where
  "policy_hidden s \<longleftrightarrow> sign_buttons \<union> {L_qrBox, L_details} \<subseteq> {i. \<not> clickable i s \<and> e_hidden (el s i)} \<and>
     e_text (el s L_subtitle) = ''Nostr login is currently disabled by the administrator. '' @
       ''Use your YunoHost password instead.''"

definition hide :: "login_el \<Rightarrow> login_page \<Rightarrow> login_page" where
  "hide i s = upd_el i (\<lambda>e. e\<lparr>e_hidden := True\<rparr>) s"

definition policy_page :: "login_page \<Rightarrow> login_page" where
  "policy_page s = upd_el L_subtitle (\<lambda>e. e\<lparr>e_text := ''Nostr login is currently disabled by the administrator. '' @
       ''Use your YunoHost password instead.''\<rparr>)
     (fold hide [L_button, L_reconnectBtn, L_localKeyBtn, L_passkeyBtn, L_bunkerConnectBtn, L_bunkerInput,
        L_qrShowBtn, L_qrBox, L_details] (buttons_disabled True s))"

lemma run_policy_body [run_rules]: "run env policy_body s w l = (Inr (), policy_page s, w, l)"
  by (simp add: policy_body_def policy_page_def hide_def run_rules)

lemma policy_page_hidden: "policy_hidden (upd_el L_app f (policy_page s))"
  by (simp add: policy_hidden_def policy_page_def hide_def sign_buttons_def clickable_def)

definition nostr_login_disabled :: "jsval \<Rightarrow> jsval + jsval \<Rightarrow> bool" where
  "nostr_login_disabled response answer \<longleftrightarrow> truthy (js_field response ''ok'') \<and>
     (case answer of Inl e \<Rightarrow> False
      | Inr body \<Rightarrow> truthy body \<and> js_field body ''allow_nostr_login'' = Bool False)"

lemma run_applyPolicy:
  "run script applyPolicy s [Inr response, answer] [] =
     (if nullish response then (Inl type_error, s, [], [(''fetch'', [Str ''/policy'', Undefined], Inr response),
         (''response.json'', [response], answer)])
      else if nostr_login_disabled response answer
      then run script policy_body s [] [(''fetch'', [Str ''/policy'', Undefined], Inr response),
         (''response.json'', [response], answer)]
      else (Inr (), s, [], [(''fetch'', [Str ''/policy'', Undefined], Inr response),
         (''response.json'', [response], answer)]))"
proof (cases answer)
  case (Inl e)
  then show ?thesis
    by (simp add: applyPolicy_def run_rules fetch_result_def nostr_login_disabled_def)
next
  case (Inr body)
  have "truthy body \<Longrightarrow> \<not> nullish body" by (cases body) simp_all
  with Inr show ?thesis
    by (cases "truthy body")
      (simp_all add: applyPolicy_def run_rules fetch_result_def nostr_login_disabled_def js_get_field [of body])
qed

text \<open>
  The page is shown after the policy request however it is answered; every sign-in control
  is disabled and hidden exactly if the answer says \<open>allow_nostr_login === false\<close>, and
  otherwise nothing else of the page has changed.
\<close>

theorem policy_hides_sign_in:
  "case run script login_policy s [Inr response, answer] [] of (r, s', w', l) \<Rightarrow>
     \<not> e_hidden (el s' L_app) \<and>
     (if nostr_login_disabled response answer then policy_hidden s'
      else s' = upd_el L_app (\<lambda>e. e\<lparr>e_hidden := False\<rparr>) s)"
proof (cases "nullish response")
  case True
  then have "\<not> nostr_login_disabled response answer"
    using truthy_not_nullish by (auto simp: nostr_login_disabled_def)
  with True show ?thesis by (simp add: login_policy_def run_rules run_applyPolicy)
next
  case False
  then show ?thesis by (simp add: login_policy_def run_rules run_applyPolicy policy_page_hidden)
qed

lemma login_own_simps [simp]:
  "qrAbortController (upd_el i f s) = qrAbortController s"
  "has_saved (login_message t c s) = has_saved s"
  "qrAbortController (login_message t c s) = qrAbortController s"
  "qrAbortController (buttons_disabled d s) = qrAbortController s"
  "next_controller (login_message t c s) = next_controller s"
  "next_controller (buttons_disabled d s) = next_controller s"
  "aborted (login_message t c s) = aborted s"
  "aborted (buttons_disabled d s) = aborted s"
  by (simp_all add: upd_el_def login_message_def buttons_disabled_def)

definition reconnect_started :: "login_page \<Rightarrow> login_page" where
  "reconnect_started s = buttons_disabled True (login_message [] ''message'' s)"

text \<open>
  When the saved signer cannot be reconnected, it is forgotten: the saved slot is
  removed, the reconnect button hidden, the message shown, and the other controls are
  enabled again.
\<close>

theorem failed_reconnect_forgets_signer:
  assumes "has_ConnectUI s" and "has_ConnectUI s1" and "storage_readable s1"
    and "run env reconnectSaved (reconnect_started s) w l = (Inl e, s1, w1, l1)"
  shows "case run env login_on_reconnect s w l of (r, s', w', l') \<Rightarrow>
     r = Inr () \<and> l' = l1 \<and> storage s' = (storage s1)(BUNKER_STORAGE_KEY := None) \<and>
     e_hidden (el s' L_reconnectBtn) \<and> \<not> has_saved s' \<and>
     e_text (el s' L_messageEl) = ''Could not reconnect to your saved signer. Try connecting again below.'' \<and>
     sign_buttons \<subseteq> {i. \<not> e_disabled (el s' i)}"
  using assms
  by (auto simp: login_on_reconnect_def with_ConnectUI_def run_rules reconnect_started_def js_text_def
      has_saved_def bunker_value_def)

definition qr_started :: "login_page \<Rightarrow> login_page" where
  "qr_started s = 
     upd_el L_reconnectBtn (\<lambda>e. e\<lparr>e_disabled := True\<rparr>)
     (upd_el L_bunkerConnectBtn (\<lambda>e. e\<lparr>e_disabled := True\<rparr>)
     (upd_el L_button (\<lambda>e. e\<lparr>e_disabled := True\<rparr>)
     (upd_el L_qrShowBtn (\<lambda>e. e\<lparr>e_disabled := True\<rparr>)
     (upd_el L_qrBox (\<lambda>e. e\<lparr>e_hidden := False\<rparr>)
       (login_message [] ''message'' s\<lparr>next_controller := Suc (next_controller s),
          qrAbortController := Some (next_controller s)\<rparr>)))))"

text \<open>
  A QR connection that fails is reported exactly if the controller of the request was not
  aborted; either way the box is hidden, the controller dropped, and the buttons the
  request had disabled are enabled again.
\<close>

theorem failed_qr_reported_unless_cancelled:
  assumes "has_ConnectUI s" and "has_ConnectUI s1" and "qrAbortController s1 = Some c"
    and "run env (connectViaQr login_onUriReady (signal_of (next_controller s))) (qr_started s) w l = (Inl e, s1, w1, l1)"
  shows "case run env login_on_qrShow s w l of (r, s', w', l') \<Rightarrow>
     r = Inr () \<and> l' = l1 \<and> qrAbortController s' = None \<and> e_hidden (el s' L_qrBox) \<and>
     e_text (el s' L_messageEl) = (if c \<in> set (aborted s1) then e_text (el s1 L_messageEl)
       else ''The connection request timed out or was not approved.'') \<and>
     {L_qrShowBtn, L_button, L_bunkerConnectBtn} \<subseteq> {i. \<not> e_disabled (el s' i)} \<and>
     e_disabled (el s' L_reconnectBtn) = (\<not> has_saved s1)"
  using assms
  by (simp add: login_on_qrShow_def with_ConnectUI_def login_signal_def run_rules qr_started_def js_text_def)

subsection \<open>Concrete inputs\<close>

definition fresh_login :: login_page where
  "fresh_login = \<lparr>el = (\<lambda>_. blank_elem), storage = Map.empty, storage_readable = True,
     storage_writable = True, href = [], doc_title = [], win_nostr = Undefined,
     has_ConnectUI = True, has_Passkey = True, aborted = [], next_controller = 0,
     qrAbortController = None, reconnect_listens = False, localKey_listens = False,
     passkey_listens = False\<rparr>"

definition sample_signer :: jsval where
  "sample_signer = Obj [(''signEvent'', Closure ''sign'' []), (''close'', Closure ''close'' []),
     (''destroy'', Closure ''destroy'' [])]"

definition http_ok :: "bool \<Rightarrow> jsval" where
  "http_ok b = Obj [(''ok'', Bool b), (''status'', Num (if b then 200 else 401))]"

lemma sample_simps [simp]:
  "js_get sample_signer ''signEvent'' = Inr (Closure ''sign'' [])"
  "js_get sample_signer ''close'' = Inr (Closure ''close'' [])"
  "js_get sample_signer ''destroy'' = Inr (Closure ''destroy'' [])"
  "truthy (js_field (http_ok b) ''ok'') = b" "\<not> nullish (http_ok b)" 
  by (simp_all add: sample_signer_def http_ok_def)

theorem portal_entered_only_if_accepted_witness:
  "\<exists>w. loop_reach login_handler login_enabled login_outside \<lparr>page = fresh_login, pending = [], history = []\<rparr> w \<and>
     pending w = [(''fetch'', [Str ''/policy'', Undefined], snd (snd (hd (pending w))))] \<and>
     href (page w) = [] \<and> storage (page w) ''isLoggedIn'' = None"
proof -
  have "\<exists>k. segment (login_handler Start_policy) fresh_login [] fresh_login []
      (Some (''fetch'', [Str ''/policy'', Undefined], k))"
    by (simp add: login_policy_def applyPolicy_def fetchJSON_def js_fetch_def await_def)
      (blast intro: segment.intros)
  then obtain k where seg: "segment (login_handler Start_policy) fresh_login [] fresh_login []
      (Some (''fetch'', [Str ''/policy'', Undefined], k))" by blast
  let ?w = "\<lparr>page = fresh_login, pending = [] @ suspend (Some (''fetch'', [Str ''/policy'', Undefined], k)), history = []\<rparr>"
  have reach: "loop_reach login_handler login_enabled login_outside \<lparr>page = fresh_login, pending = [], history = []\<rparr> ?w"
    by (rule reach_step [OF reach_start]) (rule fire [where ps = "[]" and e = Start_policy and handler = login_handler and s = fresh_login and l = "[]"
        and s' = fresh_login and l' = "[]" and enabled = login_enabled, OF _ seg], simp)
  have "\<not> accepted_by ''/authenticate'' (history ?w)" by (simp add: accepted_by_def)
  from portal_entered_only_if_accepted [OF reach this] reach show ?thesis
    by (intro exI [of _ ?w]) (simp add: suspend_def fresh_login_def)
qed

theorem sign_in_succeeds_witness:
  "href (fst (snd (run script (performSignIn (\<lambda>e. signer_signEvent sample_signer e) Undefined) fresh_login
      [Inr (http_ok True), Inr (Obj []), Inr (Num 1700000000123), Inr (Obj [(''sig'', Str ''00'')]),
       Inr (http_ok True), Inr Null] []))) = ''/yunohost/sso/''"
proof -
  have h: "storage_writable fresh_login" by (simp add: fresh_login_def)
  show ?thesis
    using sign_in_succeeds [where signer = sample_signer and response = "http_ok True" and challenge = "Obj []"
        and response' = "http_ok True" and s = fresh_login and busy = Undefined and now = "Num 1700000000123"
        and ev = "Obj [(''sig'', Str ''00'')]" and body = "Inr Null"] h
    by (auto split: prod.splits)
qed


theorem accepted_but_flag_not_writable_witness:
  "href (fst (snd (run script (performSignIn (\<lambda>e. signer_signEvent sample_signer e) Undefined)
      (fresh_login\<lparr>storage_writable := False\<rparr>)
      [Inr (http_ok True), Inr (Obj []), Inr (Num 5), Inr (Obj []), Inr (http_ok True), Inr Null] []))) = []"
  using accepted_but_flag_not_writable [where signer = sample_signer and response = "http_ok True"
      and challenge = "Obj []" and response' = "http_ok True" and s = "fresh_login\<lparr>storage_writable := False\<rparr>"
      and busy = Undefined and now = "Num 5" and ev = "Obj []" and body = "Inr Null"]
  by (auto simp: shown_error_def fresh_login_def split: prod.splits)


theorem failed_reconnect_forgets_signer_witness:
  "storage (fst (snd (run script login_on_reconnect
      (fresh_login\<lparr>storage := [BUNKER_STORAGE_KEY \<mapsto> ''7'']\<rparr>) [Inl (Str ''down'')] []))) = Map.empty"
proof -
  let ?s = "fresh_login\<lparr>storage := [BUNKER_STORAGE_KEY \<mapsto> ''7'']\<rparr>"
  have p: "json_parse ''7'' = Some (Num 7)" by code_simp
  have r: "run script reconnectSaved (reconnect_started ?s) [Inl (Str ''down'')] [] =
      (Inl type_error, reconnect_started ?s, [Inl (Str ''down'')], [])"
    using p by (simp add: reconnectSaved_def run_rules js_hexToBytes_def reconnect_started_def fresh_login_def
        bunker_value_def)
  show ?thesis
    using failed_reconnect_forgets_signer [OF _ _ _ r]
    by (auto simp: reconnect_started_def fresh_login_def split: prod.splits)
qed

theorem failed_qr_reported_unless_cancelled_witness:
  "e_text (el (fst (snd (run script login_on_qrShow fresh_login [Inl (Str ''no'')] []))) L_messageEl) =
     ''The connection request timed out or was not approved.''"
proof -
  have r: "run script (connectViaQr login_onUriReady (signal_of (next_controller fresh_login))) (qr_started fresh_login)
      [Inl (Str ''no'')] [] = (Inl (Str ''no''), qr_started fresh_login, [],
      [(''NostrConnectVendor.generateSecretKey'', [], Inl (Str ''no''))])"
    by (simp add: connectViaQr_def run_rules)
  show ?thesis
    using failed_qr_reported_unless_cancelled [OF _ _ _ r, of 0]
    by (auto simp: qr_started_def fresh_login_def split: prod.splits)
qed

end
