(* ===== verification/Py_Effect.thy ===== *)
theory Py_Effect
  imports Js_Value
begin

text \<open>
  What the Python side of the program uses of its language: exceptions as values, functions that
  read and write a state and may raise, transactions of SQLite, \<open>repr\<close> of a text, truth values.
  A Python value that came from JSON is a \<open>jsval\<close> (\<open>None\<close> is \<open>Null\<close>, a list is \<open>Arr\<close>, a dict is
  \<open>Obj\<close>).
\<close>

datatype exc =
    ValueError string | RuntimeError string | TypeError | AttributeError
  | IntegrityError | Sql_parameter_error | Overflow_error | Other_exception string
  | InvalidEvent string | LoginError string | LinkingError string | PubkeyAlreadyLinked string
  | PortalAuthError string | SessionMintError string | Api_error int string

type_synonym ('s, 'a) py = "'s \<Rightarrow> (exc + 'a) \<times> 's"

named_theorems py_rules "evaluation rules of Python code"
named_theorems steady_rules "code that changes nothing"
named_theorems leaves_rules "code that leaves a part of the state"

definition py_return :: "'a \<Rightarrow> ('s, 'a) py" where
  "py_return x = (\<lambda>s. (Inr x, s))"

definition py_raise :: "exc \<Rightarrow> ('s, 'a) py" where
  "py_raise e = (\<lambda>s. (Inl e, s))"

definition py_bind :: "('s, 'a) py \<Rightarrow> ('a \<Rightarrow> ('s, 'b) py) \<Rightarrow> ('s, 'b) py" where
  "py_bind m f = (\<lambda>s. case m s of (Inl e, s') \<Rightarrow> (Inl e, s') | (Inr x, s') \<Rightarrow> f x s')"

definition py_gets :: "('s \<Rightarrow> 'a) \<Rightarrow> ('s, 'a) py" where
  "py_gets f = (\<lambda>s. (Inr (f s), s))"

definition py_modify :: "('s \<Rightarrow> 's) \<Rightarrow> ('s, unit) py" where
  "py_modify f = (\<lambda>s. (Inr (), f s))"

text \<open>A function without state of its own.\<close>

definition py_lift :: "exc + 'a \<Rightarrow> ('s, 'a) py" where
  "py_lift r = (\<lambda>s. (r, s))"

text \<open>\<open>try: m / except ... as e: h\<close>; \<open>h e = None\<close> is an exception no clause names.\<close>

definition py_except :: "('s, 'a) py \<Rightarrow> (exc \<Rightarrow> ('s, 'a) py option) \<Rightarrow> ('s, 'a) py" where
  "py_except m h = (\<lambda>s. case m s of
      (Inl e, s') \<Rightarrow> (case h e of None \<Rightarrow> (Inl e, s') | Some m' \<Rightarrow> m' s')
    | (Inr x, s') \<Rightarrow> (Inr x, s'))"

text \<open>
  A connection that is closed: what was not committed when an exception ended it is undone.
\<close>

definition transaction :: "('s \<Rightarrow> exc + 'a \<times> 's) \<Rightarrow> ('s, 'a) py" where
  "transaction f = (\<lambda>s. case f s of Inl e \<Rightarrow> (Inl e, s) | Inr (x, s') \<Rightarrow> (Inr x, s'))"

text \<open>Running on one field of a larger state.\<close>

definition on_field :: "('s \<Rightarrow> 't) \<Rightarrow> ('t \<Rightarrow> 's \<Rightarrow> 's) \<Rightarrow> ('t, 'a) py \<Rightarrow> ('s, 'a) py" where
  "on_field get put m = (\<lambda>s. case m (get s) of (r, t) \<Rightarrow> (r, put t s))"

lemma py_run [py_rules]:
  "py_return x s = (Inr x, s)" "py_raise e s = (Inl e, s)" "py_gets f s = (Inr (f s), s)"
  "py_modify g s = (Inr (), g s)" "py_lift r s = (r, s)"
  by (simp_all add: py_return_def py_raise_def py_gets_def py_modify_def py_lift_def)

lemma py_bind_run [py_rules]:
  "py_bind m f s = (case m s of (r, s') \<Rightarrow> (case r of Inl e \<Rightarrow> (Inl e, s') | Inr x \<Rightarrow> f x s'))"
  by (simp add: py_bind_def split: prod.split sum.split)

lemma py_except_run [py_rules]:
  "py_except m h s = (case m s of (r, s') \<Rightarrow> (case r of
      Inl e \<Rightarrow> (case h e of None \<Rightarrow> (Inl e, s') | Some m' \<Rightarrow> m' s') | Inr x \<Rightarrow> (Inr x, s')))"
  by (simp add: py_except_def split: prod.split sum.split)

lemma transaction_run [py_rules]:
  "transaction f s = (case f s of Inl e \<Rightarrow> (Inl e, s) | Inr (x, s') \<Rightarrow> (Inr x, s'))"
  by (simp add: transaction_def)

lemma on_field_run [py_rules]: "on_field get put m s = (case m (get s) of (r, t) \<Rightarrow> (r, put t s))"
  by (simp add: on_field_def)

subsection \<open>Guards\<close>

text \<open>Code that only reads: whether it returns or raises, the state is as before.\<close>

definition steady :: "('s, 'a) py \<Rightarrow> bool" where
  "steady m \<longleftrightarrow> (\<forall>s. snd (m s) = s)"

lemma steadyD: "steady m \<Longrightarrow> m s = (r, s') \<Longrightarrow> s' = s"
  by (metis steady_def snd_conv)

lemma steady_basic [steady_rules]:
  "steady (py_return x)" "steady (py_raise e)" "steady (py_gets f)" "steady (py_lift r)"
  by (simp_all add: steady_def py_rules)

lemma steady_bind [steady_rules]: "steady m \<Longrightarrow> (\<And>x. steady (f x)) \<Longrightarrow> steady (py_bind m f)"
  by (auto simp: steady_def py_rules split: prod.split sum.split) (metis snd_conv)+

lemma steady_except [steady_rules]:
  "steady m \<Longrightarrow> (\<And>e m'. h e = Some m' \<Longrightarrow> steady m') \<Longrightarrow> steady (py_except m h)"
  by (auto simp: steady_def py_rules split: prod.split sum.split option.split) (metis snd_conv)+

lemma steady_if [steady_rules]: "steady m \<Longrightarrow> steady n \<Longrightarrow> steady (if b then m else n)"
  by simp

text \<open>Code that leaves a part of the state as it is.\<close>

definition leaves :: "('s \<Rightarrow> 'p) \<Rightarrow> ('s, 'a) py \<Rightarrow> bool" where
  "leaves part m \<longleftrightarrow> (\<forall>s. part (snd (m s)) = part s)"

lemma leaves_steady: "steady m \<Longrightarrow> leaves part m"
  by (simp add: leaves_def steady_def)

lemma leaves_basic [leaves_rules]:
  "leaves part (py_return x)" "leaves part (py_raise e)" "leaves part (py_gets f)" "leaves part (py_lift r)"
  by (auto intro!: leaves_steady steady_rules)

lemma leaves_bind [leaves_rules]: "leaves part m \<Longrightarrow> (\<And>x. leaves part (f x)) \<Longrightarrow> leaves part (py_bind m f)"
  by (auto simp: leaves_def py_rules split: prod.split sum.split) (metis snd_conv)+

lemma leaves_except [leaves_rules]:
  "leaves part m \<Longrightarrow> (\<And>e m'. h e = Some m' \<Longrightarrow> leaves part m') \<Longrightarrow> leaves part (py_except m h)"
  by (auto simp: leaves_def py_rules split: prod.split sum.split option.split) (metis snd_conv)+

lemma leaves_if [leaves_rules]: "leaves part m \<Longrightarrow> leaves part n \<Longrightarrow> leaves part (if b then m else n)"
  by simp

lemma leaves_modify [leaves_rules]: "(\<And>s. part (f s) = part s) \<Longrightarrow> leaves part (py_modify f)"
  by (simp add: leaves_def py_rules)

lemma leavesD: "leaves part m \<Longrightarrow> m s = (r, s') \<Longrightarrow> part s' = part s"
  by (metis leaves_def snd_conv)

text \<open>A guard either ends the code, changing nothing, or passes.\<close>

lemma guard_cases:
  assumes "py_bind m f s = (r, s')" and "steady m"
  obtains (ended) e where "m s = (Inl e, s)" "r = Inl e" "s' = s"
    | (passed) x where "m s = (Inr x, s)" "f x s = (r, s')"
  using assms by (cases "m s") (auto simp: steady_def py_rules split: sum.splits dest: spec [of _ s])

subsection \<open>Values\<close>

text \<open>\<open>bool(v)\<close>: unlike in JavaScript an empty list and an empty dict are false.\<close>

fun py_truthy :: "jsval \<Rightarrow> bool" where
  "py_truthy Undefined = False"
| "py_truthy Null = False"
| "py_truthy (Bool b) = b"
| "py_truthy (Num n) = (n \<noteq> 0)"
| "py_truthy (Str s) = (s \<noteq> [])"
| "py_truthy (Arr vs) = (vs \<noteq> [])"
| "py_truthy (Obj ps) = (ps \<noteq> [])"
| "py_truthy _ = True"

text \<open>\<open>d.get(k, default)\<close>\<close>

definition dict_get :: "(string \<times> jsval) list \<Rightarrow> string \<Rightarrow> jsval \<Rightarrow> jsval" where
  "dict_get d k otherwise = (case map_of d k of None \<Rightarrow> otherwise | Some v \<Rightarrow> v)"

definition single_quoted :: "string \<Rightarrow> string" where
  "single_quoted s = chr 39 # s @ [chr 39]"

text \<open>
  \<open>repr(s)\<close>: single quotes unless the text has one and no double quote.  Characters outside
  ASCII are taken as printable.
\<close>

definition repr_char :: "char \<Rightarrow> char \<Rightarrow> string" where
  "repr_char q c = (let n = code_of c in
     if c = q \<or> n = 92 then [chr 92, c]
     else if n = 9 then [chr 92, CHR ''t''] else if n = 10 then [chr 92, CHR ''n'']
     else if n = 13 then [chr 92, CHR ''r'']
     else if n < 32 \<or> n = 127 then [chr 92, CHR ''x'', hex_digit (n div 16), hex_digit (n mod 16)]
     else [c])"

definition py_repr :: "string \<Rightarrow> string" where
  "py_repr s = (let q = (if chr 39 \<in> set s \<and> chr 34 \<notin> set s then chr 34 else chr 39)
     in q # concat (map (repr_char q) s) @ [q])"

text \<open>\<open>repr(v)\<close> and \<open>str(v)\<close> of a value that came from JSON.\<close>

fun repr_value :: "jsval \<Rightarrow> string" where
  "repr_value Null = ''None''"
| "repr_value (Bool b) = (if b then ''True'' else ''False'')"
| "repr_value (Num n) = int_to_dec n"
| "repr_value (Str s) = py_repr s"
| "repr_value (Arr vs) = ''['' @ join '', '' (map repr_value vs) @ '']''"
| "repr_value (Obj ps) = ''{'' @ join '', '' (map (\<lambda>p. py_repr (fst p) @ '': '' @ repr_value (snd p)) ps) @ ''}''"
| "repr_value _ = []"

definition str_value :: "jsval \<Rightarrow> string" where
  "str_value v = (case v of Str s \<Rightarrow> s | _ \<Rightarrow> repr_value v)"

subsection \<open>Tables\<close>

text \<open>A table is the list of its rows; \<open>fetchone\<close> is \<open>find\<close>.\<close>

lemma find_append: "find P (xs @ ys) = (case find P xs of None \<Rightarrow> find P ys | Some x \<Rightarrow> Some x)"
  by (induction xs) auto

lemma find_map: "(\<And>r. P (f r) = P r) \<Longrightarrow> find P (map f xs) = map_option f (find P xs)"
  by (induction xs) auto

lemma find_absent: "k \<notin> f ` set xs \<Longrightarrow> find (\<lambda>y. f y = k) xs = None"
  by (induction xs) auto

lemma find_unique: "distinct (map f xs) \<Longrightarrow> x \<in> set xs \<Longrightarrow> find (\<lambda>y. f y = f x) xs = Some x"
  by (induction xs) (auto simp: image_iff)

lemma find_filter_drop: "find P (filter Q xs) \<noteq> find P xs \<Longrightarrow> \<exists>x. find P xs = Some x \<and> \<not> Q x"
  by (induction xs) (auto split: if_splits)

lemma find_filter_unique:
  "distinct (map f xs) \<Longrightarrow> find (\<lambda>y. f y = k) (filter Q xs) =
     (case find (\<lambda>y. f y = k) xs of None \<Rightarrow> None | Some x \<Rightarrow> if Q x then Some x else None)"
proof (induction xs)
  case (Cons a xs)
  have "f a = k \<Longrightarrow> find (\<lambda>y. f y = k) (filter Q xs) = None"
    using Cons.prems by (intro find_absent) auto
  then show ?case using Cons by simp
qed simp

end
