(* ===== verification/Challenge_Store.thy ===== *)
theory Challenge_Store
  imports Py_Effect
begin

text \<open>
  \<open>src/src/yunohost_nostr_auth/auth/challenge.py\<close>: challenges are issued and consumed once, in a
  dict or in a table of SQLite.  The readings of the clock and the random token are arguments.
  The dict is a map; the table is the list of its rows.
\<close>

record challenge =
  nonce :: string
  domain :: string
  action :: string
  issued_at :: int
  expires_at :: int

record challenge_row =
  row_challenge :: challenge
  consumed_at :: "int option"

datatype backend = In_memory "string \<Rightarrow> challenge option" | Sqlite "challenge_row list"

record challenge_store =
  ttl_seconds :: int
  backend :: backend

definition new_challenge :: "string \<Rightarrow> string \<Rightarrow> int \<Rightarrow> string \<Rightarrow> int \<Rightarrow> challenge" where
  "new_challenge dm act ttl token now =
     \<lparr>nonce = token, domain = dm, action = act, issued_at = now, expires_at = now + ttl\<rparr>"

text \<open>The table keeps its rows when the file exists already.\<close>

definition ChallengeStore :: "int \<Rightarrow> challenge_row list option \<Rightarrow> exc + challenge_store" where
  "ChallengeStore ttl db =
     (if ttl \<le> 0 then Inl (ValueError ''ttl_seconds must be positive'')
      else Inr \<lparr>ttl_seconds = ttl,
        backend = (case db of None \<Rightarrow> In_memory Map.empty | Some rows \<Rightarrow> Sqlite rows)\<rparr>)"

subsection \<open>Issuing\<close>

definition memory_issue :: "challenge \<Rightarrow> (string \<Rightarrow> challenge option) \<Rightarrow> string \<Rightarrow> challenge option" where
  "memory_issue c pending = pending(nonce c \<mapsto> c)"

definition row_nonce :: "challenge_row \<Rightarrow> string" where
  "row_nonce r = nonce (row_challenge r)"

definition unexpired :: "int \<Rightarrow> challenge_row \<Rightarrow> bool" where
  "unexpired now r \<longleftrightarrow> \<not> expires_at (row_challenge r) < now"

text \<open>\<open>DELETE ... WHERE expires_at < ?\<close>, then \<open>INSERT\<close>, which the primary key may refuse.\<close>

definition sqlite_issue :: "challenge \<Rightarrow> int \<Rightarrow> challenge_row list \<Rightarrow> exc + challenge_row list" where
  "sqlite_issue c now rows =
     (let kept = filter (unexpired now) rows
      in if nonce c \<in> row_nonce ` set kept then Inl IntegrityError
         else Inr (kept @ [\<lparr>row_challenge = c, consumed_at = None\<rparr>]))"

definition issue :: "string \<Rightarrow> string \<Rightarrow> string \<Rightarrow> int \<Rightarrow> int \<Rightarrow> (challenge_store, challenge) py" where
  "issue dm act token t0 t1 = transaction (\<lambda>s.
     let c = new_challenge dm act (ttl_seconds s) token t0
     in case backend s of
          In_memory pending \<Rightarrow> Inr (c, s\<lparr>backend := In_memory (memory_issue c pending)\<rparr>)
        | Sqlite rows \<Rightarrow> (case sqlite_issue c t1 rows of
              Inl e \<Rightarrow> Inl e
            | Inr rows' \<Rightarrow> Inr (c, s\<lparr>backend := Sqlite rows'\<rparr>)))"

subsection \<open>Consuming\<close>

definition memory_consume :: "string \<Rightarrow> int \<Rightarrow> (string \<Rightarrow> challenge option) \<Rightarrow>
    challenge option \<times> (string \<Rightarrow> challenge option)" where
  "memory_consume n now pending =
     (case pending n of
        None \<Rightarrow> (None, pending(n := None))
      | Some c \<Rightarrow> (if expires_at c < now then None else Some c, pending(n := None)))"

definition open_row :: "string \<Rightarrow> challenge_row \<Rightarrow> bool" where
  "open_row n r \<longleftrightarrow> row_nonce r = n \<and> consumed_at r = None"

definition sqlite_consume :: "string \<Rightarrow> int \<Rightarrow> challenge_row list \<Rightarrow> challenge option \<times> challenge_row list" where
  "sqlite_consume n now rows =
     (case find (open_row n) rows of
        None \<Rightarrow> (None, rows)
      | Some r \<Rightarrow>
         (let c = row_challenge r;
              rows' = map (\<lambda>r. if open_row n r then r\<lparr>consumed_at := Some now\<rparr> else r) rows
          in (if expires_at c < now then None else Some c, rows')))"

text \<open>
  The nonce comes from a request.  A dict cannot look up a list or a dict, and does not
  find a number; SQLite cannot bind them, and compares a number as its text.
\<close>

definition dict_key :: "jsval \<Rightarrow> exc + string option" where
  "dict_key v = (case v of Str s \<Rightarrow> Inr (Some s) | Arr _ \<Rightarrow> Inl TypeError | Obj _ \<Rightarrow> Inl TypeError | _ \<Rightarrow> Inr None)"

definition text_parameter :: "jsval \<Rightarrow> exc + string option" where
  "text_parameter v = (case v of Str s \<Rightarrow> Inr (Some s) | Null \<Rightarrow> Inr None
     | Num n \<Rightarrow> (if - (2 ^ 63) \<le> n \<and> n < 2 ^ 63 then Inr (Some (int_to_dec n)) else Inl Overflow_error)
     | Bool b \<Rightarrow> Inr (Some (if b then ''1'' else ''0'')) | _ \<Rightarrow> Inl Sql_parameter_error)"

definition consume :: "jsval \<Rightarrow> int \<Rightarrow> (challenge_store, challenge option) py" where
  "consume v now = transaction (\<lambda>s. case backend s of
        In_memory pending \<Rightarrow> (case dict_key v of
            Inl e \<Rightarrow> Inl e
          | Inr None \<Rightarrow> Inr (None, s)
          | Inr (Some n) \<Rightarrow> (case memory_consume n now pending of
               (r, pending') \<Rightarrow> Inr (r, s\<lparr>backend := In_memory pending'\<rparr>)))
      | Sqlite rows \<Rightarrow> (case text_parameter v of
            Inl e \<Rightarrow> Inl e
          | Inr None \<Rightarrow> Inr (None, s)
          | Inr (Some n) \<Rightarrow> (case sqlite_consume n now rows of
               (r, rows') \<Rightarrow> Inr (r, s\<lparr>backend := Sqlite rows'\<rparr>))))"

subsection \<open>The contract\<close>

text \<open>What both backends promise: a map of the challenges that can still be consumed.\<close>

type_synonym book = "string \<Rightarrow> challenge option"

definition book_consume :: "string \<Rightarrow> int \<Rightarrow> book \<Rightarrow> challenge option \<times> book" where
  "book_consume n now b =
     ((case b n of None \<Rightarrow> None | Some c \<Rightarrow> if expires_at c < now then None else Some c), b(n := None))"

definition expired_in :: "book \<Rightarrow> string \<Rightarrow> int \<Rightarrow> bool" where
  "expired_in b n now \<longleftrightarrow> (\<exists>c. b n = Some c \<and> expires_at c < now)"

text \<open>
  The interface: what is open in a state, which nonces it would refuse, and the two operations.
  Issuing may drop challenges that have expired.
\<close>

locale challenge_book =
  fixes ok :: "'st \<Rightarrow> bool"
    and opened :: "'st \<Rightarrow> book"
    and known :: "'st \<Rightarrow> string set"
    and iss :: "challenge \<Rightarrow> int \<Rightarrow> 'st \<Rightarrow> exc + 'st"
    and con :: "string \<Rightarrow> int \<Rightarrow> 'st \<Rightarrow> challenge option \<times> 'st"
  assumes ok_keyed: "ok s \<Longrightarrow> opened s n = Some c \<Longrightarrow> nonce c = n"
    and iss_fresh: "ok s \<Longrightarrow> nonce c \<notin> known s \<Longrightarrow> \<exists>s'. iss c now s = Inr s'"
    and iss_ok: "ok s \<Longrightarrow> iss c now s = Inr s' \<Longrightarrow> ok s'"
    and iss_open: "ok s \<Longrightarrow> iss c now s = Inr s' \<Longrightarrow> opened s' (nonce c) = Some c"
    and iss_other: "ok s \<Longrightarrow> iss c now s = Inr s' \<Longrightarrow> n \<noteq> nonce c \<Longrightarrow>
          \<not> expired_in (opened s) n now \<Longrightarrow> opened s' n = opened s n"
    and iss_drop: "ok s \<Longrightarrow> iss c now s = Inr s' \<Longrightarrow> n \<noteq> nonce c \<Longrightarrow> opened s' n \<in> {opened s n, None}"
    and iss_known: "ok s \<Longrightarrow> iss c now s = Inr s' \<Longrightarrow> known s' \<subseteq> insert (nonce c) (known s)"
    and con_ok: "ok s \<Longrightarrow> con n now s = (r, s') \<Longrightarrow> ok s'"
    and con_spec: "ok s \<Longrightarrow> con n now s = (r, s') \<Longrightarrow> book_consume n now (opened s) = (r, opened s')"
    and con_known: "ok s \<Longrightarrow> con n now s = (r, s') \<Longrightarrow> known s' \<subseteq> known s"
begin

text \<open>A state stands for a book at a time: it may have dropped what has expired.\<close>

definition stands_for :: "'st \<Rightarrow> book \<Rightarrow> int \<Rightarrow> bool" where
  "stands_for s b now \<longleftrightarrow> ok s \<and> (\<forall>n. opened s n = b n \<or> opened s n = None \<and> expired_in b n now)"

lemma stands_for_later: "stands_for s b t \<Longrightarrow> t \<le> t' \<Longrightarrow> stands_for s b t'"
  unfolding stands_for_def expired_in_def by (metis less_le_trans)

lemma iss_stands_for:
  assumes "iss c now s = Inr s'" and "stands_for s b now"
  shows "stands_for s' (b(nonce c \<mapsto> c)) now"
  unfolding stands_for_def
proof (intro conjI allI)
  have k: "ok s" using assms(2) by (simp add: stands_for_def)
  then show "ok s'" using iss_ok assms(1) by blast
  fix n
  show "opened s' n = (b(nonce c \<mapsto> c)) n \<or> opened s' n = None \<and> expired_in (b(nonce c \<mapsto> c)) n now"
  proof (cases "n = nonce c")
    case True
    then show ?thesis using iss_open [OF k assms(1)] by simp
  next
    case False
    then have e: "expired_in (b(nonce c \<mapsto> c)) n now = expired_in b n now" by (simp add: expired_in_def)
    have s: "opened s n = b n \<or> opened s n = None \<and> expired_in b n now"
      using assms(2) by (simp add: stands_for_def)
    show ?thesis
    proof (cases "expired_in b n now")
      case True
      then show ?thesis using False s e iss_drop [OF k assms(1) False] by auto
    next
      case fresh: False
      with s have "opened s n = b n" "\<not> expired_in (opened s) n now" by (auto simp: expired_in_def)
      then show ?thesis using iss_other [OF k assms(1) False] False by simp
    qed
  qed
qed

lemma con_stands_for:
  assumes "con n now s = (r, s')" and "stands_for s b now"
  shows "\<exists>b'. book_consume n now b = (r, b') \<and> stands_for s' b' now"
proof -
  have k: "ok s" using assms(2) by (simp add: stands_for_def)
  then have k': "ok s'" and o: "book_consume n now (opened s) = (r, opened s')"
    using con_ok con_spec assms(1) by blast+
  have "opened s n = b n \<or> opened s n = None \<and> expired_in b n now"
    using assms(2) by (simp add: stands_for_def)
  with o have "fst (book_consume n now b) = r"
    by (auto simp: book_consume_def expired_in_def)
  moreover have "opened s' = (opened s)(n := None)" using o by (simp add: book_consume_def)
  with assms(2) k' have "stands_for s' (b(n := None)) now" by (simp add: stands_for_def expired_in_def)
  ultimately show ?thesis by (auto simp: book_consume_def)
qed

end

subsection \<open>Histories\<close>

datatype store_op = Issue string string string int int | Consume string int

datatype answer = Issued "exc + challenge" | Consumed "challenge option"

text \<open>A sequence of operations and its answers, over any implementation of the two operations.\<close>

fun history :: "(challenge \<Rightarrow> int \<Rightarrow> 'st \<Rightarrow> exc + 'st) \<Rightarrow> (string \<Rightarrow> int \<Rightarrow> 'st \<Rightarrow> challenge option \<times> 'st) \<Rightarrow>
    int \<Rightarrow> store_op list \<Rightarrow> 'st \<Rightarrow> answer list \<times> 'st" where
  "history iss con ttl [] s = ([], s)"
| "history iss con ttl (Issue dm ac token t0 t1 # ops) s =
     (let c = new_challenge dm ac ttl token t0
      in case iss c t1 s of
           Inl e \<Rightarrow> (case history iss con ttl ops s of (as, s') \<Rightarrow> (Issued (Inl e) # as, s'))
         | Inr s1 \<Rightarrow> (case history iss con ttl ops s1 of (as, s') \<Rightarrow> (Issued (Inr c) # as, s')))"
| "history iss con ttl (Consume n now # ops) s =
     (case con n now s of (r, s1) \<Rightarrow>
        (case history iss con ttl ops s1 of (as, s') \<Rightarrow> (Consumed r # as, s')))"

definition book_issue :: "challenge \<Rightarrow> int \<Rightarrow> book \<Rightarrow> exc + book" where
  "book_issue c now b = Inr (b(nonce c \<mapsto> c))"

fun op_time :: "store_op \<Rightarrow> int" where
  "op_time (Issue dm ac token t0 t1) = t1"
| "op_time (Consume n now) = now"

fun op_tokens :: "store_op \<Rightarrow> string list" where
  "op_tokens (Issue dm ac token t0 t1) = [token]"
| "op_tokens (Consume n now) = []"

text \<open>The clock does not run backwards, and no token is drawn twice.\<close>

definition regular :: "store_op list \<Rightarrow> bool" where
  "regular ops \<longleftrightarrow> sorted (map op_time ops) \<and> distinct (concat (map op_tokens ops))"

fun wins :: "string \<Rightarrow> store_op list \<Rightarrow> answer list \<Rightarrow> nat" where
  "wins n (Consume m now # ops) (Consumed (Some c) # as) = (if m = n then 1 else 0) + wins n ops as"
| "wins n (_ # ops) (_ # as) = wins n ops as"
| "wins n _ _ = 0"

fun issues :: "string \<Rightarrow> store_op list \<Rightarrow> nat" where
  "issues n [] = 0"
| "issues n (Issue dm ac token t0 t1 # ops) = (if token = n then 1 else 0) + issues n ops"
| "issues n (Consume m now # ops) = issues n ops"

fun answered :: "store_op list \<Rightarrow> answer list \<Rightarrow> (string \<times> int \<times> challenge) list" where
  "answered (Consume n now # ops) (Consumed (Some c) # as) = (n, now, c) # answered ops as"
| "answered (_ # ops) (_ # as) = answered ops as"
| "answered _ _ = []"

text \<open>A consumed challenge was issued for its nonce, or was open before, and has not expired.\<close>

fun genuine :: "book \<Rightarrow> int \<Rightarrow> store_op list \<Rightarrow> string \<times> int \<times> challenge \<Rightarrow> bool" where
  "genuine b ttl ops (n, now, c) \<longleftrightarrow> nonce c = n \<and> now \<le> expires_at c \<and> (b n = Some c \<or>
      (\<exists>dm ac t0 t1. Issue dm ac n t0 t1 \<in> set ops \<and> c = new_challenge dm ac ttl n t0))"

lemma nonce_new_challenge [simp]:
  "nonce (new_challenge dm ac ttl token now) = token"
  "expires_at (new_challenge dm ac ttl token now) = now + ttl"
  by (simp_all add: new_challenge_def)

context challenge_book begin

text \<open>On a regular history the answers are those of the book.\<close>

lemma history_is_book:
  "stands_for s b t \<Longrightarrow> regular ops \<Longrightarrow> (\<forall>o1 \<in> set ops. t \<le> op_time o1) \<Longrightarrow>
   known s \<inter> set (concat (map op_tokens ops)) = {} \<Longrightarrow>
     fst (history iss con ttl ops s) = fst (history book_issue book_consume ttl ops b)"
proof (induction ops arbitrary: s b t)
  case (Cons x ops)
  have r: "regular ops" and later: "\<forall>o1 \<in> set ops. op_time x \<le> op_time o1"
    and fresh: "set (op_tokens x) \<inter> set (concat (map op_tokens ops)) = {}"
    using Cons.prems(2) by (simp_all add: regular_def)
  have k: "ok s" using Cons.prems(1) by (simp add: stands_for_def)
  have sf: "stands_for s b (op_time x)" using Cons.prems(1,3) stands_for_later by auto
  show ?case
  proof (cases x)
    case (Issue dm ac token t0 t1)
    let ?c = "new_challenge dm ac ttl token t0"
    obtain s1 where i: "iss ?c t1 s = Inr s1"
      using iss_fresh [OF k, of ?c t1] Cons.prems(4) Issue by auto
    have sf1: "stands_for s1 (b(token \<mapsto> ?c)) t1" using iss_stands_for [OF i] sf Issue by simp
    have kn: "known s1 \<inter> set (concat (map op_tokens ops)) = {}"
      using iss_known [OF k i] Cons.prems(4) fresh Issue by auto
    have "fst (history iss con ttl ops s1) = fst (history book_issue book_consume ttl ops (b(token \<mapsto> ?c)))"
      by (rule Cons.IH [OF sf1 r _ kn]) (use later Issue in simp)
    moreover have "book_issue ?c t1 b = Inr (b(token \<mapsto> ?c))" by (simp add: book_issue_def)
    ultimately show ?thesis using i by (simp add: Issue Let_def split_beta)
  next
    case (Consume n now)
    obtain a s1 where c: "con n now s = (a, s1)" by (cases "con n now s")
    obtain b1 where b: "book_consume n now b = (a, b1)" "stands_for s1 b1 now"
      using con_stands_for [OF c] sf Consume by auto
    have "known s1 \<inter> set (concat (map op_tokens ops)) = {}"
      using con_known [OF k c] Cons.prems(4) by auto
    with Cons.IH [OF b(2) r] later c b(1) show ?thesis by (simp add: Consume split_beta)
  qed
qed simp

lemma con_opened: "ok s \<Longrightarrow> con n now s = (r, s1) \<Longrightarrow> opened s1 = (opened s)(n := None)"
  using con_spec by (fastforce simp: book_consume_def)

lemma con_won: "ok s \<Longrightarrow> con n now s = (Some c, s1) \<Longrightarrow> opened s n = Some c \<and> \<not> expires_at c < now"
  using con_spec [of s n now "Some c" s1] by (auto simp: book_consume_def split: option.splits if_splits)

definition open_count :: "string \<Rightarrow> 'st \<Rightarrow> nat" where
  "open_count n s = (if opened s n = None then 0 else 1)"

lemma con_open_count:
  assumes "ok s" and "con m now s = (r, s1)"
  shows "(if m = n \<and> r \<noteq> None then 1 else 0) + open_count n s1 \<le> open_count n s"
  using con_opened [OF assms] con_won [OF assms(1)] assms(2) by (cases r) (auto simp: open_count_def)

lemma iss_open_count:
  assumes "ok s" and "iss c now s = Inr s1"
  shows "open_count n s1 \<le> (if nonce c = n then 1 else 0) + open_count n s"
  using iss_drop [OF assms, of n] by (auto simp: open_count_def)

text \<open>A nonce is won at most as often as it was issued.\<close>

lemma wins_bounded: "ok s \<Longrightarrow> wins n ops (fst (history iss con ttl ops s)) \<le> issues n ops + open_count n s"
proof (induction ops arbitrary: s)
  case (Cons x ops)
  note k = Cons.prems
  show ?case
  proof (cases x)
    case (Issue dm ac token t0 t1)
    let ?c = "new_challenge dm ac ttl token t0"
    show ?thesis
    proof (cases "iss ?c t1 s")
      case (Inl e)
      then show ?thesis using Cons.IH [OF k] by (simp add: Issue Let_def split_beta)
    next
      case (Inr s1)
      then show ?thesis using Cons.IH [OF iss_ok [OF k Inr]] iss_open_count [OF k Inr, of n]
        by (simp add: Issue Let_def split_beta)
    qed
  next
    case (Consume m now)
    obtain r s1 where c: "con m now s = (r, s1)" by (cases "con m now s")
    obtain as s2 where h: "history iss con ttl ops s1 = (as, s2)" by (cases "history iss con ttl ops s1")
    show ?thesis
      using Cons.IH [OF con_ok [OF k c]] con_open_count [OF k c, of n]
      by (cases r) (auto simp: Consume c h split: if_splits)
  qed
qed simp

lemma answered_sound: "ok s \<Longrightarrow> (n, now, c) \<in> set (answered ops (fst (history iss con ttl ops s))) \<Longrightarrow>
    nonce c = n \<and> now \<le> expires_at c \<and> (opened s n = Some c \<or>
      (\<exists>dm ac t0 t1. Issue dm ac n t0 t1 \<in> set ops \<and> c = new_challenge dm ac ttl n t0))"
proof (induction ops arbitrary: s)
  case (Cons x ops)
  note k = Cons.prems(1)
  show ?case
  proof (cases x)
    case (Issue dm ac token t0 t1)
    let ?c = "new_challenge dm ac ttl token t0"
    show ?thesis
    proof (cases "iss ?c t1 s")
      case (Inl e)
      then show ?thesis using Cons.IH [OF k] Cons.prems(2) by (auto simp: Issue Let_def split_beta)
    next
      case (Inr s1)
      have "opened s1 n = Some c \<Longrightarrow> opened s n = Some c \<or> n = token \<and> c = ?c"
        using iss_drop [OF k Inr, of n] iss_open [OF k Inr] by (cases "n = token") auto
      then show ?thesis using Inr Cons.IH [OF iss_ok [OF k Inr]] Cons.prems(2)
        by (auto simp: Issue Let_def split_beta)
    qed
  next
    case (Consume m t)
    obtain r s1 where c: "con m t s = (r, s1)" by (cases "con m t s")
    have h: "(n, now, c) \<in> set (answered ops (fst (history iss con ttl ops s1))) \<or> m = n \<and> t = now \<and> r = Some c"
      using Cons.prems(2) by (cases r) (auto simp: Consume c split_beta)
    have o: "opened s1 n = Some c \<Longrightarrow> opened s n = Some c"
      using con_opened [OF k c] by (auto split: if_splits)
    have "m = n \<and> t = now \<and> r = Some c \<Longrightarrow> opened s n = Some c \<and> now \<le> expires_at c"
      using con_won [OF k, of m t c s1] c by auto
    then show ?thesis using h o ok_keyed [OF k, of n c] Cons.IH [OF con_ok [OF k c]]
      by (auto simp: Consume)
  qed
qed simp

lemma answered_genuine: "ok s \<Longrightarrow> \<forall>x \<in> set (answered ops (fst (history iss con ttl ops s))). genuine (opened s) ttl ops x"
  using answered_sound by fastforce

end

subsection \<open>Both backends keep the contract\<close>

definition keyed :: "book \<Rightarrow> bool" where
  "keyed b \<longleftrightarrow> (\<forall>n c. b n = Some c \<longrightarrow> nonce c = n)"

interpretation memory: challenge_book keyed id "\<lambda>_. {}" "\<lambda>c now p. Inr (memory_issue c p)" memory_consume
  by unfold_locales
    (auto simp: keyed_def memory_issue_def memory_consume_def book_consume_def split: option.splits if_splits)

definition table_book :: "challenge_row list \<Rightarrow> book" where
  "table_book rows n = map_option row_challenge (find (open_row n) rows)"

lemma open_row_new [simp]: "open_row n \<lparr>row_challenge = c, consumed_at = None\<rparr> \<longleftrightarrow> nonce c = n"
  by (auto simp: open_row_def row_nonce_def)

lemma sqlite_issue_Inr:
  "sqlite_issue c now rows = Inr rows' \<longleftrightarrow>
     nonce c \<notin> row_nonce ` set (filter (unexpired now) rows) \<and>
     rows' = filter (unexpired now) rows @ [\<lparr>row_challenge = c, consumed_at = None\<rparr>]"
  by (auto simp: sqlite_issue_def Let_def)

lemma no_open_row: "n \<notin> row_nonce ` set rows \<Longrightarrow> find (open_row n) rows = None"
  by (induction rows) (auto simp: open_row_def)

lemma table_book_issue:
  assumes "sqlite_issue c now rows = Inr rows'"
  shows "table_book rows' n = (if n = nonce c then Some c
     else table_book (filter (unexpired now) rows) n)"
proof -
  have "nonce c \<notin> row_nonce ` set (filter (unexpired now) rows)"
    and r: "rows' = filter (unexpired now) rows @ [\<lparr>row_challenge = c, consumed_at = None\<rparr>]"
    using assms by (simp_all add: sqlite_issue_Inr)
  then have "find (open_row (nonce c)) (filter (unexpired now) rows) = None" by (intro no_open_row)
  then show ?thesis by (auto simp: table_book_def r find_append split: option.splits)
qed

lemma table_book_filter:
  "table_book (filter (unexpired now) rows) n = table_book rows n \<or> expired_in (table_book rows) n now"
  using find_filter_drop [of "open_row n" "unexpired now" rows]
  by (force simp: table_book_def expired_in_def unexpired_def)

lemma table_book_distinct_filter:
  assumes "distinct (map row_nonce rows)"
  shows "table_book (filter Q rows) n \<in> {table_book rows n, None}"
  using assms
proof (induction rows)
  case (Cons r rows)
  have "open_row n r \<Longrightarrow> n \<notin> row_nonce ` set (filter Q rows)"
    using Cons.prems by (auto simp: open_row_def)
  then show ?case using Cons no_open_row [of n "filter Q rows"] by (auto simp: table_book_def)
qed (simp add: table_book_def)

definition consume_row :: "string \<Rightarrow> int \<Rightarrow> challenge_row \<Rightarrow> challenge_row" where
  "consume_row n now r = (if open_row n r then r\<lparr>consumed_at := Some now\<rparr> else r)"

lemma consume_row_simps [simp]:
  "row_challenge (consume_row n now r) = row_challenge r" "row_nonce (consume_row n now r) = row_nonce r"
  "open_row m (consume_row n now r) \<longleftrightarrow> open_row m r \<and> m \<noteq> n"
  by (auto simp: consume_row_def row_nonce_def open_row_def)

lemma table_book_consume: "table_book (map (consume_row n now) rows) = (table_book rows)(n := None)"
proof
  fix m show "table_book (map (consume_row n now) rows) m = ((table_book rows)(n := None)) m"
    by (induction rows) (auto simp: table_book_def)
qed

lemma sqlite_consume_eq: "sqlite_consume n now rows =
    ((case table_book rows n of None \<Rightarrow> None | Some c \<Rightarrow> if expires_at c < now then None else Some c),
     (if table_book rows n = None then rows else map (consume_row n now) rows))"
  by (auto simp: sqlite_consume_def table_book_def consume_row_def Let_def split: option.splits)

lemma sqlite_consume_book:
  "sqlite_consume n now rows = (r, rows') \<Longrightarrow> book_consume n now (table_book rows) = (r, table_book rows')"
  by (auto simp: sqlite_consume_eq book_consume_def table_book_consume split: if_splits)

definition primary_key :: "challenge_row list \<Rightarrow> bool" where
  "primary_key rows \<longleftrightarrow> distinct (map row_nonce rows)"

lemma sqlite_consume_nonces:
  "sqlite_consume n now rows = (r, rows') \<Longrightarrow> map row_nonce rows' = map row_nonce rows"
  by (auto simp: sqlite_consume_eq split: if_splits)

interpretation sqlite: challenge_book primary_key table_book "\<lambda>rows. row_nonce ` set rows" sqlite_issue sqlite_consume
proof
  fix rows rows' :: "challenge_row list" and c now n r
  show "table_book rows n = Some c \<Longrightarrow> nonce c = n"
    by (auto simp: table_book_def find_Some_iff open_row_def row_nonce_def)
  show "nonce c \<notin> row_nonce ` set rows \<Longrightarrow> \<exists>s'. sqlite_issue c now rows = Inr s'"
    by (auto simp: sqlite_issue_Inr)
  show "primary_key rows \<Longrightarrow> sqlite_issue c now rows = Inr rows' \<Longrightarrow> primary_key rows'"
    by (auto simp: sqlite_issue_Inr primary_key_def distinct_map_filter row_nonce_def)
  show "sqlite_issue c now rows = Inr rows' \<Longrightarrow> table_book rows' (nonce c) = Some c"
    by (simp add: table_book_issue)
  show "sqlite_issue c now rows = Inr rows' \<Longrightarrow> n \<noteq> nonce c \<Longrightarrow> \<not> expired_in (table_book rows) n now \<Longrightarrow>
      table_book rows' n = table_book rows n"
    using table_book_filter [of now rows n] by (simp add: table_book_issue)
  show "primary_key rows \<Longrightarrow> sqlite_issue c now rows = Inr rows' \<Longrightarrow> n \<noteq> nonce c \<Longrightarrow>
      table_book rows' n \<in> {table_book rows n, None}"
    unfolding primary_key_def
    using table_book_distinct_filter [of rows "unexpired now" n] by (simp add: table_book_issue)
  show "sqlite_issue c now rows = Inr rows' \<Longrightarrow> row_nonce ` set rows' \<subseteq> insert (nonce c) (row_nonce ` set rows)"
    by (auto simp: sqlite_issue_Inr row_nonce_def)
  show "primary_key rows \<Longrightarrow> sqlite_consume n now rows = (r, rows') \<Longrightarrow> primary_key rows'"
    by (simp add: primary_key_def sqlite_consume_nonces)
  show "sqlite_consume n now rows = (r, rows') \<Longrightarrow> book_consume n now (table_book rows) = (r, table_book rows')"
    by (rule sqlite_consume_book)
  show "sqlite_consume n now rows = (r, rows') \<Longrightarrow> row_nonce ` set rows' \<subseteq> row_nonce ` set rows"
    using sqlite_consume_nonces [of n now rows r rows'] by (metis list.set_map subset_refl)
qed

subsection \<open>The store\<close>

text \<open>A history of the store's own methods.\<close>

fun store_run :: "store_op list \<Rightarrow> challenge_store \<Rightarrow> answer list \<times> challenge_store" where
  "store_run [] s = ([], s)"
| "store_run (Issue dm ac token t0 t1 # ops) s =
     (case issue dm ac token t0 t1 s of (r, s1) \<Rightarrow> (case store_run ops s1 of (as, s') \<Rightarrow> (Issued r # as, s')))"
| "store_run (Consume n now # ops) s =
     (case consume (Str n) now s of (r, s1) \<Rightarrow> (case store_run ops s1 of
        (as, s') \<Rightarrow> ((case r of Inl e \<Rightarrow> Issued (Inl e) | Inr c \<Rightarrow> Consumed c) # as, s')))"

lemma store_run_memory:
  "store_run ops \<lparr>ttl_seconds = ttl, backend = In_memory p\<rparr> =
     (case history (\<lambda>c now p. Inr (memory_issue c p)) memory_consume ttl ops p of
        (as, p') \<Rightarrow> (as, \<lparr>ttl_seconds = ttl, backend = In_memory p'\<rparr>))"
  by (induction ops arbitrary: p rule: issues.induct)
    (simp_all add: issue_def consume_def py_rules Let_def dict_key_def split_beta)

lemma store_run_sqlite:
  "store_run ops \<lparr>ttl_seconds = ttl, backend = Sqlite rows\<rparr> =
     (case history sqlite_issue sqlite_consume ttl ops rows of
        (as, rows') \<Rightarrow> (as, \<lparr>ttl_seconds = ttl, backend = Sqlite rows'\<rparr>))"
  by (induction ops arbitrary: rows rule: issues.induct)
    (simp_all add: issue_def consume_def py_rules Let_def text_parameter_def split_beta split: sum.split)

text \<open>The challenges a store starts with: those its file still holds open.\<close>

definition stored :: "challenge_row list option \<Rightarrow> book" where
  "stored db = (case db of None \<Rightarrow> Map.empty | Some rows \<Rightarrow> table_book rows)"

definition file_ok :: "challenge_row list option \<Rightarrow> bool" where
  "file_ok db \<longleftrightarrow> (case db of None \<Rightarrow> True | Some rows \<Rightarrow> primary_key rows)"

definition file_nonces :: "challenge_row list option \<Rightarrow> string set" where
  "file_nonces db = (case db of None \<Rightarrow> {} | Some rows \<Rightarrow> row_nonce ` set rows)"

text \<open>
  C9. Both kinds of store, the dict and the table, refine one book of open challenges: on every
  history in which the clock does not run backwards and no token is drawn twice they give
  the answers of the book that starts with what their file holds.  So the two kinds are
  interchangeable, and a restart loses nothing.
\<close>

theorem challenge_store_refines_book:
  assumes "ChallengeStore ttl db = Inr s" and "file_ok db" and "regular ops"
    and "file_nonces db \<inter> set (concat (map op_tokens ops)) = {}"
  shows "fst (store_run ops s) = fst (history book_issue book_consume ttl ops (stored db))"
proof -
  obtain t where t: "\<forall>o1 \<in> set ops. t \<le> op_time o1"
    using assms(3) by (cases ops) (auto simp: regular_def)
  show ?thesis
  proof (cases db)
    case None
    have "memory.stands_for (Map.empty :: book) Map.empty t"
      by (simp add: memory.stands_for_def keyed_def)
    from memory.history_is_book [OF this assms(3) t] show ?thesis
      using assms(1) None by (auto simp: ChallengeStore_def store_run_memory stored_def split_beta split: if_splits)
  next
    case (Some rows)
    have "sqlite.stands_for rows (table_book rows) t"
      using assms(2) Some by (simp add: sqlite.stands_for_def file_ok_def)
    from sqlite.history_is_book [OF this assms(3) t] show ?thesis
      using assms(1,4) Some
      by (auto simp: ChallengeStore_def store_run_sqlite stored_def file_nonces_def split_beta split: if_splits)
  qed
qed

text \<open>
  C10. A challenge can be used once: in every history, however the clock runs, a nonce is consumed
  at most as often as it was issued (counting the challenge the file may hold), and a consumed
  challenge is the one issued for this nonce, with its domain, action and times, and not expired.
\<close>

theorem challenge_consumed_once:
  assumes "ChallengeStore ttl db = Inr s" and "file_ok db"
  shows "wins n ops (fst (store_run ops s)) \<le> issues n ops + (if stored db n = None then 0 else 1) \<and>
    (\<forall>x \<in> set (answered ops (fst (store_run ops s))). genuine (stored db) ttl ops x)"
proof (cases db)
  case None
  have k: "keyed (Map.empty :: book)" by (simp add: keyed_def)
  show ?thesis
    using assms(1) None memory.wins_bounded [OF k, of n ops ttl] memory.answered_genuine [OF k, of ops ttl]
    by (auto simp: ChallengeStore_def store_run_memory stored_def split_beta memory.open_count_def split: if_splits)
next
  case (Some rows)
  have k: "primary_key rows" using assms(2) Some by (simp add: file_ok_def)
  show ?thesis
    using assms(1) Some sqlite.wins_bounded [OF k, of n ops ttl] sqlite.answered_genuine [OF k, of ops ttl]
    by (auto simp: ChallengeStore_def store_run_sqlite stored_def split_beta sqlite.open_count_def split: if_splits)
qed

subsection \<open>Concrete histories\<close>

definition replay_history :: "store_op list" where
  "replay_history = [Issue ''a.org'' ''yunohost-login'' ''t1'' 100 100, Issue ''a.org'' ''yunohost-link'' ''t2'' 101 101,
     Consume ''t1'' 120, Consume ''t1'' 121, Consume ''t2'' 300, Consume ''t3'' 301]"

theorem challenge_store_refines_book_witness:
  "fst (store_run replay_history \<lparr>ttl_seconds = 90, backend = Sqlite []\<rparr>) =
     [Issued (Inr (new_challenge ''a.org'' ''yunohost-login'' 90 ''t1'' 100)),
      Issued (Inr (new_challenge ''a.org'' ''yunohost-link'' 90 ''t2'' 101)),
      Consumed (Some (new_challenge ''a.org'' ''yunohost-login'' 90 ''t1'' 100)), Consumed None, Consumed None,
      Consumed None]"
proof -
  have "ChallengeStore 90 (Some []) = Inr \<lparr>ttl_seconds = 90, backend = Sqlite []\<rparr>"
    by (simp add: ChallengeStore_def)
  from challenge_store_refines_book [OF this, of replay_history] show ?thesis
    by (simp add: file_ok_def primary_key_def file_nonces_def regular_def replay_history_def stored_def
        table_book_def book_issue_def book_consume_def Let_def)
qed

theorem challenge_consumed_once_witness:
  "wins ''t1'' replay_history (fst (store_run replay_history \<lparr>ttl_seconds = 90, backend = Sqlite []\<rparr>)) \<le> 1"
proof -
  have "ChallengeStore 90 (Some []) = Inr \<lparr>ttl_seconds = 90, backend = Sqlite []\<rparr>"
    by (simp add: ChallengeStore_def)
  from challenge_consumed_once [OF this, of "''t1''" replay_history] show ?thesis
    by (simp add: file_ok_def primary_key_def stored_def table_book_def replay_history_def)
qed

end
