(* ===== verification/Nostr_Verify.thy ===== *)
theory Nostr_Verify
  imports Challenge_Store
begin

text \<open>
  \<open>src/src/yunohost_nostr_auth/auth/nostr_verify.py\<close> and \<open>identity/npub.py\<close>: checking a signed event
  against a challenge.  The library \<open>nostr-sdk\<close> (parsing, the event id, the signature, the forms of
  a public key) is a parameter: the record of the functions the source calls.
\<close>

record nostr_event =
  event_kind :: nat
  event_tags :: "string list list"
  event_created_at :: int
  event_author :: string

record nostr_sdk =
  Event_from_json :: "string \<Rightarrow> string + nostr_event"
  Event_verify :: "nostr_event \<Rightarrow> bool"
  PublicKey_to_hex :: "string \<Rightarrow> string + string"
  PublicKey_to_bech32 :: "string \<Rightarrow> string + string"

subsection \<open>\<open>json.dumps\<close>\<close>

text \<open>The code points of a UTF-8 text.\<close>

fun utf8_points :: "string \<Rightarrow> nat list" where
  "utf8_points [] = []"
| "utf8_points (a # b # c # d # s) =
     (if code_of a < 0xC0 then code_of a # utf8_points (b # c # d # s)
      else if code_of a < 0xE0 then (code_of a mod 32 * 64 + code_of b mod 64) # utf8_points (c # d # s)
      else if code_of a < 0xF0 then
        (code_of a mod 16 * 4096 + code_of b mod 64 * 64 + code_of c mod 64) # utf8_points (d # s)
      else (code_of a mod 8 * 262144 + code_of b mod 64 * 4096 + code_of c mod 64 * 64 + code_of d mod 64)
        # utf8_points s)"
| "utf8_points (a # b # c # s) =
     (if code_of a < 0xC0 then code_of a # utf8_points (b # c # s)
      else if code_of a < 0xE0 then (code_of a mod 32 * 64 + code_of b mod 64) # utf8_points (c # s)
      else (code_of a mod 16 * 4096 + code_of b mod 64 * 64 + code_of c mod 64) # utf8_points s)"
| "utf8_points (a # b # s) =
     (if code_of a < 0xC0 then code_of a # utf8_points (b # s)
      else (code_of a mod 32 * 64 + code_of b mod 64) # utf8_points s)"
| "utf8_points (a # s) = code_of a # utf8_points s"

definition hex4_text :: "nat \<Rightarrow> string" where
  "hex4_text n = map hex_digit [n div 4096 mod 16, n div 256 mod 16, n div 16 mod 16, n mod 16]"

definition unicode_escape :: "nat \<Rightarrow> string" where
  "unicode_escape n = [chr 92, CHR ''u''] @ hex4_text n"

text \<open>\<open>ensure_ascii\<close>: what is not printable ASCII is escaped, beyond 16 bits as a surrogate pair.\<close>

definition dumps_point :: "nat \<Rightarrow> string" where
  "dumps_point n =
     (if n = 34 \<or> n = 92 then [chr 92, chr n]
      else if n = 10 then [chr 92, CHR ''n''] else if n = 13 then [chr 92, CHR ''r'']
      else if n = 9 then [chr 92, CHR ''t''] else if n = 12 then [chr 92, CHR ''f'']
      else if n = 8 then [chr 92, CHR ''b'']
      else if 32 \<le> n \<and> n \<le> 126 then [chr n]
      else if n < 65536 then unicode_escape n
      else unicode_escape (0xD800 + (n - 65536) div 1024) @ unicode_escape (0xDC00 + (n - 65536) mod 1024))"

definition dumps_text :: "string \<Rightarrow> string" where
  "dumps_text s = chr 34 # concat (map dumps_point (utf8_points s)) @ [chr 34]"

text \<open>Values that JSON does not have do not come from a request.\<close>

fun py_dumps :: "jsval \<Rightarrow> string" where
  "py_dumps Null = ''null''"
| "py_dumps (Bool b) = (if b then ''true'' else ''false'')"
| "py_dumps (Num n) = int_to_dec n"
| "py_dumps (Str s) = dumps_text s"
| "py_dumps (Arr vs) = ''['' @ join '', '' (map py_dumps vs) @ '']''"
| "py_dumps (Obj ps) = ''{'' @ join '', '' (map (\<lambda>p. dumps_text (fst p) @ '': '' @ py_dumps (snd p)) ps) @ ''}''"
| "py_dumps _ = []"

declare py_dumps.simps [simp del]

subsection \<open>The checks\<close>

definition CHALLENGE_EVENT_KIND :: nat where
  "CHALLENGE_EVENT_KIND = 22242"

definition parse_and_verify_event :: "nostr_sdk \<Rightarrow> string \<Rightarrow> exc + nostr_event" where
  "parse_and_verify_event sdk event_json =
     (case Event_from_json sdk event_json of
        Inl e \<Rightarrow> Inl (InvalidEvent (''malformed event: '' @ e))
      | Inr event \<Rightarrow> (if \<not> Event_verify sdk event
          then Inl (InvalidEvent ''event id/signature does not verify'') else Inr event))"

definition tag_value :: "nostr_event \<Rightarrow> string \<Rightarrow> string option" where
  "tag_value event name =
     map_option (\<lambda>values. values ! 1) (find (\<lambda>values. 2 \<le> length values \<and> values ! 0 = name) (event_tags event))"

text \<open>On the event of a request, before it is checked: \<open>None\<close> is \<open>Null\<close>.\<close>

definition names_tag :: "string \<Rightarrow> jsval \<Rightarrow> bool" where
  "names_tag name tag = (case tag of Arr vs \<Rightarrow> 2 \<le> length vs \<and> vs ! 0 = Str name | _ \<Rightarrow> False)"

definition second_item :: "jsval \<Rightarrow> jsval" where
  "second_item tag = (case tag of Arr vs \<Rightarrow> vs ! 1 | _ \<Rightarrow> Null)"

definition extract_tag_from_raw_event :: "(string \<times> jsval) list \<Rightarrow> string \<Rightarrow> jsval" where
  "extract_tag_from_raw_event event name = (case dict_get event ''tags'' Null of
      Arr tags \<Rightarrow> (case find (names_tag name) tags of None \<Rightarrow> Null | Some tag \<Rightarrow> second_item tag)
    | _ \<Rightarrow> Null)"

definition verify_challenge_response ::
    "nostr_sdk \<Rightarrow> string \<Rightarrow> string \<Rightarrow> string \<Rightarrow> string \<Rightarrow> int \<Rightarrow> int \<Rightarrow> int \<Rightarrow> exc + string" where
  "verify_challenge_response sdk event_json expected_nonce expected_domain expected_action issued expires skew =
     (case parse_and_verify_event sdk event_json of
        Inl e \<Rightarrow> Inl e
      | Inr event \<Rightarrow>
         if event_kind event \<noteq> CHALLENGE_EVENT_KIND
         then Inl (InvalidEvent (''unexpected event kind '' @ to_dec (event_kind event)))
         else if tag_value event ''challenge'' \<noteq> Some expected_nonce
         then Inl (InvalidEvent (single_quoted ''challenge'' @ '' tag does not match the issued nonce''))
         else if tag_value event ''domain'' \<noteq> Some expected_domain
         then Inl (InvalidEvent (single_quoted ''domain'' @ '' tag does not match''))
         else if tag_value event ''action'' \<noteq> Some expected_action
         then Inl (InvalidEvent (single_quoted ''action'' @ '' tag does not match''))
         else if \<not> (issued - skew \<le> event_created_at event \<and> event_created_at event \<le> expires + skew)
         then Inl (InvalidEvent (''event created_at is outside the challenge'' @ [chr 39] @ ''s validity window''))
         else Inr (event_author event))"

subsection \<open>What an accepted event attests\<close>

text \<open>The declarative reading of the module's documentation.\<close>

definition attests :: "nostr_sdk \<Rightarrow> string \<Rightarrow> challenge \<Rightarrow> int \<Rightarrow> string \<Rightarrow> bool" where
  "attests sdk event_json c skew pk \<longleftrightarrow> (\<exists>event.
     Event_from_json sdk event_json = Inr event \<and> Event_verify sdk event \<and> event_author event = pk \<and>
     event_kind event = CHALLENGE_EVENT_KIND \<and>
     tag_value event ''challenge'' = Some (nonce c) \<and> tag_value event ''domain'' = Some (domain c) \<and>
     tag_value event ''action'' = Some (action c) \<and>
     event_created_at event \<in> {issued_at c - skew .. expires_at c + skew})"

definition verify_for :: "nostr_sdk \<Rightarrow> string \<Rightarrow> challenge \<Rightarrow> int \<Rightarrow> exc + string" where
  "verify_for sdk event_json c skew = verify_challenge_response sdk event_json
     (nonce c) (domain c) (action c) (issued_at c) (expires_at c) skew"

lemma verify_attests: "verify_for sdk event_json c skew = Inr pk \<longleftrightarrow> attests sdk event_json c skew pk"
  by (auto simp: verify_for_def verify_challenge_response_def parse_and_verify_event_def attests_def
      split: sum.splits)

text \<open>
  C11. A response is accepted for a public key exactly if it is a valid event of the challenge kind,
  signed by this key, whose first tags of the three names carry the challenge's nonce, domain
  and action, made within the challenge's lifetime up to the clock skew.
\<close>

theorem verify_accepts_exactly:
  "verify_for sdk event_json c skew = Inr pk \<longleftrightarrow> attests sdk event_json c skew pk"
  by (rule verify_attests)

lemma verify_refuses:
  "verify_for sdk event_json c skew = Inl e \<Longrightarrow> \<exists>m. e = InvalidEvent m"
  by (auto simp: verify_for_def verify_challenge_response_def parse_and_verify_event_def
      split: sum.splits if_splits)

subsection \<open>Settings\<close>

text \<open>The validators of \<open>config.py\<close>.\<close>

definition validate_challenge_ttl :: "int \<Rightarrow> exc + int" where
  "validate_challenge_ttl v = (if \<not> (30 \<le> v \<and> v \<le> 120)
     then Inl (ValueError ''challenge_ttl_seconds must be between 30 and 120'') else Inr v)"

definition validate_clock_skew :: "int \<Rightarrow> exc + int" where
  "validate_clock_skew v = (if \<not> (0 \<le> v \<and> v \<le> 300)
     then Inl (ValueError ''clock_skew_seconds must be between 0 and 300'') else Inr v)"

text \<open>
  C35. The window for signing is bounded: with validated settings an event is accepted only if it was
  made at most five minutes before the challenge was issued and at most seven minutes after.
\<close>

theorem signing_window_bounded:
  assumes "validate_challenge_ttl ttl = Inr ttl'" and "validate_clock_skew skew = Inr skew'"
    and "Event_from_json sdk event_json = Inr event"
    and "verify_for sdk event_json (new_challenge dm ac ttl' token now) skew' = Inr pk"
  shows "event_created_at event \<in> {now - 300 .. now + 420} \<and>
    expires_at (new_challenge dm ac ttl' token now) \<in> {now + 30 .. now + 120}"
  using assms(1-3) assms(4) [unfolded verify_attests]
  by (auto simp: attests_def validate_challenge_ttl_def validate_clock_skew_def new_challenge_def split: if_splits)

subsection \<open>Forms of a public key\<close>

definition npub_to_hex :: "nostr_sdk \<Rightarrow> string \<Rightarrow> exc + string" where
  "npub_to_hex sdk v =
     (if \<not> starts_with ''npub1'' v
      then Inl (ValueError (''not a valid npub (must start with '' @ single_quoted ''npub1'' @ '')''))
      else case PublicKey_to_hex sdk v of Inl e \<Rightarrow> Inl (ValueError (''not a valid npub: '' @ e)) | Inr h \<Rightarrow> Inr h)"

definition hex_to_npub :: "nostr_sdk \<Rightarrow> string \<Rightarrow> exc + string" where
  "hex_to_npub sdk v = (case PublicKey_to_bech32 sdk v of
      Inl e \<Rightarrow> Inl (ValueError (''not a valid hex pubkey: '' @ e)) | Inr n \<Rightarrow> Inr n)"

definition parse_to_hex :: "nostr_sdk \<Rightarrow> string \<Rightarrow> exc + string" where
  "parse_to_hex sdk v = (case PublicKey_to_hex sdk v of
      Inl e \<Rightarrow> Inl (ValueError (''not a valid npub or hex pubkey: '' @ e)) | Inr h \<Rightarrow> Inr h)"

subsection \<open>A concrete library\<close>

text \<open>It reads one text as one event, and finds it valid.\<close>

definition sdk_reading :: "string \<Rightarrow> nostr_event \<Rightarrow> nostr_sdk" where
  "sdk_reading t e = \<lparr>Event_from_json = (\<lambda>s. if s = t then Inr e else Inl ''malformed''),
     Event_verify = (\<lambda>_. True), PublicKey_to_hex = Inr, PublicKey_to_bech32 = Inr\<rparr>"

definition login_event :: nostr_event where
  "login_event = \<lparr>event_kind = CHALLENGE_EVENT_KIND,
     event_tags = [[''challenge'', ''n0''], [''domain'', ''ynh.test''], [''action'', ''yunohost-login'']],
     event_created_at = 1700000010, event_author = ''k1''\<rparr>"

theorem signing_window_bounded_witness:
  "event_created_at login_event \<in> {1700000000 - 300 .. 1700000000 + (420::int)}"
proof -
  let ?c = "new_challenge ''ynh.test'' ''yunohost-login'' 90 ''n0'' 1700000000"
  have "validate_challenge_ttl 90 = Inr 90" "validate_clock_skew 60 = Inr 60"
    by (simp_all add: validate_challenge_ttl_def validate_clock_skew_def)
  moreover have "Event_from_json (sdk_reading ''e'' login_event) ''e'' = Inr login_event"
    by (simp add: sdk_reading_def)
  moreover have "verify_for (sdk_reading ''e'' login_event) ''e'' ?c 60 = Inr ''k1''"
    by (simp add: verify_for_def verify_challenge_response_def parse_and_verify_event_def sdk_reading_def login_event_def
        new_challenge_def tag_value_def)
  ultimately show ?thesis using signing_window_bounded by blast
qed

end
