(* ===== verification/Mappings.thy ===== *)
theory Mappings
  imports Py_Effect "HOL-Library.Product_Lexorder" "HOL-Library.List_Lexorder" "HOL-Library.Char_ord"
begin

text \<open>
  \<open>src/src/yunohost_nostr_auth/identity/mappings.py\<close>: which public keys belong to which user.
  The database is its table of identities (the rows in the order of their insertion), the
  largest id it has given out, its \<open>user_version\<close>, and the table of the first version of the
  program, where one exists.  The readings of the clock are arguments.
\<close>

record identity_row =
  row_id :: int
  row_username :: string
  row_pubkey :: string
  row_created_at :: int
  row_last_used :: "int option"
  row_enabled :: int
  row_signer_type :: string
  row_label :: "string option"
  row_linked_by :: string
  row_revoked_at :: "int option"

record Identity =
  ynh_username :: string
  pubkey :: string
  created_at :: int
  last_used :: "int option"
  enabled :: bool
  identity_id :: "int option"
  signer_type :: string
  label :: "string option"
  linked_by :: string
  revoked_at :: "int option"

record legacy_user =
  legacy_username :: string
  legacy_pubkey :: string
  legacy_created_at :: int
  legacy_last_used :: "int option"
  legacy_enabled :: int

record mapping_db =
  id_rows :: "identity_row list"
  last_id :: int
  user_version :: int
  legacy_users :: "legacy_user list option"

definition row_to_identity :: "identity_row \<Rightarrow> Identity" where
  "row_to_identity r = \<lparr>ynh_username = row_username r, pubkey = row_pubkey r, created_at = row_created_at r,
     last_used = row_last_used r, enabled = (row_enabled r \<noteq> 0), identity_id = Some (row_id r),
     signer_type = row_signer_type r, label = row_label r, linked_by = row_linked_by r,
     revoked_at = row_revoked_at r\<rparr>"

subsection \<open>Inserting\<close>

text \<open>\<open>AUTOINCREMENT\<close>: a new id is larger than any that was given out before.  The public key
  is unique.\<close>

definition insert_row :: "(int \<Rightarrow> identity_row) \<Rightarrow> mapping_db \<Rightarrow> exc + int \<times> mapping_db" where
  "insert_row f db =
     (let i = last_id db + 1; r = f i
      in if row_pubkey r \<in> row_pubkey ` set (id_rows db) then Inl IntegrityError
         else Inr (i, db\<lparr>id_rows := id_rows db @ [r], last_id := i\<rparr>))"

definition new_row :: "string \<Rightarrow> string \<Rightarrow> int \<Rightarrow> string \<Rightarrow> string option \<Rightarrow> string \<Rightarrow> int \<Rightarrow> identity_row" where
  "new_row u p now st lab by i = \<lparr>row_id = i, row_username = u, row_pubkey = p, row_created_at = now,
     row_last_used = None, row_enabled = 1, row_signer_type = st, row_label = lab, row_linked_by = by,
     row_revoked_at = None\<rparr>"

text \<open>\<open>INSERT OR IGNORE ... SELECT ... FROM users\<close>; the id of an ignored row may be lost.\<close>

definition legacy_row :: "legacy_user \<Rightarrow> int \<Rightarrow> identity_row" where
  "legacy_row x i = \<lparr>row_id = i, row_username = legacy_username x, row_pubkey = legacy_pubkey x,
     row_created_at = legacy_created_at x, row_last_used = legacy_last_used x, row_enabled = legacy_enabled x,
     row_signer_type = ''unknown'', row_label = None, row_linked_by = ''self-service'', row_revoked_at = None\<rparr>"

definition insert_or_ignore :: "legacy_user \<Rightarrow> mapping_db \<Rightarrow> mapping_db" where
  "insert_or_ignore x db = (case insert_row (legacy_row x) db of
      Inl e \<Rightarrow> db\<lparr>last_id := last_id db + 1\<rparr> | Inr (i, db') \<Rightarrow> db')"

definition LEGACY_MIGRATION_VERSION :: int where
  "LEGACY_MIGRATION_VERSION = 1"

definition migrate_legacy_users :: "mapping_db \<Rightarrow> mapping_db" where
  "migrate_legacy_users db =
     (if user_version db \<ge> LEGACY_MIGRATION_VERSION then db
      else (case legacy_users db of None \<Rightarrow> db | Some us \<Rightarrow> fold insert_or_ignore us db)
             \<lparr>user_version := LEGACY_MIGRATION_VERSION\<rparr>)"

text \<open>A file that the program has not opened before.\<close>

definition fresh_file :: "legacy_user list option \<Rightarrow> mapping_db" where
  "fresh_file legacy = \<lparr>id_rows = [], last_id = 0, user_version = 0, legacy_users = legacy\<rparr>"

definition MappingStore :: "mapping_db \<Rightarrow> mapping_db" where
  "MappingStore db = migrate_legacy_users db"

subsection \<open>Linking\<close>

definition row_of_pubkey :: "string \<Rightarrow> mapping_db \<Rightarrow> identity_row option" where
  "row_of_pubkey p db = find (\<lambda>r. row_pubkey r = p) (id_rows db)"

definition delete_user :: "string \<Rightarrow> mapping_db \<Rightarrow> mapping_db" where
  "delete_user u db = db\<lparr>id_rows := filter (\<lambda>r. row_username r \<noteq> u) (id_rows db)\<rparr>"

definition linked_elsewhere :: "string \<Rightarrow> exc" where
  "linked_elsewhere v = PubkeyAlreadyLinked (''pubkey already linked to a different account ('' @ py_repr v @ '')'')"

definition link :: "string \<Rightarrow> string \<Rightarrow> string \<Rightarrow> string option \<Rightarrow> string \<Rightarrow> int \<Rightarrow> (mapping_db, unit) py" where
  "link u p st lab by now = transaction (\<lambda>db.
     let existing = row_of_pubkey p db
     in if existing \<noteq> None \<and> row_username (the existing) \<noteq> u
        then Inl (linked_elsewhere (row_username (the existing)))
        else case insert_row (new_row u p now st lab by) (delete_user u db) of
               Inl e \<Rightarrow> Inl e | Inr (i, db') \<Rightarrow> Inr ((), db'))"

definition get_by_id :: "int \<Rightarrow> mapping_db \<Rightarrow> Identity option" where
  "get_by_id i db = map_option row_to_identity (find (\<lambda>r. row_id r = i) (id_rows db))"

definition add_identity :: "string \<Rightarrow> string \<Rightarrow> string \<Rightarrow> string option \<Rightarrow> string \<Rightarrow> int \<Rightarrow> (mapping_db, Identity) py" where
  "add_identity u p st lab by now =
     py_bind (transaction (\<lambda>db.
       case row_of_pubkey p db of
         Some r \<Rightarrow> (if row_username r \<noteq> u then Inl (linked_elsewhere (row_username r))
                    else Inl (PubkeyAlreadyLinked ''pubkey is already linked to this account''))
       | None \<Rightarrow> insert_row (new_row u p now st lab by) db)) (\<lambda>i.
     py_bind (py_gets (get_by_id i)) (\<lambda>identity.
     case identity of
       None \<Rightarrow> py_raise (RuntimeError ''newly-added identity could not be read back'')
     | Some x \<Rightarrow> py_return x))"

definition unlink :: "string \<Rightarrow> (mapping_db, unit) py" where
  "unlink u = py_modify (delete_user u)"

subsection \<open>Updates\<close>

text \<open>\<open>UPDATE ... WHERE\<close>, with the number of rows it changed.\<close>

definition update_where :: "(identity_row \<Rightarrow> bool) \<Rightarrow> (identity_row \<Rightarrow> identity_row) \<Rightarrow> mapping_db \<Rightarrow> nat \<times> mapping_db" where
  "update_where P f db = (length (filter P (id_rows db)),
     db\<lparr>id_rows := map (\<lambda>r. if P r then f r else r) (id_rows db)\<rparr>)"

definition active_of :: "int \<Rightarrow> string \<Rightarrow> identity_row \<Rightarrow> bool" where
  "active_of i u r \<longleftrightarrow> row_id r = i \<and> row_username r = u \<and> row_enabled r = 1"

definition revoke_identity :: "int \<Rightarrow> string \<Rightarrow> int \<Rightarrow> (mapping_db, bool) py" where
  "revoke_identity i u now = transaction (\<lambda>db.
     case update_where (active_of i u) (\<lambda>r. r\<lparr>row_enabled := 0, row_revoked_at := Some now\<rparr>) db of
       (n, db') \<Rightarrow> Inr (n = 1, db'))"

definition update_identity_label :: "int \<Rightarrow> string \<Rightarrow> string option \<Rightarrow> (mapping_db, Identity option) py" where
  "update_identity_label i u lab =
     py_bind (transaction (\<lambda>db.
       case update_where (active_of i u) (\<lambda>r. r\<lparr>row_label := lab\<rparr>) db of (n, db') \<Rightarrow> Inr (n, db'))) (\<lambda>n.
     if n \<noteq> 1 then py_return None else py_gets (get_by_id i))"

definition touch_last_used :: "string \<Rightarrow> int \<Rightarrow> (mapping_db, unit) py" where
  "touch_last_used u now = py_modify (\<lambda>db.
     snd (update_where (\<lambda>r. row_username r = u \<and> row_enabled r = 1) (\<lambda>r. r\<lparr>row_last_used := Some now\<rparr>) db))"

definition touch_identity :: "int \<Rightarrow> int \<Rightarrow> (mapping_db, unit) py" where
  "touch_identity i now = py_modify (\<lambda>db.
     snd (update_where (\<lambda>r. row_id r = i \<and> row_enabled r = 1) (\<lambda>r. r\<lparr>row_last_used := Some now\<rparr>) db))"

subsection \<open>Queries\<close>

definition get_by_pubkey :: "string \<Rightarrow> mapping_db \<Rightarrow> Identity option" where
  "get_by_pubkey p db = map_option row_to_identity
     (find (\<lambda>r. row_pubkey r = p \<and> row_enabled r = 1) (id_rows db))"

text \<open>\<open>ORDER BY created_at DESC, identity_id DESC\<close>: the order of the newest first.\<close>

datatype recency = Recency (recent_time: int) (recent_id: int)

instantiation recency :: linorder
begin

definition less_eq_recency :: "recency \<Rightarrow> recency \<Rightarrow> bool" where
  "less_eq_recency a b \<longleftrightarrow> recent_time b < recent_time a \<or>
     recent_time a = recent_time b \<and> recent_id b \<le> recent_id a"

definition less_recency :: "recency \<Rightarrow> recency \<Rightarrow> bool" where
  "less_recency a b \<longleftrightarrow> recent_time b < recent_time a \<or>
     recent_time a = recent_time b \<and> recent_id b < recent_id a"

instance
  by standard (auto simp: less_eq_recency_def less_recency_def intro: recency.expand)

end

definition row_recency :: "identity_row \<Rightarrow> recency" where
  "row_recency r = Recency (row_created_at r) (row_id r)"

definition get_by_username :: "string \<Rightarrow> mapping_db \<Rightarrow> Identity option" where
  "get_by_username u db =
     (case sort_key (\<lambda>r. (- row_enabled r, row_recency r)) (filter (\<lambda>r. row_username r = u) (id_rows db)) of
        [] \<Rightarrow> None | r # _ \<Rightarrow> Some (row_to_identity r))"

definition list_by_username :: "string \<Rightarrow> bool \<Rightarrow> mapping_db \<Rightarrow> Identity list" where
  "list_by_username u include_disabled db =
     map row_to_identity (sort_key row_recency
       (filter (\<lambda>r. row_username r = u \<and> (include_disabled \<or> row_enabled r = 1)) (id_rows db)))"

definition list_all_identities :: "mapping_db \<Rightarrow> Identity list" where
  "list_all_identities db = map row_to_identity (sort_key (\<lambda>r. (row_username r, row_recency r)) (id_rows db))"

subsection \<open>The contract\<close>

text \<open>
  What the table stands for: the largest id, and for each public key its user, its id, and
  whether it may sign in.
\<close>

type_synonym key_book = "int \<times> (string \<Rightarrow> (string \<times> int \<times> bool) option)"

datatype map_op =
    Link string string string "string option" string int
  | Add_identity string string string "string option" string int
  | Unlink string
  | Revoke int string int
  | Relabel int string "string option"
  | Touch_user string int
  | Touch int int

fun map_step :: "map_op \<Rightarrow> mapping_db \<Rightarrow> mapping_db" where
  "map_step (Link u p st lab by now) db = snd (link u p st lab by now db)"
| "map_step (Add_identity u p st lab by now) db = snd (add_identity u p st lab by now db)"
| "map_step (Unlink u) db = snd (unlink u db)"
| "map_step (Revoke i u now) db = snd (revoke_identity i u now db)"
| "map_step (Relabel i u lab) db = snd (update_identity_label i u lab db)"
| "map_step (Touch_user u now) db = snd (touch_last_used u now db)"
| "map_step (Touch i now) db = snd (touch_identity i now db)"

definition without_user :: "string \<Rightarrow> (string \<Rightarrow> (string \<times> int \<times> bool) option) \<Rightarrow> string \<Rightarrow> (string \<times> int \<times> bool) option" where
  "without_user u k p = (case k p of None \<Rightarrow> None | Some (v, i, e) \<Rightarrow> if v = u then None else Some (v, i, e))"

definition owned_by_other :: "string \<Rightarrow> (string \<times> int \<times> bool) option \<Rightarrow> bool" where
  "owned_by_other u x \<longleftrightarrow> (case x of None \<Rightarrow> False | Some (v, i, e) \<Rightarrow> v \<noteq> u)"

fun book_step :: "map_op \<Rightarrow> key_book \<Rightarrow> key_book" where
  "book_step (Link u p st lab by now) (n, k) =
     (if owned_by_other u (k p) then (n, k) else (n + 1, (without_user u k)(p \<mapsto> (u, n + 1, True))))"
| "book_step (Add_identity u p st lab by now) (n, k) =
     (if k p \<noteq> None then (n, k) else (n + 1, k(p \<mapsto> (u, n + 1, True))))"
| "book_step (Unlink u) (n, k) = (n, without_user u k)"
| "book_step (Revoke i u now) (n, k) =
     (n, \<lambda>p. case k p of None \<Rightarrow> None | Some (v, j, e) \<Rightarrow> Some (v, j, e \<and> \<not> (j = i \<and> v = u)))"
| "book_step (Relabel i u lab) b = b"
| "book_step (Touch_user u now) b = b"
| "book_step (Touch i now) b = b"

text \<open>Who signs in with a key; and the operation that makes a key somebody's.\<close>

definition holder :: "key_book \<Rightarrow> string \<Rightarrow> string option" where
  "holder b p = (case snd b p of Some (u, i, True) \<Rightarrow> Some u | _ \<Rightarrow> None)"

fun gives :: "string \<Rightarrow> string \<Rightarrow> map_op \<Rightarrow> bool" where
  "gives u p (Link v q st lab by now) \<longleftrightarrow> v = u \<and> q = p"
| "gives u p (Add_identity v q st lab by now) \<longleftrightarrow> v = u \<and> q = p"
| "gives u p _ \<longleftrightarrow> False"

lemma book_step_holder: "holder (book_step x b) p = Some u \<Longrightarrow> holder b p = Some u \<or> gives u p x"
  by (cases b; cases x) (auto simp: holder_def without_user_def split: option.splits if_splits bool.splits)

text \<open>The interface: a state that stands for a key book, whose operations are the book's.\<close>

locale key_directory =
  fixes ok :: "'db \<Rightarrow> bool"
    and keys :: "'db \<Rightarrow> key_book"
    and step :: "map_op \<Rightarrow> 'db \<Rightarrow> 'db"
  assumes step_ok: "ok s \<Longrightarrow> ok (step x s)"
    and step_keys: "ok s \<Longrightarrow> keys (step x s) = book_step x (keys s)"
begin

lemma run_ok: "ok s \<Longrightarrow> ok (fold step xs s)"
  by (induction xs arbitrary: s) (simp_all add: step_ok)

lemma run_keys: "ok s \<Longrightarrow> keys (fold step xs s) = fold book_step xs (keys s)"
  by (induction xs arbitrary: s) (simp_all add: step_ok step_keys)

text \<open>A key signs in to an account only if it was given to that account.\<close>

lemma run_holder: "ok s \<Longrightarrow> holder (keys (fold step xs s)) p = Some u \<Longrightarrow>
    holder (keys s) p = Some u \<or> (\<exists>x \<in> set xs. gives u p x)"
proof (induction xs arbitrary: s)
  case (Cons x xs)
  have "holder (keys (step x s)) p = Some u \<or> (\<exists>x \<in> set xs. gives u p x)"
    using Cons.IH [OF step_ok [OF Cons.prems(1)]] Cons.prems(2) by simp
  then show ?case using book_step_holder [of x "keys s" p u] Cons.prems(1) by (auto simp: step_keys)
qed simp

end

subsection \<open>The table keeps the contract\<close>

definition table_ok :: "mapping_db \<Rightarrow> bool" where
  "table_ok db \<longleftrightarrow> distinct (map row_id (id_rows db)) \<and> distinct (map row_pubkey (id_rows db)) \<and>
     (\<forall>r \<in> set (id_rows db). row_id r \<le> last_id db)"

definition row_entry :: "identity_row \<Rightarrow> string \<times> int \<times> bool" where
  "row_entry r = (row_username r, row_id r, row_enabled r = 1)"

definition db_keys :: "mapping_db \<Rightarrow> key_book" where
  "db_keys db = (last_id db, \<lambda>p. map_option row_entry (row_of_pubkey p db))"

lemma insert_row_Inr: "insert_row f db = Inr (i, db') \<longleftrightarrow>
    i = last_id db + 1 \<and> row_pubkey (f i) \<notin> row_pubkey ` set (id_rows db) \<and>
    db' = db\<lparr>id_rows := id_rows db @ [f i], last_id := i\<rparr>"
  by (auto simp: insert_row_def Let_def)

lemma insert_row_ok:
  "table_ok db \<Longrightarrow> insert_row f db = Inr (i, db') \<Longrightarrow> row_id (f i) = i \<Longrightarrow> table_ok db'"
  by (fastforce simp: table_ok_def insert_row_Inr)

lemma filter_ok: "table_ok db \<Longrightarrow> table_ok (db\<lparr>id_rows := filter Q (id_rows db)\<rparr>)"
  by (auto simp: table_ok_def distinct_map_filter)

lemma update_ok:
  "table_ok db \<Longrightarrow> (\<And>r. row_id (f r) = row_id r \<and> row_pubkey (f r) = row_pubkey r) \<Longrightarrow>
     table_ok (snd (update_where P f db))"
  by (auto simp: table_ok_def update_where_def o_def if_distrib cong: if_cong)

lemma keys_insert:
  "insert_row f db = Inr (i, db') \<Longrightarrow>
     db_keys db' = (i, (snd (db_keys db))(row_pubkey (f i) \<mapsto> row_entry (f i)))"
proof -
  assume a: "insert_row f db = Inr (i, db')"
  then have "find (\<lambda>r. row_pubkey r = row_pubkey (f i)) (id_rows db) = None"
    by (intro find_absent) (auto simp: insert_row_Inr)
  then show ?thesis using a
    by (auto simp: insert_row_Inr db_keys_def row_of_pubkey_def find_append fun_eq_iff split: option.splits)
qed

lemma keys_delete: "table_ok db \<Longrightarrow> db_keys (delete_user u db) = (last_id db, without_user u (snd (db_keys db)))"
  by (auto simp: db_keys_def delete_user_def row_of_pubkey_def find_filter_unique table_ok_def
      without_user_def row_entry_def fun_eq_iff split: option.splits)

lemma keys_update:
  assumes "\<And>r. row_pubkey (f r) = row_pubkey r"
  shows "db_keys (snd (update_where P f db)) = (last_id db, \<lambda>p. map_option (\<lambda>r. row_entry (if P r then f r else r)) (row_of_pubkey p db))"
  using assms by (simp add: db_keys_def update_where_def row_of_pubkey_def find_map option.map_comp o_def)

lemma keys_update_same:
  assumes "\<And>r. row_pubkey (f r) = row_pubkey r" and "\<And>r. row_entry (f r) = row_entry r"
  shows "db_keys (snd (update_where P f db)) = db_keys db"
  using assms by (simp add: keys_update [OF assms(1)] if_distrib cong: if_cong) (simp add: db_keys_def)

lemma owned_row: "owned_by_other u (snd (db_keys db) p) \<longleftrightarrow>
    row_of_pubkey p db \<noteq> None \<and> row_username (the (row_of_pubkey p db)) \<noteq> u"
  by (auto simp: owned_by_other_def db_keys_def row_entry_def split: option.splits)

lemma delete_user_frees:
  "\<not> owned_by_other u (snd (db_keys db) p) \<Longrightarrow> table_ok db \<Longrightarrow> p \<notin> row_pubkey ` set (id_rows (delete_user u db))"
proof
  assume o: "\<not> owned_by_other u (snd (db_keys db) p)" and k: "table_ok db"
    and "p \<in> row_pubkey ` set (id_rows (delete_user u db))"
  then obtain r where r: "r \<in> set (id_rows db)" "row_username r \<noteq> u" "row_pubkey r = p"
    by (auto simp: delete_user_def)
  then have "row_of_pubkey p db = Some r"
    using k find_unique [of row_pubkey "id_rows db" r] by (simp add: table_ok_def row_of_pubkey_def)
  with o r(2) show False by (simp add: owned_row)
qed

lemma delete_user_simps [simp]:
  "last_id (delete_user u db) = last_id db" "table_ok db \<Longrightarrow> table_ok (delete_user u db)"
  using filter_ok by (simp_all add: delete_user_def)

lemma new_row_simps [simp]:
  "row_id (new_row u p now st lab by i) = i" "row_pubkey (new_row u p now st lab by i) = p"
  "row_entry (new_row u p now st lab by i) = (u, i, True)"
  by (simp_all add: new_row_def row_entry_def)

text \<open>What \<open>link\<close> does: it refuses a key of another user, and otherwise never fails.\<close>

lemma link_run: "table_ok db \<Longrightarrow> link u p st lab by now db =
    (if owned_by_other u (snd (db_keys db) p)
     then (Inl (linked_elsewhere (row_username (the (row_of_pubkey p db)))), db)
     else (Inr (), (delete_user u db)\<lparr>id_rows := id_rows (delete_user u db) @ [new_row u p now st lab by (last_id db + 1)],
            last_id := last_id db + 1\<rparr>))"
  using delete_user_frees [of u db p]
  by (auto simp: link_def py_rules owned_row Let_def insert_row_def)

lemma link_inserts: "table_ok db \<Longrightarrow> \<not> owned_by_other u (snd (db_keys db) p) \<Longrightarrow>
    insert_row (new_row u p now st lab by) (delete_user u db) = Inr (last_id db + 1, snd (link u p st lab by now db))"
  using delete_user_frees [of u db p] by (simp add: link_run insert_row_Inr)

text \<open>What \<open>add_identity\<close> does: it refuses a key that is in the table, enabled or not.\<close>

lemma get_by_id_inserted:
  "table_ok db \<Longrightarrow> insert_row f db = Inr (i, db') \<Longrightarrow> row_id (f i) = i \<Longrightarrow>
     get_by_id i db' = Some (row_to_identity (f i))"
proof -
  assume k: "table_ok db" and i: "insert_row f db = Inr (i, db')" "row_id (f i) = i"
  have "i \<notin> row_id ` set (id_rows db)" using k i by (force simp: table_ok_def insert_row_Inr)
  then have "find (\<lambda>r. row_id r = i) (id_rows db) = None" by (rule find_absent)
  with i show ?thesis by (auto simp: get_by_id_def insert_row_Inr find_append)
qed

lemma add_run: "table_ok db \<Longrightarrow> add_identity u p st lab by now db =
    (case row_of_pubkey p db of
       Some r \<Rightarrow> (Inl (if row_username r \<noteq> u then linked_elsewhere (row_username r)
                       else PubkeyAlreadyLinked ''pubkey is already linked to this account''), db)
     | None \<Rightarrow> (case insert_row (new_row u p now st lab by) db of
           Inl e \<Rightarrow> (Inl e, db)
         | Inr (i, db') \<Rightarrow> (Inr (row_to_identity (new_row u p now st lab by i)), db')))"
  by (auto simp: add_identity_def py_rules get_by_id_inserted split: option.split sum.split)

lemma absent_key: "row_of_pubkey p db = None \<longleftrightarrow> p \<notin> row_pubkey ` set (id_rows db)"
  by (auto simp: row_of_pubkey_def find_None_iff)

lemma add_inserts: "table_ok db \<Longrightarrow> row_of_pubkey p db = None \<Longrightarrow>
    insert_row (new_row u p now st lab by) db = Inr (last_id db + 1, snd (add_identity u p st lab by now db))"
  using absent_key [of p db] by (simp add: add_run insert_row_def Let_def)

lemma map_step_ok:
  assumes k: "table_ok db"
  shows "table_ok (map_step x db)"
proof (cases x)
  case (Link u p st lab lb now)
  show ?thesis
  proof (cases "owned_by_other u (snd (db_keys db) p)")
    case False
    from insert_row_ok [OF _ link_inserts [OF k False]] k show ?thesis by (simp add: Link)
  qed (use k link_run [OF k] in \<open>simp add: Link\<close>)
next
  case (Add_identity u p st lab lb now)
  show ?thesis
  proof (cases "row_of_pubkey p db")
    case None
    from insert_row_ok [OF k add_inserts [OF k None]] show ?thesis by (simp add: Add_identity)
  qed (use k add_run [OF k] in \<open>simp add: Add_identity\<close>)
next
  case (Unlink u)
  then show ?thesis by (simp add: unlink_def py_rules k)
next
  case (Revoke i u now)
  then show ?thesis
    using update_ok [OF k, of "\<lambda>r. r\<lparr>row_enabled := 0, row_revoked_at := Some now\<rparr>"]
    by (simp add: revoke_identity_def py_rules split_beta)
next
  case (Relabel i u lab)
  then show ?thesis
    using update_ok [OF k, of "\<lambda>r. r\<lparr>row_label := lab\<rparr>"]
    by (simp add: update_identity_label_def py_rules split_beta)
next
  case (Touch_user u now)
  then show ?thesis
    using update_ok [OF k, of "\<lambda>r. r\<lparr>row_last_used := Some now\<rparr>"] by (simp add: touch_last_used_def py_rules)
next
  case (Touch i now)
  then show ?thesis
    using update_ok [OF k, of "\<lambda>r. r\<lparr>row_last_used := Some now\<rparr>"] by (simp add: touch_identity_def py_rules)
qed

lemma fst_db_keys [simp]: "fst (db_keys db) = last_id db"
  by (simp add: db_keys_def)

lemma db_keys_pair: "db_keys db = (last_id db, snd (db_keys db))"
  by (simp add: db_keys_def)

lemma map_step_keys:
  assumes k: "table_ok db"
  shows "db_keys (map_step x db) = book_step x (db_keys db)"
proof (cases x)
  case (Link u p st lab lb now)
  show ?thesis
  proof (cases "owned_by_other u (snd (db_keys db) p)")
    case True
    then show ?thesis by (cases "db_keys db") (simp add: Link link_run [OF k])
  next
    case False
    then show ?thesis using keys_insert [OF link_inserts [OF k False]]
      by (subst (2) db_keys_pair) (simp add: Link keys_delete [OF k])
  qed
next
  case (Add_identity u p st lab lb now)
  show ?thesis
  proof (cases "row_of_pubkey p db")
    case None
    then have "snd (db_keys db) p = None" by (simp add: db_keys_def)
    then show ?thesis using keys_insert [OF add_inserts [OF k None]]
      by (subst (2) db_keys_pair) (simp add: Add_identity)
  next
    case (Some r)
    then have "snd (db_keys db) p \<noteq> None" by (simp add: db_keys_def)
    then show ?thesis using Some by (cases "db_keys db") (simp add: Add_identity add_run [OF k])
  qed
next
  case (Unlink u)
  then show ?thesis by (subst (2) db_keys_pair) (simp add: unlink_def py_rules keys_delete [OF k])
next
  case (Revoke i u now)
  let ?f = "\<lambda>r. if active_of i u r then r\<lparr>row_enabled := 0, row_revoked_at := Some now\<rparr> else r"
  have "db_keys (map_step x db) = (last_id db, \<lambda>p. map_option (\<lambda>r. row_entry (?f r)) (row_of_pubkey p db))"
    by (simp add: Revoke revoke_identity_def py_rules split_beta keys_update)
  then show ?thesis
    by (auto simp: Revoke db_keys_def row_entry_def active_of_def fun_eq_iff split: option.splits)
next
  case (Relabel i u lab)
  then show ?thesis
    by (simp add: update_identity_label_def py_rules split_beta keys_update_same row_entry_def)
next
  case (Touch_user u now)
  then show ?thesis by (simp add: touch_last_used_def py_rules keys_update_same row_entry_def)
next
  case (Touch i now)
  then show ?thesis by (simp add: touch_identity_def py_rules keys_update_same row_entry_def)
qed

interpretation mapping: key_directory table_ok db_keys map_step
  by unfold_locales (simp_all add: map_step_ok map_step_keys)

subsection \<open>Migration\<close>

lemma fresh_ok: "table_ok (fresh_file legacy)"
  by (simp add: table_ok_def fresh_file_def)

lemma insert_or_ignore_ok: "table_ok db \<Longrightarrow> table_ok (insert_or_ignore x db)"
  using insert_row_ok [of db "legacy_row x"]
  by (auto simp: insert_or_ignore_def legacy_row_def table_ok_def split: sum.split)

lemma fold_ignore_ok: "table_ok db \<Longrightarrow> table_ok (fold insert_or_ignore xs db)"
  by (induction xs arbitrary: db) (simp_all add: insert_or_ignore_ok)

lemma table_ok_version [simp]: "table_ok (db\<lparr>user_version := v\<rparr>) = table_ok db"
  by (simp add: table_ok_def)

lemma MappingStore_ok: "table_ok db \<Longrightarrow> table_ok (MappingStore db)"
  by (simp add: MappingStore_def migrate_legacy_users_def fold_ignore_ok split: option.split)

text \<open>
  C12. The table of identities refines a book of keys.  From a new file, with whatever table the
  first version of the program left in it, every sequence of operations keeps ids and
  public keys unique, and what it does to the keys is what the book says: linking takes a key that
  no other user has and drops the user's other keys, adding takes a key that nobody has, unlinking
  drops all keys of the user, revoking disables the one key of that id and user.
\<close>

theorem mapping_store_refines_book:
  "table_ok (fold map_step ops (MappingStore (fresh_file legacy))) \<and>
   db_keys (fold map_step ops (MappingStore (fresh_file legacy))) =
     fold book_step ops (db_keys (MappingStore (fresh_file legacy)))"
  using mapping.run_ok mapping.run_keys MappingStore_ok [OF fresh_ok] by blast

lemma get_by_pubkey_row:
  assumes "table_ok db"
  shows "get_by_pubkey p db = (case row_of_pubkey p db of None \<Rightarrow> None
     | Some r \<Rightarrow> if row_enabled r = 1 then Some (row_to_identity r) else None)"
proof -
  have e: "find (\<lambda>r. row_pubkey r = p \<and> row_enabled r = 1) xs =
      find (\<lambda>r. row_pubkey r = p) (filter (\<lambda>r. row_enabled r = 1) xs)" for xs
    by (induction xs) auto
  then show ?thesis
    using assms by (simp add: get_by_pubkey_def row_of_pubkey_def e find_filter_unique table_ok_def split: option.split)
qed

lemma get_by_pubkey_holder:
  assumes "table_ok db"
  shows "map_option ynh_username (get_by_pubkey p db) = holder (db_keys db) p"
  by (auto simp: get_by_pubkey_row [OF assms] holder_def db_keys_def row_entry_def row_to_identity_def split: option.split)

lemma fresh_keys: "holder (db_keys (MappingStore (fresh_file None))) p = None"
  by (simp add: MappingStore_def migrate_legacy_users_def fresh_file_def db_keys_def row_of_pubkey_def holder_def)

text \<open>
  A key signs in to an account only if it was linked to it: whatever operations have been
  made since the file was created, a key is found for an account only if one of them linked or
  added this key to this account; and a revoked identity is not found.
\<close>

lemma sign_in_key_was_linked:
  assumes "get_by_pubkey p (fold map_step ops (MappingStore (fresh_file None))) = Some x"
  shows "pubkey x = p \<and> enabled x \<and> (\<exists>op1 \<in> set ops. gives (ynh_username x) p op1)"
proof -
  let ?db = "fold map_step ops (MappingStore (fresh_file None))"
  have k: "table_ok ?db" by (intro mapping.run_ok MappingStore_ok fresh_ok)
  have "holder (db_keys ?db) p = Some (ynh_username x)"
    using get_by_pubkey_holder [OF k, of p] assms by simp
  then have "\<exists>op1 \<in> set ops. gives (ynh_username x) p op1"
    using mapping.run_holder [OF MappingStore_ok [OF fresh_ok]] fresh_keys by fastforce
  moreover have "pubkey x = p \<and> enabled x"
    using assms by (auto simp: get_by_pubkey_def row_to_identity_def find_Some_iff)
  ultimately show ?thesis by simp
qed

lemma length_filter_unique:
  "distinct (map f xs) \<Longrightarrow> r \<in> set xs \<Longrightarrow> Q r \<Longrightarrow> length (filter (\<lambda>y. f y = f r \<and> Q y) xs) = 1"
proof (induction xs)
  case (Cons a xs)
  have "f a = f r \<Longrightarrow> filter (\<lambda>y. f y = f r \<and> Q y) xs = []"
    using Cons.prems(1) by (auto simp: filter_empty_conv image_iff)
  then show ?case using Cons by (auto simp: image_iff)
qed simp

lemma update_where_one:
  assumes "distinct (map f (id_rows db))" and "r \<in> set (id_rows db)" and "Q r"
    and "P = (\<lambda>y. f y = f r \<and> Q y)"
  shows "fst (update_where P g db) = 1"
  using length_filter_unique [of f "id_rows db" r Q] assms by (simp add: update_where_def)

lemma row_of_pubkey_update:
  "(\<And>r. row_pubkey (g r) = row_pubkey r) \<Longrightarrow>
     row_of_pubkey p (snd (update_where P g db)) = map_option (\<lambda>r. if P r then g r else r) (row_of_pubkey p db)"
  by (simp add: row_of_pubkey_def update_where_def find_map)


subsection \<open>Concrete operations\<close>

definition ann_row :: identity_row where
  "ann_row = new_row ''ann'' ''k1'' 50 ''nip07'' None ''self-service'' 1"

definition ann_db :: mapping_db where
  "ann_db = \<lparr>id_rows = [ann_row], last_id = 1, user_version = 1, legacy_users = None\<rparr>"


end
