(* ===== verification/Login_Linking.thy ===== *)
theory Login_Linking
  imports Nostr_Verify Mappings
begin

text \<open>
  Signing in and linking on the server: \<open>auth/login.py\<close>, \<open>auth/session.py\<close>, \<open>identity/linking.py\<close>,
  and the clients of the two other processes, \<open>ynh/portal_client.py\<close> and \<open>ynh/sessions.py\<close>
  (under \<open>src/src/yunohost_nostr_auth/\<close>).  The answers of YunoHost's portal and of the process that
  mints sessions are parameters; the requests to the latter are part of the state.
\<close>

datatype portal_reply =
    Http_error int | Url_error string | Portal_exception string | Not_json string | Portal_body jsval

datatype mint_reply = Os_error string | Mint_not_json string | Mint_line jsval

record MintedSession =
  cookie_name :: string
  token :: jsval
  max_age :: jsval

record settings =
  portal_api_base_url :: string
  challenge_ttl_seconds :: int
  allow_nostr_login :: bool
  allow_identity_linking :: bool
  clock_skew_seconds :: int

text \<open>Everything outside the source during one request: the clock is read up to three times.\<close>

record services =
  sdk :: nostr_sdk
  portal :: "string \<Rightarrow> string \<Rightarrow> string \<Rightarrow> portal_reply"
  mint_helper :: "string \<Rightarrow> string \<Rightarrow> mint_reply"
  clock :: "nat \<Rightarrow> int"
  token_urlsafe :: string
  get_settings :: settings

record server =
  challenges :: challenge_store
  mappings :: mapping_db
  mint_requests :: "(string \<times> string) list"
  log_lines :: "(string \<times> string) list"

definition on_challenges :: "(challenge_store, 'a) py \<Rightarrow> (server, 'a) py" where
  "on_challenges = on_field challenges (\<lambda>t s. s\<lparr>challenges := t\<rparr>)"

definition on_mappings :: "(mapping_db, 'a) py \<Rightarrow> (server, 'a) py" where
  "on_mappings = on_field mappings (\<lambda>t s. s\<lparr>mappings := t\<rparr>)"

subsection \<open>The portal\<close>

record AuthenticatedSession =
  session_username :: string
  session_groups :: "string list"

definition ADMIN_GROUP :: string where
  "ADMIN_GROUP = ''admins''"

definition is_admin :: "AuthenticatedSession \<Rightarrow> bool" where
  "is_admin session \<longleftrightarrow> ADMIN_GROUP \<in> set (session_groups session)"

fun texts_of :: "jsval list \<Rightarrow> string list" where
  "texts_of [] = []"
| "texts_of (Str g # gs) = g # texts_of gs"
| "texts_of (_ # gs) = texts_of gs"

definition session_of_body :: "(string \<times> jsval) list \<Rightarrow> exc + AuthenticatedSession" where
  "session_of_body body =
     (case dict_get body ''username'' Null of
        Str username \<Rightarrow>
          (if username = [] then Inl (PortalAuthError ''portal-api response did not include a username'')
           else Inr \<lparr>session_username = username,
             session_groups = (case dict_get body ''groups'' Null of Arr gs \<Rightarrow> texts_of gs | _ \<Rightarrow> [])\<rparr>)
      | _ \<Rightarrow> Inl (PortalAuthError ''portal-api response did not include a username''))"

definition get_authenticated_session :: "services \<Rightarrow> string \<Rightarrow> string \<Rightarrow> string \<Rightarrow> exc + AuthenticatedSession" where
  "get_authenticated_session svc cookie_header host base_url =
     (case portal svc base_url cookie_header host of
        Http_error code \<Rightarrow> Inl (PortalAuthError (''portal-api rejected the session (HTTP '' @ int_to_dec code @ '')''))
      | Url_error e \<Rightarrow> Inl (PortalAuthError (''could not reach portal-api: '' @ e))
      | Not_json e \<Rightarrow> Inl (PortalAuthError (''portal-api returned a non-JSON response: '' @ e))
      | Portal_exception e \<Rightarrow> Inl (Other_exception e)
      | Portal_body v \<Rightarrow> (case v of Obj body \<Rightarrow> session_of_body body | _ \<Rightarrow> Inl AttributeError))"

definition get_authenticated_username :: "services \<Rightarrow> string \<Rightarrow> string \<Rightarrow> string \<Rightarrow> exc + string" where
  "get_authenticated_username svc cookie_header host base_url =
     (case get_authenticated_session svc cookie_header host base_url of
        Inl e \<Rightarrow> Inl e | Inr session \<Rightarrow> Inr (session_username session))"

subsection \<open>Minting a session\<close>

text \<open>\<open>"error" in payload\<close> and \<open>payload["token"]\<close> on whatever JSON value the line was.\<close>

definition minted_of :: "jsval \<Rightarrow> exc + MintedSession" where
  "minted_of payload =
     (case payload of
        Obj ps \<Rightarrow>
          (case map_of ps ''error'' of
             Some e \<Rightarrow> Inl (SessionMintError (''session-mint helper failed: '' @ str_value e))
           | None \<Rightarrow>
              (case map_of ps ''token'' of
                 None \<Rightarrow> Inl (SessionMintError (''session-mint helper response missing '' @ single_quoted ''token''))
               | Some t \<Rightarrow> (case map_of ps ''max_age'' of
                   None \<Rightarrow> Inl (SessionMintError (''session-mint helper response missing '' @ single_quoted ''max_age''))
                 | Some a \<Rightarrow> Inr \<lparr>cookie_name = ''yunohost.portal'', token = t, max_age = a\<rparr>)))
      | Arr vs \<Rightarrow> (if Str ''error'' \<in> set vs then Inl TypeError
          else Inl (SessionMintError ''session-mint helper response missing list indices must be integers or slices, not str''))
      | Str t \<Rightarrow> (if js_includes ''error'' t then Inl TypeError
          else Inl (SessionMintError (''session-mint helper response missing string indices must be integers, not '' @
             single_quoted ''str'')))
      | _ \<Rightarrow> Inl TypeError)"

definition mint_result :: "services \<Rightarrow> string \<Rightarrow> string \<Rightarrow> exc + MintedSession" where
  "mint_result svc username host = (case mint_helper svc username host of
      Os_error e \<Rightarrow> Inl (SessionMintError (''could not reach session-mint helper: '' @ e))
    | Mint_not_json e \<Rightarrow> Inl (SessionMintError (''session-mint helper returned unexpected output: '' @ e))
    | Mint_line payload \<Rightarrow> minted_of payload)"

definition mint_session :: "services \<Rightarrow> string \<Rightarrow> string \<Rightarrow> (server, MintedSession) py" where
  "mint_session svc username host =
     py_bind (py_modify (\<lambda>s. s\<lparr>mint_requests := mint_requests s @ [(username, host)]\<rparr>)) (\<lambda>_.
     py_lift (mint_result svc username host))"

definition create_ynh_session :: "services \<Rightarrow> string \<Rightarrow> string \<Rightarrow> (server, MintedSession) py" where
  "create_ynh_session svc username host = mint_session svc username host"

subsection \<open>Signing in\<close>

definition LOGIN_ACTION :: string where
  "LOGIN_ACTION = ''yunohost-login''"

definition touch_signed_in :: "services \<Rightarrow> Identity \<Rightarrow> (server, unit) py" where
  "touch_signed_in svc identity = (case identity_id identity of
      Some i \<Rightarrow> on_mappings (touch_identity i (clock svc 1))
    | None \<Rightarrow> on_mappings (touch_last_used (ynh_username identity) (clock svc 1)))"

definition authenticate :: "services \<Rightarrow> challenge option \<Rightarrow> string \<Rightarrow> int \<Rightarrow> (server, MintedSession) py" where
  "authenticate svc ch event_json skew =
     (case ch of
        None \<Rightarrow> py_raise (LoginError ''unknown, expired, or already-used challenge'')
      | Some c \<Rightarrow>
         if action c \<noteq> LOGIN_ACTION
         then py_raise (LoginError (''challenge was not issued for '' @ single_quoted LOGIN_ACTION))
         else
         py_bind (py_except (py_lift (verify_for (sdk svc) event_json c skew))
           (\<lambda>e. case e of InvalidEvent m \<Rightarrow> Some (py_raise (LoginError m)) | _ \<Rightarrow> None)) (\<lambda>pk.
         py_bind (py_gets (\<lambda>s. get_by_pubkey pk (mappings s))) (\<lambda>found.
         case found of
           None \<Rightarrow> py_raise (LoginError ''this pubkey is not linked to any YunoHost account'')
         | Some identity \<Rightarrow>
            py_bind (touch_signed_in svc identity) (\<lambda>_.
            create_ynh_session svc (ynh_username identity) (domain c)))))"

subsection \<open>Linking\<close>

definition LINK_ACTION :: string where
  "LINK_ACTION = ''yunohost-link''"

text \<open>\<open>except PortalAuthError\<close> around the question who is logged in.\<close>

definition current_user :: "services \<Rightarrow> string \<Rightarrow> string \<Rightarrow> (server, string) py" where
  "current_user svc cookie_header host =
     py_except (py_lift (get_authenticated_username svc cookie_header host (portal_api_base_url (get_settings svc))))
       (\<lambda>e. case e of PortalAuthError m \<Rightarrow> Some (py_raise (LinkingError (''not currently logged in to YunoHost: '' @ m)))
          | _ \<Rightarrow> None)"

definition record_link :: "services \<Rightarrow> bool \<Rightarrow> string \<Rightarrow> string \<Rightarrow> string \<Rightarrow> string option \<Rightarrow> (server, unit) py" where
  "record_link svc replace username pk st lab =
     py_except
       (if replace then on_mappings (link username pk st lab ''self-service'' (clock svc 1))
        else py_bind (on_mappings (add_identity username pk st lab ''self-service'' (clock svc 1))) (\<lambda>_. py_return ()))
       (\<lambda>e. case e of PubkeyAlreadyLinked m \<Rightarrow> Some (py_raise (LinkingError m)) | _ \<Rightarrow> None)"

definition confirm_and_link :: "services \<Rightarrow> string \<Rightarrow> string \<Rightarrow> challenge option \<Rightarrow> string \<Rightarrow> int \<Rightarrow> bool \<Rightarrow>
    string \<Rightarrow> string option \<Rightarrow> (server, string) py" where
  "confirm_and_link svc cookie_header host ch event_json skew replace st lab =
     (case ch of
        None \<Rightarrow> py_raise (LinkingError ''unknown, expired, or already-used challenge'')
      | Some c \<Rightarrow>
         if action c \<noteq> LINK_ACTION
         then py_raise (LinkingError (''challenge was not issued for '' @ single_quoted LINK_ACTION))
         else
         py_bind (current_user svc cookie_header host) (\<lambda>username.
         py_bind (py_except (py_lift (verify_for (sdk svc) event_json c skew))
           (\<lambda>e. case e of InvalidEvent m \<Rightarrow> Some (py_raise (LinkingError m)) | _ \<Rightarrow> None)) (\<lambda>pk.
         py_bind (record_link svc replace username pk st lab) (\<lambda>_.
         py_return username))))"

definition confirm_and_add :: "services \<Rightarrow> string \<Rightarrow> string \<Rightarrow> challenge option \<Rightarrow> string \<Rightarrow> int \<Rightarrow>
    string \<Rightarrow> string option \<Rightarrow> (server, string) py" where
  "confirm_and_add svc cookie_header host ch event_json skew st lab =
     confirm_and_link svc cookie_header host ch event_json skew False st lab"

definition confirm_and_unlink :: "services \<Rightarrow> string \<Rightarrow> string \<Rightarrow> (server, string) py" where
  "confirm_and_unlink svc cookie_header host =
     py_bind (current_user svc cookie_header host) (\<lambda>username.
     py_bind (on_mappings (unlink username)) (\<lambda>_.
     py_return username))"

end
