(* ===== verification/Server.thy ===== *)
theory Server
  imports Login_Linking
begin

text \<open>
  \<open>src/src/yunohost_nostr_auth/server.py\<close>: the endpoints the pages call.  A request is what the
  framework gives the handlers; an answer is a status, a JSON value and perhaps a cookie.  A
  handler that raises \<open>_ApiError\<close> is answered with its status and message, any other
  exception with status 500.  Log lines are part of the state (fail2ban reads them).
\<close>

record request =
  header :: "string \<Rightarrow> string option"
  query_param :: "string \<Rightarrow> string option"
  path_identity_id :: string
  client_host :: "string option"
  request_json :: "jsval option"

record set_cookie =
  set_name :: string
  set_value :: jsval
  set_max_age :: jsval
  set_domain :: string

record response =
  status_code :: int
  content :: jsval
  cookies :: "set_cookie list"

type_synonym endpoint = "services \<Rightarrow> request \<Rightarrow> (server, response) py"

definition JSONResponse :: "(string \<times> jsval) list \<Rightarrow> response" where
  "JSONResponse d = \<lparr>status_code = 200, content = Obj d, cookies = []\<rparr>"

definition api_error :: "int \<Rightarrow> string \<Rightarrow> (server, 'a) py" where
  "api_error code m = py_raise (Api_error code m)"

definition log_line :: "string \<Rightarrow> string \<Rightarrow> (server, unit) py" where
  "log_line level m = py_modify (\<lambda>s. s\<lparr>log_lines := log_lines s @ [(level, m)]\<rparr>)"

text \<open>\<open>a or b\<close> on optional texts; \<open>not header\<close>.\<close>

definition present :: "string option \<Rightarrow> bool" where
  "present h \<longleftrightarrow> h \<noteq> None \<and> h \<noteq> Some []"

definition client_ip :: "request \<Rightarrow> string" where
  "client_ip req = (if present (header req ''x-real-ip'') then the (header req ''x-real-ip'')
     else case client_host req of Some h \<Rightarrow> h | None \<Rightarrow> ''unknown'')"

text \<open>A header is Latin-1; the case of its ASCII letters is all that matters here.\<close>

definition ascii_lower :: "string \<Rightarrow> string" where
  "ascii_lower s = map (\<lambda>c. if 65 \<le> code_of c \<and> code_of c \<le> 90 then chr (code_of c + 32) else c) s"

definition require_json :: "request \<Rightarrow> (server, unit) py" where
  "require_json req =
     (let content_type = (case header req ''content-type'' of None \<Rightarrow> [] | Some h \<Rightarrow> h)
      in if ascii_lower (py_strip (takeWhile (\<lambda>c. c \<noteq> CHR '';'') content_type)) \<noteq> ''application/json''
         then api_error 415 ''Content-Type must be application/json'' else py_return ())"

text \<open>\<open>await request.json()\<close>, and its use as a dict.\<close>

definition json_body :: "request \<Rightarrow> (server, jsval) py" where
  "json_body req = (case request_json req of
      None \<Rightarrow> py_raise (Other_exception ''JSONDecodeError'') | Some v \<Rightarrow> py_return v)"

definition body_dict :: "jsval \<Rightarrow> (server, (string \<times> jsval) list) py" where
  "body_dict v = (case v of Obj d \<Rightarrow> py_return d | _ \<Rightarrow> py_raise AttributeError)"

definition body_event :: "(string \<times> jsval) list \<Rightarrow> (server, (string \<times> jsval) list) py" where
  "body_event body = (case dict_get body ''event'' Null of
      Obj event \<Rightarrow> py_return event
    | _ \<Rightarrow> api_error 400 (''missing '' @ single_quoted ''event''))"

definition host_header :: "request \<Rightarrow> string" where
  "host_header req = (case header req ''host'' of None \<Rightarrow> [] | Some h \<Rightarrow> h)"

text \<open>\<open>challenge_store.consume(nonce) if nonce else None\<close>\<close>

definition consume_claimed :: "services \<Rightarrow> (string \<times> jsval) list \<Rightarrow> (server, challenge option) py" where
  "consume_claimed svc event =
     (let n = extract_tag_from_raw_event event ''challenge''
      in if py_truthy n then on_challenges (consume n (clock svc 0)) else py_return None)"

subsection \<open>Challenges\<close>

definition challenge_json :: "challenge \<Rightarrow> response" where
  "challenge_json c = JSONResponse
     [(''kind'', Num (int CHALLENGE_EVENT_KIND)), (''nonce'', Str (nonce c)), (''domain'', Str (domain c)),
      (''action'', Str (action c)), (''issued_at'', Num (issued_at c)), (''expires_at'', Num (expires_at c))]"

definition issue_for_host :: "services \<Rightarrow> request \<Rightarrow> string \<Rightarrow> (server, response) py" where
  "issue_for_host svc req act =
     (if \<not> present (header req ''host'') then api_error 400 ''missing Host header''
      else py_bind (on_challenges (issue (host_header req) act (token_urlsafe svc) (clock svc 0) (clock svc 1)))
        (\<lambda>c. py_return (challenge_json c)))"

definition challenge_endpoint :: endpoint where
  "challenge_endpoint svc req =
     (let act = (case query_param req ''action'' of None \<Rightarrow> LOGIN_ACTION | Some a \<Rightarrow> a)
      in if act \<notin> {LOGIN_ACTION, LINK_ACTION} then api_error 400 (''unknown action '' @ py_repr act)
         else if act = LOGIN_ACTION \<and> \<not> allow_nostr_login (get_settings svc)
         then api_error 403 ''Nostr login is currently disabled''
         else issue_for_host svc req act)"

definition link_challenge_endpoint :: endpoint where
  "link_challenge_endpoint svc req =
     (if \<not> allow_identity_linking (get_settings svc)
      then api_error 403 ''self-service identity linking is currently disabled''
      else issue_for_host svc req LINK_ACTION)"

subsection \<open>Signing in\<close>

definition session_cookie :: "request \<Rightarrow> MintedSession \<Rightarrow> set_cookie" where
  "session_cookie req minted = \<lparr>set_name = cookie_name minted, set_value = token minted,
     set_max_age = max_age minted,
     set_domain = CHR ''.'' # (case header req ''host'' of None \<Rightarrow> ''None'' | Some h \<Rightarrow> h)\<rparr>"

text \<open>The two \<open>except\<close> clauses of the sign-in.\<close>

definition login_refused :: "request \<Rightarrow> exc \<Rightarrow> (server, MintedSession) py option" where
  "login_refused req e = (case e of
      LoginError m \<Rightarrow> Some (py_bind (log_line ''WARNING'' (''nostr login failure from '' @ client_ip req @ '': '' @ m))
        (\<lambda>_. api_error 401 m))
    | SessionMintError m \<Rightarrow> Some (py_bind (log_line ''ERROR'' (''nostr login: session minting failed: '' @ m))
        (\<lambda>_. api_error 502 ''could not establish a YunoHost session''))
    | _ \<Rightarrow> None)"

text \<open>The handler after the challenge has been consumed.\<close>

definition finish_sign_in :: "services \<Rightarrow> request \<Rightarrow> (string \<times> jsval) list \<Rightarrow> challenge option \<Rightarrow> (server, response) py" where
  "finish_sign_in svc req event ch =
     py_bind (py_except (authenticate svc ch (py_dumps (Obj event)) (clock_skew_seconds (get_settings svc)))
       (login_refused req)) (\<lambda>minted.
     py_bind (log_line ''INFO'' (''nostr login success from '' @ client_ip req)) (\<lambda>_.
     py_return ((JSONResponse [(''ok'', Bool True)])\<lparr>cookies := [session_cookie req minted]\<rparr>)))"

definition authenticate_endpoint :: endpoint where
  "authenticate_endpoint svc req =
     py_bind (require_json req) (\<lambda>_.
     if \<not> allow_nostr_login (get_settings svc) then api_error 403 ''Nostr login is currently disabled'' else
     py_bind (json_body req) (\<lambda>v.
     py_bind (body_dict v) (\<lambda>body.
     py_bind (body_event body) (\<lambda>event.
     py_bind (consume_claimed svc event) (finish_sign_in svc req event)))))"

subsection \<open>Linking\<close>

definition linking_refused :: "string \<Rightarrow> request \<Rightarrow> exc \<Rightarrow> (server, 'a) py option" where
  "linking_refused what req e = (case e of
      LinkingError m \<Rightarrow> Some (py_bind (log_line ''WARNING''
          (''identity '' @ what @ '' failure from '' @ client_ip req @ '': '' @ m)) (\<lambda>_. api_error 401 m))
    | _ \<Rightarrow> None)"

definition signer_types :: "string list" where
  "signer_types = [''unknown'', ''nip07'', ''nip46'', ''passkey'']"

definition bad_label :: "jsval \<Rightarrow> bool" where
  "bad_label v = (case v of Null \<Rightarrow> False | Str t \<Rightarrow> py_strip t = [] \<or> code_points t > 120 | _ \<Rightarrow> True)"

definition identity_metadata :: "(string \<times> jsval) list \<Rightarrow> (server, string \<times> string option) py" where
  "identity_metadata body =
     (let st = dict_get body ''signer_type'' (Str ''unknown''); lab = dict_get body ''label'' Null
      in case st of
           Str t \<Rightarrow> (if t \<notin> set signer_types then api_error 400 ''invalid signer_type''
             else if bad_label lab then api_error 400 ''label must be a non-empty string of at most 120 characters''
             else py_return (t, case lab of Str l \<Rightarrow> Some (py_strip l) | _ \<Rightarrow> None))
         | _ \<Rightarrow> api_error 400 ''invalid signer_type'')"

definition not_logged_in :: "(server, 'a) py" where
  "not_logged_in = api_error 401 ''not currently logged in to YunoHost''"

text \<open>Both linking endpoints up to the consumption of the challenge: the event, the kind of signer
  and the label, and the cookie.\<close>

definition link_request_of :: "services \<Rightarrow> request \<Rightarrow>
    (server, (string \<times> jsval) list \<times> string \<times> string option) py" where
  "link_request_of svc req =
     py_bind (require_json req) (\<lambda>_.
     if \<not> allow_identity_linking (get_settings svc)
     then api_error 403 ''self-service identity linking is currently disabled'' else
     py_bind (json_body req) (\<lambda>v.
     py_bind (body_dict v) (\<lambda>body.
     py_bind (body_event body) (\<lambda>event.
     py_bind (identity_metadata body) (\<lambda>(st, lab).
     if \<not> present (header req ''cookie'') then not_logged_in else py_return (event, st, lab))))))"

definition link_endpoint :: endpoint where
  "link_endpoint svc req =
     py_bind (link_request_of svc req) (\<lambda>(event, st, lab).
     py_bind (consume_claimed svc event) (\<lambda>ch.
     py_bind (py_except (confirm_and_link svc (the (header req ''cookie'')) (host_header req) ch
         (py_dumps (Obj event)) (clock_skew_seconds (get_settings svc)) True st lab)
       (linking_refused ''link'' req)) (\<lambda>username.
     py_bind (log_line ''INFO'' (''identity linked ('' @ username @ '') from '' @ client_ip req)) (\<lambda>_.
     py_return (JSONResponse [(''ok'', Bool True), (''username'', Str username)])))))"

definition unlink_endpoint :: endpoint where
  "unlink_endpoint svc req =
     (if \<not> present (header req ''cookie'') then not_logged_in else
      py_bind (py_except (confirm_and_unlink svc (the (header req ''cookie'')) (host_header req))
        (linking_refused ''unlink'' req)) (\<lambda>username.
      py_bind (log_line ''INFO'' (''identity removed ('' @ username @ '') from '' @ client_ip req)) (\<lambda>_.
      py_return (JSONResponse [(''ok'', Bool True), (''username'', Str username)]))))"

subsection \<open>Reading identities\<close>

definition opt_num :: "int option \<Rightarrow> jsval" where
  "opt_num x = (case x of None \<Rightarrow> Null | Some i \<Rightarrow> Num i)"

definition opt_str :: "string option \<Rightarrow> jsval" where
  "opt_str x = (case x of None \<Rightarrow> Null | Some t \<Rightarrow> Str t)"

definition identity_json :: "services \<Rightarrow> Identity \<Rightarrow> exc + jsval" where
  "identity_json svc x = (case hex_to_npub (sdk svc) (pubkey x) of
      Inl e \<Rightarrow> Inl e
    | Inr npub \<Rightarrow> Inr (Obj
       [(''id'', opt_num (identity_id x)), (''username'', Str (ynh_username x)), (''pubkey'', Str (pubkey x)),
        (''npub'', Str npub), (''created_at'', Num (created_at x)), (''last_used'', opt_num (last_used x)),
        (''enabled'', Bool (enabled x)), (''signer_type'', Str (signer_type x)), (''label'', opt_str (label x)),
        (''linked_by'', Str (linked_by x)), (''revoked_at'', opt_num (revoked_at x))]))"

fun identities_json :: "services \<Rightarrow> Identity list \<Rightarrow> exc + jsval list" where
  "identities_json svc [] = Inr []"
| "identities_json svc (x # xs) = (case identity_json svc x of
     Inl e \<Rightarrow> Inl e
   | Inr v \<Rightarrow> (case identities_json svc xs of Inl e \<Rightarrow> Inl e | Inr vs \<Rightarrow> Inr (v # vs)))"

text \<open>\<open>_identity_json(None)\<close> reads an attribute of \<open>None\<close>.\<close>

definition found_json :: "services \<Rightarrow> Identity option \<Rightarrow> exc + jsval" where
  "found_json svc x = (case x of None \<Rightarrow> Inl AttributeError | Some i \<Rightarrow> identity_json svc i)"

definition unauthorized :: "exc \<Rightarrow> (server, 'a) py option" where
  "unauthorized e = (case e of PortalAuthError m \<Rightarrow> Some (api_error 401 m) | _ \<Rightarrow> None)"

definition session_of :: "services \<Rightarrow> request \<Rightarrow> exc + AuthenticatedSession" where
  "session_of svc req = get_authenticated_session svc (the (header req ''cookie'')) (host_header req)
     (portal_api_base_url (get_settings svc))"

definition authenticated_username :: "services \<Rightarrow> request \<Rightarrow> (server, string) py" where
  "authenticated_username svc req =
     (if \<not> present (header req ''cookie'') then not_logged_in
      else py_bind (py_except (py_lift (session_of svc req)) unauthorized) (\<lambda>session.
        py_return (session_username session)))"

definition authenticated_admin :: "services \<Rightarrow> request \<Rightarrow> (server, string) py" where
  "authenticated_admin svc req =
     (if \<not> present (header req ''cookie'') then not_logged_in
      else py_bind (py_except (py_lift (session_of svc req)) unauthorized) (\<lambda>session.
        if \<not> is_admin session then api_error 403 ''YunoHost admin access is required''
        else py_return (session_username session)))"

definition identity_endpoint :: endpoint where
  "identity_endpoint svc req =
     py_bind (authenticated_username svc req) (\<lambda>username.
     py_bind (py_gets (\<lambda>s. get_by_username username (mappings s))) (\<lambda>found.
     case found of None \<Rightarrow> py_return (JSONResponse [(''linked'', Bool False)])
     | Some x \<Rightarrow>
        if \<not> enabled x then py_return (JSONResponse [(''linked'', Bool False)]) else
        py_bind (py_lift (hex_to_npub (sdk svc) (pubkey x))) (\<lambda>npub.
        py_return (JSONResponse
          [(''linked'', Bool True), (''username'', Str username), (''pubkey'', Str (pubkey x)), (''npub'', Str npub),
           (''created_at'', Num (created_at x)), (''last_used'', opt_num (last_used x))]))))"

definition identities_endpoint :: endpoint where
  "identities_endpoint svc req =
     py_bind (authenticated_username svc req) (\<lambda>username.
     py_bind (py_gets (\<lambda>s. list_by_username username True (mappings s))) (\<lambda>xs.
     py_bind (py_lift (identities_json svc xs)) (\<lambda>vs.
     py_return (JSONResponse [(''username'', Str username), (''identities'', Arr vs)]))))"

definition policy_endpoint :: endpoint where
  "policy_endpoint svc req = py_return (JSONResponse
     [(''allow_nostr_login'', Bool (allow_nostr_login (get_settings svc))),
      (''allow_identity_linking'', Bool (allow_identity_linking (get_settings svc)))])"

definition nostr_json_endpoint :: endpoint where
  "nostr_json_endpoint svc req =
     (let name = query_param req ''name''
      in if \<not> present name then py_return (JSONResponse [(''names'', Obj [])])
         else py_bind (py_gets (\<lambda>s. get_by_username (the name) (mappings s))) (\<lambda>found.
           py_return (JSONResponse [(''names'', Obj (case found of
               None \<Rightarrow> [] | Some x \<Rightarrow> if enabled x then [(the name, Str (pubkey x))] else []))])))"

subsection \<open>Changing identities\<close>

text \<open>
  \<open>int(text)\<close> on ASCII digits: white space around it, a sign, single underscores between digits,
  at most 4300 digits.
\<close>

fun int_digits :: "int \<Rightarrow> string \<Rightarrow> int option" where
  "int_digits acc [] = Some acc"
| "int_digits acc (c # s) =
     (case dec_val c of
        Some d \<Rightarrow> int_digits (acc * 10 + int d) s
      | None \<Rightarrow> (case s of
          d # s' \<Rightarrow> (if c = CHR ''_'' then (case dec_val d of
             Some v \<Rightarrow> int_digits (acc * 10 + int v) s' | None \<Rightarrow> None) else None)
        | [] \<Rightarrow> None))"

definition int_unsigned :: "string \<Rightarrow> int option" where
  "int_unsigned s = (case s of [] \<Rightarrow> None | c # t \<Rightarrow>
     (case dec_val c of None \<Rightarrow> None | Some d \<Rightarrow> int_digits (int d) t))"

definition py_int :: "string \<Rightarrow> int option" where
  "py_int s = (case py_strip s of
      [] \<Rightarrow> None
    | c # t \<Rightarrow> if length (filter is_dec s) > 4300 then None
        else if c = CHR ''-'' then map_option uminus (int_unsigned t)
        else if c = CHR ''+'' then int_unsigned t else int_unsigned (c # t))"

definition path_id :: "request \<Rightarrow> (server, int) py" where
  "path_id req = (case py_int (path_identity_id req) of
      None \<Rightarrow> api_error 400 ''identity id must be an integer'' | Some i \<Rightarrow> py_return i)"

text \<open>SQLite binds integers of 64 bits.\<close>

definition sql_id :: "int \<Rightarrow> (server, unit) py" where
  "sql_id i = (if - (2 ^ 63) \<le> i \<and> i < 2 ^ 63 then py_return () else py_raise Overflow_error)"

definition positive_id :: "int \<Rightarrow> (server, unit) py" where
  "positive_id i = (if i \<le> 0 then api_error 400 ''identity id must be positive'' else py_return ())"

definition add_identity_endpoint :: endpoint where
  "add_identity_endpoint svc req =
     py_bind (link_request_of svc req) (\<lambda>(event, st, lab).
     py_bind (consume_claimed svc event) (\<lambda>ch.
     py_bind (py_except (confirm_and_add svc (the (header req ''cookie'')) (host_header req) ch
         (py_dumps (Obj event)) (clock_skew_seconds (get_settings svc)) st lab)
       (linking_refused ''add'' req)) (\<lambda>username.
     py_bind (log_line ''INFO'' (''identity added ('' @ username @ '') from '' @ client_ip req)) (\<lambda>_.
     py_bind (py_gets (\<lambda>s. get_by_username username (mappings s))) (\<lambda>found.
     py_bind (py_lift (found_json svc found)) (\<lambda>x.
     py_return (JSONResponse [(''ok'', Bool True), (''username'', Str username), (''identity'', x)])))))))"

definition revoke_row :: "services \<Rightarrow> request \<Rightarrow> string \<Rightarrow> int \<Rightarrow> string \<Rightarrow> (server, response) py" where
  "revoke_row svc req username i prefix =
     py_bind (sql_id i) (\<lambda>_.
     py_bind (on_mappings (revoke_identity i username (clock svc 0))) (\<lambda>done1.
     if \<not> done1 then api_error 404 ''identity not found or already revoked'' else
     py_bind (log_line ''INFO'' (prefix @ '' ('' @ username @ '', id='' @ int_to_dec i @ '') from '' @ client_ip req)) (\<lambda>_.
     py_return (JSONResponse [(''ok'', Bool True), (''username'', Str username), (''identity_id'', Num i)]))))"

definition revoke_identity_endpoint :: endpoint where
  "revoke_identity_endpoint svc req =
     py_bind (authenticated_username svc req) (\<lambda>username.
     py_bind (path_id req) (\<lambda>i.
     py_bind (positive_id i) (\<lambda>_.
     revoke_row svc req username i ''identity revoked'')))"

definition relabel_row :: "services \<Rightarrow> request \<Rightarrow> string \<Rightarrow> int \<Rightarrow> string option \<Rightarrow> string \<Rightarrow> (server, response) py" where
  "relabel_row svc req username i lab prefix =
     py_bind (sql_id i) (\<lambda>_.
     py_bind (on_mappings (update_identity_label i username lab)) (\<lambda>found.
     if found = None then api_error 404 ''identity not found or revoked'' else
     py_bind (log_line ''INFO'' (prefix @ '' ('' @ username @ '', id='' @ int_to_dec i @ '') from '' @ client_ip req)) (\<lambda>_.
     py_bind (py_lift (found_json svc found)) (\<lambda>x.
     py_return (JSONResponse [(''ok'', Bool True), (''username'', Str username), (''identity'', x)])))))"

text \<open>
  \<open>"label" not in body\<close> and \<open>body["label"]\<close> on whatever JSON value the body is; a label is null or
  a text, and a blank text clears it.
\<close>

definition label_item :: "jsval \<Rightarrow> (server, jsval) py" where
  "label_item v = (let missing = api_error 400 (''missing '' @ single_quoted ''label'')
     in case v of
       Obj d \<Rightarrow> (case map_of d ''label'' of None \<Rightarrow> missing | Some l \<Rightarrow> py_return l)
     | Arr vs \<Rightarrow> (if Str ''label'' \<in> set vs then py_raise TypeError else missing)
     | Str t \<Rightarrow> (if js_includes ''label'' t then py_raise TypeError else missing)
     | _ \<Rightarrow> py_raise TypeError)"

definition patch_label :: "jsval \<Rightarrow> (server, string option) py" where
  "patch_label lab = (case lab of
      Null \<Rightarrow> py_return None
    | Str t \<Rightarrow> (if code_points t > 120 then api_error 400 ''label must be null or a string of at most 120 characters''
        else py_return (if py_strip t = [] then None else Some (py_strip t)))
    | _ \<Rightarrow> api_error 400 ''label must be null or a string of at most 120 characters'')"

definition update_identity_endpoint :: endpoint where
  "update_identity_endpoint svc req =
     py_bind (require_json req) (\<lambda>_.
     py_bind (json_body req) (\<lambda>v.
     py_bind (label_item v) (\<lambda>item.
     py_bind (patch_label item) (\<lambda>lab.
     py_bind (authenticated_username svc req) (\<lambda>username.
     py_bind (path_id req) (\<lambda>i.
     py_bind (positive_id i) (\<lambda>_.
     relabel_row svc req username i lab ''identity label updated'')))))))"

subsection \<open>The administrator\<close>

definition admin_session_endpoint :: endpoint where
  "admin_session_endpoint svc req =
     (let out = JSONResponse [(''authenticated'', Bool False), (''is_admin'', Bool False)]
      in if \<not> present (header req ''cookie'') then py_return out
         else py_except
           (py_bind (py_lift (session_of svc req)) (\<lambda>session.
            py_return (JSONResponse [(''authenticated'', Bool True), (''is_admin'', Bool (is_admin session)),
              (''username'', Str (session_username session))])))
           (\<lambda>e. case e of PortalAuthError m \<Rightarrow> Some (py_return out) | _ \<Rightarrow> None))"

definition admin_list_identities_endpoint :: endpoint where
  "admin_list_identities_endpoint svc req =
     py_bind (authenticated_admin svc req) (\<lambda>_.
     py_bind (py_gets (\<lambda>s. list_all_identities (mappings s))) (\<lambda>xs.
     py_bind (py_lift (identities_json svc xs)) (\<lambda>vs.
     py_return (JSONResponse [(''identities'', Arr vs)]))))"

definition admin_target :: "(string \<times> jsval) list \<Rightarrow> (server, string) py" where
  "admin_target body = (case dict_get body ''username'' Null of
      Str u \<Rightarrow> (if py_strip u = [] then api_error 400 (''missing '' @ single_quoted ''username'') else py_return (py_strip u))
    | _ \<Rightarrow> api_error 400 (''missing '' @ single_quoted ''username''))"

definition admin_pubkey :: "services \<Rightarrow> (string \<times> jsval) list \<Rightarrow> (server, string) py" where
  "admin_pubkey svc body = (let missing = api_error 400 (''missing '' @ single_quoted ''pubkey'' @ '' (npub or hex)'')
     in case dict_get body ''pubkey'' Null of
      Str p \<Rightarrow> (if py_strip p = [] then missing
        else py_except (py_lift (parse_to_hex (sdk svc) (py_strip p)))
          (\<lambda>e. case e of ValueError m \<Rightarrow> Some (api_error 400 m) | _ \<Rightarrow> None))
    | _ \<Rightarrow> missing)"

definition admin_body :: "services \<Rightarrow> request \<Rightarrow> (server, (string \<times> jsval) list) py" where
  "admin_body svc req =
     py_bind (require_json req) (\<lambda>_.
     py_bind (authenticated_admin svc req) (\<lambda>_.
     py_bind (json_body req) body_dict))"

definition admin_add_identity_endpoint :: endpoint where
  "admin_add_identity_endpoint svc req =
     py_bind (admin_body svc req) (\<lambda>body.
     py_bind (admin_target body) (\<lambda>username.
     py_bind (admin_pubkey svc body) (\<lambda>pubkey_hex.
     py_bind (identity_metadata body) (\<lambda>(st, lab).
     py_bind (py_except
        (if py_truthy (dict_get body ''replace'' (Bool False))
         then py_bind (on_mappings (link username pubkey_hex st lab ''admin'' (clock svc 0))) (\<lambda>_.
              py_gets (\<lambda>s. get_by_pubkey pubkey_hex (mappings s)))
         else py_bind (on_mappings (add_identity username pubkey_hex st lab ''admin'' (clock svc 0))) (\<lambda>x.
              py_return (Some x)))
        (\<lambda>e. case e of PubkeyAlreadyLinked m \<Rightarrow> Some (api_error 409 m) | _ \<Rightarrow> None)) (\<lambda>found.
     py_bind (log_line ''INFO'' (''admin added identity ('' @ username @ '') from '' @ client_ip req)) (\<lambda>_.
     py_bind (py_lift (found_json svc found)) (\<lambda>x.
     py_return (JSONResponse [(''ok'', Bool True), (''username'', Str username), (''identity'', x)]))))))))"

definition admin_revoke_identity_endpoint :: endpoint where
  "admin_revoke_identity_endpoint svc req =
     py_bind (admin_body svc req) (\<lambda>body.
     py_bind (admin_target body) (\<lambda>username.
     py_bind (path_id req) (\<lambda>i.
     revoke_row svc req username i ''admin revoked identity'')))"

definition admin_rename_identity_endpoint :: endpoint where
  "admin_rename_identity_endpoint svc req =
     py_bind (admin_body svc req) (\<lambda>body.
     py_bind (admin_target body) (\<lambda>username.
     case dict_get body ''label'' Null of
       Str t \<Rightarrow>
        (if py_strip t = [] \<or> code_points t > 120
         then api_error 400 ''label must be a non-empty string of at most 120 characters''
         else py_bind (path_id req) (\<lambda>i. relabel_row svc req username i (Some (py_strip t)) ''admin renamed identity''))
     | _ \<Rightarrow> api_error 400 ''label must be a non-empty string of at most 120 characters''))"

definition admin_unlink_endpoint :: endpoint where
  "admin_unlink_endpoint svc req =
     py_bind (admin_body svc req) (\<lambda>body.
     py_bind (admin_target body) (\<lambda>username.
     py_bind (on_mappings (unlink username)) (\<lambda>_.
     py_bind (log_line ''INFO'' (''admin unlinked all identities ('' @ username @ '') from '' @ client_ip req)) (\<lambda>_.
     py_return (JSONResponse [(''ok'', Bool True), (''username'', Str username)])))))"

subsection \<open>Routes\<close>

text \<open>\<open>root_redirect\<close>: where the bare domain leads.\<close>

definition root_target :: "services \<Rightarrow> request \<Rightarrow> exc + string" where
  "root_target svc req =
     (if \<not> present (header req ''cookie'') then Inr ''/nostr-login''
      else case session_of svc req of
        Inr session \<Rightarrow> Inr ''/yunohost/sso/''
      | Inl e \<Rightarrow> (case e of PortalAuthError m \<Rightarrow> Inr ''/nostr-login'' | _ \<Rightarrow> Inl e))"

datatype segment_pattern = Lit string | Identity_id

text \<open>The routes of the endpoints, in the order of \<open>create_app\<close>.\<close>

definition routes :: "(string \<times> segment_pattern list \<times> endpoint) list" where
  "routes =
    [(''GET'', [Lit ''challenge''], challenge_endpoint),
     (''POST'', [Lit ''authenticate''], authenticate_endpoint),
     (''POST'', [Lit ''link'', Lit ''challenge''], link_challenge_endpoint),
     (''POST'', [Lit ''link''], link_endpoint),
     (''POST'', [Lit ''unlink''], unlink_endpoint),
     (''GET'', [Lit ''identity''], identity_endpoint),
     (''GET'', [Lit ''identities''], identities_endpoint),
     (''POST'', [Lit ''identities'', Lit ''link''], add_identity_endpoint),
     (''PATCH'', [Lit ''identities'', Identity_id], update_identity_endpoint),
     (''DELETE'', [Lit ''identities'', Identity_id], revoke_identity_endpoint),
     (''GET'', [Lit ''policy''], policy_endpoint),
     (''GET'', [Lit ''nostr-admin'', Lit ''api'', Lit ''session''], admin_session_endpoint),
     (''GET'', [Lit ''nostr-admin'', Lit ''api'', Lit ''identities''], admin_list_identities_endpoint),
     (''POST'', [Lit ''nostr-admin'', Lit ''api'', Lit ''identities''], admin_add_identity_endpoint),
     (''POST'', [Lit ''nostr-admin'', Lit ''api'', Lit ''identities'', Identity_id, Lit ''revoke''],
        admin_revoke_identity_endpoint),
     (''POST'', [Lit ''nostr-admin'', Lit ''api'', Lit ''identities'', Identity_id, Lit ''rename''],
        admin_rename_identity_endpoint),
     (''POST'', [Lit ''nostr-admin'', Lit ''api'', Lit ''identities'', Lit ''unlink''], admin_unlink_endpoint),
     (''GET'', [Lit ''.well-known'', Lit ''nostr.json''], nostr_json_endpoint)]"

text \<open>The value of the path parameter, if the path matches.\<close>

fun match_path :: "segment_pattern list \<Rightarrow> string list \<Rightarrow> string \<Rightarrow> string option" where
  "match_path [] [] i = Some i"
| "match_path (Lit a # ps) (b # bs) i = (if a = b then match_path ps bs i else None)"
| "match_path (Identity_id # ps) (b # bs) i = (if b = [] then None else match_path ps bs b)"
| "match_path _ _ i = None"

definition error_response :: "int \<Rightarrow> string \<Rightarrow> response" where
  "error_response code m = \<lparr>status_code = code, content = Obj [(''error'', Str m)], cookies = []\<rparr>"

text \<open>What the framework makes of a request: the first route that matches, and the answer to an
  exception.\<close>

definition answer_of :: "exc + response \<Rightarrow> response" where
  "answer_of r = (case r of Inr resp \<Rightarrow> resp
    | Inl e \<Rightarrow> (case e of Api_error code m \<Rightarrow> error_response code m
        | _ \<Rightarrow> \<lparr>status_code = 500, content = Null, cookies = []\<rparr>))"

definition dispatch :: "services \<Rightarrow> string \<Rightarrow> string list \<Rightarrow> request \<Rightarrow> server \<Rightarrow> response \<times> server" where
  "dispatch svc method path req s =
     (case find (\<lambda>(m, ps, f). m = method \<and> match_path ps path [] \<noteq> None) routes of
        Some (m, ps, f) \<Rightarrow>
          (case f svc (req\<lparr>path_identity_id := the (match_path ps path [])\<rparr>) s of (r, s') \<Rightarrow> (answer_of r, s'))
      | None \<Rightarrow> (\<lparr>status_code = (if list_ex (\<lambda>(m, ps, f). match_path ps path [] \<noteq> None) routes then 405 else 404),
                  content = Null, cookies = []\<rparr>, s))"

text \<open>The state \<open>create_app\<close> starts with, on given files.\<close>

definition create_app :: "settings \<Rightarrow> challenge_row list \<Rightarrow> mapping_db \<Rightarrow> exc + server" where
  "create_app st rows db = (case ChallengeStore (challenge_ttl_seconds st) (Some rows) of
      Inl e \<Rightarrow> Inl e
    | Inr ch \<Rightarrow> Inr \<lparr>challenges = ch, mappings = MappingStore db, mint_requests = [], log_lines = []\<rparr>)"

end
