(* ===== verification/Server_Laws.thy ===== *)
theory Server_Laws
  imports Server
begin

text \<open>
  What the server guarantees: who gets a session, how often a challenge counts, who can change
  which keys, and what an administrator's endpoint needs.
\<close>

subsection \<open>Signing in\<close>

lemma on_mappings_run [py_rules]: "on_mappings m s = (case m (mappings s) of (r, t) \<Rightarrow> (r, s\<lparr>mappings := t\<rparr>))"
  by (simp add: on_mappings_def py_rules)

lemma on_challenges_run [py_rules]:
  "on_challenges m s = (case m (challenges s) of (r, t) \<Rightarrow> (r, s\<lparr>challenges := t\<rparr>))"
  by (simp add: on_challenges_def py_rules)

text \<open>The account and the challenge a sign-in is for.\<close>

definition sign_in_for :: "services \<Rightarrow> challenge option \<Rightarrow> string \<Rightarrow> int \<Rightarrow> mapping_db \<Rightarrow> challenge \<Rightarrow> Identity \<Rightarrow> bool" where
  "sign_in_for svc ch event_json skew db c x \<longleftrightarrow> ch = Some c \<and> action c = LOGIN_ACTION \<and>
     (\<exists>pk. attests (sdk svc) event_json c skew pk \<and> get_by_pubkey pk db = Some x)"

text \<open>Everything but the log after a session was asked for.\<close>

definition session_asked :: "services \<Rightarrow> challenge option \<Rightarrow> string \<Rightarrow> int \<Rightarrow> server \<Rightarrow> server \<Rightarrow> challenge \<Rightarrow> Identity \<Rightarrow> bool" where
  "session_asked svc ch event_json skew s s' c x \<longleftrightarrow> sign_in_for svc ch event_json skew (mappings s) c x \<and>
     challenges s' = challenges s \<and> mint_requests s' = mint_requests s @ [(ynh_username x, domain c)] \<and>
     (\<exists>i t. mappings s' = snd (touch_identity i t (mappings s)))"

lemma session_asked_log:
  "session_asked svc ch event_json skew s s1 c x \<Longrightarrow> challenges s2 = challenges s1 \<Longrightarrow>
     mappings s2 = mappings s1 \<Longrightarrow> mint_requests s2 = mint_requests s1 \<Longrightarrow>
     session_asked svc ch event_json skew s s2 c x"
  by (simp add: session_asked_def)

lemma get_by_pubkey_id: "get_by_pubkey pk db = Some x \<Longrightarrow> \<exists>i. identity_id x = Some i"
  by (auto simp: get_by_pubkey_def row_to_identity_def)

lemma authenticate_cases:
  assumes "authenticate svc ch event_json skew s = (r, s')"
  shows "s' = s \<and> (\<exists>m. r = Inl (LoginError m)) \<or>
    (\<exists>c x. session_asked svc ch event_json skew s s' c x \<and> r = mint_result svc (ynh_username x) (domain c))"
proof (cases "\<exists>c. ch = Some c \<and> action c = LOGIN_ACTION")
  case False
  then show ?thesis using assms by (auto simp: authenticate_def py_rules split: option.splits)
next
  case True
  then obtain c where c: "ch = Some c" "action c = LOGIN_ACTION" by blast
  show ?thesis
  proof (cases "verify_for (sdk svc) event_json c skew")
    case (Inl e)
    then obtain m where "e = InvalidEvent m" using verify_refuses by blast
    then show ?thesis using assms c Inl by (auto simp: authenticate_def py_rules)
  next
    case (Inr pk)
    then have a: "attests (sdk svc) event_json c skew pk" by (simp add: verify_attests)
    show ?thesis
    proof (cases "get_by_pubkey pk (mappings s)")
      case None
      then show ?thesis using assms c Inr by (auto simp add: authenticate_def py_rules)
    next
      case (Some x)
      then obtain i where i: "identity_id x = Some i" using get_by_pubkey_id by blast
      have "sign_in_for svc ch event_json skew (mappings s) c x"
        using c a Some by (auto simp: sign_in_for_def)
      moreover have "r = mint_result svc (ynh_username x) (domain c)" and
         "s' = s\<lparr>mappings := snd (touch_identity i (clock svc 1) (mappings s)),
             mint_requests := mint_requests s @ [(ynh_username x, domain c)]\<rparr>"
        using assms c Inr Some i
        by (auto simp: authenticate_def py_rules touch_signed_in_def touch_identity_def create_ynh_session_def mint_session_def)
      ultimately have "session_asked svc ch event_json skew s s' c x" unfolding session_asked_def by auto
      with \<open>r = mint_result svc (ynh_username x) (domain c)\<close> show ?thesis by blast
    qed
  qed
qed

definition asks_with :: "request \<Rightarrow> (string \<times> jsval) list \<Rightarrow> bool" where
  "asks_with req event \<longleftrightarrow> (\<exists>body. request_json req = Some (Obj body) \<and> dict_get body ''event'' Null = Obj event)"

text \<open>The answer to a sign-in whose session was asked for.\<close>

definition session_answer :: "request \<Rightarrow> exc + MintedSession \<Rightarrow> (exc + response) \<Rightarrow> bool" where
  "session_answer req minted r \<longleftrightarrow> (case minted of
      Inr m \<Rightarrow> r = Inr ((JSONResponse [(''ok'', Bool True)])\<lparr>cookies := [session_cookie req m]\<rparr>)
    | Inl e \<Rightarrow> (\<exists>e'. r = Inl e'))"

lemma consume_claimed_cases:
  assumes "consume_claimed svc event s = (r, s')"
  shows "s' = s\<lparr>challenges := challenges s'\<rparr> \<and> (r = Inr None \<and> s' = s \<or>
    consume (extract_tag_from_raw_event event ''challenge'') (clock svc 0) (challenges s) = (r, challenges s'))"
  using assms by (auto simp: consume_claimed_def py_rules Let_def split: if_splits prod.splits)

lemma log_line_run [py_rules]: "log_line lv m s = (Inr (), s\<lparr>log_lines := log_lines s @ [(lv, m)]\<rparr>)"
  by (simp add: log_line_def py_rules)

lemma api_error_run [py_rules]: "api_error code m s = (Inl (Api_error code m), s)"
  by (simp add: api_error_def py_rules)

lemma finish_sign_in_cases:
  assumes "finish_sign_in svc req event ch s = (r, s')"
  shows "challenges s' = challenges s \<and> mint_requests s' = mint_requests s \<and> mappings s' = mappings s \<and>
      (\<exists>m. r = Inl (Api_error 401 m)) \<or>
    (\<exists>c x. session_asked svc ch (py_dumps (Obj event)) (clock_skew_seconds (get_settings svc)) s s' c x \<and>
        session_answer req (mint_result svc (ynh_username x) (domain c)) r)"
proof -
  let ?m = "authenticate svc ch (py_dumps (Obj event)) (clock_skew_seconds (get_settings svc))"
  obtain ra sa where a: "?m s = (ra, sa)" by (cases "?m s")
  have m: "login_refused req e = Some m \<Longrightarrow> fst (m sa) = Inl (case e of LoginError m \<Rightarrow> Api_error 401 m
        | _ \<Rightarrow> Api_error 502 ''could not establish a YunoHost session'') \<and>
      challenges (snd (m sa)) = challenges sa \<and> mappings (snd (m sa)) = mappings sa \<and>
      mint_requests (snd (m sa)) = mint_requests sa" for e m
    by (auto simp: login_refused_def py_rules split: exc.splits)
  show ?thesis
  proof (cases ra)
    case (Inr minted)
    then have "r = Inr ((JSONResponse [(''ok'', Bool True)])\<lparr>cookies := [session_cookie req minted]\<rparr>)"
      "challenges s' = challenges sa" "mappings s' = mappings sa" "mint_requests s' = mint_requests sa"
      using assms a by (auto simp: finish_sign_in_def py_bind_run py_except_run log_line_run py_run)
    moreover have "session_answer req ra r" using Inr calculation(1) by (simp add: session_answer_def)
    ultimately show ?thesis using authenticate_cases [OF a] Inr session_asked_log [of svc ch _ _ s sa _ _ s'] \<open>challenges s' = challenges sa\<close> \<open>mappings s' = mappings sa\<close> \<open>mint_requests s' = mint_requests sa\<close>
      by fastforce
  next
    case (Inl e)
    then have "(\<exists>e'. r = Inl e') \<and> (\<forall>m. e = LoginError m \<longrightarrow> r = Inl (Api_error 401 m)) \<and>
      challenges s' = challenges sa \<and> mappings s' = mappings sa \<and> mint_requests s' = mint_requests sa"
      using assms a m [of e]
      by (cases "login_refused req e") (auto simp: finish_sign_in_def py_bind_run py_except_run login_refused_def
          split: prod.splits sum.splits)
    moreover from this have "session_answer req ra r" using Inl by (simp add: session_answer_def)
    ultimately show ?thesis using authenticate_cases [OF a] Inl session_asked_log [of svc ch _ _ s sa _ _ s']
      by fastforce
  qed
qed

text \<open>The guards before it.\<close>

lemma steady_api_error [steady_rules]: "steady (api_error code m)"
  by (auto simp: api_error_def intro!: steady_rules)

lemma steady_guards [steady_rules]:
  "steady (require_json req)" "steady (json_body req)" "steady (body_dict v)" "steady (body_event d)"
  "steady not_logged_in"
  by (auto simp: require_json_def json_body_def body_dict_def body_event_def not_logged_in_def Let_def
      intro!: steady_rules split: option.split jsval.split)

lemma passed_body:
  "json_body req s = (Inr v, s1) \<Longrightarrow> body_dict v s2 = (Inr d, s3) \<Longrightarrow> body_event d s4 = (Inr event, s5) \<Longrightarrow>
     asks_with req event"
  by (auto simp: json_body_def body_dict_def body_event_def asks_with_def py_rules api_error_run
      split: option.splits jsval.splits)

lemmas body_guards =
  guard_cases [OF _ steady_guards(1)] guard_cases [OF _ steady_guards(2)]
  guard_cases [OF _ steady_guards(3)] guard_cases [OF _ steady_guards(4)]

lemma authenticate_endpoint_cases:
  assumes "authenticate_endpoint svc req s = (r, s')"
  shows "s' = s \<and> (\<exists>e. r = Inl e) \<or>
    (\<exists>event. allow_nostr_login (get_settings svc) \<and> asks_with req event \<and>
      py_bind (consume_claimed svc event) (finish_sign_in svc req event) s = (r, s'))"
  using assms unfolding authenticate_endpoint_def
  by (auto simp: api_error_run split: if_splits elim!: body_guards intro: passed_body)

text \<open>
  C5. A session is asked for only for a signed challenge: the request asks with an event, its
  challenge was open and is for signing in, the event attests the challenge for a public key
  that is linked and enabled, and the session is for the account of this key and the domain of the
  challenge; then the answer carries the helper's cookie or is an error.  In every other case the
  answer is an error and neither the helper nor the identities have been touched.
\<close>

theorem session_needs_signed_challenge:
  "case authenticate_endpoint svc req s of (r, s') \<Rightarrow>
     mint_requests s' = mint_requests s \<and> mappings s' = mappings s \<and> (\<exists>e. r = Inl e) \<or>
     (\<exists>event c x. allow_nostr_login (get_settings svc) \<and> asks_with req event \<and>
        fst (consume (extract_tag_from_raw_event event ''challenge'') (clock svc 0) (challenges s)) = Inr (Some c) \<and>
        sign_in_for svc (Some c) (py_dumps (Obj event)) (clock_skew_seconds (get_settings svc)) (mappings s) c x \<and>
        mint_requests s' = mint_requests s @ [(ynh_username x, domain c)] \<and>
        session_answer req (mint_result svc (ynh_username x) (domain c)) r)"
proof (cases "authenticate_endpoint svc req s")
  case (Pair r s')
  note e = authenticate_endpoint_cases [OF Pair]
  show ?thesis
  proof (cases "s' = s \<and> (\<exists>e. r = Inl e)")
    case False
    then obtain event where a: "allow_nostr_login (get_settings svc)" "asks_with req event"
      and b: "py_bind (consume_claimed svc event) (finish_sign_in svc req event) s = (r, s')" using e by blast
    obtain rc s1 where c: "consume_claimed svc event s = (rc, s1)" by (cases "consume_claimed svc event s")
    then have s1: "s1 = s\<lparr>challenges := challenges s1\<rparr>" and ch: "rc = Inr None \<and> s1 = s \<or>
      consume (extract_tag_from_raw_event event ''challenge'') (clock svc 0) (challenges s) = (rc, challenges s1)"
      using consume_claimed_cases by blast+
    then have same: "mint_requests s1 = mint_requests s" "mappings s1 = mappings s"
      by (metis server.select_convs(2,3) server.surjective server.update_convs(1))+
    show ?thesis
    proof (cases rc)
      case (Inl e)
      then show ?thesis using b c same Pair by (auto simp: py_bind_run)
    next
      case (Inr oc)
      then have f: "finish_sign_in svc req event oc s1 = (r, s')" using b c by (simp add: py_bind_run)
      show ?thesis
      proof (cases "mint_requests s' = mint_requests s1 \<and> mappings s' = mappings s1 \<and> (\<exists>m. r = Inl (Api_error 401 m))")
        case True
        then show ?thesis using same Pair by auto
      next
        case False
        then obtain d x where d: "session_asked svc oc (py_dumps (Obj event)) (clock_skew_seconds (get_settings svc)) s1 s' d x"
          and r: "session_answer req (mint_result svc (ynh_username x) (domain d)) r"
          using finish_sign_in_cases [OF f] by blast
        from d have "oc = Some d" by (simp add: session_asked_def sign_in_for_def)
        with ch Inr have "fst (consume (extract_tag_from_raw_event event ''challenge'') (clock svc 0) (challenges s)) = Inr (Some d)"
          by auto
        then show ?thesis using a d r same \<open>oc = Some d\<close> Pair by (fastforce simp: session_asked_def)
      qed
    qed
  qed (use Pair in auto)
qed

subsection \<open>How many sessions\<close>

text \<open>The sign-in challenges that are still open, and what one request may add to the sessions.\<close>

definition open_login :: "challenge_row \<Rightarrow> bool" where
  "open_login r \<longleftrightarrow> consumed_at r = None \<and> action (row_challenge r) = LOGIN_ACTION"

definition open_logins :: "challenge_store \<Rightarrow> nat" where
  "open_logins st = (case backend st of Sqlite rows \<Rightarrow> length (filter open_login rows) | In_memory p \<Rightarrow> 0)"

definition on_disk :: "challenge_store \<Rightarrow> bool" where
  "on_disk st \<longleftrightarrow> (\<exists>rows. backend st = Sqlite rows)"

lemma length_filter_strict:
  "find P xs = Some x \<Longrightarrow> Q x \<Longrightarrow> (\<And>y. P y \<Longrightarrow> \<not> Q (f y)) \<Longrightarrow>
     Suc (length (filter Q (map (\<lambda>y. if P y then f y else y) xs))) \<le> length (filter Q xs)"
proof (induction xs)
  case (Cons a xs)
  have le: "length (filter Q (map (\<lambda>y. if P y then f y else y) ys)) \<le> length (filter Q ys)" for ys
    using Cons.prems(3) by (induction ys) auto
  show ?case using Cons le [of xs] by (auto split: if_splits)
qed simp

lemma length_filter_le_map:
  "(\<And>y. P y \<Longrightarrow> \<not> Q (f y)) \<Longrightarrow> length (filter Q (map (\<lambda>y. if P y then f y else y) ys)) \<le> length (filter Q ys)"
  by (induction ys) auto

lemma sqlite_consume_logins:
  assumes "sqlite_consume n now rows = (r, rows')"
  shows "length (filter open_login rows') + (if \<exists>c. r = Some c \<and> action c = LOGIN_ACTION then 1 else 0) \<le>
     length (filter open_login rows)"
proof (cases "find (open_row n) rows")
  case None
  then show ?thesis using assms by (auto simp: sqlite_consume_def)
next
  case (Some x)
  let ?f = "\<lambda>r. r\<lparr>consumed_at := Some now\<rparr>"
  have x: "open_row n x" using Some by (auto simp: find_Some_iff)
  have closed: "\<not> open_login (?f y)" for y by (simp add: open_login_def)
  have r: "rows' = map (\<lambda>y. if open_row n y then ?f y else y) rows"
    and c: "\<And>d. r = Some d \<Longrightarrow> row_challenge x = d"
    using assms Some by (auto simp: sqlite_consume_def Let_def split: if_splits)
  show ?thesis
  proof (cases "open_login x")
    case True
    then show ?thesis
      using length_filter_strict [of "open_row n" rows x open_login ?f, OF Some True closed] by (simp add: r)
  next
    case False
    then have "\<not> (\<exists>d. r = Some d \<and> action d = LOGIN_ACTION)"
      using c x by (auto simp: open_login_def open_row_def)
    then show ?thesis
      using length_filter_le_map [of "open_row n" open_login ?f rows, OF closed] by (auto simp: r)
  qed
qed

lemma consume_logins:
  assumes "consume v now st = (r, st')" and "on_disk st"
  shows "on_disk st' \<and>
     open_logins st' + (if \<exists>c. r = Inr (Some c) \<and> action c = LOGIN_ACTION then 1 else 0) \<le> open_logins st"
  using assms
  by (auto simp: consume_def py_rules on_disk_def open_logins_def dest!: sqlite_consume_logins
      split: sum.splits option.splits prod.splits if_splits)

lemma open_login_new [simp]: "open_login \<lparr>row_challenge = c, consumed_at = None\<rparr> \<longleftrightarrow> action c = LOGIN_ACTION"
  by (simp add: open_login_def)

lemma issue_logins:
  assumes "issue dm act tk t0 t1 st = (r, st')" and "on_disk st"
  shows "on_disk st' \<and> open_logins st' \<le> open_logins st + (if act = LOGIN_ACTION then 1 else 0)"
proof -
  have "length (filter open_login (filter Q rows)) \<le> length (filter open_login rows)" for Q rows
    by (induction rows) auto
  then show ?thesis using assms
    by (auto simp: issue_def py_rules on_disk_def open_logins_def sqlite_issue_Inr Let_def
        new_challenge_def simp del: filter_filter split: sum.splits)
qed

text \<open>Sessions asked for and sign-in challenges still open.\<close>

definition tally :: "server \<Rightarrow> nat" where
  "tally s = length (mint_requests s) + open_logins (challenges s)"

definition frugal :: "nat \<Rightarrow> (server, 'a) py \<Rightarrow> bool" where
  "frugal n m \<longleftrightarrow> (\<forall>s. on_disk (challenges s) \<longrightarrow>
     on_disk (challenges (snd (m s))) \<and> tally (snd (m s)) \<le> tally s + n)"

definition sessions_part :: "server \<Rightarrow> challenge_store \<times> (string \<times> string) list" where
  "sessions_part s = (challenges s, mint_requests s)"

lemma frugal_leaves: "leaves sessions_part m \<Longrightarrow> frugal n m"
  unfolding frugal_def leaves_def sessions_part_def tally_def by (metis le_add1 prod.inject)

lemma leaves_on_mappings [leaves_rules]: "leaves sessions_part (on_mappings m)"
  by (simp add: leaves_def on_mappings_run sessions_part_def split: prod.split)

lemma leaves_log_line [leaves_rules]: "leaves sessions_part (log_line lv t)"
  by (simp add: leaves_def log_line_run sessions_part_def)

lemma steady_users [steady_rules]:
  "steady (authenticated_username svc req)" "steady (authenticated_admin svc req)"
  by (auto simp: authenticated_username_def authenticated_admin_def unauthorized_def intro!: steady_rules split: exc.splits)

lemma steady_metadata [steady_rules]: "steady (identity_metadata d)"
  by (auto simp: identity_metadata_def Let_def intro!: steady_rules split: jsval.split)

lemma steady_bodies [steady_rules]:
  "steady (admin_body svc req)" "steady (admin_target d)" "steady (admin_pubkey svc d)"
  "steady (label_item v)" "steady (patch_label v)" "steady (path_id req)"
  "steady (positive_id i)" "steady (sql_id i)" "steady (link_request_of svc req)" "steady (current_user svc ck h)"
  by (auto simp: admin_body_def admin_target_def admin_pubkey_def label_item_def patch_label_def path_id_def
    positive_id_def sql_id_def link_request_of_def current_user_def Let_def intro!: steady_rules
    split: jsval.split option.split exc.splits)

lemmas leaves_guards [leaves_rules] = steady_guards [THEN leaves_steady] steady_users [THEN leaves_steady]
  steady_metadata [THEN leaves_steady] steady_bodies [THEN leaves_steady] steady_api_error [THEN leaves_steady]

lemma leaves_rows [leaves_rules]:
  "leaves sessions_part (revoke_row svc req u i t)" "leaves sessions_part (relabel_row svc req u i lab t)"
  by (auto simp: revoke_row_def relabel_row_def intro!: leaves_rules)

lemma leaves_linking_refused: "linking_refused what req e = Some m \<Longrightarrow> leaves sessions_part m"
  by (auto simp: linking_refused_def intro!: leaves_rules split: exc.splits)

lemma leaves_linking [leaves_rules]:
  "leaves sessions_part (confirm_and_link svc ck h ch j skew replace st lab)"
  "leaves sessions_part (confirm_and_add svc ck h ch j skew st lab)"
  "leaves sessions_part (confirm_and_unlink svc ck h)"
  by (auto simp: confirm_and_link_def confirm_and_add_def confirm_and_unlink_def record_link_def
      intro!: leaves_rules split: option.split exc.splits)

text \<open>Every endpoint but the three about challenges of sign-in leaves the sessions alone; the two
  that link only consume a challenge.\<close>

lemma leaves_endpoints:
  "leaves sessions_part (unlink_endpoint svc req)" "leaves sessions_part (identity_endpoint svc req)"
  "leaves sessions_part (identities_endpoint svc req)" "leaves sessions_part (update_identity_endpoint svc req)"
  "leaves sessions_part (revoke_identity_endpoint svc req)" "leaves sessions_part (policy_endpoint svc req)"
  "leaves sessions_part (admin_session_endpoint svc req)" "leaves sessions_part (admin_list_identities_endpoint svc req)"
  "leaves sessions_part (admin_add_identity_endpoint svc req)" "leaves sessions_part (admin_revoke_identity_endpoint svc req)"
  "leaves sessions_part (admin_rename_identity_endpoint svc req)" "leaves sessions_part (admin_unlink_endpoint svc req)"
  "leaves sessions_part (nostr_json_endpoint svc req)"
  by (auto simp: unlink_endpoint_def identity_endpoint_def identities_endpoint_def update_identity_endpoint_def
      revoke_identity_endpoint_def policy_endpoint_def admin_session_endpoint_def admin_list_identities_endpoint_def
      admin_add_identity_endpoint_def admin_revoke_identity_endpoint_def admin_rename_identity_endpoint_def
      admin_unlink_endpoint_def nostr_json_endpoint_def Let_def intro!: leaves_rules intro: leaves_linking_refused
      split: option.split exc.splits jsval.split)

lemma frugal_mono: "frugal n m \<Longrightarrow> n \<le> k \<Longrightarrow> frugal k m"
  unfolding frugal_def by (meson add_left_mono order_trans)

lemma frugal_guard: "steady m \<Longrightarrow> (\<And>x. frugal n (f x)) \<Longrightarrow> frugal n (py_bind m f)"
  by (auto simp: frugal_def py_rules dest: steadyD split: prod.split sum.split)

lemma frugal_issue: "frugal (if act = LOGIN_ACTION then 1 else 0) (issue_for_host svc req act)"
proof -
  have "frugal (if act = LOGIN_ACTION then 1 else 0)
    (py_bind (on_challenges (issue (host_header req) act (token_urlsafe svc) (clock svc 0) (clock svc 1)))
        (\<lambda>c. py_return (challenge_json c)))"
    by (auto simp: frugal_def py_rules tally_def dest!: issue_logins split: prod.split sum.split)
  then show ?thesis
    by (auto simp: issue_for_host_def intro: frugal_leaves leaves_rules)
qed

lemma frugal_challenges:
  "frugal 1 (challenge_endpoint svc req)" "frugal 0 (link_challenge_endpoint svc req)"
proof -
  show "frugal 1 (challenge_endpoint svc req)"
    using frugal_mono [OF frugal_issue, of _ 1]
    by (auto simp: challenge_endpoint_def Let_def intro: frugal_leaves leaves_rules)
  have "LINK_ACTION \<noteq> LOGIN_ACTION" by (simp add: LINK_ACTION_def LOGIN_ACTION_def)
  then show "frugal 0 (link_challenge_endpoint svc req)"
    using frugal_issue [of LINK_ACTION svc req]
    by (auto simp: link_challenge_endpoint_def intro: frugal_leaves leaves_rules)
qed

text \<open>A request that consumes a challenge: what it may do with it.\<close>

lemma frugal_consume:
  assumes "\<And>s r s'. f None s = (r, s') \<Longrightarrow> on_disk (challenges s) \<Longrightarrow> on_disk (challenges s') \<and> tally s' \<le> tally s"
    and "\<And>c s r s'. f (Some c) s = (r, s') \<Longrightarrow> on_disk (challenges s) \<Longrightarrow>
       on_disk (challenges s') \<and> tally s' \<le> tally s + (if action c = LOGIN_ACTION then 1 else 0)"
  shows "frugal 0 (py_bind (consume_claimed svc event) f)"
  unfolding frugal_def
proof (intro allI impI)
  fix s :: server assume d: "on_disk (challenges s)"
  obtain rc s1 where c: "consume_claimed svc event s = (rc, s1)" by (cases "consume_claimed svc event s")
  have s1: "mint_requests s1 = mint_requests s"
    and ch: "rc = Inr None \<and> s1 = s \<or>
      consume (extract_tag_from_raw_event event ''challenge'') (clock svc 0) (challenges s) = (rc, challenges s1)"
    using consume_claimed_cases [OF c] by (auto) (metis server.select_convs(3) server.surjective server.update_convs(1))
  have k: "on_disk (challenges s1) \<and> tally s1 + (if \<exists>c. rc = Inr (Some c) \<and> action c = LOGIN_ACTION then 1 else 0) \<le> tally s"
    using ch consume_logins [OF _ d] d s1 by (fastforce simp: tally_def)
  show "on_disk (challenges (snd (py_bind (consume_claimed svc event) f s))) \<and>
      tally (snd (py_bind (consume_claimed svc event) f s)) \<le> tally s + 0"
  proof (cases rc)
    case (Inl e)
    then show ?thesis using c k by (simp add: py_bind_run)
  next
    case (Inr oc)
    obtain r s' where f: "f oc s1 = (r, s')" by (cases "f oc s1")
    show ?thesis
    proof (cases oc)
      case None
      then show ?thesis using assms(1) [of s1 r s'] f c k Inr by (simp add: py_bind_run)
    next
      case (Some d)
      then show ?thesis using assms(2) [of d s1 r s'] f c k Inr by (auto simp: py_bind_run split: if_splits)
    qed
  qed
qed

lemma frugal_finish:
  assumes "finish_sign_in svc req event oc s = (r, s')"
  shows "challenges s' = challenges s \<and>
    tally s' \<le> tally s + (case oc of None \<Rightarrow> 0 | Some c \<Rightarrow> if action c = LOGIN_ACTION then 1 else 0)"
  using finish_sign_in_cases [OF assms]
  by (auto simp: session_asked_def sign_in_for_def tally_def split: option.split)

lemma frugal_authenticate: "frugal 0 (authenticate_endpoint svc req)"
proof -
  have f: "frugal 0 (py_bind (consume_claimed svc event) (finish_sign_in svc req event))" for event
    by (rule frugal_consume) (auto dest: frugal_finish)
  show ?thesis
    unfolding frugal_def
  proof (intro allI impI)
    fix s :: server assume d: "on_disk (challenges s)"
    obtain r s' where e: "authenticate_endpoint svc req s = (r, s')" by (cases "authenticate_endpoint svc req s")
    from authenticate_endpoint_cases [OF e] show "on_disk (challenges (snd (authenticate_endpoint svc req s))) \<and>
        tally (snd (authenticate_endpoint svc req s)) \<le> tally s + 0"
    proof (elim disjE exE conjE)
      fix event assume "py_bind (consume_claimed svc event) (finish_sign_in svc req event) s = (r, s')"
      then show ?thesis using f [of event] d e unfolding frugal_def by (metis add_0_right snd_conv)
    qed (use d e in simp)
  qed
qed

lemma frugal_after_consume:
  assumes "\<And>oc. leaves sessions_part (f oc)"
  shows "frugal 0 (py_bind (consume_claimed svc event) f)"
proof -
  have "f oc s = (r, s') \<Longrightarrow> challenges s' = challenges s \<and> mint_requests s' = mint_requests s" for oc s r s'
    using leavesD [OF assms] by (fastforce simp: sessions_part_def)
  then show ?thesis by (intro frugal_consume) (force simp: tally_def)+
qed

lemma frugal_guard3:
  assumes "steady m" and "\<And>a b c. frugal n (f a b c)"
  shows "frugal n (py_bind m (\<lambda>(a, b, c). f a b c))"
  by (rule frugal_guard [OF assms(1)]) (auto intro: assms(2))

lemma leaves_refusable [leaves_rules]:
  "leaves sessions_part m \<Longrightarrow> leaves sessions_part (py_except m (linking_refused what req))"
  by (rule leaves_except) (auto intro: leaves_linking_refused)

lemma frugal_links: "frugal 0 (link_endpoint svc req)" "frugal 0 (add_identity_endpoint svc req)"
  unfolding link_endpoint_def add_identity_endpoint_def
  by (intro frugal_guard3 steady_rules frugal_after_consume leaves_bind leaves_refusable leaves_linking
      leaves_log_line leaves_basic)+

lemmas frugal_endpoints = leaves_endpoints [THEN frugal_leaves] frugal_challenges frugal_authenticate frugal_links

lemma frugal_all_routes:
  "list_all (\<lambda>(m, ps, f). \<forall>svc req. frugal (if m = ''GET'' \<and> ps = [Lit ''challenge''] then 1 else 0) (f svc req)) routes"
  by (simp only: routes_def list.pred_inject prod.case) (simp add: frugal_endpoints frugal_endpoints [unfolded One_nat_def])

lemma frugal_routes:
  "(m, ps, f) \<in> set routes \<Longrightarrow> frugal (if m = ''GET'' \<and> ps = [Lit ''challenge''] then 1 else 0) (f svc req)"
  using frugal_all_routes by (fastforce simp: list_all_iff)

subsection \<open>Histories of requests\<close>

type_synonym visit = "services \<times> string \<times> string list \<times> request"

fun serve :: "visit list \<Rightarrow> server \<Rightarrow> server" where
  "serve [] s = s"
| "serve ((svc, verb, path, req) # vs) s = serve vs (snd (dispatch svc verb path req s))"

definition asks_challenge :: "visit \<Rightarrow> bool" where
  "asks_challenge v \<longleftrightarrow> (case v of (svc, verb, path, req) \<Rightarrow> verb = ''GET'' \<and> path = [''challenge''])"

lemma match_challenge: "match_path [Lit ''challenge''] path i \<noteq> None \<longleftrightarrow> path = [''challenge'']"
proof -
  have "match_path [] bs j \<noteq> None \<longleftrightarrow> bs = []" for bs j by (cases bs) simp_all
  then show ?thesis by (cases path) simp_all
qed

text \<open>A visit runs one endpoint of the routes, or does nothing.\<close>

lemma dispatch_cases:
  obtains (none) "snd (dispatch svc verb path req s) = s"
  | (route) ps f i where "(verb, ps, f) \<in> set routes" and "match_path ps path [] = Some i"
      and "dispatch svc verb path req s =
        (case f svc (req\<lparr>path_identity_id := i\<rparr>) s of (r, s') \<Rightarrow> (answer_of r, s'))"
proof (cases "find (\<lambda>(m, ps, f). m = verb \<and> match_path ps path [] \<noteq> None) routes")
  case None
  then show ?thesis by (intro none) (simp add: dispatch_def)
next
  case (Some x)
  obtain m ps f where x: "x = (m, ps, f)" by (cases x)
  with Some have "(m, ps, f) \<in> set routes" "m = verb" "match_path ps path [] \<noteq> None"
    by (auto simp: find_Some_iff) (metis nth_mem)
  then show ?thesis using Some x by (intro route [of ps f]) (auto simp: dispatch_def)
qed

lemma frugal_dispatch:
  assumes "on_disk (challenges s)"
  shows "on_disk (challenges (snd (dispatch svc verb path req s))) \<and>
    tally (snd (dispatch svc verb path req s)) \<le> tally s + (if asks_challenge (svc, verb, path, req) then 1 else 0)"
proof (cases svc verb path req s rule: dispatch_cases)
  case none
  then show ?thesis using assms by simp
next
  case (route ps f i)
  have "verb = ''GET'' \<and> ps = [Lit ''challenge''] \<Longrightarrow> asks_challenge (svc, verb, path, req)"
    using route(2) match_challenge [of path "[]"] by (auto simp: asks_challenge_def)
  then have "frugal (if asks_challenge (svc, verb, path, req) then 1 else 0) (f svc (req\<lparr>path_identity_id := i\<rparr>))"
    by (intro frugal_mono [OF frugal_routes [OF route(1)]]) auto
  then show ?thesis using assms by (simp add: frugal_def route(3) split_beta)
qed

lemma frugal_serve:
  "on_disk (challenges s) \<Longrightarrow> tally (serve vs s) \<le> tally s + length (filter asks_challenge vs)"
proof (induction vs arbitrary: s)
  case (Cons v vs)
  obtain svc verb path req where v: "v = (svc, verb, path, req)" by (cases v)
  show ?case
    using frugal_dispatch [OF Cons.prems, of svc verb path req] Cons.IH by (fastforce simp: v)
qed simp

text \<open>
  C8. Replaying gains nothing: from an empty table of challenges, whatever requests are sent and
  whatever the outside answers, the helper is asked for at most as many sessions as sign-in
  challenges were requested.
\<close>

theorem sessions_bounded_by_challenges:
  "case create_app st [] db of Inl e \<Rightarrow> True
     | Inr s0 \<Rightarrow> length (mint_requests (serve vs s0)) \<le> length (filter asks_challenge vs)"
proof (cases "create_app st [] db")
  case (Inr s0)
  then have "on_disk (challenges s0)" "tally s0 = 0"
    by (auto simp: create_app_def ChallengeStore_def on_disk_def tally_def open_logins_def split: if_splits sum.splits)
  with frugal_serve [of s0 vs] Inr show ?thesis by (simp add: tally_def)
qed simp

end
