(* ===== verification/Server_Access.thy ===== *)
theory Server_Access
  imports Server_Laws
begin

text \<open>
  Who can change which keys: every change of the identities is authorised by the portal's
  session, and for a user's own key also by a signed challenge.
\<close>

subsection \<open>Authority\<close>

definition portal_says :: "services \<Rightarrow> request \<Rightarrow> AuthenticatedSession \<Rightarrow> bool" where
  "portal_says svc req session \<longleftrightarrow> present (header req ''cookie'') \<and> session_of svc req = Inr session"

text \<open>The request carries an event that attests, for this key, an open challenge for linking.\<close>

definition signed_link :: "services \<Rightarrow> request \<Rightarrow> challenge_store \<Rightarrow> string \<Rightarrow> bool" where
  "signed_link svc req st pk \<longleftrightarrow> allow_identity_linking (get_settings svc) \<and>
     (\<exists>event c. asks_with req event \<and> action c = LINK_ACTION \<and>
        fst (consume (extract_tag_from_raw_event event ''challenge'') (clock svc 0) st) = Inr (Some c) \<and>
        attests (sdk svc) (py_dumps (Obj event)) c (clock_skew_seconds (get_settings svc)) pk)"

definition may_give :: "services \<Rightarrow> request \<Rightarrow> challenge_store \<Rightarrow> string \<Rightarrow> string \<Rightarrow> string \<Rightarrow> bool" where
  "may_give svc req st u pk origin \<longleftrightarrow> (\<exists>session. portal_says svc req session \<and>
     (origin = ''admin'' \<and> is_admin session \<or>
      origin = ''self-service'' \<and> session_username session = u \<and> signed_link svc req st pk))"

definition may_change :: "services \<Rightarrow> request \<Rightarrow> string \<Rightarrow> bool" where
  "may_change svc req u \<longleftrightarrow> (\<exists>session. portal_says svc req session \<and> (is_admin session \<or> session_username session = u))"

fun authorised :: "services \<Rightarrow> request \<Rightarrow> challenge_store \<Rightarrow> map_op \<Rightarrow> bool" where
  "authorised svc req st (Link u pk ty lab origin t) \<longleftrightarrow> may_give svc req st u pk origin"
| "authorised svc req st (Add_identity u pk ty lab origin t) \<longleftrightarrow> may_give svc req st u pk origin"
| "authorised svc req st (Unlink u) \<longleftrightarrow> may_change svc req u"
| "authorised svc req st (Revoke i u t) \<longleftrightarrow> may_change svc req u"
| "authorised svc req st (Relabel i u lab) \<longleftrightarrow> may_change svc req u"
| "authorised svc req st (Touch i t) \<longleftrightarrow> allow_nostr_login (get_settings svc)"
| "authorised svc req st (Touch_user u t) \<longleftrightarrow> False"

text \<open>With these challenges before the request, the code leaves the identities, or makes one authorised change.\<close>

definition permitted :: "services \<Rightarrow> request \<Rightarrow> challenge_store \<Rightarrow> server \<Rightarrow> server \<Rightarrow> bool" where
  "permitted svc req st s s' \<longleftrightarrow> mappings s' = mappings s \<or>
     (\<exists>op1. authorised svc req st op1 \<and> mappings s' = map_step op1 (mappings s))"

definition permits :: "services \<Rightarrow> request \<Rightarrow> challenge_store \<Rightarrow> (server, 'a) py \<Rightarrow> server \<Rightarrow> bool" where
  "permits svc req st m s \<longleftrightarrow> permitted svc req st s (snd (m s))"

lemma permits_leaves: "leaves mappings m \<Longrightarrow> permits svc req st m s"
  by (simp add: permits_def permitted_def leaves_def)

lemma permits_api_error: "permits svc req st (api_error code m) s"
  by (intro permits_leaves leaves_rules)

lemma permits_guard:
  "steady m \<Longrightarrow> (\<And>x. m s = (Inr x, s) \<Longrightarrow> permits svc req st (f x) s) \<Longrightarrow> permits svc req st (py_bind m f) s"
  by (auto simp: permits_def permitted_def py_rules dest: steadyD split: prod.split sum.split)

lemma permits_then:
  "(\<And>x. leaves mappings (f x)) \<Longrightarrow> permits svc req st m s \<Longrightarrow> permits svc req st (py_bind m f) s"
  by (auto simp: permits_def permitted_def py_rules leaves_def split: prod.splits sum.splits)

lemma permits_except:
  "(\<And>e m'. h e = Some m' \<Longrightarrow> leaves mappings m') \<Longrightarrow> permits svc req st m s \<Longrightarrow> permits svc req st (py_except m h) s"
  by (auto simp: permits_def permitted_def py_rules leaves_def split: prod.splits sum.splits option.splits)

lemma permits_if: "(b \<Longrightarrow> permits svc req st m s) \<Longrightarrow> (\<not> b \<Longrightarrow> permits svc req st n s) \<Longrightarrow> permits svc req st (if b then m else n) s"
  by simp

lemma permits_on_mappings:
  "authorised svc req st op1 \<Longrightarrow> snd (m (mappings s)) = map_step op1 (mappings s) \<Longrightarrow>
     permits svc req st (on_mappings m) s"
  by (auto simp: permits_def permitted_def on_mappings_run split: prod.split)

lemma leaves_mappings [leaves_rules]:
  "leaves mappings (log_line lv t)" "leaves mappings (on_challenges m)"
  by (auto simp: leaves_def log_line_run on_challenges_run split: prod.split)

lemma leaves_mappings_refused:
  "linking_refused what req e = Some m \<Longrightarrow> leaves mappings m"
  by (auto simp: linking_refused_def intro!: leaves_rules split: exc.splits)

lemma leaves_readers:
  "leaves mappings (challenge_endpoint svc req)" "leaves mappings (link_challenge_endpoint svc req)"
  "leaves mappings (identity_endpoint svc req)" "leaves mappings (identities_endpoint svc req)"
  "leaves mappings (policy_endpoint svc req)" "leaves mappings (nostr_json_endpoint svc req)"
  "leaves mappings (admin_session_endpoint svc req)" "leaves mappings (admin_list_identities_endpoint svc req)"
  by (auto simp: challenge_endpoint_def link_challenge_endpoint_def issue_for_host_def identity_endpoint_def
      identities_endpoint_def policy_endpoint_def nostr_json_endpoint_def admin_session_endpoint_def
      admin_list_identities_endpoint_def Let_def intro!: leaves_rules split: option.split exc.splits)

subsection \<open>Who is asking\<close>

lemma user_session:
  "authenticated_username svc req s = (Inr u, s') \<Longrightarrow> may_change svc req u"
  by (auto simp: authenticated_username_def unauthorized_def not_logged_in_def py_rules api_error_run
      may_change_def portal_says_def split: if_splits sum.splits exc.splits)

lemma admin_session:
  "authenticated_admin svc req s = (Inr u, s') \<Longrightarrow> \<exists>session. portal_says svc req session \<and> is_admin session"
  by (auto simp: authenticated_admin_def unauthorized_def not_logged_in_def py_rules api_error_run
      portal_says_def split: if_splits sum.splits exc.splits)

lemma admin_asks:
  assumes "admin_body svc req s = (Inr d, s')"
  shows "may_change svc req u" and "may_give svc req st u pk ''admin''"
proof -
  from assms obtain v where "authenticated_admin svc req s = (Inr v, s)"
    unfolding admin_body_def by (auto elim!: guard_cases [OF _ steady_guards(1)] guard_cases [OF _ steady_users(2)])
  then obtain session where "portal_says svc req session" "is_admin session" using admin_session by blast
  then show "may_change svc req u" "may_give svc req st u pk ''admin''"
    by (auto simp: may_change_def may_give_def)
qed

lemma current_user_session:
  assumes "current_user svc (the (header req ''cookie'')) (host_header req) s = (Inr u, s')"
    and "present (header req ''cookie'')"
  shows "\<exists>session. portal_says svc req session \<and> session_username session = u"
  using assms
  by (auto simp: current_user_def py_rules get_authenticated_username_def portal_says_def session_of_def
      split: sum.splits exc.splits)

subsection \<open>Changing rows\<close>

lemma permits_rows:
  assumes "may_change svc req u"
  shows "permits svc req st (revoke_row svc req u i t) s" "permits svc req st (relabel_row svc req u i lab t) s"
proof -
  have "permits svc req st (on_mappings (revoke_identity i u (clock svc 0))) s"
    by (rule permits_on_mappings [where ?op1.0 = "Revoke i u (clock svc 0)"]) (simp_all add: assms)
  then show "permits svc req st (revoke_row svc req u i t) s"
    unfolding revoke_row_def by (intro permits_guard permits_then leaves_rules) (auto intro: steady_rules)
  have "permits svc req st (on_mappings (update_identity_label i u lab)) s"
    by (rule permits_on_mappings [where ?op1.0 = "Relabel i u lab"]) (simp_all add: assms)
  then show "permits svc req st (relabel_row svc req u i lab t) s"
    unfolding relabel_row_def by (intro permits_guard permits_then leaves_rules) (auto intro: steady_rules)
qed

lemma permits_user_rows:
  "permits svc req st (revoke_identity_endpoint svc req) s" "permits svc req st (update_identity_endpoint svc req) s"
  unfolding revoke_identity_endpoint_def update_identity_endpoint_def
  by (intro permits_guard permits_rows steady_rules; erule user_session)+

lemma permits_unlink: "may_change svc req u \<Longrightarrow> permits svc req st (on_mappings (unlink u)) s"
  by (rule permits_on_mappings [where ?op1.0 = "Unlink u"]) simp_all

lemma permits_unlink_endpoint: "permits svc req st (unlink_endpoint svc req) s"
proof (cases "present (header req ''cookie'')")
  case True
  have "permits svc req st (confirm_and_unlink svc (the (header req ''cookie'')) (host_header req)) s"
    unfolding confirm_and_unlink_def
  proof (rule permits_guard [OF steady_bodies(10)])
    fix u assume "current_user svc (the (header req ''cookie'')) (host_header req) s = (Inr u, s)"
    then have "may_change svc req u" using current_user_session [OF _ True] unfolding may_change_def by blast
    then show "permits svc req st (py_bind (on_mappings (unlink u)) (\<lambda>_. py_return u)) s"
      by (intro permits_then permits_unlink leaves_rules)
  qed
  then show ?thesis
    using True unfolding unlink_endpoint_def
    by simp (intro permits_then permits_except leaves_rules; blast intro: leaves_mappings_refused)
next
  case False
  then show ?thesis
    by (auto simp: unlink_endpoint_def intro!: permits_leaves leaves_rules)
qed

text \<open>The administrator's endpoints.\<close>

lemma permits_admin_rows:
  "permits svc req st (admin_revoke_identity_endpoint svc req) s"
  "permits svc req st (admin_unlink_endpoint svc req) s"
  unfolding admin_revoke_identity_endpoint_def admin_unlink_endpoint_def
   by (intro permits_guard permits_rows permits_then permits_unlink steady_rules leaves_rules; erule admin_asks)+

lemma permits_admin_rename: "permits svc req st (admin_rename_identity_endpoint svc req) s"
  unfolding admin_rename_identity_endpoint_def
proof (intro permits_guard steady_rules)
  fix d u assume a: "admin_body svc req s = (Inr d, s)"
  show "permits svc req st (case dict_get d ''label'' Null of
       Str t \<Rightarrow>
        (if py_strip t = [] \<or> code_points t > 120
         then api_error 400 ''label must be a non-empty string of at most 120 characters''
         else py_bind (path_id req) (\<lambda>i. relabel_row svc req u i (Some (py_strip t)) ''admin renamed identity''))
     | _ \<Rightarrow> api_error 400 ''label must be a non-empty string of at most 120 characters'') s"
    by (auto split: jsval.split intro!: permits_api_error permits_guard [OF steady_bodies(6)] permits_rows [OF admin_asks(1) [OF a]])
qed

lemma permits_admin_add: "permits svc req st (admin_add_identity_endpoint svc req) s"
proof -
  have step: "permits svc req st (if replace
         then py_bind (on_mappings (link u pk ty lab ''admin'' t)) (\<lambda>_. py_gets (\<lambda>s. get_by_pubkey pk (mappings s)))
         else py_bind (on_mappings (add_identity u pk ty lab ''admin'' t)) (\<lambda>x. py_return (Some x))) s"
    if "may_give svc req st u pk ''admin''" for replace u pk ty lab t
  proof -
    have "permits svc req st (on_mappings (link u pk ty lab ''admin'' t)) s"
      by (rule permits_on_mappings [where ?op1.0 = "Link u pk ty lab ''admin'' t"]) (use that in simp_all)
    moreover have "permits svc req st (on_mappings (add_identity u pk ty lab ''admin'' t)) s"
      by (rule permits_on_mappings [where ?op1.0 = "Add_identity u pk ty lab ''admin'' t"]) (use that in simp_all)
    ultimately show ?thesis by (auto intro!: permits_then leaves_rules)
  qed
  have refused: "(case e of PubkeyAlreadyLinked m \<Rightarrow> Some (api_error 409 m) | _ \<Rightarrow> None) = Some m' \<Longrightarrow> leaves mappings m'"
    for e m'
    by (auto intro!: leaves_rules split: exc.splits)
  show ?thesis
    unfolding admin_add_identity_endpoint_def
  proof (intro permits_guard steady_rules)
    fix d u pk and x :: "string \<times> string option"
    assume a: "admin_body svc req s = (Inr d, s)"
    obtain ty lab where x: "x = (ty, lab)" by (cases x)
    show "permits svc req st (case x of (st, lab) \<Rightarrow>
       py_bind (py_except
        (if py_truthy (dict_get d ''replace'' (Bool False))
         then py_bind (on_mappings (link u pk st lab ''admin'' (clock svc 0))) (\<lambda>_.
              py_gets (\<lambda>s. get_by_pubkey pk (mappings s)))
         else py_bind (on_mappings (add_identity u pk st lab ''admin'' (clock svc 0))) (\<lambda>x.
              py_return (Some x)))
        (\<lambda>e. case e of PubkeyAlreadyLinked m \<Rightarrow> Some (api_error 409 m) | _ \<Rightarrow> None)) (\<lambda>found.
     py_bind (log_line ''INFO'' (''admin added identity ('' @ u @ '') from '' @ client_ip req)) (\<lambda>_.
     py_bind (py_lift (found_json svc found)) (\<lambda>x.
     py_return (JSONResponse [(''ok'', Bool True), (''username'', Str u), (''identity'', x)]))))) s"
      unfolding x prod.case
      by (intro permits_then permits_except step admin_asks(2) [OF a] leaves_rules) (rule refused)
  qed
qed

subsection \<open>Linking\<close>

lemma consume_keeps_mappings: "consume_claimed svc event s = (r, s') \<Longrightarrow> mappings s' = mappings s"
  by (rule leavesD [where part = mappings and m = "consume_claimed svc event"]) (auto simp: consume_claimed_def Let_def intro!: leaves_rules)

lemma link_request_passes:
  assumes "link_request_of svc req s = (Inr (event, ty, lab), s')"
  shows "allow_identity_linking (get_settings svc)" "asks_with req event" "present (header req ''cookie'')"
  using assms unfolding link_request_of_def not_logged_in_def
  by (auto simp: api_error_run py_run split: if_splits elim!: body_guards guard_cases [OF _ steady_metadata] intro: passed_body)

lemma permits_record:
  assumes "may_give svc req st u pk ''self-service''"
  shows "permits svc req st (record_link svc replace u pk ty lab) s"
proof -
  have "permits svc req st (on_mappings (link u pk ty lab ''self-service'' t)) s" for t
    by (rule permits_on_mappings [where ?op1.0 = "Link u pk ty lab ''self-service'' t"]) (use assms in simp_all)
  moreover have "permits svc req st (on_mappings (add_identity u pk ty lab ''self-service'' t)) s" for t
    by (rule permits_on_mappings [where ?op1.0 = "Add_identity u pk ty lab ''self-service'' t"]) (use assms in simp_all)
  ultimately show ?thesis
    unfolding record_link_def
    by (intro permits_except permits_if permits_then leaves_rules) (auto intro!: leaves_rules split: exc.splits)
qed

lemma permits_confirm:
  assumes cookie: "present (header req ''cookie'')"
    and signed_by: "\<And>c pk. oc = Some c \<Longrightarrow> action c = LINK_ACTION \<Longrightarrow> attests (sdk svc) j c skew pk \<Longrightarrow> signed_link svc req st pk"
  shows "permits svc req st (confirm_and_link svc (the (header req ''cookie'')) (host_header req) oc j skew replace ty lab) s"
proof (cases "\<exists>c. oc = Some c \<and> action c = LINK_ACTION")
  case False
  then show ?thesis
    by (auto simp: confirm_and_link_def intro!: permits_leaves leaves_rules split: option.split)
next
  case True
  then obtain c where c: "oc = Some c" "action c = LINK_ACTION" by blast
  have give: "permits svc req st (record_link svc replace u pk ty lab) s"
    if u: "current_user svc (the (header req ''cookie'')) (host_header req) s = (Inr u, s)"
      and v: "verify_for (sdk svc) j c skew = Inr pk" for u pk
  proof (rule permits_record)
    have "signed_link svc req st pk" using signed_by c v by (simp add: verify_attests)
    then show "may_give svc req st u pk ''self-service''"
      using current_user_session [OF u cookie] unfolding may_give_def by blast
  qed
  let ?verify = "py_except (py_lift (verify_for (sdk svc) j c skew))
      (\<lambda>e. case e of InvalidEvent m \<Rightarrow> Some (py_raise (LinkingError m)) | _ \<Rightarrow> None)"
  have steady: "steady ?verify" by (auto intro!: steady_rules split: exc.splits)
  have passes: "?verify s = (Inr pk, s) \<Longrightarrow> verify_for (sdk svc) j c skew = Inr pk" for pk
    by (auto simp: py_rules split: sum.splits exc.splits)
  have "permits svc req st (py_bind (current_user svc (the (header req ''cookie'')) (host_header req)) (\<lambda>u.
      py_bind ?verify (\<lambda>pk. py_bind (record_link svc replace u pk ty lab) (\<lambda>_. py_return u)))) s"
    by (intro permits_guard [OF steady_bodies(10)] permits_guard [OF steady] permits_then give passes leaves_basic)
  then show ?thesis unfolding confirm_and_link_def by (simp add: c)
qed

text \<open>After the challenge was consumed.\<close>

lemma permits_after_consume:
  assumes "\<And>oc s1. (oc = None \<or> fst (consume (extract_tag_from_raw_event event ''challenge'') (clock svc 0) (challenges s)) = Inr oc)
      \<Longrightarrow> permits svc req (challenges s) (f oc) s1"
  shows "permits svc req (challenges s) (py_bind (consume_claimed svc event) f) s"
proof -
  obtain rc s1 where c: "consume_claimed svc event s = (rc, s1)" by (cases "consume_claimed svc event s")
  have m: "mappings s1 = mappings s" by (rule consume_keeps_mappings [OF c])
  show ?thesis
  proof (cases rc)
    case (Inr oc)
    then have "permits svc req (challenges s) (f oc) s1"
      using consume_claimed_cases [OF c] by (intro assms) auto
    then show ?thesis using c m Inr by (simp add: permits_def permitted_def py_bind_run)
  qed (use c m in \<open>simp add: permits_def permitted_def py_bind_run\<close>)
qed

lemma signed_link_of:
  assumes "link_request_of svc req s = (Inr (event, ty, lab), s)"
    and "oc = None \<or> fst (consume (extract_tag_from_raw_event event ''challenge'') (clock svc 0) st) = Inr oc"
    and "oc = Some c" and "action c = LINK_ACTION"
    and "attests (sdk svc) (py_dumps (Obj event)) c (clock_skew_seconds (get_settings svc)) pk"
  shows "signed_link svc req st pk"
  using assms link_request_passes [OF assms(1)] unfolding signed_link_def by auto

lemma permits_link_endpoint: "permits svc req (challenges s) (link_endpoint svc req) s"
  unfolding link_endpoint_def
proof (rule permits_guard [OF steady_bodies(9)])
  fix x assume a: "link_request_of svc req s = (Inr x, s)"
  obtain event ty lab where x: "x = (event, ty, lab)" by (cases x)
  note b = a [unfolded x]
  show "permits svc req (challenges s) (case x of (event, st, lab) \<Rightarrow>
     py_bind (consume_claimed svc event) (\<lambda>ch.
     py_bind (py_except (confirm_and_link svc (the (header req ''cookie'')) (host_header req) ch
         (py_dumps (Obj event)) (clock_skew_seconds (get_settings svc)) True st lab)
       (linking_refused ''link'' req)) (\<lambda>username.
     py_bind (log_line ''INFO'' (''identity linked ('' @ username @ '') from '' @ client_ip req)) (\<lambda>_.
     py_return (JSONResponse [(''ok'', Bool True), (''username'', Str username)]))))) s"
    unfolding x prod.case
    by (intro permits_after_consume permits_then permits_except permits_confirm link_request_passes(3) [OF b]
        signed_link_of [OF b] leaves_rules) (auto intro: leaves_mappings_refused)
qed

lemma permits_add_identity_endpoint: "permits svc req (challenges s) (add_identity_endpoint svc req) s"
  unfolding add_identity_endpoint_def confirm_and_add_def
proof (rule permits_guard [OF steady_bodies(9)])
  fix x assume a: "link_request_of svc req s = (Inr x, s)"
  obtain event ty lab where x: "x = (event, ty, lab)" by (cases x)
  note b = a [unfolded x]
  show "permits svc req (challenges s) (case x of (event, st, lab) \<Rightarrow>
     py_bind (consume_claimed svc event) (\<lambda>ch.
     py_bind (py_except (confirm_and_link svc (the (header req ''cookie'')) (host_header req) ch
         (py_dumps (Obj event)) (clock_skew_seconds (get_settings svc)) False st lab)
       (linking_refused ''add'' req)) (\<lambda>username.
     py_bind (log_line ''INFO'' (''identity added ('' @ username @ '') from '' @ client_ip req)) (\<lambda>_.
     py_bind (py_gets (\<lambda>s. get_by_username username (mappings s))) (\<lambda>found.
     py_bind (py_lift (found_json svc found)) (\<lambda>x.
     py_return (JSONResponse [(''ok'', Bool True), (''username'', Str username), (''identity'', x)]))))))) s"
    unfolding x prod.case
    by (intro permits_after_consume permits_then permits_except permits_confirm link_request_passes(3) [OF b]
        signed_link_of [OF b] leaves_rules) (auto intro: leaves_mappings_refused)
qed

text \<open>Signing in only notes when the key was last used.\<close>

lemma permits_finish:
  assumes "allow_nostr_login (get_settings svc)"
  shows "permits svc req st (finish_sign_in svc req event ch) s"
proof -
  obtain r s' where f: "finish_sign_in svc req event ch s = (r, s')" by (cases "finish_sign_in svc req event ch s")
  have "mappings s' = mappings s \<or> (\<exists>i t. mappings s' = snd (touch_identity i t (mappings s)))"
    using finish_sign_in_cases [OF f] by (auto simp: session_asked_def)
  moreover have "permitted svc req st s s'" if "mappings s' = snd (touch_identity i t (mappings s))" for i t
    unfolding permitted_def by (intro disjI2 exI [of _ "Touch i t"]) (simp add: that assms)
  ultimately show ?thesis using f by (auto simp: permits_def) (simp add: permitted_def)
qed

lemma permits_authenticate: "permits svc req (challenges s) (authenticate_endpoint svc req) s"
proof -
  obtain r s' where e: "authenticate_endpoint svc req s = (r, s')" by (cases "authenticate_endpoint svc req s")
  from authenticate_endpoint_cases [OF e] show ?thesis
  proof (elim disjE exE conjE)
    fix event assume a: "allow_nostr_login (get_settings svc)"
      and b: "py_bind (consume_claimed svc event) (finish_sign_in svc req event) s = (r, s')"
    have "permits svc req (challenges s) (py_bind (consume_claimed svc event) (finish_sign_in svc req event)) s"
      by (intro permits_after_consume permits_finish a)
    then show ?thesis using b e by (simp add: permits_def)
  qed (use e in \<open>simp add: permits_def permitted_def\<close>)
qed

subsection \<open>Every request\<close>

lemmas permits_endpoints = leaves_readers [THEN permits_leaves] permits_user_rows permits_unlink_endpoint
  permits_admin_rows permits_admin_rename permits_admin_add permits_link_endpoint permits_add_identity_endpoint
  permits_authenticate

lemma permits_all_routes:
  "list_all (\<lambda>(m, ps, f). \<forall>svc req s. permits svc req (challenges s) (f svc req) s) routes"
  by (simp only: routes_def list.pred_inject prod.case) (simp add: permits_endpoints)

lemma permits_routes: "(m, ps, f) \<in> set routes \<Longrightarrow> permits svc req (challenges s) (f svc req) s"
  using permits_all_routes by (fastforce simp: list_all_iff)

text \<open>Who may do what does not depend on the path.\<close>

lemma portal_says_path [simp]: "portal_says svc (req\<lparr>path_identity_id := i\<rparr>) = portal_says svc req"
  by (simp add: portal_says_def session_of_def host_header_def fun_eq_iff)

lemma may_path [simp]:
  "may_change svc (req\<lparr>path_identity_id := i\<rparr>) u = may_change svc req u"
  "may_give svc (req\<lparr>path_identity_id := i\<rparr>) st u pk origin = may_give svc req st u pk origin"
  by (simp_all add: may_change_def may_give_def signed_link_def asks_with_def)

lemma authorised_path [simp]: "authorised svc (req\<lparr>path_identity_id := i\<rparr>) st x = authorised svc req st x"
  by (cases x) simp_all

lemma change_authorised: "permitted svc req (challenges s) s (snd (dispatch svc verb path req s))"
proof (cases svc verb path req s rule: dispatch_cases)
  case (route ps f i)
  then show ?thesis
    using permits_routes [OF route(1), of svc "req\<lparr>path_identity_id := i\<rparr>" s]
    by (simp add: permits_def permitted_def split_beta)
qed (simp add: permitted_def)

text \<open>
  C6. Every change of the identities is authorised.  Whatever request is sent, the server leaves
  the table of identities or makes one operation of the store on it.  A key is linked or added only
  for an administrator of the portal's session, or for the user of that session with a signed
  event that attests an open linking challenge for this very key while self-service is allowed; an
  identity is revoked, relabelled or removed only for its own user or an administrator; and a
  sign-in does no more than note the time.
\<close>

theorem every_change_authorised:
  "case dispatch svc verb path req s of (resp, s') \<Rightarrow>
     mappings s' = mappings s \<or>
     (\<exists>x. authorised svc req (challenges s) x \<and> mappings s' = map_step x (mappings s))"
  using change_authorised [of svc req s verb path] by (auto simp: permitted_def split: prod.split)

text \<open>A visit of the history that gave the key to the account.\<close>

definition key_given :: "visit list \<Rightarrow> server \<Rightarrow> string \<Rightarrow> string \<Rightarrow> bool" where
  "key_given vs s u pk \<longleftrightarrow> (\<exists>earlier svc verb path req later origin.
     vs = earlier @ (svc, verb, path, req) # later \<and>
     may_give svc req (challenges (serve earlier s)) u pk origin)"

lemma key_given_here: "may_give svc req (challenges s) u pk origin \<Longrightarrow> key_given ((svc, verb, path, req) # vs) s u pk"
  unfolding key_given_def
  by (intro exI [of _ "[]"] exI [of _ svc] exI [of _ verb] exI [of _ path] exI [of _ req] exI [of _ vs]
      exI [of _ origin]) simp

lemma key_given_later:
  assumes "key_given vs (snd (dispatch svc verb path req s)) u pk"
  shows "key_given ((svc, verb, path, req) # vs) s u pk"
proof -
  obtain earlier svc1 verb1 path1 req1 later origin
    where v: "vs = earlier @ (svc1, verb1, path1, req1) # later"
      and g: "may_give svc1 req1 (challenges (serve earlier (snd (dispatch svc verb path req s)))) u pk origin"
    using assms unfolding key_given_def by blast
  have "(svc, verb, path, req) # vs = ((svc, verb, path, req) # earlier) @ (svc1, verb1, path1, req1) # later"
    by (simp add: v)
  moreover have "may_give svc1 req1 (challenges (serve ((svc, verb, path, req) # earlier) s)) u pk origin"
    using g by simp
  ultimately show ?thesis unfolding key_given_def by blast
qed

lemma authorised_gives: "authorised svc req st x \<Longrightarrow> gives u pk x \<Longrightarrow> \<exists>origin. may_give svc req st u pk origin"
  by (cases x) auto

lemma serve_ok: "table_ok (mappings s) \<Longrightarrow> table_ok (mappings (serve vs s))"
proof (induction vs arbitrary: s)
  case (Cons v vs)
  obtain svc verb path req where v: "v = (svc, verb, path, req)" by (cases v)
  have "table_ok (mappings (snd (dispatch svc verb path req s)))"
    using change_authorised [of svc req s verb path] Cons.prems map_step_ok by (auto simp: permitted_def)
  then show ?case by (simp add: v Cons.IH)
qed simp

lemma serve_holder:
  "table_ok (mappings s) \<Longrightarrow> holder (db_keys (mappings (serve vs s))) pk = Some u \<Longrightarrow>
     holder (db_keys (mappings s)) pk = Some u \<or> key_given vs s u pk"
proof (induction vs arbitrary: s)
  case (Cons v vs)
  obtain svc verb path req where v: "v = (svc, verb, path, req)" by (cases v)
  let ?s = "snd (dispatch svc verb path req s)"
  have step: "mappings ?s = mappings s \<or>
      (\<exists>x. authorised svc req (challenges s) x \<and> mappings ?s = map_step x (mappings s))"
    using change_authorised by (simp add: permitted_def)
  then have "table_ok (mappings ?s)" using Cons.prems(1) map_step_ok by auto
  moreover have "holder (db_keys (mappings (serve vs ?s))) pk = Some u" using Cons.prems(2) by (simp add: v)
  ultimately have "holder (db_keys (mappings ?s)) pk = Some u \<or> key_given vs ?s u pk" by (rule Cons.IH)
  then show ?case
  proof
    assume h: "holder (db_keys (mappings ?s)) pk = Some u"
    from step show ?thesis
    proof (elim disjE exE conjE)
      fix x assume a: "authorised svc req (challenges s) x" and m: "mappings ?s = map_step x (mappings s)"
      then have "holder (db_keys (mappings s)) pk = Some u \<or> gives u pk x"
        using h by (simp add: map_step_keys [OF Cons.prems(1)] book_step_holder)
      then show ?thesis using authorised_gives [OF a] key_given_here unfolding v by blast
    qed (use h in simp)
  qed (use key_given_later in \<open>auto simp: v\<close>)
qed simp

text \<open>
  The key of an account was given to it.  On a new file of identities, whatever requests
  are served and whatever the outside answers: if a public key signs in to an account, then one of
  those requests was authorised to give this key to this account, by an administrator or by its
  user with a signature of this key.
\<close>

theorem sign_in_key_authorised:
  "case create_app st rows (fresh_file None) of Inl e \<Rightarrow> True
     | Inr s0 \<Rightarrow> (case get_by_pubkey pk (mappings (serve vs s0)) of
         None \<Rightarrow> True
       | Some x \<Rightarrow> pubkey x = pk \<and> enabled x \<and> key_given vs s0 (ynh_username x) pk)"
proof (cases "create_app st rows (fresh_file None)")
  case (Inr s0)
  show ?thesis
  proof (cases "get_by_pubkey pk (mappings (serve vs s0))")
    case (Some x)
    have m: "mappings s0 = MappingStore (fresh_file None)"
      using Inr by (auto simp: create_app_def split: sum.splits)
    have ok: "table_ok (mappings s0)" by (simp add: m MappingStore_ok fresh_ok)
    have "table_ok (mappings (serve vs s0))"
      using ok by (rule serve_ok)
    then have "holder (db_keys (mappings (serve vs s0))) pk = Some (ynh_username x)"
      using get_by_pubkey_holder [of "mappings (serve vs s0)" pk] Some by simp
    then have "key_given vs s0 (ynh_username x) pk"
      using serve_holder [OF ok] by (auto simp: m fresh_keys)
    moreover have "pubkey x = pk \<and> enabled x"
      using Some by (auto simp: get_by_pubkey_def row_to_identity_def find_Some_iff)
    ultimately show ?thesis using Inr Some by simp
  qed (simp add: Inr)
qed simp

end
