(* ===== verification/Site.thy ===== *)
theory Site
  imports Page_Script Server_Access
begin

text \<open>
  A site: the server of the model behind \<open>fetch\<close> of the pages' environment.  What is left as a
  parameter is the signer, the rest of the browser, the two clocks, and what the server asks
  of YunoHost.  Then what every exchange of a challenge has in common: it is issued, signed, and
  consumed by the next request.
\<close>

subsection \<open>A page talks to the server\<close>

record site =
  services_at :: "nat \<Rightarrow> services"
  site_host :: string
  browser_ms :: int
  signer_answer :: "jsval \<Rightarrow> jsval + jsval"
  browser_answer :: "string \<Rightarrow> jsval list \<Rightarrow> jsval + jsval"

record web =
  server_side :: server
  requests_sent :: nat
  cookie_jar :: "set_cookie list"

text \<open>The segments of an address without a query.\<close>

fun split_slash :: "string \<Rightarrow> string list" where
  "split_slash [] = [[]]"
| "split_slash (c # s) = (if c = CHR ''/'' then [] # split_slash s
     else case split_slash s of [] \<Rightarrow> [[c]] | x # xs \<Rightarrow> (c # x) # xs)"

definition text_option :: "jsval \<Rightarrow> string option" where
  "text_option v = (case v of Str t \<Rightarrow> Some t | _ \<Rightarrow> None)"

definition cookie_text :: "set_cookie list \<Rightarrow> string option" where
  "cookie_text jar = (if jar = [] then None
     else Some (join ''; '' (map (\<lambda>c. set_name c @ ''='' @ str_value (set_value c)) jar)))"

definition browser_request :: "site \<Rightarrow> web \<Rightarrow> jsval \<Rightarrow> request" where
  "browser_request W w options =
     \<lparr>header = (\<lambda>n. if n = ''host'' then Some (site_host W)
        else if n = ''content-type'' then text_option (js_field (js_field options ''headers'') ''Content-Type'')
        else if n = ''cookie'' then cookie_text (cookie_jar w) else None),
      query_param = (\<lambda>_. None), path_identity_id = [], client_host = Some ''127.0.0.1'',
      request_json = (case js_field options ''body'' of Str t \<Rightarrow> json_parse t | _ \<Rightarrow> None)\<rparr>"

definition method_of :: "jsval \<Rightarrow> string" where
  "method_of options = (case js_field options ''method'' of Str m \<Rightarrow> m | _ \<Rightarrow> ''GET'')"

text \<open>A response in the browser; one whose body is not JSON makes \<open>json()\<close> reject.\<close>

definition fetched_response :: "response \<Rightarrow> jsval" where
  "fetched_response resp = Obj [(''ok'', Bool (200 \<le> status_code resp \<and> status_code resp < 300)),
     (''status'', Num (status_code resp)), (''content'', content resp)]"

definition served :: "site \<Rightarrow> string \<Rightarrow> jsval \<Rightarrow> web \<Rightarrow> response \<times> web" where
  "served W url options w =
     (case dispatch (services_at W (requests_sent w)) (method_of options) (tl (split_slash url))
         (browser_request W w options) (server_side w) of
       (resp, srv) \<Rightarrow> (resp, w\<lparr>server_side := srv, requests_sent := Suc (requests_sent w),
          cookie_jar := cookie_jar w @ cookies resp\<rparr>))"

definition network :: "site \<Rightarrow> ('s, web) env" where
  "network W n args s w =
     (if n = ''fetch'' then (case args of
          [Str url, options] \<Rightarrow> (case served W url options w of (resp, w') \<Rightarrow> (Inr (fetched_response resp), s, w'))
        | _ \<Rightarrow> (Inl type_error, s, w))
      else if n = ''response.json'' then
        (case js_field (hd args) ''content'' of Null \<Rightarrow> (Inl (js_error ''not JSON''), s, w) | v \<Rightarrow> (Inr v, s, w))
      else if n = ''Date.now'' then (Inr (Num (browser_ms W)), s, w)
      else if n = method_name ''signEvent'' then (signer_answer W (last args), s, w)
      else (browser_answer W n args, s, w))"

text \<open>A signer of the browser.\<close>

definition browser_signer :: jsval where
  "browser_signer = Obj [(''signEvent'', Closure ''signEvent'' [])]"

lemma network_answers:
  "network W ''fetch'' [Str url, options] s w = (case served W url options w of (resp, w') \<Rightarrow> (Inr (fetched_response resp), s, w'))"
  "content resp \<noteq> Null \<Longrightarrow> network W ''response.json'' [fetched_response resp] s w = (Inr (content resp), s, w)"
  "content resp = Null \<Longrightarrow> network W ''response.json'' [fetched_response resp] s w = (Inl (js_error ''not JSON''), s, w)"
  "network W ''Date.now'' as s w = (Inr (Num (browser_ms W)), s, w)"
  "network W (method_name ''signEvent'') [browser_signer, v] s w = (signer_answer W v, s, w)"
  by (auto simp: network_def fetched_response_def js_field_def js_prop_def method_name_def split: jsval.split)

lemma fetched_response_simps [simp]:
  "js_field (fetched_response resp) ''ok'' = Bool (200 \<le> status_code resp \<and> status_code resp < 300)"
  "js_field (fetched_response resp) ''status'' = Num (status_code resp)"
  "\<not> nullish (fetched_response resp)"
  by (simp_all add: fetched_response_def js_field_def js_prop_def)

lemma browser_signer_simps [simp]: "js_get browser_signer ''signEvent'' = Inr (Closure ''signEvent'' [])"
  by (simp add: browser_signer_def js_prop_def)

text \<open>Only \<open>fetch\<close> reaches the server.\<close>

lemma network_off: "n \<noteq> ''fetch'' \<Longrightarrow> snd (network W n as s w) = (s, w)"
  by (auto simp: network_def split: jsval.split)

lemma network_page: "fst (snd (network W n as s w)) = s"
  by (auto simp: network_def split: jsval.split list.split prod.split)

subsection \<open>The event\<close>

definition unsigned_fields :: "challenge \<Rightarrow> int \<Rightarrow> (string \<times> jsval) list" where
  "unsigned_fields c ms =
     [(''kind'', Num (int CHALLENGE_EVENT_KIND)), (''created_at'', Num (ms div 1000)),
      (''tags'', Arr [Arr [Str ''challenge'', Str (nonce c)], Arr [Str ''domain'', Str (domain c)],
         Arr [Str ''action'', Str (action c)]]),
      (''content'', Str [])]"

lemma event_of_challenge: "event_of (content (challenge_json c)) (Num ms) = Obj (unsigned_fields c ms)"
  by (simp add: event_of_def challenge_json_def JSONResponse_def unsigned_fields_def js_field_def js_prop_def unix_seconds_def)

lemma claimed_nonce: "extract_tag_from_raw_event (unsigned_fields c ms @ rest) ''challenge'' = Str (nonce c)"
  by (simp add: extract_tag_from_raw_event_def dict_get_def unsigned_fields_def names_tag_def second_item_def)

text \<open>
  The signer adds to the event (the public key, the id, the signature), and the library of the
  server reads the result as the event that was signed, and verifies it.
\<close>

definition signs_challenge :: "site \<Rightarrow> nostr_sdk \<Rightarrow> challenge \<Rightarrow> (string \<times> jsval) list \<Rightarrow> string \<Rightarrow> bool" where
  "signs_challenge W lib c rest pk \<longleftrightarrow>
     (let ev = unsigned_fields c (browser_ms W) @ rest;
          event = \<lparr>event_kind = CHALLENGE_EVENT_KIND,
            event_tags = [[''challenge'', nonce c], [''domain'', domain c], [''action'', action c]],
            event_created_at = browser_ms W div 1000, event_author = pk\<rparr>
      in signer_answer W (Obj (unsigned_fields c (browser_ms W))) = Inr (Obj ev) \<and> json_ok (Obj ev) \<and>
         Event_from_json lib (py_dumps (Obj ev)) = Inr event \<and> Event_verify lib event)"

lemma signs_attests:
  assumes "signs_challenge W lib c rest pk"
    and "browser_ms W div 1000 \<in> {issued_at c - skew .. expires_at c + skew}"
  shows "attests lib (py_dumps (Obj (unsigned_fields c (browser_ms W) @ rest))) c skew pk"
  using assms by (auto simp: signs_challenge_def Let_def attests_def tag_value_def)

subsection \<open>A challenge is issued\<close>

definition service :: "site \<Rightarrow> web \<Rightarrow> services" where
  "service W w = services_at W (requests_sent w)"

definition next_service :: "site \<Rightarrow> web \<Rightarrow> services" where
  "next_service W w = services_at W (Suc (requests_sent w))"

definition issued :: "string \<Rightarrow> site \<Rightarrow> web \<Rightarrow> challenge" where
  "issued act W w = new_challenge (site_host W) act (ttl_seconds (challenges (server_side w)))
     (token_urlsafe (service W w)) (clock (service W w) 0)"

definition with_issued :: "string \<Rightarrow> site \<Rightarrow> web \<Rightarrow> server" where
  "with_issued act W w = (server_side w)\<lparr>challenges := (challenges (server_side w))\<lparr>backend :=
     (case backend (challenges (server_side w)) of
        Sqlite rows \<Rightarrow> Sqlite (filter (unexpired (clock (service W w) 1)) rows @
          [\<lparr>row_challenge = issued act W w, consumed_at = None\<rparr>])
      | In_memory p \<Rightarrow> In_memory p)\<rparr>\<rparr>"

definition after_issue :: "string \<Rightarrow> site \<Rightarrow> web \<Rightarrow> web" where
  "after_issue act W w = w\<lparr>server_side := with_issued act W w, requests_sent := Suc (requests_sent w)\<rparr>"

lemma issued_fields [simp]:
  "action (issued act W w) = act" "domain (issued act W w) = site_host W"
  "nonce (issued act W w) = token_urlsafe (service W w)" "issued_at (issued act W w) = clock (service W w) 0"
  "expires_at (issued act W w) = clock (service W w) 0 + ttl_seconds (challenges (server_side w))"
  by (simp_all add: issued_def new_challenge_def)

lemma after_issue_simps [simp]:
  "mappings (with_issued act W w) = mappings (server_side w)"
  "mint_requests (with_issued act W w) = mint_requests (server_side w)"
  "server_side (after_issue act W w) = with_issued act W w" "cookie_jar (after_issue act W w) = cookie_jar w"
  "requests_sent (after_issue act W w) = Suc (requests_sent w)" "service W (after_issue act W w) = next_service W w"
  by (simp_all add: with_issued_def after_issue_def service_def next_service_def)

text \<open>The token is new, the clocks fit, and the signer signs the challenge for the key.\<close>

definition challenge_fits :: "string \<Rightarrow> site \<Rightarrow> web \<Rightarrow> (string \<times> jsval) list \<Rightarrow> string \<Rightarrow> bool" where
  "challenge_fits act W w rest pk \<longleftrightarrow>
     (let c = issued act W w; skew = clock_skew_seconds (get_settings (next_service W w))
      in site_host W \<noteq> [] \<and>
         (\<exists>rows. backend (challenges (server_side w)) = Sqlite rows \<and> nonce c \<notin> row_nonce ` set rows) \<and>
         nonce c \<noteq> [] \<and> clock (next_service W w) 0 \<le> expires_at c \<and>
         browser_ms W div 1000 \<in> {issued_at c - skew .. expires_at c + skew} \<and>
         signs_challenge W (sdk (next_service W w)) c rest pk)"

lemma issue_served:
  assumes "challenge_fits act W w rest pk" and "header req ''host'' = Some (site_host W)"
  shows "issue_for_host (service W w) req act (server_side w) = (Inr (challenge_json (issued act W w)), with_issued act W w)"
proof -
  obtain rows where r: "backend (challenges (server_side w)) = Sqlite rows" "token_urlsafe (service W w) \<notin> row_nonce ` set rows"
    using assms(1) by (auto simp: challenge_fits_def Let_def)
  have i: "issue (site_host W) act (token_urlsafe (service W w)) (clock (service W w) 0) (clock (service W w) 1)
      (challenges (server_side w)) = (Inr (issued act W w), challenges (with_issued act W w))"
    using r by (auto simp: issue_def py_rules Let_def sqlite_issue_def issued_def with_issued_def
        new_challenge_def row_nonce_def image_iff)
  have w: "(server_side w)\<lparr>challenges := challenges (with_issued act W w)\<rparr> = with_issued act W w"
    by (simp add: with_issued_def)
  show ?thesis
    using assms i w by (simp add: challenge_fits_def Let_def issue_for_host_def present_def host_header_def py_rules)
qed

text \<open>The next request consumes it, and nobody can again.\<close>

lemma issued_consumed:
  assumes "challenge_fits act W w rest pk"
  obtains st where "consume (Str (token_urlsafe (service W w))) (clock (next_service W w) 0) (challenges (with_issued act W w)) =
      (Inr (Some (issued act W w)), st)"
    and "\<forall>t. fst (consume (Str (token_urlsafe (service W w))) t st) = Inr None"
proof -
  let ?n = "token_urlsafe (service W w)" and ?t = "clock (next_service W w) 0" and ?c = "issued act W w"
  obtain rows where r: "backend (challenges (server_side w)) = Sqlite rows" "?n \<notin> row_nonce ` set rows"
    and now: "?t \<le> expires_at ?c"
    using assms by (auto simp: challenge_fits_def Let_def)
  let ?rows = "filter (unexpired (clock (service W w) 1)) rows"
  let ?row = "\<lparr>row_challenge = ?c, consumed_at = None\<rparr>"
  let ?f = "\<lambda>r. if open_row ?n r then r\<lparr>consumed_at := Some ?t\<rparr> else r"
  let ?st = "(challenges (server_side w))\<lparr>backend := Sqlite (map ?f (?rows @ [?row]))\<rparr>"
  have "find (open_row ?n) ?rows = None" using r(2) by (intro no_open_row) auto
  moreover have "open_row ?n ?row" by (simp add: open_row_def row_nonce_def)
  ultimately have found: "find (open_row ?n) (?rows @ [?row]) = Some ?row" by (simp add: find_append)
  have gone: "find (open_row ?n) (map ?f (?rows @ [?row])) = None"
    by (auto simp: find_None_iff open_row_def)
  show thesis
  proof (rule that)
    show "consume (Str ?n) ?t (challenges (with_issued act W w)) = (Inr (Some ?c), ?st)"
      using found r now by (simp add: consume_def py_rules with_issued_def text_parameter_def sqlite_consume_def Let_def)
    show "\<forall>t. fst (consume (Str ?n) t ?st) = Inr None"
      using gone by (simp add: consume_def py_rules text_parameter_def sqlite_consume_def del: map_append)
  qed
qed

lemma issued_attested:
  assumes "challenge_fits act W w rest pk"
  shows "attests (sdk (next_service W w)) (py_dumps (Obj (unsigned_fields (issued act W w) (browser_ms W) @ rest)))
      (issued act W w) (clock_skew_seconds (get_settings (next_service W w))) pk"
    and "json_ok (Obj (unsigned_fields (issued act W w) (browser_ms W) @ rest))"
    and "signer_answer W (Obj (unsigned_fields (issued act W w) (browser_ms W))) =
      Inr (Obj (unsigned_fields (issued act W w) (browser_ms W) @ rest))"
    and "token_urlsafe (service W w) \<noteq> []"
  using assms signs_attests [of W "sdk (next_service W w)" "issued act W w" rest pk
      "clock_skew_seconds (get_settings (next_service W w))"]
  by (auto simp: challenge_fits_def Let_def signs_challenge_def simp del: json_ok.simps)

subsection \<open>The requests of the pages\<close>

text \<open>Options that carry a JSON body, perhaps with more fields.\<close>

definition carries :: "jsval \<Rightarrow> jsval \<Rightarrow> bool" where
  "carries options body \<longleftrightarrow> (\<forall>k \<in> {''method'', ''headers'', ''body''}. js_field options k = js_field (post_json body) k)"

lemma carries_post_json: "carries (post_json body) body"
  by (simp add: carries_def)

lemma carried_request:
  assumes "carries options body" and "json_ok body"
  shows "request_json (browser_request W w options) = Some body"
    and "header (browser_request W w options) ''content-type'' = Some ''application/json''"
    and "method_of options = ''POST''"
  using assms json_round_trip [OF assms(2)]
  by (simp_all add: carries_def browser_request_def method_of_def post_json_def js_field_def js_prop_def text_option_def
      del: json_stringify.simps)

lemma browser_request_simps [simp]:
  "header (browser_request W w options) ''host'' = Some (site_host W)"
  "header (browser_request W w options) ''cookie'' = cookie_text (cookie_jar w)"
  "query_param (browser_request W w options) = (\<lambda>_. None)"
  by (simp_all add: browser_request_def)

text \<open>A request with a JSON body passes the guard of the endpoints.\<close>

lemma json_passes:
  assumes "header req ''content-type'' = Some ''application/json''"
  shows "require_json req s = (Inr (), s)"
proof -
  have "ascii_lower (py_strip ''application/json'') = ''application/json''" by code_simp
  then show ?thesis using assms by (simp add: require_json_def py_rules)
qed

end
