(* ===== verification/Sign_In_Flow.thy ===== *)
theory Sign_In_Flow
  imports Login_Page Site
begin

text \<open>
  The login page and the server together: the page's sign-in is run against the server of the
  model, with the signer, the clocks and the answers of YunoHost as parameters.
\<close>

subsection \<open>The server's answers\<close>

lemma login_routes:
  "dispatch svc ''GET'' [''challenge''] req s =
     (case challenge_endpoint svc (req\<lparr>path_identity_id := []\<rparr>) s of (r, s') \<Rightarrow> (answer_of r, s'))"
  "dispatch svc ''POST'' [''authenticate''] req s =
     (case authenticate_endpoint svc (req\<lparr>path_identity_id := []\<rparr>) s of (r, s') \<Rightarrow> (answer_of r, s'))"
  by (simp_all add: dispatch_def routes_def)

lemma served_challenge:
  assumes "allow_nostr_login (get_settings (service W w))" and "challenge_fits LOGIN_ACTION W w rest pk"
  shows "served W ''/challenge'' Undefined w =
    (challenge_json (issued LOGIN_ACTION W w), after_issue LOGIN_ACTION W w)"
  using assms(1) issue_served [OF assms(2), of "(browser_request W w Undefined)\<lparr>path_identity_id := []\<rparr>"]
  by (simp add: served_def login_routes challenge_endpoint_def answer_of_def service_def [symmetric] method_of_def
      js_field_def after_issue_def) (simp add: challenge_json_def JSONResponse_def)

lemma authenticate_served:
  assumes "allow_nostr_login (get_settings svc)" and "header req ''content-type'' = Some ''application/json''"
    and "request_json req = Some (Obj [(''event'', Obj ev)])"
    and "extract_tag_from_raw_event ev ''challenge'' = Str n" and "n \<noteq> []"
    and "consume (Str n) (clock svc 0) (challenges s) = (Inr (Some c), st)"
  shows "dispatch svc ''POST'' [''authenticate''] req s =
    (case finish_sign_in svc (req\<lparr>path_identity_id := []\<rparr>) ev (Some c) (s\<lparr>challenges := st\<rparr>) of (r, s') \<Rightarrow> (answer_of r, s'))"
  using assms json_passes [of "req\<lparr>path_identity_id := []\<rparr>"]
  by (simp add: login_routes authenticate_endpoint_def json_body_def body_dict_def
      body_event_def dict_get_def consume_claimed_def py_rules)

lemma finish_sign_in_linked:
  assumes "action c = LOGIN_ACTION"
    and "attests (sdk svc) (py_dumps (Obj ev)) c (clock_skew_seconds (get_settings svc)) pk"
    and "get_by_pubkey pk (mappings s) = Some x"
    and "mint_result svc (ynh_username x) (domain c) = Inr minted"
  shows "\<exists>s'. finish_sign_in svc req ev (Some c) s =
      (Inr ((JSONResponse [(''ok'', Bool True)])\<lparr>cookies := [session_cookie req minted]\<rparr>), s') \<and>
    mint_requests s' = mint_requests s @ [(ynh_username x, domain c)] \<and> challenges s' = challenges s"
proof -
  obtain i where i: "identity_id x = Some i" using get_by_pubkey_id [OF assms(3)] by blast
  show ?thesis
    using assms(1,3,4) assms(2) [folded verify_attests] i
    by (simp add: finish_sign_in_def authenticate_def touch_signed_in_def touch_identity_def create_ynh_session_def
        mint_session_def py_rules)
qed

lemma finish_sign_in_unlinked:
  assumes "action c = LOGIN_ACTION"
    and "attests (sdk svc) (py_dumps (Obj ev)) c (clock_skew_seconds (get_settings svc)) pk"
    and "get_by_pubkey pk (mappings s) = None"
  shows "\<exists>s'. finish_sign_in svc req ev (Some c) s =
      (Inl (Api_error 401 ''this pubkey is not linked to any YunoHost account''), s') \<and>
    mint_requests s' = mint_requests s \<and> challenges s' = challenges s"
  using assms(1,3) assms(2) [folded verify_attests]
  by (simp add: finish_sign_in_def authenticate_def login_refused_def py_rules)

lemma served_authenticate:
  assumes "allow_nostr_login (get_settings (next_service W w))" and "challenge_fits LOGIN_ACTION W w rest pk"
  obtains req st where "header req ''host'' = Some (site_host W)"
    and "served W ''/authenticate''
        (post_json (Obj [(''event'', Obj (unsigned_fields (issued LOGIN_ACTION W w) (browser_ms W) @ rest))])) (after_issue LOGIN_ACTION W w) =
      (case finish_sign_in (next_service W w) req (unsigned_fields (issued LOGIN_ACTION W w) (browser_ms W) @ rest)
          (Some (issued LOGIN_ACTION W w)) ((with_issued LOGIN_ACTION W w)\<lparr>challenges := st\<rparr>) of
        (r, s') \<Rightarrow> (answer_of r, w\<lparr>server_side := s', requests_sent := requests_sent w + 2,
          cookie_jar := cookie_jar w @ cookies (answer_of r)\<rparr>))"
    and "\<forall>t. fst (consume (Str (token_urlsafe (service W w))) t st) = Inr None"
proof -
  let ?w = "after_issue LOGIN_ACTION W w" and ?ev = "unsigned_fields (issued LOGIN_ACTION W w) (browser_ms W) @ rest"
  let ?options = "post_json (Obj [(''event'', Obj ?ev)])"
  let ?req = "browser_request W ?w ?options"
  obtain st where con: "consume (Str (token_urlsafe (service W w))) (clock (next_service W w) 0)
      (challenges (with_issued LOGIN_ACTION W w)) = (Inr (Some (issued LOGIN_ACTION W w)), st)"
    and closed: "\<forall>t. fst (consume (Str (token_urlsafe (service W w))) t st) = Inr None"
    using issued_consumed [OF assms(2)] by blast
  note fits = issued_attested [OF assms(2)]
  have "json_ok (Obj [(''event'', Obj ?ev)])" using fits(2) by simp
  note sent = carried_request(1,2) [OF carries_post_json this, where W = W and w = ?w]
    carried_request(3) [OF carries_post_json this]
  have tag: "extract_tag_from_raw_event ?ev ''challenge'' = Str (token_urlsafe (service W w))"
    by (simp add: claimed_nonce)
  have "served W ''/authenticate'' ?options ?w =
      (case finish_sign_in (next_service W w) (?req\<lparr>path_identity_id := []\<rparr>) ?ev (Some (issued LOGIN_ACTION W w))
          ((with_issued LOGIN_ACTION W w)\<lparr>challenges := st\<rparr>) of
        (r, s') \<Rightarrow> (answer_of r, w\<lparr>server_side := s', requests_sent := requests_sent w + 2,
          cookie_jar := cookie_jar w @ cookies (answer_of r)\<rparr>))"
    using authenticate_served [OF assms(1) sent(2,1) tag fits(4), of "with_issued LOGIN_ACTION W w"] con sent(3)
    by (simp add: served_def next_service_def [symmetric] split: prod.split)
  then show thesis by (rule that [OF _ _ closed, rotated]) simp_all
qed

subsection \<open>The whole exchange\<close>

text \<open>The page's part of it, for two answers of the server.\<close>

lemma page_signs_in:
  assumes "served W ''/challenge'' Undefined w = (challenge_json c, w1)"
    and "signer_answer W (Obj (unsigned_fields c (browser_ms W))) = Inr (Obj ev)"
    and "served W ''/authenticate'' (post_json (Obj [(''event'', Obj ev)])) w1 = (resp, w2)"
    and "storage_writable s" and "content resp = Obj ps"
  shows "case run (network W) (performSignIn (\<lambda>e. signer_signEvent browser_signer e) busy) s w [] of (r, s', w', l) \<Rightarrow>
    w' = w2 \<and> (if 200 \<le> status_code resp \<and> status_code resp < 300
      then href s' = ''/yunohost/sso/'' \<and> storage s' = (storage s)(''isLoggedIn'' \<mapsto> ''true'') \<and>
        e_text (el s' L_messageEl) = []
      else \<forall>t. js_prop ps ''error'' = Str t \<and> t \<noteq> [] \<longrightarrow> shown_error t s s')"
proof -
  have c: "content (challenge_json c) \<noteq> Null" "content resp \<noteq> Null" "status_code (challenge_json c) = 200"
    "\<not> nullish (content (challenge_json c))"
    using assms(5) by (simp_all add: challenge_json_def JSONResponse_def)
  show ?thesis
    using assms c by (simp add: run_performSignIn network_answers event_of_challenge shown_error_def js_text_def)
qed

text \<open>What the theorems assume of the site: sign-in is allowed and the challenge fits.\<close>

definition ready :: "site \<Rightarrow> web \<Rightarrow> (string \<times> jsval) list \<Rightarrow> string \<Rightarrow> bool" where
  "ready W w rest pk \<longleftrightarrow> allow_nostr_login (get_settings (service W w)) \<and>
     allow_nostr_login (get_settings (next_service W w)) \<and> challenge_fits LOGIN_ACTION W w rest pk"

text \<open>How the exchange has ended when the sign-in was answered with \<open>r\<close>.\<close>

definition exchange_ended :: "site \<Rightarrow> web \<Rightarrow> login_page \<Rightarrow> (string \<times> string) list \<Rightarrow> (request \<Rightarrow> exc + response) \<Rightarrow>
    login_page \<Rightarrow> web \<Rightarrow> bool" where
  "exchange_ended W w s mints r s' w' \<longleftrightarrow>
     (\<exists>req. header req ''host'' = Some (site_host W) \<and> mint_requests (server_side w') = mints \<and>
      cookie_jar w' = cookie_jar w @ cookies (answer_of (r req)) \<and> requests_sent w' = requests_sent w + 2 \<and>
      (\<forall>t. fst (consume (Str (nonce (issued LOGIN_ACTION W w))) t (challenges (server_side w'))) = Inr None) \<and>
      (if 200 \<le> status_code (answer_of (r req)) \<and> status_code (answer_of (r req)) < 300
       then href s' = ''/yunohost/sso/'' \<and> storage s' = (storage s)(''isLoggedIn'' \<mapsto> ''true'') \<and>
         e_text (el s' L_messageEl) = []
       else \<forall>t. js_field (content (answer_of (r req))) ''error'' = Str t \<and> t \<noteq> [] \<longrightarrow> shown_error t s s'))"

lemma flow:
  assumes ready: "ready W w rest pk" and writable: "storage_writable s"
    and finish: "\<And>srv req ev. mappings srv = mappings (server_side w) \<Longrightarrow> mint_requests srv = mint_requests (server_side w) \<Longrightarrow>
       attests (sdk (next_service W w)) (py_dumps (Obj ev)) (issued LOGIN_ACTION W w)
         (clock_skew_seconds (get_settings (next_service W w))) pk \<Longrightarrow>
       \<exists>s'. finish_sign_in (next_service W w) req ev (Some (issued LOGIN_ACTION W w)) srv = (r req, s') \<and>
         mint_requests s' = minted \<and> challenges s' = challenges srv"
    and content: "\<And>req. \<exists>ps. content (answer_of (r req)) = Obj ps"
  shows "case run (network W) (performSignIn (\<lambda>e. signer_signEvent browser_signer e) busy) s w [] of
    (x, s', w', l) \<Rightarrow> exchange_ended W w s minted r s' w'"
proof -
  let ?c = "issued LOGIN_ACTION W w"
  let ?ev = "unsigned_fields ?c (browser_ms W) @ rest"
  have allow: "allow_nostr_login (get_settings (service W w))" "allow_nostr_login (get_settings (next_service W w))"
    and fits: "challenge_fits LOGIN_ACTION W w rest pk"
    using ready by (auto simp: ready_def)
  note signed_event = issued_attested [OF fits]
  obtain req st where host: "header req ''host'' = Some (site_host W)"
    and sent: "served W ''/authenticate'' (post_json (Obj [(''event'', Obj ?ev)])) (after_issue LOGIN_ACTION W w) =
      (case finish_sign_in (next_service W w) req ?ev (Some ?c) ((with_issued LOGIN_ACTION W w)\<lparr>challenges := st\<rparr>) of
        (r, s') \<Rightarrow> (answer_of r, w\<lparr>server_side := s', requests_sent := requests_sent w + 2,
          cookie_jar := cookie_jar w @ cookies (answer_of r)\<rparr>))"
    and closed: "\<forall>t. fst (consume (Str (token_urlsafe (service W w))) t st) = Inr None"
    using served_authenticate [OF allow(2) fits] by blast
  obtain s' where fin: "finish_sign_in (next_service W w) req ?ev (Some ?c)
        ((with_issued LOGIN_ACTION W w)\<lparr>challenges := st\<rparr>) = (r req, s')"
    and mint: "mint_requests s' = minted" and st: "challenges s' = st"
    using finish [of "(with_issued LOGIN_ACTION W w)\<lparr>challenges := st\<rparr>" ?ev req] signed_event(1) by auto
  note answered = sent [unfolded fin prod.case]
  obtain ps where ps: "content (answer_of (r req)) = Obj ps" using content by blast
  obtain x s1 w2 l where run: "run (network W) (performSignIn (\<lambda>e. signer_signEvent browser_signer e) busy) s w [] =
      (x, s1, w2, l)" by (metis prod_cases4)
  have "exchange_ended W w s minted r s1 w2"
    unfolding exchange_ended_def
    by (rule exI [of _ req]) (use page_signs_in [OF served_challenge [OF allow(1) fits] signed_event(3) answered writable ps, of busy]
      run host ps mint st closed in \<open>auto simp: js_field_def\<close>)
  then show ?thesis by (simp add: run)
qed

text \<open>A key that is linked signs in.\<close>

lemma signs_in:
  assumes "ready W w rest pk" and "storage_writable s"
    and "get_by_pubkey pk (mappings (server_side w)) = Some x"
    and "mint_result (next_service W w) (ynh_username x) (site_host W) = Inr minted"
  shows "case run (network W) (performSignIn (\<lambda>e. signer_signEvent browser_signer e) busy) s w [] of (r, s', w', l) \<Rightarrow>
    exchange_ended W w s (mint_requests (server_side w) @ [(ynh_username x, site_host W)])
      (\<lambda>req. Inr ((JSONResponse [(''ok'', Bool True)])\<lparr>cookies := [session_cookie req minted]\<rparr>)) s' w'"
proof (rule flow [OF assms(1,2)])
  fix srv :: server and req ev
  assume m: "mappings srv = mappings (server_side w)" "mint_requests srv = mint_requests (server_side w)"
    and a: "attests (sdk (next_service W w)) (py_dumps (Obj ev)) (issued LOGIN_ACTION W w)
       (clock_skew_seconds (get_settings (next_service W w))) pk"
  show "\<exists>s'. finish_sign_in (next_service W w) req ev (Some (issued LOGIN_ACTION W w)) srv =
        (Inr ((JSONResponse [(''ok'', Bool True)])\<lparr>cookies := [session_cookie req minted]\<rparr>), s') \<and>
       mint_requests s' = mint_requests (server_side w) @ [(ynh_username x, site_host W)] \<and> challenges s' = challenges srv"
    using finish_sign_in_linked [OF _ a, of srv x minted req] assms(3,4) m by simp
qed (simp add: answer_of_def JSONResponse_def)

text \<open>A key that is not linked does not.\<close>

lemma sign_in_refused:
  assumes "ready W w rest pk" and "storage_writable s"
    and "get_by_pubkey pk (mappings (server_side w)) = None"
  shows "case run (network W) (performSignIn (\<lambda>e. signer_signEvent browser_signer e) busy) s w [] of (r, s', w', l) \<Rightarrow>
    exchange_ended W w s (mint_requests (server_side w))
      (\<lambda>req. Inl (Api_error 401 ''this pubkey is not linked to any YunoHost account'')) s' w'"
proof (rule flow [OF assms(1,2)])
  fix srv :: server and req ev
  assume m: "mappings srv = mappings (server_side w)" "mint_requests srv = mint_requests (server_side w)"
    and a: "attests (sdk (next_service W w)) (py_dumps (Obj ev)) (issued LOGIN_ACTION W w)
       (clock_skew_seconds (get_settings (next_service W w))) pk"
  show "\<exists>s'. finish_sign_in (next_service W w) req ev (Some (issued LOGIN_ACTION W w)) srv =
        (Inl (Api_error 401 ''this pubkey is not linked to any YunoHost account''), s') \<and>
       mint_requests s' = mint_requests (server_side w) \<and> challenges s' = challenges srv"
    using finish_sign_in_unlinked [OF _ a, of srv req] assms(3) m by simp
qed (simp add: answer_of_def error_response_def)

text \<open>
  C1. Page and server together sign a user in.  When the key is linked and enabled, the signer
  signs the event it is asked to sign, and the clocks fit the challenge, then the page's
  sign-in against the server ends at the portal with the flag set and no message; the server
  has asked for exactly one session, for the account of the key and the host of the site;
  the browser has got the session's cookie; two requests were sent; and the challenge is used up.
\<close>

theorem page_and_server_sign_in:
  assumes "ready W w rest pk" and "storage_writable s"
    and "get_by_pubkey pk (mappings (server_side w)) = Some x"
    and "mint_result (next_service W w) (ynh_username x) (site_host W) = Inr minted"
  shows "case run (network W) (performSignIn (\<lambda>e. signer_signEvent browser_signer e) busy) s w [] of (r, s', w', l) \<Rightarrow>
    href s' = ''/yunohost/sso/'' \<and> storage s' = (storage s)(''isLoggedIn'' \<mapsto> ''true'') \<and>
    e_text (el s' L_messageEl) = [] \<and>
    mint_requests (server_side w') = mint_requests (server_side w) @ [(ynh_username x, site_host W)] \<and>
    cookie_jar w' = cookie_jar w @ [\<lparr>set_name = cookie_name minted, set_value = token minted,
      set_max_age = max_age minted, set_domain = CHR ''.'' # site_host W\<rparr>] \<and>
    requests_sent w' = requests_sent w + 2 \<and>
    (\<forall>t. fst (consume (Str (nonce (issued LOGIN_ACTION W w))) t (challenges (server_side w'))) = Inr None)"
  using signs_in [OF assms, of busy]
  by (auto simp: exchange_ended_def answer_of_def JSONResponse_def session_cookie_def split: prod.splits)

text \<open>
  Page and server together refuse an unknown key: with everything else in order, the page stays
  and shows the server's reason, no session is asked for, no cookie is set, and the challenge
  is used up all the same.
\<close>

theorem page_and_server_refuse_unknown_key:
  assumes "ready W w rest pk" and "storage_writable s"
    and "get_by_pubkey pk (mappings (server_side w)) = None"
  shows "case run (network W) (performSignIn (\<lambda>e. signer_signEvent browser_signer e) busy) s w [] of (r, s', w', l) \<Rightarrow>
    shown_error ''this pubkey is not linked to any YunoHost account'' s s' \<and>
    mint_requests (server_side w') = mint_requests (server_side w) \<and> cookie_jar w' = cookie_jar w \<and>
    (\<forall>t. fst (consume (Str (nonce (issued LOGIN_ACTION W w))) t (challenges (server_side w'))) = Inr None)"
  using sign_in_refused [OF assms, of busy]
  by (auto simp: exchange_ended_def answer_of_def error_response_def js_field_def js_prop_def split: prod.splits)

subsection \<open>A concrete site\<close>

definition sample_challenge :: challenge where
  "sample_challenge = new_challenge ''ynh.test'' LOGIN_ACTION 90 ''n0'' 1700000000"

definition sample_proof :: "(string \<times> jsval) list" where
  "sample_proof = [(''pubkey'', Str ''k1''), (''sig'', Str ''00'')]"

definition sample_services :: services where
  "sample_services =
     \<lparr>sdk = sdk_reading (py_dumps (Obj (unsigned_fields sample_challenge 1700000010123 @ sample_proof))) login_event,
      portal = (\<lambda>url cookie_header host. Http_error 401),
      mint_helper = (\<lambda>u host. Mint_line (Obj [(''token'', Str ''t''), (''max_age'', Num 60)])),
      clock = (\<lambda>n. 1700000000), token_urlsafe = ''n0'',
      get_settings = \<lparr>portal_api_base_url = ''http://127.0.0.1:6788'', challenge_ttl_seconds = 90,
        allow_nostr_login = True, allow_identity_linking = True, clock_skew_seconds = 60\<rparr>\<rparr>"

definition sample_site :: site where
  "sample_site = \<lparr>services_at = (\<lambda>n. sample_services), site_host = ''ynh.test'', browser_ms = 1700000010123,
     signer_answer = (\<lambda>v. case v of Obj ps \<Rightarrow> Inr (Obj (ps @ sample_proof)) | _ \<Rightarrow> Inl Undefined),
     browser_answer = (\<lambda>n as. Inl Undefined)\<rparr>"

definition sample_web :: "mapping_db \<Rightarrow> web" where
  "sample_web db = \<lparr>server_side = \<lparr>challenges = \<lparr>ttl_seconds = 90, backend = Sqlite []\<rparr>, mappings = db,
     mint_requests = [], log_lines = []\<rparr>, requests_sent = 0, cookie_jar = []\<rparr>"

lemma sample_issued: "issued LOGIN_ACTION sample_site (sample_web db) = sample_challenge"
  by (simp add: issued_def service_def sample_site_def sample_services_def sample_web_def sample_challenge_def)

lemma sample_ready: "ready sample_site (sample_web db) sample_proof ''k1''"
proof -
  have s: "service sample_site (sample_web db) = sample_services" "next_service sample_site (sample_web db) = sample_services"
    by (simp_all add: service_def next_service_def sample_site_def)
  have "signs_challenge sample_site (sdk sample_services) sample_challenge sample_proof ''k1''"
    by (simp add: signs_challenge_def sample_site_def sample_services_def sdk_reading_def login_event_def
        sample_challenge_def new_challenge_def LOGIN_ACTION_def)
      (simp add: unsigned_fields_def sample_proof_def)
  then show ?thesis
    unfolding ready_def challenge_fits_def Let_def sample_issued s
    by (simp add: sample_web_def sample_site_def sample_challenge_def new_challenge_def) (simp add: sample_services_def)
qed

theorem page_and_server_sign_in_witness:
  "case run (network sample_site) (performSignIn (\<lambda>e. signer_signEvent browser_signer e) Undefined)
      fresh_login (sample_web ann_db) [] of (r, s', w', l) \<Rightarrow>
    href s' = ''/yunohost/sso/'' \<and> mint_requests (server_side w') = [(''ann'', ''ynh.test'')]"
proof -
  let ?x = "row_to_identity ann_row"
  have key: "get_by_pubkey ''k1'' (mappings (server_side (sample_web ann_db))) = Some ?x"
    by (simp add: get_by_pubkey_def ann_db_def ann_row_def new_row_def sample_web_def)
  have mint: "mint_result (next_service sample_site (sample_web ann_db)) (ynh_username ?x) (site_host sample_site) =
      Inr \<lparr>cookie_name = ''yunohost.portal'', token = Str ''t'', max_age = Num 60\<rparr>"
    by (simp add: mint_result_def next_service_def sample_site_def sample_services_def minted_of_def)
  have "storage_writable fresh_login" by (simp add: fresh_login_def)
  from page_and_server_sign_in [OF sample_ready this key mint, of Undefined] show ?thesis
    by (auto simp: sample_web_def sample_site_def row_to_identity_def ann_row_def new_row_def split: prod.splits)
qed

theorem page_and_server_refuse_unknown_key_witness:
  "case run (network sample_site) (performSignIn (\<lambda>e. signer_signEvent browser_signer e) Undefined)
      fresh_login (sample_web (MappingStore (fresh_file None))) [] of (r, s', w', l) \<Rightarrow>
    e_text (el s' L_messageEl) = ''this pubkey is not linked to any YunoHost account'' \<and> cookie_jar w' = []"
proof -
  let ?w = "sample_web (MappingStore (fresh_file None))"
  have key: "get_by_pubkey ''k1'' (mappings (server_side ?w)) = None"
    by (simp add: sample_web_def MappingStore_def migrate_legacy_users_def fresh_file_def get_by_pubkey_def)
  have "storage_writable fresh_login" by (simp add: fresh_login_def)
  from page_and_server_refuse_unknown_key [OF sample_ready this key, of Undefined] show ?thesis
    by (auto simp: shown_error_def split: prod.splits) (simp_all add: sample_web_def)
qed

end
