(* ===== verification/Link_Flow.thy ===== *)
theory Link_Flow
  imports Account_Laws Sign_In_Flow
begin

text \<open>
  The account page and the server together: the page links a key, with the signer, the clocks and
  the answers of YunoHost as parameters; and afterwards the login page signs in with it.
\<close>

subsection \<open>What shows the page only reads\<close>

definition reading_allowed :: "string \<Rightarrow> jsval list \<Rightarrow> bool" where
  "reading_allowed n as \<longleftrightarrow> (n = ''fetch'' \<longrightarrow> (\<exists>url \<in> {''/policy'', ''/identities''}. as = [Str url, with_credentials Undefined]))"

definition reading_inv :: "jsval \<Rightarrow> account_page \<Rightarrow> event list \<Rightarrow> bool" where
  "reading_inv kp s l \<longleftrightarrow> generatedKeypair s = kp \<and> (\<forall>(n, as, r) \<in> set l. reading_allowed n as)"

interpretation reading: account_views "reading_inv kp" reading_allowed for kp
  by unfold_locales (auto simp: reading_inv_def reading_allowed_def)

lemma reading_routes:
  "dispatch svc ''GET'' [''policy''] req s =
     (case policy_endpoint svc (req\<lparr>path_identity_id := []\<rparr>) s of (r, s') \<Rightarrow> (answer_of r, s'))"
  "dispatch svc ''GET'' [''identities''] req s =
     (case identities_endpoint svc (req\<lparr>path_identity_id := []\<rparr>) s of (r, s') \<Rightarrow> (answer_of r, s'))"
  by (simp_all add: dispatch_def routes_def)

lemma steady_reads:
  "steady (policy_endpoint svc req)" "steady (identities_endpoint svc req)"
  by (auto simp: policy_endpoint_def identities_endpoint_def intro!: steady_rules)

lemma reads_set_no_cookie:
  "policy_endpoint svc req s = (r, s') \<Longrightarrow> cookies (answer_of r) = []"
  "identities_endpoint svc req s = (r, s') \<Longrightarrow> cookies (answer_of r) = []"
  by (auto simp: policy_endpoint_def identities_endpoint_def py_rules answer_of_def JSONResponse_def error_response_def
      split: prod.splits sum.splits exc.splits)

text \<open>The options that every request of the account page has.\<close>

lemma with_credentials_simps [simp]:
  "method_of (with_credentials Undefined) = ''GET''"
  "method_of (with_credentials (Obj [(''method'', Str ''POST'')])) = ''POST''"
  by (simp_all add: method_of_def with_credentials_def js_field_def js_prop_def)

lemma carries_with_credentials: "carries (with_credentials (post_json body)) body"
  by (simp add: carries_def with_credentials_def post_json_def js_field_def js_prop_def)

lemma served_reads:
  assumes "url \<in> {''/policy'', ''/identities''}"
  shows "server_side (snd (served W url (with_credentials Undefined) w)) = server_side w \<and>
    cookie_jar (snd (served W url (with_credentials Undefined) w)) = cookie_jar w \<and>
    requests_sent (snd (served W url (with_credentials Undefined) w)) = Suc (requests_sent w)"
  using assms
  by (auto simp: served_def reading_routes dest: reads_set_no_cookie steadyD [OF steady_reads(1)] steadyD [OF steady_reads(2)]
      split: prod.splits)

lemma network_sequential: "sequential (network W :: ('s, web) env)"
  by (simp add: sequential_def network_page)

lemma reads_leave_web:
  assumes "safe (reading_inv (generatedKeypair s)) m" and "run (network W) m s w l = (r, s', w', l')"
  shows "server_side w' = server_side w \<and> cookie_jar w' = cookie_jar w \<and> requests_sent w \<le> requests_sent w' \<and>
    generatedKeypair s' = generatedKeypair s"
proof -
  let ?J = "\<lambda>v. server_side v = server_side w \<and> cookie_jar v = cookie_jar w \<and> requests_sent w \<le> requests_sent v"
  obtain l2 where r: "run (network W) m s w [] = (r, s', w', l2)"
    using assms(2) by (subst (asm) run_log) (auto split: prod.splits)
  have "reading_inv (generatedKeypair s) s' l2"
    using safe_run [OF network_sequential assms(1) _ r] by (simp add: reading_inv_def)
  moreover have "?J (snd (snd (network W n as s v)))" if allowed: "reading_allowed n as" and J: "?J v"
    for n as v and s :: account_page
  proof (cases "n = ''fetch''")
    case True
    then obtain url where "url \<in> {''/policy'', ''/identities''}" "as = [Str url, with_credentials Undefined]"
      using allowed by (auto simp: reading_allowed_def)
    then show ?thesis using J served_reads [of url W v] True by (auto simp: network_answers split: prod.split)
  qed (use J in \<open>simp add: network_off\<close>)
  ultimately show ?thesis using run_keeps [where J = ?J and allowed = reading_allowed, OF _ r] by (simp add: reading_inv_def)
qed

subsection \<open>The server links\<close>

text \<open>What the page makes of the label that was typed, and the server of that.\<close>

definition label_fits :: "string \<Rightarrow> bool" where
  "label_fits typed \<longleftrightarrow> js_trim typed = [] \<or> \<not> bad_label (Str (js_trim typed))"

definition label_given :: "string \<Rightarrow> string option" where
  "label_given typed = (if js_trim typed = [] then None else Some (py_strip (js_trim typed)))"

lemma link_body_fields:
  assumes "t \<noteq> []"
  obtains d where "link_body ev (Str t) typed = Obj d" and "dict_get d ''event'' Null = ev"
    and "dict_get d ''signer_type'' (Str ''unknown'') = Str t"
    and "dict_get d ''label'' Null = (if js_trim typed = [] then Null else Str (js_trim typed))"
  using assms that by (simp add: link_body_def dict_get_def js_or_def)

lemma link_metadata:
  assumes "t \<in> set signer_types" and "label_fits typed" and "dict_get d ''signer_type'' (Str ''unknown'') = Str t"
    and "dict_get d ''label'' Null = (if js_trim typed = [] then Null else Str (js_trim typed))"
  shows "identity_metadata d s = (Inr (t, label_given typed), s)"
  using assms by (auto simp: identity_metadata_def label_fits_def label_given_def bad_label_def py_rules)

lemma link_request_granted:
  assumes "allow_identity_linking (get_settings svc)" and "header req ''content-type'' = Some ''application/json''"
    and "request_json req = Some (link_body (Obj ev) (Str t) typed)" and "present (header req ''cookie'')"
    and "t \<in> set signer_types" and "label_fits typed"
  shows "link_request_of svc req s = (Inr (ev, t, label_given typed), s)"
proof -
  have "t \<noteq> []" using assms(5) by (auto simp: signer_types_def)
  then obtain d where d: "link_body (Obj ev) (Str t) typed = Obj d" "dict_get d ''event'' Null = Obj ev"
      "dict_get d ''signer_type'' (Str ''unknown'') = Str t"
      "dict_get d ''label'' Null = (if js_trim typed = [] then Null else Str (js_trim typed))"
    by (rule link_body_fields [where ev = "Obj ev"])
  show ?thesis
    using assms json_passes [OF assms(2), of s] link_metadata [OF assms(5,6) d(3,4), of s] d(1,2)
    by (simp add: link_request_of_def json_body_def body_dict_def body_event_def py_rules)
qed

lemma link_confirmed:
  assumes "action c = LINK_ACTION" and "attests (sdk svc) (py_dumps (Obj ev)) c skew pk"
    and "get_authenticated_username svc ck h (portal_api_base_url (get_settings svc)) = Inr u"
    and "table_ok (mappings s)" and "\<not> owned_by_other u (snd (db_keys (mappings s)) pk)"
  shows "confirm_and_link svc ck h (Some c) (py_dumps (Obj ev)) skew True t lab s =
    (Inr u, s\<lparr>mappings := map_step (Link u pk t lab ''self-service'' (clock svc 1)) (mappings s)\<rparr>)"
  using assms(1,3,5) assms(2) [folded verify_attests]
  by (simp add: confirm_and_link_def current_user_def record_link_def py_rules link_run [OF assms(4)])

lemma link_answered:
  assumes "link_request_of svc req s = (Inr (ev, t, lab), s)"
    and "consume_claimed svc ev s = (Inr (Some c), s\<lparr>challenges := st\<rparr>)"
    and "action c = LINK_ACTION" and "attests (sdk svc) (py_dumps (Obj ev)) c (clock_skew_seconds (get_settings svc)) pk"
    and "get_authenticated_username svc (the (header req ''cookie'')) (host_header req)
      (portal_api_base_url (get_settings svc)) = Inr u"
    and "table_ok (mappings s)" and "\<not> owned_by_other u (snd (db_keys (mappings s)) pk)"
  shows "\<exists>s'. link_endpoint svc req s = (Inr (JSONResponse [(''ok'', Bool True), (''username'', Str u)]), s') \<and>
    challenges s' = st \<and> mint_requests s' = mint_requests s \<and>
    mappings s' = map_step (Link u pk t lab ''self-service'' (clock svc 1)) (mappings s)"
  using assms(1,2) link_confirmed [OF assms(3-5), where s = "s\<lparr>challenges := st\<rparr>" and t = t and lab = lab] assms(6,7)
  by (simp add: link_endpoint_def py_rules)

subsection \<open>The page links\<close>

text \<open>The page's part, when the server accepts: what the page does then only reads.\<close>

lemma page_links:
  assumes "served W ''/link/challenge'' (with_credentials (Obj [(''method'', Str ''POST'')])) w = (challenge_json c, w1)"
    and "signer_answer W (Obj (unsigned_fields c (browser_ms W))) = Inr (Obj ev)"
    and "served W (link_address ids (e_value (el s A_linkMode)))
      (with_credentials (post_json (link_body (Obj ev) (Str t) (e_value (el s A_identityLabel))))) w1 = (JSONResponse d, w2)"
    and "currentIdentities s = Arr ids" and "list_all (\<lambda>i. \<not> nullish i) ids"
  shows "case run (network W) (performLink (\<lambda>e. signer_signEvent browser_signer e) (Str t)) s w [] of (r, s', w', l) \<Rightarrow>
    server_side w' = server_side w2 \<and> cookie_jar w' = cookie_jar w2 \<and> requests_sent w2 \<le> requests_sent w' \<and>
    generatedKeypair s' = Null"
proof -
  have c: "content (challenge_json c) \<noteq> Null" "status_code (challenge_json c) = 200"
    "\<not> nullish (content (challenge_json c))" "content (JSONResponse d) = Obj d" "status_code (JSONResponse d) = 200"
    by (simp_all add: challenge_json_def JSONResponse_def)
  note updates = reads_leave_web [OF reading.safe_updatePasskeyUi] and loads = reads_leave_web [OF reading.safe_loadIdentity]
  show ?thesis
    using assms c
    by (auto simp: performLink_def link_exchange_def link_sign_def link_send_def network_message_def run_rules fetch_result_def
      signer_signEvent_def run_link_request network_answers event_of_challenge dest!: updates loads split: prod.splits sum.splits)
qed

subsection \<open>Linking\<close>

text \<open>
  What the theorems assume of the site: linking is allowed, the challenge fits, and the portal says
  that the cookies of the browser are a session of the user.
\<close>

definition link_ready :: "site \<Rightarrow> web \<Rightarrow> (string \<times> jsval) list \<Rightarrow> string \<Rightarrow> string \<Rightarrow> bool" where
  "link_ready W w rest pk u \<longleftrightarrow> allow_identity_linking (get_settings (service W w)) \<and>
     allow_identity_linking (get_settings (next_service W w)) \<and> challenge_fits LINK_ACTION W w rest pk \<and>
     present (cookie_text (cookie_jar w)) \<and>
     get_authenticated_username (next_service W w) (the (cookie_text (cookie_jar w))) (site_host W)
       (portal_api_base_url (get_settings (next_service W w))) = Inr u"

definition key_free :: "web \<Rightarrow> string \<Rightarrow> string \<Rightarrow> bool" where
  "key_free w u pk \<longleftrightarrow> table_ok (mappings (server_side w)) \<and> \<not> owned_by_other u (snd (db_keys (mappings (server_side w))) pk)"

lemma link_routes:
  "dispatch svc ''POST'' [''link'', ''challenge''] req s =
     (case link_challenge_endpoint svc (req\<lparr>path_identity_id := []\<rparr>) s of (r, s') \<Rightarrow> (answer_of r, s'))"
  "dispatch svc ''POST'' [''link''] req s =
     (case link_endpoint svc (req\<lparr>path_identity_id := []\<rparr>) s of (r, s') \<Rightarrow> (answer_of r, s'))"
  by (simp_all add: dispatch_def routes_def)

lemma served_link_challenge:
  assumes "link_ready W w rest pk u"
  shows "served W ''/link/challenge'' (with_credentials (Obj [(''method'', Str ''POST'')])) w =
    (challenge_json (issued LINK_ACTION W w), after_issue LINK_ACTION W w)"
proof -
  let ?req = "(browser_request W w (with_credentials (Obj [(''method'', Str ''POST'')])))\<lparr>path_identity_id := []\<rparr>"
  have "allow_identity_linking (get_settings (service W w))" and fits: "challenge_fits LINK_ACTION W w rest pk"
    using assms by (auto simp: link_ready_def)
  then show ?thesis
    using issue_served [OF fits, of ?req]
    by (simp add: served_def link_routes link_challenge_endpoint_def answer_of_def service_def [symmetric]
        after_issue_def) (simp add: challenge_json_def JSONResponse_def)
qed

lemma served_link:
  fixes W :: site and w :: web and rest :: "(string \<times> jsval) list"
  defines "c \<equiv> issued LINK_ACTION W w" and "ev \<equiv> unsigned_fields (issued LINK_ACTION W w) (browser_ms W) @ rest"
  assumes ready: "link_ready W w rest pk u" and "key_free w u pk" and t: "t \<in> set signer_types" and typed: "label_fits typed"
  obtains s' where "served W ''/link'' (with_credentials (post_json (link_body (Obj ev) (Str t) typed))) (after_issue LINK_ACTION W w) =
      (JSONResponse [(''ok'', Bool True), (''username'', Str u)], w\<lparr>server_side := s', requests_sent := requests_sent w + 2\<rparr>)"
    and "challenges s' = snd (consume (Str (nonce c)) (clock (next_service W w) 0) (challenges (with_issued LINK_ACTION W w)))"
    and "\<forall>t. fst (consume (Str (nonce c)) t (challenges s')) = Inr None"
    and "mint_requests s' = mint_requests (server_side w)"
    and "mappings s' = map_step (Link u pk t (label_given typed) ''self-service'' (clock (next_service W w) 1)) (mappings (server_side w))"
proof -
  let ?w = "after_issue LINK_ACTION W w" and ?s = "with_issued LINK_ACTION W w" and ?svc = "next_service W w"
  let ?options = "with_credentials (post_json (link_body (Obj ev) (Str t) typed))"
  let ?req = "(browser_request W ?w ?options)\<lparr>path_identity_id := []\<rparr>"
  have fits: "challenge_fits LINK_ACTION W w rest pk" using ready by (simp add: link_ready_def)
  note attested = issued_attested [OF fits, folded c_def, folded ev_def [folded c_def]]
  obtain st where con: "consume (Str (token_urlsafe (service W w))) (clock ?svc 0) (challenges ?s) = (Inr (Some c), st)"
    and closed: "\<forall>t. fst (consume (Str (token_urlsafe (service W w))) t st) = Inr None"
    using issued_consumed [OF fits] unfolding c_def by blast
  have "json_ok (link_body (Obj ev) (Str t) typed)"
    using attested(2) t by (simp add: link_body_def js_or_def)
  note sent = carried_request(1,2) [OF carries_with_credentials this, where W = W and w = ?w]
    carried_request(3) [OF carries_with_credentials this]
  have "extract_tag_from_raw_event ev ''challenge'' = Str (token_urlsafe (service W w))"
    by (simp add: ev_def claimed_nonce)
  then have consumed: "consume_claimed ?svc ev ?s = (Inr (Some c), ?s\<lparr>challenges := st\<rparr>)"
    using con attested(4) by (simp add: consume_claimed_def py_rules)
  have asked: "link_request_of ?svc ?req ?s = (Inr (ev, t, label_given typed), ?s)"
    by (rule link_request_granted) (use ready sent t typed in \<open>simp_all add: link_ready_def\<close>)
  obtain s' where s': "link_endpoint ?svc ?req ?s = (Inr (JSONResponse [(''ok'', Bool True), (''username'', Str u)]), s')"
    "challenges s' = st" "mint_requests s' = mint_requests (server_side w)"
    "mappings s' = map_step (Link u pk t (label_given typed) ''self-service'' (clock ?svc 1)) (mappings (server_side w))"
    using link_answered [OF asked consumed _ attested(1), of u] ready assms(4)
    by (auto simp: link_ready_def key_free_def c_def host_header_def)
  show thesis
  proof (rule that)
    show "served W ''/link'' ?options ?w =
      (JSONResponse [(''ok'', Bool True), (''username'', Str u)], w\<lparr>server_side := s', requests_sent := requests_sent w + 2\<rparr>)"
      using s'(1) sent(3)
      by (simp add: served_def link_routes next_service_def [symmetric] answer_of_def) (simp add: after_issue_def JSONResponse_def)
  qed (use s' closed con in \<open>simp_all add: c_def\<close>)
qed

text \<open>What the operation of the store means for the keys.\<close>

lemma link_gives:
  assumes "table_ok db" and "\<not> owned_by_other u (snd (db_keys db) pk)"
  shows "get_by_pubkey pk (map_step (Link u pk t lab origin now) db) =
      Some (row_to_identity (new_row u pk now t lab origin (last_id db + 1)))"
    and "p \<noteq> pk \<Longrightarrow> holder (db_keys (map_step (Link u pk t lab origin now) db)) p =
      (if holder (db_keys db) p = Some u then None else holder (db_keys db) p)"
proof -
  have "find (\<lambda>r. row_pubkey r = pk \<and> row_enabled r = 1) (id_rows (delete_user u db)) = None"
    using delete_user_frees [OF assms(2,1)] by (auto simp: find_None_iff)
  then show "get_by_pubkey pk (map_step (Link u pk t lab origin now) db) =
      Some (row_to_identity (new_row u pk now t lab origin (last_id db + 1)))"
    using assms by (simp add: link_run get_by_pubkey_def find_append new_row_def)
  show "holder (db_keys (map_step (Link u pk t lab origin now) db)) p =
      (if holder (db_keys db) p = Some u then None else holder (db_keys db) p)" if "p \<noteq> pk"
    using assms that
    by (subst map_step_keys [OF assms(1)], subst db_keys_pair)
      (auto simp: holder_def without_user_def split: option.splits bool.splits)
qed

text \<open>The page and the server link.\<close>

lemma link_exchange_ends:
  assumes ready: "link_ready W w rest pk u" and free: "key_free w u pk"
    and t: "t \<in> set signer_types" and typed: "label_fits (e_value (el s A_identityLabel))"
    and page: "currentIdentities s = Arr ids" "list_all (\<lambda>i. \<not> nullish i) ids" "link_address ids (e_value (el s A_linkMode)) = ''/link''"
  shows "case run (network W) (performLink (\<lambda>e. signer_signEvent browser_signer e) (Str t)) s w [] of (r, s', w', l) \<Rightarrow>
    mappings (server_side w') = map_step (Link u pk t (label_given (e_value (el s A_identityLabel))) ''self-service''
      (clock (next_service W w) 1)) (mappings (server_side w)) \<and>
    challenges (server_side w') = snd (consume (Str (nonce (issued LINK_ACTION W w))) (clock (next_service W w) 0)
      (challenges (with_issued LINK_ACTION W w))) \<and>
    (\<forall>t. fst (consume (Str (nonce (issued LINK_ACTION W w))) t (challenges (server_side w'))) = Inr None) \<and>
    mint_requests (server_side w') = mint_requests (server_side w) \<and> cookie_jar w' = cookie_jar w \<and>
    requests_sent w + 2 \<le> requests_sent w' \<and> generatedKeypair s' = Null"
proof -
  let ?typed = "e_value (el s A_identityLabel)"
  let ?ev = "unsigned_fields (issued LINK_ACTION W w) (browser_ms W) @ rest"
  have fits: "challenge_fits LINK_ACTION W w rest pk" using ready by (simp add: link_ready_def)
  obtain s' where sent: "served W (link_address ids (e_value (el s A_linkMode)))
      (with_credentials (post_json (link_body (Obj ?ev) (Str t) ?typed))) (after_issue LINK_ACTION W w) =
      (JSONResponse [(''ok'', Bool True), (''username'', Str u)], w\<lparr>server_side := s', requests_sent := requests_sent w + 2\<rparr>)"
    and rest: "challenges s' = snd (consume (Str (nonce (issued LINK_ACTION W w))) (clock (next_service W w) 0)
      (challenges (with_issued LINK_ACTION W w)))"
      "\<forall>t. fst (consume (Str (nonce (issued LINK_ACTION W w))) t (challenges s')) = Inr None"
      "mint_requests s' = mint_requests (server_side w)"
      "mappings s' = map_step (Link u pk t (label_given ?typed) ''self-service'' (clock (next_service W w) 1)) (mappings (server_side w))"
    using served_link [OF ready free t typed] page(3) by metis
  show ?thesis
    using page_links [OF served_link_challenge [OF ready] issued_attested(3) [OF fits] sent page(1,2)] rest
    by (auto split: prod.splits)
qed

text \<open>
  C31. Page and server together link a key.  When the portal says whose session it is, the signer
  signs the event it is asked to sign, the clocks fit the challenge, and no other user has the
  key, then the page's linking against the server gives the key to this user with the kind of
  signer and the label of the page, takes the user's other keys away, leaves every other
  user's keys, asks for no session, sets no cookie, uses the challenge up, and forgets the generated
  key of the page.
\<close>

theorem page_and_server_link:
  assumes "link_ready W w rest pk u" and "key_free w u pk"
    and "t \<in> set signer_types" and "label_fits (e_value (el s A_identityLabel))"
    and "currentIdentities s = Arr ids" "list_all (\<lambda>i. \<not> nullish i) ids" "link_address ids (e_value (el s A_linkMode)) = ''/link''"
  shows "case run (network W) (performLink (\<lambda>e. signer_signEvent browser_signer e) (Str t)) s w [] of (r, s', w', l) \<Rightarrow>
    (case get_by_pubkey pk (mappings (server_side w')) of None \<Rightarrow> False
     | Some x \<Rightarrow> ynh_username x = u \<and> enabled x \<and> signer_type x = t \<and>
         label x = label_given (e_value (el s A_identityLabel)) \<and> linked_by x = ''self-service'') \<and>
    (\<forall>p. p \<noteq> pk \<longrightarrow> holder (db_keys (mappings (server_side w'))) p =
       (if holder (db_keys (mappings (server_side w))) p = Some u then None
        else holder (db_keys (mappings (server_side w))) p)) \<and>
    mint_requests (server_side w') = mint_requests (server_side w) \<and> cookie_jar w' = cookie_jar w \<and>
    (\<forall>t. fst (consume (Str (nonce (issued LINK_ACTION W w))) t (challenges (server_side w'))) = Inr None) \<and>
    generatedKeypair s' = Null"
proof -
  have "table_ok (mappings (server_side w))" "\<not> owned_by_other u (snd (db_keys (mappings (server_side w))) pk)"
    using assms(2) by (simp_all add: key_free_def)
  note gives = link_gives [OF this, where t = t and lab = "label_given (e_value (el s A_identityLabel))"
      and origin = "''self-service''" and now = "clock (next_service W w) 1"]
  show ?thesis
    using link_exchange_ends [OF assms] gives
    by (auto simp: row_to_identity_def new_row_def simp del: map_step.simps split: prod.splits)
qed

text \<open>
  C2. Linking and then signing in.  After the page has linked the key, the login page, at any
  time and on any page, signs the user in with it, if its own challenge then fits and YunoHost mints:
  the browser ends at the portal, and the one session that was asked for in all is for this user.
\<close>

theorem link_then_sign_in:
  assumes "link_ready W w rest pk u" and "key_free w u pk"
    and "t \<in> set signer_types" and "label_fits (e_value (el s A_identityLabel))"
    and "currentIdentities s = Arr ids" "list_all (\<lambda>i. \<not> nullish i) ids" "link_address ids (e_value (el s A_linkMode)) = ''/link''"
    and "storage_writable s2"
  shows "case run (network W) (performLink (\<lambda>e. signer_signEvent browser_signer e) (Str t)) s w [] of (r, s', w1, l) \<Rightarrow>
    ready W w1 rest2 pk \<and> mint_result (next_service W w1) u (site_host W) = Inr minted \<longrightarrow>
    (case run (network W) (performSignIn (\<lambda>e. signer_signEvent browser_signer e) busy) s2 w1 [] of (r2, s2', w2, l2) \<Rightarrow>
       href s2' = ''/yunohost/sso/'' \<and>
       mint_requests (server_side w2) = mint_requests (server_side w) @ [(u, site_host W)] \<and>
       cookie_jar w2 = cookie_jar w @ [\<lparr>set_name = cookie_name minted, set_value = token minted,
         set_max_age = max_age minted, set_domain = CHR ''.'' # site_host W\<rparr>])"
proof -
  have "table_ok (mappings (server_side w))" "\<not> owned_by_other u (snd (db_keys (mappings (server_side w))) pk)"
    using assms(2) by (simp_all add: key_free_def)
  note gives = link_gives(1) [OF this, where t = t and lab = "label_given (e_value (el s A_identityLabel))"
      and origin = "''self-service''" and now = "clock (next_service W w) 1"]
  obtain r s' w1 l where r: "run (network W) (performLink (\<lambda>e. signer_signEvent browser_signer e) (Str t)) s w [] = (r, s', w1, l)"
    by (metis prod_cases4)
  note ends = link_exchange_ends [OF assms(1-7), unfolded r prod.case]
  have key: "get_by_pubkey pk (mappings (server_side w1)) = Some (row_to_identity (new_row u pk (clock (next_service W w) 1) t
      (label_given (e_value (el s A_identityLabel))) ''self-service'' (last_id (mappings (server_side w)) + 1)))"
    using gives ends by (simp del: map_step.simps)
  have "case run (network W) (performSignIn (\<lambda>e. signer_signEvent browser_signer e) busy) s2 w1 [] of (r2, s2', w2, l2) \<Rightarrow>
      exchange_ended W w1 s2 (mint_requests (server_side w1) @ [(u, site_host W)])
        (\<lambda>req. Inr ((JSONResponse [(''ok'', Bool True)])\<lparr>cookies := [session_cookie req minted]\<rparr>)) s2' w2"
    if "ready W w1 rest2 pk" "mint_result (next_service W w1) u (site_host W) = Inr minted"
    using signs_in [OF that(1) assms(8) key] that(2) by (simp add: row_to_identity_def new_row_def)
  then show ?thesis
    using ends by (auto simp: r exchange_ended_def answer_of_def JSONResponse_def session_cookie_def split: prod.splits)
qed

subsection \<open>A concrete site\<close>

text \<open>Bob links \<open>k2\<close> with the first two requests; a later challenge has another token.\<close>

definition sample_event :: "string \<Rightarrow> string \<Rightarrow> nostr_event" where
  "sample_event act n = \<lparr>event_kind = CHALLENGE_EVENT_KIND,
     event_tags = [[''challenge'', n], [''domain'', ''ynh.test''], [''action'', act]],
     event_created_at = 1700000010, event_author = ''k2''\<rparr>"

definition bob_proof :: "(string \<times> jsval) list" where
  "bob_proof = [(''pubkey'', Str ''k2''), (''sig'', Str ''00'')]"

definition services_for :: "string \<Rightarrow> string \<Rightarrow> services" where
  "services_for act n = sample_services\<lparr>
     sdk := sdk_reading (py_dumps (Obj (unsigned_fields (new_challenge ''ynh.test'' act 90 n 1700000000) 1700000010123 @ bob_proof)))
       (sample_event act n),
     portal := (\<lambda>url cookie_header host. Portal_body (Obj [(''username'', Str ''bob'')])), token_urlsafe := n\<rparr>"

definition link_site :: site where
  "link_site = \<lparr>services_at = (\<lambda>k. if k < 2 then services_for LINK_ACTION ''n0'' else services_for LOGIN_ACTION ''n1''),
     site_host = ''ynh.test'', browser_ms = 1700000010123,
     signer_answer = (\<lambda>v. case v of Obj ps \<Rightarrow> Inr (Obj (ps @ bob_proof)) | _ \<Rightarrow> Inl Undefined),
     browser_answer = (\<lambda>n as. Inl Undefined)\<rparr>"

definition link_web :: web where
  "link_web = (sample_web ann_db)\<lparr>cookie_jar := [\<lparr>set_name = ''yunohost.portal'', set_value = Str ''c'',
     set_max_age = Num 60, set_domain = ''.ynh.test''\<rparr>]\<rparr>"

lemma services_for_simps [simp]:
  "token_urlsafe (services_for act n) = n" "clock (services_for act n) k = 1700000000"
  "get_settings (services_for act n) = get_settings sample_services"
  "mint_helper (services_for act n) = mint_helper sample_services"
  "clock_skew_seconds (get_settings sample_services) = 60" "allow_nostr_login (get_settings sample_services)"
  "allow_identity_linking (get_settings sample_services)"
  by (simp_all add: services_for_def sample_services_def)

lemma link_site_fits:
  assumes "service W w = services_for act n" and "next_service W w = services_for act n"
    and "site_host W = ''ynh.test''" "browser_ms W = 1700000010123" "signer_answer W = signer_answer link_site"
    and "challenges (server_side w) = \<lparr>ttl_seconds = 90, backend = Sqlite rows\<rparr>" and "n \<notin> row_nonce ` set rows" and "n \<noteq> []"
  shows "challenge_fits act W w bob_proof ''k2''"
proof -
  have i: "issued act W w = new_challenge ''ynh.test'' act 90 n 1700000000"
    using assms by (simp add: issued_def)
  have "signer_answer W (Obj ps) = Inr (Obj (ps @ bob_proof))" for ps
    using assms(5) by (simp add: link_site_def)
  then have "signs_challenge W (sdk (services_for act n)) (new_challenge ''ynh.test'' act 90 n 1700000000) bob_proof ''k2''"
    using assms(3,4) by (simp add: signs_challenge_def services_for_def sdk_reading_def sample_event_def new_challenge_def)
      (simp add: unsigned_fields_def bob_proof_def)
  then show ?thesis
    using assms by (simp add: challenge_fits_def i) (simp add: new_challenge_def)
qed

lemma link_site_simps [simp]:
  "site_host link_site = ''ynh.test''" "browser_ms link_site = 1700000010123"
  by (simp_all add: link_site_def)

lemma link_site_services:
  "service link_site link_web = services_for LINK_ACTION ''n0''" "next_service link_site link_web = services_for LINK_ACTION ''n0''"
  "2 \<le> requests_sent w \<Longrightarrow> service link_site w = services_for LOGIN_ACTION ''n1''"
  "2 \<le> requests_sent w \<Longrightarrow> next_service link_site w = services_for LOGIN_ACTION ''n1''"
  by (simp_all add: service_def next_service_def link_site_def link_web_def sample_web_def)

lemma link_site_ready:
  "link_ready link_site link_web bob_proof ''k2'' ''bob''" "key_free link_web ''bob'' ''k2''"
  "''nip07'' \<in> set signer_types" "label_fits (e_value (el fresh_account A_identityLabel))"
  "currentIdentities fresh_account = Arr []" "list_all (\<lambda>i. \<not> nullish i) []"
  "link_address [] (e_value (el fresh_account A_linkMode)) = ''/link''"
proof -
  have "challenge_fits LINK_ACTION link_site link_web bob_proof ''k2''"
    by (rule link_site_fits [of _ _ _ "''n0''" "[]"]) (simp_all add: link_site_services, simp add: link_web_def sample_web_def)
  then show "link_ready link_site link_web bob_proof ''k2'' ''bob''"
    by (simp add: link_ready_def link_site_services)
      (simp add: link_web_def cookie_text_def present_def get_authenticated_username_def get_authenticated_session_def
        services_for_def session_of_body_def dict_get_def)
  show "key_free link_web ''bob'' ''k2''"
    by (simp add: key_free_def link_web_def sample_web_def ann_db_def table_ok_def db_keys_def row_of_pubkey_def
        ann_row_def new_row_def owned_by_other_def)
qed (simp_all add: signer_types_def label_fits_def fresh_account_def blank_elem_def link_address_def active_identity_def)

theorem page_and_server_link_witness:
  "case run (network link_site) (performLink (\<lambda>e. signer_signEvent browser_signer e) (Str ''nip07'')) fresh_account link_web [] of
    (r, s', w', l) \<Rightarrow> (\<exists>x. get_by_pubkey ''k2'' (mappings (server_side w')) = Some x \<and> ynh_username x = ''bob'')"
  using page_and_server_link [OF link_site_ready] by (auto split: prod.splits option.splits)

theorem link_then_sign_in_witness:
  "case run (network link_site) (performLink (\<lambda>e. signer_signEvent browser_signer e) (Str ''nip07'')) fresh_account link_web [] of
    (r, s', w1, l) \<Rightarrow>
      (case run (network link_site) (performSignIn (\<lambda>e. signer_signEvent browser_signer e) Undefined) fresh_login w1 [] of
        (r2, s2', w2, l2) \<Rightarrow> mint_requests (server_side w2) = [(''bob'', ''ynh.test'')])"
proof -
  obtain r s' w1 l where r: "run (network link_site) (performLink (\<lambda>e. signer_signEvent browser_signer e) (Str ''nip07''))
      fresh_account link_web [] = (r, s', w1, l)" by (metis prod_cases4)
  note ends = link_exchange_ends [OF link_site_ready, unfolded r prod.case]
  let ?c = "issued LINK_ACTION link_site link_web"
  have "challenges (with_issued LINK_ACTION link_site link_web) =
      \<lparr>ttl_seconds = 90, backend = Sqlite [\<lparr>row_challenge = ?c, consumed_at = None\<rparr>]\<rparr>"
    by (simp add: with_issued_def) (simp add: link_web_def sample_web_def)
  moreover have "nonce ?c = ''n0''" by (simp add: link_site_services)
  ultimately have "challenges (server_side w1) =
      \<lparr>ttl_seconds = 90, backend = Sqlite [\<lparr>row_challenge = ?c, consumed_at = Some 1700000000\<rparr>]\<rparr>"
    using ends by (simp add: link_site_services consume_def py_rules text_parameter_def sqlite_consume_def open_row_def
        row_nonce_def Let_def)
  then have "challenge_fits LOGIN_ACTION link_site w1 bob_proof ''k2''"
    using ends by (intro link_site_fits [of _ _ _ "''n1''"])
      (simp_all add: link_site_services row_nonce_def, simp add: link_site_services)
  then have "ready link_site w1 bob_proof ''k2''"
    using ends by (simp add: ready_def link_site_services)
  moreover have "mint_result (next_service link_site w1) ''bob'' (site_host link_site) =
      Inr \<lparr>cookie_name = ''yunohost.portal'', token = Str ''t'', max_age = Num 60\<rparr>"
    using ends by (simp add: link_site_services mint_result_def) (simp add: sample_services_def minted_of_def)
  moreover have "storage_writable fresh_login" by (simp add: fresh_login_def)
  moreover have "mint_requests (server_side link_web) = []"
    by (simp add: link_web_def sample_web_def)
  ultimately show ?thesis
    using link_then_sign_in [OF link_site_ready, where ?s2.0 = fresh_login and ?rest2.0 = bob_proof and busy = Undefined
        and minted = "\<lparr>cookie_name = ''yunohost.portal'', token = Str ''t'', max_age = Num 60\<rparr>", unfolded r prod.case]
    by (auto simp: r split: prod.splits)
qed

end
