(* ===== verification/Unlink_Flow.thy ===== *)
theory Unlink_Flow
  imports Link_Flow
begin

text \<open>
  The account page and the server together: the page unlinks the user's identities; afterwards
  none of their keys signs in.
\<close>

subsection \<open>The server unlinks\<close>

lemma unlink_route:
  "dispatch svc ''POST'' [''unlink''] req s =
     (case unlink_endpoint svc (req\<lparr>path_identity_id := []\<rparr>) s of (r, s') \<Rightarrow> (answer_of r, s'))"
  by (simp add: dispatch_def routes_def)

lemma unlink_answered:
  assumes "present (header req ''cookie'')"
    and "get_authenticated_username svc (the (header req ''cookie'')) (host_header req)
      (portal_api_base_url (get_settings svc)) = Inr u"
  shows "\<exists>s'. unlink_endpoint svc req s = (Inr (JSONResponse [(''ok'', Bool True), (''username'', Str u)]), s') \<and>
    mappings s' = map_step (Unlink u) (mappings s) \<and> challenges s' = challenges s \<and> mint_requests s' = mint_requests s"
  using assms by (simp add: unlink_endpoint_def confirm_and_unlink_def current_user_def py_rules unlink_def)

text \<open>The portal says that the cookies of the browser are a session of the user.\<close>

definition logged_in :: "site \<Rightarrow> web \<Rightarrow> string \<Rightarrow> bool" where
  "logged_in W w u \<longleftrightarrow> present (cookie_text (cookie_jar w)) \<and>
     get_authenticated_username (service W w) (the (cookie_text (cookie_jar w))) (site_host W)
       (portal_api_base_url (get_settings (service W w))) = Inr u"

lemma served_unlink:
  assumes "logged_in W w u"
  obtains s' where "served W ''/unlink'' (with_credentials (Obj [(''method'', Str ''POST'')])) w =
      (JSONResponse [(''ok'', Bool True), (''username'', Str u)], w\<lparr>server_side := s', requests_sent := Suc (requests_sent w)\<rparr>)"
    and "mappings s' = map_step (Unlink u) (mappings (server_side w))"
    and "challenges s' = challenges (server_side w)" "mint_requests s' = mint_requests (server_side w)"
proof -
  let ?options = "with_credentials (Obj [(''method'', Str ''POST'')])"
  let ?req = "(browser_request W w ?options)\<lparr>path_identity_id := []\<rparr>"
  obtain s' where s': "unlink_endpoint (service W w) ?req (server_side w) =
      (Inr (JSONResponse [(''ok'', Bool True), (''username'', Str u)]), s')"
    "mappings s' = map_step (Unlink u) (mappings (server_side w))"
    "challenges s' = challenges (server_side w)" "mint_requests s' = mint_requests (server_side w)"
    using unlink_answered [of ?req "service W w" u "server_side w"] assms by (auto simp: logged_in_def host_header_def)
  show thesis
  proof (rule that [OF _ s'(2-4)])
    show "served W ''/unlink'' ?options w =
      (JSONResponse [(''ok'', Bool True), (''username'', Str u)], w\<lparr>server_side := s', requests_sent := Suc (requests_sent w)\<rparr>)"
      using s'(1) by (simp add: served_def unlink_route service_def [symmetric] answer_of_def) (simp add: JSONResponse_def)
  qed
qed

subsection \<open>The page unlinks\<close>

lemma page_unlinks:
  assumes "browser_answer W ''window.confirm'' [Str ''Unlink all Nostr identities? You can link a new one anytime.''] = Inr yes"
    and "truthy yes" and "has_ConnectUI s"
    and "served W ''/unlink'' (with_credentials (Obj [(''method'', Str ''POST'')])) w = (JSONResponse d, w2)"
  shows "case run (network W) unlinkIdentity s w [] of (r, s', w', l) \<Rightarrow>
    server_side w' = server_side w2 \<and> cookie_jar w' = cookie_jar w2 \<and> requests_sent w2 \<le> requests_sent w'"
proof -
  have d: "content (JSONResponse d) = Obj d" "status_code (JSONResponse d) = 200"
    by (simp_all add: JSONResponse_def)
  have confirm: "network W ''window.confirm'' as s v = (browser_answer W ''window.confirm'' as, s, v)" for as and s :: account_page and v
    by (simp add: network_def method_name_def)
  note loads = reads_leave_web [OF reading.safe_loadIdentity] and saved = reads_leave_web [OF reading.safe_renderSavedSigners]
  show ?thesis
    using assms d
    by (auto simp: unlinkIdentity_def network_message_def run_rules fetch_result_def with_ConnectUI_def confirm
      network_answers dest!: loads saved split: prod.splits sum.splits)
qed

lemma unlink_takes:
  assumes "table_ok db"
  shows "holder (db_keys (map_step (Unlink u) db)) p = (if holder (db_keys db) p = Some u then None else holder (db_keys db) p)"
  by (subst map_step_keys [OF assms], subst db_keys_pair)
    (auto simp: holder_def without_user_def split: option.splits bool.splits)

text \<open>
  C32. Unlinking, and then signing in.  When the user confirms and the portal says whose session it is,
  the page's unlinking against the server takes all keys of this user and no other key away; the
  login page then refuses each of them with the server's reason, and no session is asked for.
\<close>

theorem unlink_then_refused:
  assumes "browser_answer W ''window.confirm'' [Str ''Unlink all Nostr identities? You can link a new one anytime.''] = Inr yes"
    and "truthy yes" and "has_ConnectUI s" and "logged_in W w u" and "table_ok (mappings (server_side w))"
    and "holder (db_keys (mappings (server_side w))) pk = Some u" and "storage_writable s2"
  shows "case run (network W) unlinkIdentity s w [] of (r, s', w1, l) \<Rightarrow>
    (\<forall>p. holder (db_keys (mappings (server_side w1))) p =
       (if holder (db_keys (mappings (server_side w))) p = Some u then None
        else holder (db_keys (mappings (server_side w))) p)) \<and>
    (ready W w1 rest pk \<longrightarrow>
      (case run (network W) (performSignIn (\<lambda>e. signer_signEvent browser_signer e) busy) s2 w1 [] of (r2, s2', w2, l2) \<Rightarrow>
        shown_error ''this pubkey is not linked to any YunoHost account'' s2 s2' \<and>
        mint_requests (server_side w2) = mint_requests (server_side w) \<and> cookie_jar w2 = cookie_jar w))"
proof -
  obtain srv where served: "served W ''/unlink'' (with_credentials (Obj [(''method'', Str ''POST'')])) w =
      (JSONResponse [(''ok'', Bool True), (''username'', Str u)], w\<lparr>server_side := srv, requests_sent := Suc (requests_sent w)\<rparr>)"
    and srv: "mappings srv = map_step (Unlink u) (mappings (server_side w))"
      "mint_requests srv = mint_requests (server_side w)"
    by (rule served_unlink [OF assms(4)])
  obtain r s' w1 l where run: "run (network W) unlinkIdentity s w [] = (r, s', w1, l)"
    by (metis prod_cases4)
  have w1: "server_side w1 = srv" "cookie_jar w1 = cookie_jar w"
    using page_unlinks [OF assms(1-3) served] run by simp_all
  note taken = unlink_takes [OF assms(5), of u, folded srv(1)]
  have "table_ok (mappings srv)" using assms(5) map_step_ok by (simp add: srv(1) del: map_step.simps)
  then have "get_by_pubkey pk (mappings srv) = None"
    using get_by_pubkey_holder [of "mappings srv" pk] taken [of pk] assms(6) by simp
  then show ?thesis
    using sign_in_refused [of W w1 rest pk s2 busy] assms(7) taken
    by (auto simp: run w1 srv(2) exchange_ended_def answer_of_def error_response_def js_field_def js_prop_def split: prod.splits)
qed

subsection \<open>A concrete site\<close>

text \<open>Bob, who has \<open>k2\<close>, unlinks; later requests are about signing in.\<close>

definition bob_db :: mapping_db where
  "bob_db = \<lparr>id_rows = [new_row ''bob'' ''k2'' 50 ''nip07'' None ''self-service'' 1], last_id = 1, user_version = 1, legacy_users = None\<rparr>"

definition unlink_site :: site where
  "unlink_site = link_site\<lparr>browser_answer := (\<lambda>n as. Inr (Bool True))\<rparr>"

definition unlink_web :: web where
  "unlink_web = (sample_web bob_db)\<lparr>requests_sent := 2, cookie_jar := [\<lparr>set_name = ''yunohost.portal'', set_value = Str ''c'',
     set_max_age = Num 60, set_domain = ''.ynh.test''\<rparr>]\<rparr>"

lemma unlink_site_services:
  "2 \<le> requests_sent w \<Longrightarrow> service unlink_site w = services_for LOGIN_ACTION ''n1''"
  "2 \<le> requests_sent w \<Longrightarrow> next_service unlink_site w = services_for LOGIN_ACTION ''n1''"
  by (simp_all add: service_def next_service_def unlink_site_def link_site_def)

lemma unlink_site_simps [simp]:
  "site_host unlink_site = ''ynh.test''" "browser_ms unlink_site = 1700000010123"
  "signer_answer unlink_site = signer_answer link_site" "requests_sent unlink_web = 2"
  by (simp_all add: unlink_site_def unlink_web_def)

theorem unlink_then_refused_witness:
  "case run (network unlink_site) unlinkIdentity fresh_account unlink_web [] of (r, s', w1, l) \<Rightarrow>
     holder (db_keys (mappings (server_side w1))) ''k2'' = None \<and>
     (case run (network unlink_site) (performSignIn (\<lambda>e. signer_signEvent browser_signer e) Undefined) fresh_login w1 [] of
       (r2, s2', w2, l2) \<Rightarrow> e_text (el s2' L_messageEl) = ''this pubkey is not linked to any YunoHost account'')"
proof -
  let ?W = unlink_site and ?w = unlink_web
  have yes: "browser_answer ?W ''window.confirm'' [Str ''Unlink all Nostr identities? You can link a new one anytime.''] = Inr (Bool True)"
    "truthy (Bool True)" "has_ConnectUI fresh_account"
    by (simp_all add: unlink_site_def fresh_account_def)
  have user: "logged_in ?W ?w ''bob''"
    by (simp add: logged_in_def unlink_site_services)
      (simp add: unlink_web_def cookie_text_def present_def get_authenticated_username_def get_authenticated_session_def
        services_for_def session_of_body_def dict_get_def)
  have table: "table_ok (mappings (server_side ?w))" "holder (db_keys (mappings (server_side ?w))) ''k2'' = Some ''bob''"
    by (simp_all add: unlink_web_def sample_web_def bob_db_def table_ok_def new_row_def holder_def db_keys_def
        row_of_pubkey_def row_entry_def)
  obtain srv where served: "served ?W ''/unlink'' (with_credentials (Obj [(''method'', Str ''POST'')])) ?w =
      (JSONResponse [(''ok'', Bool True), (''username'', Str ''bob'')], ?w\<lparr>server_side := srv, requests_sent := Suc (requests_sent ?w)\<rparr>)"
    and srv: "challenges srv = challenges (server_side ?w)"
    by (rule served_unlink [OF user])
  obtain r s' w1 l where run: "run (network ?W) unlinkIdentity fresh_account ?w [] = (r, s', w1, l)"
    by (metis prod_cases4)
  have w1: "challenges (server_side w1) = \<lparr>ttl_seconds = 90, backend = Sqlite []\<rparr>" "2 \<le> requests_sent w1"
    using page_unlinks [OF yes served] srv run by (simp_all add: unlink_web_def sample_web_def)
  then have "ready ?W w1 bob_proof ''k2''"
    using link_site_fits [of ?W w1 LOGIN_ACTION "''n1''" "[]"] by (simp add: ready_def unlink_site_services)
  moreover have "storage_writable fresh_login" by (simp add: fresh_login_def)
  ultimately show ?thesis
    using unlink_then_refused [OF yes user table, of fresh_login bob_proof Undefined, unfolded run prod.case] table(2)
    by (auto simp: run shown_error_def split: prod.splits)
qed

end
