(* ===== verification/Server_Answers.thy ===== *)
theory Server_Answers
  imports Json Server_Access
begin

text \<open>
  What every answer of the server looks like: a JSON object, or an error with one of the statuses
  of the endpoints; and which requests need a JSON body.
\<close>

subsection \<open>What a piece of code yields\<close>

definition api_codes :: "int set" where
  "api_codes = {400, 401, 403, 404, 409, 415, 502}"

definition exc_ok :: "exc \<Rightarrow> bool" where
  "exc_ok e \<longleftrightarrow> (case e of Api_error code m \<Rightarrow> code \<in> api_codes | _ \<Rightarrow> True)"

text \<open>Whatever the state is, the code returns a value with \<open>P\<close> or raises an exception that is answered.\<close>

definition yields :: "('a \<Rightarrow> bool) \<Rightarrow> ('s, 'a) py \<Rightarrow> bool" where
  "yields P m \<longleftrightarrow> (\<forall>s. case fst (m s) of Inr x \<Rightarrow> P x | Inl e \<Rightarrow> exc_ok e)"

abbreviation proper :: "('s, 'a) py \<Rightarrow> bool" where
  "proper m \<equiv> yields (\<lambda>_. True) m"

lemma exc_ok_simps [simp]:
  "exc_ok (Api_error code m) \<longleftrightarrow> code \<in> api_codes" "exc_ok (LoginError m)" "exc_ok (LinkingError m)"
  "exc_ok (SessionMintError m)" "exc_ok (PortalAuthError m)" "exc_ok (InvalidEvent m)" "exc_ok (ValueError m)"
  "exc_ok (RuntimeError m)" "exc_ok TypeError" "exc_ok AttributeError" "exc_ok IntegrityError" "exc_ok Sql_parameter_error"
  "exc_ok Overflow_error" "exc_ok (Other_exception m)" "exc_ok (PubkeyAlreadyLinked m)" "exc_ok (linked_elsewhere v)"
  by (simp_all add: exc_ok_def linked_elsewhere_def)

lemma api_codes_simps [simp]:
  "400 \<in> api_codes" "401 \<in> api_codes" "403 \<in> api_codes" "404 \<in> api_codes" "409 \<in> api_codes" "415 \<in> api_codes" "502 \<in> api_codes"
  by (simp_all add: api_codes_def)

named_theorems yields_rules "what pieces of code yield"

lemma yields_basic [yields_rules]:
  "P x \<Longrightarrow> yields P (py_return x)" "exc_ok e \<Longrightarrow> yields P (py_raise e)"
  "(\<And>s. P (f s)) \<Longrightarrow> yields P (py_gets f)"
  by (simp_all add: yields_def py_rules)

lemma yields_api_error [yields_rules]: "code \<in> api_codes \<Longrightarrow> yields P (api_error code m)"
  by (simp add: yields_def api_error_run)

lemma yields_unit [yields_rules]:
  "Q () \<Longrightarrow> yields Q (py_modify g)" "Q () \<Longrightarrow> yields Q (log_line lv t)"
  by (simp_all add: yields_def py_rules)

lemma yields_then: "yields Q m \<Longrightarrow> (\<And>x. Q x \<Longrightarrow> yields P (f x)) \<Longrightarrow> yields P (py_bind m f)"
  unfolding yields_def by (auto simp: py_rules split: prod.split sum.splits) (metis fst_conv sum.case)+

lemma yields_bind [yields_rules]: "proper m \<Longrightarrow> (\<And>x. yields P (f x)) \<Longrightarrow> yields P (py_bind m f)"
  by (rule yields_then)

lemma yields_except [yields_rules]:
  "yields P m \<Longrightarrow> (\<And>e m'. h e = Some m' \<Longrightarrow> yields P m') \<Longrightarrow> yields P (py_except m h)"
  unfolding yields_def by (auto simp: py_rules split: prod.split sum.splits option.splits) (metis fst_conv sum.case)+

lemma yields_if [yields_rules]: "(b \<Longrightarrow> yields P m) \<Longrightarrow> (\<not> b \<Longrightarrow> yields P n) \<Longrightarrow> yields P (if b then m else n)"
  by simp

lemma yields_fields [yields_rules]:
  "yields P m \<Longrightarrow> yields P (on_mappings m)" "yields Q c \<Longrightarrow> yields Q (on_challenges c)"
  unfolding yields_def by (auto simp: on_mappings_run on_challenges_run split: prod.split) (metis fst_conv)+

lemma yields_lift: "(\<And>e. r = Inl e \<Longrightarrow> exc_ok e) \<Longrightarrow> (\<And>x. r = Inr x \<Longrightarrow> P x) \<Longrightarrow> yields P (py_lift r)"
  by (cases r) (auto simp: yields_def py_rules)

lemma yields_transaction: "(\<And>db e. g db = Inl e \<Longrightarrow> exc_ok e) \<Longrightarrow> proper (transaction g)"
  by (auto simp: yields_def transaction_run split: sum.split)

subsection \<open>The parts of the endpoints\<close>

lemma proper_store [yields_rules]:
  "proper (issue d act n t t')" "proper (consume v now)" "proper (link u p st lab origin now)"
  "proper (add_identity u p st lab origin now)" "proper (unlink u)" "proper (revoke_identity i u now)"
  "proper (update_identity_label i u lab)" "proper (touch_identity i now)" "proper (touch_last_used u now)"
  by (auto simp: issue_def consume_def link_def add_identity_def unlink_def revoke_identity_def update_identity_label_def
      touch_identity_def touch_last_used_def insert_row_def sqlite_issue_def dict_key_def text_parameter_def Let_def
      intro!: yields_rules yields_transaction split: if_splits option.splits jsval.splits backend.splits prod.splits sum.splits)

lemma lift_errors:
  "verify_for lib j c skew = Inl e \<Longrightarrow> exc_ok e" "hex_to_npub lib pk = Inl e \<Longrightarrow> exc_ok e"
  "parse_to_hex lib v = Inl e \<Longrightarrow> exc_ok e" "session_of svc req = Inl e \<Longrightarrow> exc_ok e"
  "get_authenticated_username svc ck h b = Inl e \<Longrightarrow> exc_ok e" "mint_result svc u h = Inl e \<Longrightarrow> exc_ok e"
  by (auto simp: verify_for_def verify_challenge_response_def parse_and_verify_event_def hex_to_npub_def parse_to_hex_def
      session_of_def get_authenticated_session_def session_of_body_def get_authenticated_username_def mint_result_def
      minted_of_def Let_def split: if_splits sum.splits option.splits jsval.splits portal_reply.splits mint_reply.splits)

lemma proper_lifts [yields_rules]:
  "proper (py_lift (verify_for lib j c skew))" "proper (py_lift (hex_to_npub lib pk))" "proper (py_lift (parse_to_hex lib v))"
  "proper (py_lift (session_of svc req))" "proper (py_lift (get_authenticated_username svc ck h b))"
  "proper (py_lift (mint_result svc u h))"
  by (auto intro!: yields_lift dest: lift_errors)

lemma refused_yields:
  "linking_refused what req e = Some m \<Longrightarrow> yields P m" "login_refused req e = Some n \<Longrightarrow> yields Q n"
  "unauthorized e = Some k \<Longrightarrow> yields R k"
  by (auto simp: linking_refused_def login_refused_def unauthorized_def intro!: yields_rules split: exc.splits)

lemma yields_not_logged_in [yields_rules]: "yields P not_logged_in"
  by (auto simp: not_logged_in_def intro!: yields_rules)

lemma proper_guards [yields_rules]:
  "proper (require_json req)" "proper (json_body req)" "proper (body_dict v)" "proper (body_event d)"
  "proper (consume_claimed svc d)" "proper (identity_metadata d)"
  "proper (authenticated_username svc req)" "proper (authenticated_admin svc req)"
  "proper (path_id req)" "proper (sql_id i)" "proper (positive_id i)" "proper (label_item v)" "proper (patch_label v)"
  "proper (admin_target d)" "proper (admin_pubkey svc d)"
  by (auto simp: require_json_def json_body_def body_dict_def body_event_def consume_claimed_def identity_metadata_def
      authenticated_username_def authenticated_admin_def path_id_def sql_id_def positive_id_def
      label_item_def patch_label_def admin_target_def admin_pubkey_def Let_def
      intro!: yields_rules intro: refused_yields split: option.splits jsval.splits exc.splits)

lemma proper_bodies [yields_rules]:
  "proper (admin_body svc req)" "proper (link_request_of svc req)" "proper (current_user svc ck h)"
  "proper (record_link svc b u pk t lab)" "proper (confirm_and_link svc ck h ch j skew b t lab)"
  "proper (confirm_and_add svc ck h ch j skew t lab)" "proper (confirm_and_unlink svc ck h)"
  "proper (authenticate svc ch j skew)"
  by (auto simp: admin_body_def link_request_of_def current_user_def record_link_def confirm_and_link_def confirm_and_add_def
      confirm_and_unlink_def authenticate_def touch_signed_in_def create_ynh_session_def mint_session_def
      intro!: yields_rules split: option.splits exc.splits)

subsection \<open>The answers\<close>

definition good_answer :: "response \<Rightarrow> bool" where
  "good_answer resp \<longleftrightarrow> status_code resp = 200 \<and> json_ok (content resp) \<and> (\<exists>d. content resp = Obj d) \<and> cookies resp = []"

lemma JSONResponse_good [yields_rules]: "json_ok (Obj d) \<Longrightarrow> good_answer (JSONResponse d)"
  by (simp add: good_answer_def JSONResponse_def del: json_ok.simps)

lemma json_ok_options [simp]: "json_ok (opt_num i)" "json_ok (opt_str t)"
  by (simp_all add: opt_num_def opt_str_def split: option.split)

lemma identity_json_ok: "identity_json svc x = Inr v \<Longrightarrow> json_ok v"
  by (auto simp: identity_json_def split: sum.splits)

lemma identities_json_ok: "identities_json svc xs = Inr vs \<Longrightarrow> list_all json_ok vs"
  by (induction xs arbitrary: vs) (auto split: sum.splits dest: identity_json_ok)

lemma identity_json_exc: "identity_json svc x = Inl e \<Longrightarrow> exc_ok e"
  by (auto simp: identity_json_def lift_errors split: sum.splits)

lemma identities_json_exc: "identities_json svc xs = Inl e \<Longrightarrow> exc_ok e"
  by (induction xs) (auto split: sum.splits dest: identity_json_exc)

lemma found_json_good: "yields json_ok (py_lift (found_json svc x))"
  by (auto simp: found_json_def intro!: yields_lift split: option.splits dest: identity_json_ok identity_json_exc)

lemma identities_json_good: "yields (list_all json_ok) (py_lift (identities_json svc xs))"
  by (intro yields_lift) (auto dest: identities_json_ok identities_json_exc)

lemmas yields_json = yields_then [OF found_json_good] yields_then [OF identities_json_good]

lemma good_issue: "yields good_answer (issue_for_host svc req act)"
  by (auto simp: issue_for_host_def challenge_json_def intro!: yields_rules)

lemma good_rows: "yields good_answer (revoke_row svc req u i t)" "yields good_answer (relabel_row svc req u i lab t)"
  by (auto simp: revoke_row_def relabel_row_def intro!: yields_rules yields_json)

lemma good_challenges: "yields good_answer (challenge_endpoint svc req)" "yields good_answer (link_challenge_endpoint svc req)"
  by (auto simp: challenge_endpoint_def link_challenge_endpoint_def Let_def intro!: yields_rules good_issue)

lemma good_links:
  "yields good_answer (link_endpoint svc req)" "yields good_answer (add_identity_endpoint svc req)"
  "yields good_answer (unlink_endpoint svc req)"
  by (auto simp: link_endpoint_def add_identity_endpoint_def unlink_endpoint_def
      intro!: yields_rules yields_json intro: refused_yields split: prod.split)

lemma good_reads:
  "yields good_answer (identity_endpoint svc req)" "yields good_answer (identities_endpoint svc req)"
  "yields good_answer (policy_endpoint svc req)" "yields good_answer (nostr_json_endpoint svc req)"
  "yields good_answer (admin_session_endpoint svc req)" "yields good_answer (admin_list_identities_endpoint svc req)"
  by (auto simp: identity_endpoint_def identities_endpoint_def policy_endpoint_def nostr_json_endpoint_def
      admin_session_endpoint_def admin_list_identities_endpoint_def Let_def list_all_iff
      intro!: yields_rules yields_json split: option.splits exc.splits)

lemma good_changes:
  "yields good_answer (update_identity_endpoint svc req)" "yields good_answer (revoke_identity_endpoint svc req)"
  "yields good_answer (admin_revoke_identity_endpoint svc req)" "yields good_answer (admin_rename_identity_endpoint svc req)"
  "yields good_answer (admin_unlink_endpoint svc req)" "yields good_answer (admin_add_identity_endpoint svc req)"
  by (auto simp: update_identity_endpoint_def revoke_identity_endpoint_def admin_revoke_identity_endpoint_def
      admin_rename_identity_endpoint_def admin_unlink_endpoint_def admin_add_identity_endpoint_def
      intro!: yields_rules yields_json good_rows split: prod.split jsval.split exc.splits)

lemmas good_endpoints = good_challenges good_links good_reads good_changes

text \<open>Only the answer to a sign-in sets a cookie, the one of the session.\<close>

definition signed_in_answer :: "response \<Rightarrow> bool" where
  "signed_in_answer resp \<longleftrightarrow> status_code resp = 200 \<and> content resp = Obj [(''ok'', Bool True)] \<and> length (cookies resp) = 1"

lemma signed_in_endpoint: "yields signed_in_answer (authenticate_endpoint svc req)"
  by (auto simp: authenticate_endpoint_def finish_sign_in_def signed_in_answer_def JSONResponse_def
      intro!: yields_rules intro: refused_yields)

lemma good_all_routes:
  "list_all (\<lambda>(m, ps, f). \<forall>svc req. yields (if ps = [Lit ''authenticate''] then signed_in_answer else good_answer) (f svc req)) routes"
  by (simp only: routes_def list.pred_inject prod.case) (simp add: good_endpoints signed_in_endpoint)

text \<open>The route that answers a request.\<close>

lemma dispatch_routed:
  assumes "find (\<lambda>(m, ps, f). m = verb \<and> match_path ps path [] \<noteq> None) routes = Some x"
  obtains ps f where "(verb, ps, f) \<in> set routes" and "match_path ps path [] \<noteq> None"
    and "dispatch svc verb path req s =
      (case f svc (req\<lparr>path_identity_id := the (match_path ps path [])\<rparr>) s of (r, s') \<Rightarrow> (answer_of r, s'))"
proof -
  obtain m ps f where x: "x = (m, ps, f)" by (cases x)
  with assms have "(m, ps, f) \<in> set routes" "m = verb" "match_path ps path [] \<noteq> None"
    by (auto simp: find_Some_iff) (metis nth_mem)
  then show thesis using assms x by (intro that [of ps f]) (simp_all add: dispatch_def)
qed

lemma match_end: "match_path [] path i \<noteq> None \<longleftrightarrow> path = []"
  by (cases path) simp_all

lemma match_one: "match_path [Lit a] path i \<noteq> None \<longleftrightarrow> path = [a]"
  using match_end by (cases path) simp_all

lemma match_two: "match_path [Lit a, Lit b] path i \<noteq> None \<longleftrightarrow> path = [a, b]"
  using match_one by (cases path) simp_all

lemma authenticate_is_post: "(m, [Lit ''authenticate''], f) \<in> set routes \<Longrightarrow> m = ''POST''"
  by (simp add: routes_def)

definition answer_type :: "string \<Rightarrow> string list \<Rightarrow> response \<Rightarrow> bool" where
  "answer_type verb path resp \<longleftrightarrow> good_answer resp \<or>
     signed_in_answer resp \<and> verb = ''POST'' \<and> path = [''authenticate''] \<or>
     (\<exists>code m. resp = error_response code m \<and> code \<in> api_codes) \<or>
     (\<exists>code. resp = \<lparr>status_code = code, content = Null, cookies = []\<rparr> \<and> code \<in> {404, 405, 500})"

lemma answer_of_typed:
  assumes "yields P m" and "answer_of (fst (m s)) = resp" and "P = good_answer \<or> P = signed_in_answer \<and> verb = ''POST'' \<and> path = [''authenticate'']"
  shows "answer_type verb path resp"
proof (cases "fst (m s)")
  case (Inl e)
  then have "exc_ok e" using assms(1) by (auto simp: yields_def split: sum.splits)
  then show ?thesis using assms(2) Inl by (auto simp: answer_type_def answer_of_def split: exc.splits)
next
  case (Inr x)
  then have "P x" using assms(1) by (auto simp: yields_def split: sum.splits)
  then show ?thesis using assms(2,3) Inr by (auto simp: answer_type_def answer_of_def)
qed


subsection \<open>Requests that are not JSON\<close>

definition sends_json :: "request \<Rightarrow> bool" where
  "sends_json req \<longleftrightarrow> ascii_lower (py_strip (takeWhile (\<lambda>c. c \<noteq> CHR '';'')
     (case header req ''content-type'' of None \<Rightarrow> [] | Some h \<Rightarrow> h))) = ''application/json''"

definition not_json :: exc where
  "not_json = Api_error 415 ''Content-Type must be application/json''"

lemma form_refused: "\<not> sends_json req \<Longrightarrow> require_json req s = (Inl not_json, s)"
  by (simp add: require_json_def sends_json_def not_json_def api_error_run Let_def)

lemma forms_refused:
  assumes "\<not> sends_json req"
  shows "authenticate_endpoint svc req s = (Inl not_json, s)" "link_endpoint svc req s = (Inl not_json, s)"
    "add_identity_endpoint svc req s = (Inl not_json, s)" "update_identity_endpoint svc req s = (Inl not_json, s)"
    "admin_add_identity_endpoint svc req s = (Inl not_json, s)" "admin_revoke_identity_endpoint svc req s = (Inl not_json, s)"
    "admin_rename_identity_endpoint svc req s = (Inl not_json, s)" "admin_unlink_endpoint svc req s = (Inl not_json, s)"
  using form_refused [OF assms]
  by (simp_all add: authenticate_endpoint_def link_endpoint_def add_identity_endpoint_def update_identity_endpoint_def
      admin_add_identity_endpoint_def admin_revoke_identity_endpoint_def admin_rename_identity_endpoint_def
      admin_unlink_endpoint_def admin_body_def link_request_of_def py_rules)

lemma forms_refused_everywhere:
  "list_all (\<lambda>(m, ps, f). m = ''POST'' \<longrightarrow> ps \<notin> {[Lit ''unlink''], [Lit ''link'', Lit ''challenge'']} \<longrightarrow>
     (\<forall>svc req s. \<not> sends_json req \<longrightarrow> f svc req s = (Inl not_json, s))) routes"
  by (simp only: routes_def list.pred_inject prod.case) (simp add: forms_refused)

lemma unlink_ignores_body:
  assumes "present (header req ''cookie'')" and "session_of svc req = Inr session"
  shows "case dispatch svc ''POST'' [''unlink''] req s of (resp, s') \<Rightarrow> status_code resp = 200 \<and>
     mappings s' = map_step (Unlink (session_username session)) (mappings s)"
  using assms
  by (simp add: dispatch_def routes_def unlink_endpoint_def confirm_and_unlink_def current_user_def py_rules
      get_authenticated_username_def session_of_def host_header_def unlink_def answer_of_def JSONResponse_def)

text \<open>
  C34. Which requests need a JSON body.  A \<open>POST\<close> that does not say that its body is JSON (a form of
  another site can send no other) is refused and changes nothing, on every path but two: the
  challenge for linking, and \<open>/unlink\<close>, which removes all identities of the user of the cookie,
  although the module's documentation says that every \<open>POST\<close> must carry JSON.
\<close>

theorem forms_change_nothing_but_unlink:
  assumes "\<not> sends_json req"
  shows "(case dispatch svc ''POST'' path req s of (resp, s') \<Rightarrow>
     path \<in> {[''unlink''], [''link'', ''challenge'']} \<or> s' = s \<and> cookies resp = [] \<and> status_code resp \<in> {404, 405, 415}) \<and>
   (case session_of svc req of Inl e \<Rightarrow> True
    | Inr session \<Rightarrow> present (header req ''cookie'') \<longrightarrow> (case dispatch svc ''POST'' [''unlink''] req s of (resp, s') \<Rightarrow>
        status_code resp = 200 \<and> mappings s' = map_step (Unlink (session_username session)) (mappings s)))"
proof (intro conjI)
  show "case dispatch svc ''POST'' path req s of (resp, s') \<Rightarrow>
     path \<in> {[''unlink''], [''link'', ''challenge'']} \<or> s' = s \<and> cookies resp = [] \<and> status_code resp \<in> {404, 405, 415}"
  proof (cases "find (\<lambda>(m, ps, f). m = ''POST'' \<and> match_path ps path [] \<noteq> None) routes")
    case None
    then show ?thesis by (simp add: dispatch_def)
  next
    case (Some x)
    then obtain ps f where r: "(''POST'', ps, f) \<in> set routes" "match_path ps path [] \<noteq> None"
      and d: "dispatch svc ''POST'' path req s =
        (case f svc (req\<lparr>path_identity_id := the (match_path ps path [])\<rparr>) s of (r, s') \<Rightarrow> (answer_of r, s'))"
      by (rule dispatch_routed)
    let ?req = "req\<lparr>path_identity_id := the (match_path ps path [])\<rparr>"
    have "\<not> sends_json ?req" using assms by (simp add: sends_json_def)
    then have "ps \<in> {[Lit ''unlink''], [Lit ''link'', Lit ''challenge'']} \<or> f svc ?req s = (Inl not_json, s)"
      using forms_refused_everywhere r(1) by (fastforce simp: list_all_iff)
    then show ?thesis
      using r(2) match_one [of "''unlink''" path "[]"] match_two [of "''link''" "''challenge''" path "[]"]
      by (auto simp: d answer_of_def not_json_def error_response_def)
  qed
  show "case session_of svc req of Inl e \<Rightarrow> True
    | Inr session \<Rightarrow> present (header req ''cookie'') \<longrightarrow> (case dispatch svc ''POST'' [''unlink''] req s of (resp, s') \<Rightarrow>
        status_code resp = 200 \<and> mappings s' = map_step (Unlink (session_username session)) (mappings s))"
    using unlink_ignores_body by (auto split: sum.split)
qed

subsection \<open>A concrete form\<close>

definition form_services :: services where
  "form_services =
     \<lparr>sdk = sdk_reading [] login_event, portal = (\<lambda>url cookie_header host. Portal_body (Obj [(''username'', Str ''ann'')])),
      mint_helper = (\<lambda>u host. Os_error ''down''), clock = (\<lambda>n. 0), token_urlsafe = ''n'',
      get_settings = \<lparr>portal_api_base_url = ''http://127.0.0.1:6788'', challenge_ttl_seconds = 90,
        allow_nostr_login = True, allow_identity_linking = True, clock_skew_seconds = 60\<rparr>\<rparr>"

definition form_request :: request where
  "form_request = \<lparr>header = [''content-type'' \<mapsto> ''text/plain'', ''cookie'' \<mapsto> ''yunohost.portal=c''],
     query_param = Map.empty, path_identity_id = [], client_host = None, request_json = None\<rparr>"

definition form_server :: server where
  "form_server = \<lparr>challenges = \<lparr>ttl_seconds = 90, backend = Sqlite []\<rparr>, mappings = ann_db, mint_requests = [], log_lines = []\<rparr>"

theorem forms_change_nothing_but_unlink_witness:
  "case dispatch form_services ''POST'' [''unlink''] form_request form_server of (resp, s') \<Rightarrow>
     status_code resp = 200 \<and> id_rows (mappings s') = []"
proof -
  have j: "\<not> sends_json form_request" by (simp add: sends_json_def form_request_def) code_simp
  have "session_of form_services form_request = Inr \<lparr>session_username = ''ann'', session_groups = []\<rparr>"
    "present (header form_request ''cookie'')"
    by (simp_all add: session_of_def get_authenticated_session_def session_of_body_def form_services_def form_request_def
        dict_get_def present_def)
  then show ?thesis
    using forms_change_nothing_but_unlink [OF j, where svc = form_services and path = "[]" and s = form_server]
    by (auto simp: form_server_def ann_db_def ann_row_def new_row_def unlink_def delete_user_def py_rules)
qed

end
