(* ===== verification/Web_Pages.thy ===== *)
theory Web_Pages
  imports Server_Answers
begin

text \<open>
  The pages and scripts that \<open>server.py\<close> gives out, from \<open>src/src/yunohost_nostr_auth/web/page.py\<close>: which
  files, under which policy, and where the bare domain leads.  The contents of the files are a parameter; that they
  are read once and cached makes no difference.  \<open>serve\<close> is the server with all its routes.
\<close>

record web_files =
  page_text :: "string \<Rightarrow> string"
  static_bytes :: "string \<Rightarrow> string"

datatype web_answer =
    Json_answer response
  | Html_answer string "(string \<times> string) list"
  | Asset_answer string string
  | Redirect_answer string

subsection \<open>What the files are\<close>

definition CONTENT_SECURITY_POLICY :: string where
  "CONTENT_SECURITY_POLICY =
     ''upgrade-insecure-requests; default-src '' @ single_quoted ''self'' @ ''; connect-src '' @ single_quoted ''self'' @
     '' wss:; '' @ ''style-src '' @ single_quoted ''self'' @ '' '' @ single_quoted ''unsafe-inline'' @ ''; script-src '' @
     single_quoted ''self'' @ ''; '' @ ''object-src '' @ single_quoted ''none'' @ ''; img-src '' @ single_quoted ''self'' @
     '' data:;''"

definition STATIC_CONTENT_TYPES :: "(string \<times> string) list" where
  "STATIC_CONTENT_TYPES =
     [(''nostr-connect-vendor.js'', ''application/javascript''), (''nostr-passkey-vendor.js'', ''application/javascript''),
      (''nostr-connect-ui.js'', ''application/javascript''), (''nostr-login-page.js'', ''application/javascript''),
      (''nostr-account-page.js'', ''application/javascript''), (''nostr-admin-page.js'', ''application/javascript'')]"

definition content_type_for_static_asset :: "string \<Rightarrow> string option" where
  "content_type_for_static_asset filename = map_of STATIC_CONTENT_TYPES filename"

definition HTMLResponse :: "string \<Rightarrow> web_answer" where
  "HTMLResponse page = Html_answer page [(''Content-Security-Policy'', CONTENT_SECURITY_POLICY)]"

subsection \<open>The endpoints\<close>

definition nostr_login_page :: "web_files \<Rightarrow> (server, web_answer) py" where
  "nostr_login_page F = py_return (HTMLResponse (page_text F ''nostr_login.html''))"

definition nostr_account_page :: "web_files \<Rightarrow> (server, web_answer) py" where
  "nostr_account_page F = py_return (HTMLResponse (page_text F ''nostr_account.html''))"

definition nostr_admin_page :: "web_files \<Rightarrow> (server, web_answer) py" where
  "nostr_admin_page F = py_return (HTMLResponse (page_text F ''nostr_admin.html''))"

definition static_asset :: "web_files \<Rightarrow> string \<Rightarrow> (server, web_answer) py" where
  "static_asset F filename =
     (case content_type_for_static_asset filename of
        None \<Rightarrow> api_error 404 ''not found''
      | Some content_type \<Rightarrow> py_return (Asset_answer (static_bytes F filename) content_type))"

definition root_redirect :: "services \<Rightarrow> request \<Rightarrow> (server, web_answer) py" where
  "root_redirect svc req = py_lift (map_sum (\<lambda>e. e) Redirect_answer (root_target svc req))"

text \<open>The routes before those of the API; the path \<open>/\<close> has one empty segment.\<close>

definition page_endpoint :: "web_files \<Rightarrow> services \<Rightarrow> request \<Rightarrow> string list \<Rightarrow> (server, web_answer) py option" where
  "page_endpoint F svc req path =
     (if path = [[]] then Some (root_redirect svc req)
      else if path = [''nostr-login''] then Some (nostr_login_page F)
      else if path = [''nostr-account''] then Some (nostr_account_page F)
      else if path = [''nostr-admin''] then Some (nostr_admin_page F)
      else case path of
          [d, filename] \<Rightarrow> if d = ''static'' \<and> filename \<noteq> [] then Some (static_asset F filename) else None
        | _ \<Rightarrow> None)"

definition page_answer :: "exc + web_answer \<Rightarrow> web_answer" where
  "page_answer r = (case r of Inr a \<Rightarrow> a | Inl e \<Rightarrow> Json_answer (answer_of (Inl e)))"

text \<open>All routes; the framework answers \<open>HEAD\<close> wherever it answers \<open>GET\<close>.\<close>

definition serve_web :: "web_files \<Rightarrow> services \<Rightarrow> string \<Rightarrow> string list \<Rightarrow> request \<Rightarrow> server \<Rightarrow> web_answer \<times> server" where
  "serve_web F svc verb path req s =
     (let verb' = (if verb = ''HEAD'' then ''GET'' else verb)
      in case page_endpoint F svc req path of
          Some endpoint \<Rightarrow>
            if verb' = ''GET'' then (case endpoint s of (r, s') \<Rightarrow> (page_answer r, s'))
            else (Json_answer \<lparr>status_code = 405, content = Null, cookies = []\<rparr>, s)
        | None \<Rightarrow> (case dispatch svc verb' path req s of (resp, s') \<Rightarrow> (Json_answer resp, s')))"

subsection \<open>How a browser reads the policy\<close>

text \<open>Directives end with semicolons, a directive is a name and its sources.\<close>

fun split_at :: "char \<Rightarrow> string \<Rightarrow> string list" where
  "split_at c [] = [[]]"
| "split_at c (x # xs) = (if x = c then [] # split_at c xs
     else case split_at c xs of [] \<Rightarrow> [[x]] | y # ys \<Rightarrow> (x # y) # ys)"

definition words_of :: "string \<Rightarrow> string list" where
  "words_of t = filter (\<lambda>w. w \<noteq> []) (split_at (CHR '' '') t)"

definition policy_sources :: "string \<Rightarrow> string \<Rightarrow> string list option" where
  "policy_sources directive policy =
     map_option tl (find (\<lambda>ws. ws \<noteq> [] \<and> hd ws = directive) (map words_of (split_at (CHR '';'') policy)))"

text \<open>Where scripts may come from: \<open>default-src\<close> stands for a directive that is missing.\<close>

definition script_sources :: "(string \<times> string) list \<Rightarrow> string list option" where
  "script_sources headers =
     (case map_of headers ''Content-Security-Policy'' of
        None \<Rightarrow> None
      | Some policy \<Rightarrow> (case policy_sources ''script-src'' policy of
            Some ws \<Rightarrow> Some ws | None \<Rightarrow> policy_sources ''default-src'' policy))"

lemma own_scripts_only:
  "script_sources [(''Content-Security-Policy'', CONTENT_SECURITY_POLICY)] = Some [single_quoted ''self'']"
  by code_simp

lemma static_types: "content_type_for_static_asset filename = Some t \<Longrightarrow> t = ''application/javascript''"
  by (auto simp: content_type_for_static_asset_def STATIC_CONTENT_TYPES_def split: if_splits)

lemma session_of_no_answer: "session_of svc req \<noteq> Inl (Api_error code m)"
  by (auto simp: session_of_def get_authenticated_session_def session_of_body_def
      split: portal_reply.split jsval.split if_splits)

lemma root_redirects:
  "root_redirect svc req s =
     (if present (header req ''cookie'')
      then (case session_of svc req of
          Inr session \<Rightarrow> Inr (Redirect_answer ''/yunohost/sso/'')
        | Inl e \<Rightarrow> (case e of PortalAuthError m \<Rightarrow> Inr (Redirect_answer ''/nostr-login'') | _ \<Rightarrow> Inl e), s)
      else (Inr (Redirect_answer ''/nostr-login''), s))"
  by (simp add: root_redirect_def root_target_def py_rules get_authenticated_username_def session_of_def split: sum.split exc.split)


end
