(* ===== verification/Mint_Service.thy ===== *)
theory Mint_Service
  imports Login_Linking
begin

text \<open>
  \<open>src/src/yunohost_nostr_auth/ynh/mint_session_server.py\<close>, \<open>portal_cookie.py\<close> and \<open>ldap_lookup.py\<close>: the
  process that mints a session of the portal.  It runs as its own user and answers one line of JSON
  on a socket.  Parameters are the operating system (the user of the peer, the files, the random
  numbers), the directory, and the libraries for LDAP, AES and JWT; an exception is its text,
  since that is all the handler makes of it.
\<close>

subsection \<open>What is outside\<close>

type_synonym ldap_result = "string \<times> (string \<times> string list) list"

record mint_host =
  peer_uid :: "string + int"
  allowed_uid :: int
  ldap_bind :: "string option"
  escape_filter_chars :: "jsval \<Rightarrow> string + string"
  ldap_search :: "string \<Rightarrow> string + ldap_result list"
  secret_text :: "string + string"
  shake_256_hex :: "string \<Rightarrow> string"
  token_hex :: string
  random_iv :: "8 word list"
  aes_cbc_empty :: "string \<Rightarrow> 8 word list \<Rightarrow> string + 8 word list"
  jwt_encode :: "(string \<times> jsval) list \<Rightarrow> string \<Rightarrow> string + string"
  touch_error :: "string \<Rightarrow> string option"

text \<open>The folder of the sessions, and what the process has done beyond its own memory.\<close>

datatype mint_step = Asked_directory | Read_secret

record mint_state =
  session_files :: "string list"
  mint_steps :: "mint_step list"

text \<open>\<open>AttributeError\<close> of a JSON value that has not the method.\<close>

fun py_type_name :: "jsval \<Rightarrow> string" where
  "py_type_name Null = ''NoneType''"
| "py_type_name (Bool b) = ''bool''"
| "py_type_name (Num n) = ''int''"
| "py_type_name (Str t) = ''str''"
| "py_type_name (Arr vs) = ''list''"
| "py_type_name (Obj ps) = ''dict''"
| "py_type_name _ = ''object''"

definition attribute_error :: "jsval \<Rightarrow> string \<Rightarrow> string" where
  "attribute_error v a = single_quoted (py_type_name v) @ '' object has no attribute '' @ single_quoted a"

subsection \<open>The directory\<close>

record UserContactInfo =
  fullname :: string
  email :: string

text \<open>\<open>attrs[name][0]\<close>: a missing name or an empty list.\<close>

definition first_value :: "(string \<times> string list) list \<Rightarrow> string \<Rightarrow> string option" where
  "first_value attrs name = (case map_of attrs name of Some (x # xs) \<Rightarrow> Some x | _ \<Rightarrow> None)"

definition contact_of :: "jsval \<Rightarrow> ldap_result list \<Rightarrow> string + UserContactInfo" where
  "contact_of username results =
     (case results of
        [(dn, attrs)] \<Rightarrow>
          (case (first_value attrs ''cn'', first_value attrs ''mail'') of
             (Some cn, Some mail) \<Rightarrow> Inr \<lparr>fullname = cn, email = mail\<rparr>
           | _ \<Rightarrow> Inl (''user '' @ repr_value username @ '' is missing cn/mail attributes''))
      | _ \<Rightarrow> Inl (''user '' @ repr_value username @ '' not found (or ambiguous) in LDAP''))"

definition get_user_contact_info :: "mint_host \<Rightarrow> jsval \<Rightarrow> string + UserContactInfo" where
  "get_user_contact_info H username =
     (let failed = (\<lambda>e. Inl (''LDAP error looking up '' @ repr_value username @ '': '' @ e))
      in case ldap_bind H of
           Some e \<Rightarrow> failed e
         | None \<Rightarrow> (case escape_filter_chars H username of
             Inl e \<Rightarrow> Inl e
           | Inr escaped \<Rightarrow> (case ldap_search H (''(uid='' @ escaped @ '')'') of
               Inl e \<Rightarrow> failed e
             | Inr results \<Rightarrow> contact_of username results)))"

subsection \<open>The cookie\<close>

definition SESSION_VALIDITY :: int where
  "SESSION_VALIDITY = 3 * 24 * 3600"

definition read_session_secret :: "mint_host \<Rightarrow> string + string" where
  "read_session_secret H = map_sum (\<lambda>e. e) py_strip (secret_text H)"

definition short_hash :: "mint_host \<Rightarrow> string \<Rightarrow> string" where
  "short_hash H data = shake_256_hex H data"

text \<open>\<open>base64.b64encode\<close>\<close>

definition b64_digit :: "nat \<Rightarrow> char" where
  "b64_digit n = (if n < 26 then chr (65 + n) else if n < 52 then chr (97 + (n - 26))
     else if n < 62 then chr (48 + (n - 52)) else if n = 62 then CHR ''+'' else CHR ''/'')"

fun b64encode :: "8 word list \<Rightarrow> string" where
  "b64encode [] = []"
| "b64encode [a] = [b64_digit (unat a div 4), b64_digit (unat a mod 4 * 16), CHR ''='', CHR ''='']"
| "b64encode [a, b] = [b64_digit (unat a div 4), b64_digit (unat a mod 4 * 16 + unat b div 16),
     b64_digit (unat b mod 16 * 4), CHR ''='']"
| "b64encode (a # b # c # s) = [b64_digit (unat a div 4), b64_digit (unat a mod 4 * 16 + unat b div 16),
     b64_digit (unat b mod 16 * 4 + unat c div 64), b64_digit (unat c mod 64)] @ b64encode s"

definition encrypt_empty_password :: "mint_host \<Rightarrow> string \<Rightarrow> string + string" where
  "encrypt_empty_password H secret = map_sum (\<lambda>e. e) (\<lambda>ct. b64encode ct @ ''|'' @ b64encode (random_iv H))
     (aes_cbc_empty H secret (random_iv H))"

definition session_claims :: "string \<Rightarrow> jsval \<Rightarrow> string \<Rightarrow> string \<Rightarrow> UserContactInfo \<Rightarrow> (string \<times> jsval) list" where
  "session_claims session_id host username pwd contact =
     [(''id'', Str session_id), (''host'', host), (''user'', Str username), (''pwd'', Str pwd),
      (''email'', Str (email contact)), (''fullname'', Str (fullname contact))]"

record Minted =
  minted_token :: string
  session_id :: string
  minted_max_age :: int

definition mint :: "mint_host \<Rightarrow> jsval \<Rightarrow> jsval \<Rightarrow> UserContactInfo \<Rightarrow> string \<Rightarrow> mint_state \<Rightarrow> (string + Minted) \<times> mint_state" where
  "mint H username host contact secret st =
     (case username of
        Str u \<Rightarrow>
          (let sid = short_hash H u @ token_hex H
           in case encrypt_empty_password H secret of
                Inl e \<Rightarrow> (Inl e, st)
              | Inr pwd \<Rightarrow> (case jwt_encode H (session_claims sid host u pwd contact) secret of
                  Inl e \<Rightarrow> (Inl e, st)
                | Inr tok \<Rightarrow> (case touch_error H sid of
                    Some e \<Rightarrow> (Inl e, st)
                  | None \<Rightarrow> (Inr \<lparr>minted_token = tok, session_id = sid, minted_max_age = SESSION_VALIDITY - 600\<rparr>,
                      st\<lparr>session_files := List.insert sid (session_files st)\<rparr>))))
      | _ \<Rightarrow> (Inl (attribute_error username ''encode''), st))"

subsection \<open>The handler\<close>

definition did :: "mint_step \<Rightarrow> mint_state \<Rightarrow> mint_state" where
  "did x st = st\<lparr>mint_steps := mint_steps st @ [x]\<rparr>"

definition error_line :: "string \<Rightarrow> jsval" where
  "error_line e = Obj [(''error'', Str e)]"

text \<open>\<open>request["username"]\<close> and \<open>request["host"]\<close> on whatever JSON value the line is.\<close>

definition json_item :: "jsval \<Rightarrow> string \<Rightarrow> string + jsval" where
  "json_item v k = (case v of
      Obj ps \<Rightarrow> (case map_of ps k of Some x \<Rightarrow> Inr x | None \<Rightarrow> Inl (single_quoted k))
    | Arr vs \<Rightarrow> Inl ''list indices must be integers or slices, not str''
    | Str t \<Rightarrow> Inl (''string indices must be integers, not '' @ single_quoted ''str'')
    | _ \<Rightarrow> Inl (single_quoted (py_type_name v) @ '' object is not subscriptable''))"

definition mint_request_of :: "string + jsval \<Rightarrow> string + (jsval \<times> jsval)" where
  "mint_request_of line =
     (case line of Inl e \<Rightarrow> Inl e
      | Inr v \<Rightarrow> (case json_item v ''username'' of Inl e \<Rightarrow> Inl e
         | Inr username \<Rightarrow> (case json_item v ''host'' of Inl e \<Rightarrow> Inl e
            | Inr host \<Rightarrow> Inr (username, host))))"

definition mint_for :: "mint_host \<Rightarrow> jsval \<Rightarrow> jsval \<Rightarrow> mint_state \<Rightarrow> (string + Minted) \<times> mint_state" where
  "mint_for H username host st =
     (case get_user_contact_info H username of
        Inl e \<Rightarrow> (Inl e, did Asked_directory st)
      | Inr contact \<Rightarrow> (case read_session_secret H of
          Inl e \<Rightarrow> (Inl e, did Read_secret (did Asked_directory st))
        | Inr secret \<Rightarrow> mint H username host contact secret (did Read_secret (did Asked_directory st))))"

text \<open>The line is what \<open>json.loads\<close> makes of it, or the text of its error; no answer if the user of
  the peer cannot be read.\<close>

definition handle :: "mint_host \<Rightarrow> string + jsval \<Rightarrow> mint_state \<Rightarrow> jsval option \<times> mint_state" where
  "handle H line st =
     (case peer_uid H of
        Inl e \<Rightarrow> (None, st)
      | Inr uid \<Rightarrow>
         if uid \<noteq> allowed_uid H then (Some (error_line ''forbidden''), st)
         else (case mint_request_of line of
            Inl e \<Rightarrow> (Some (error_line (''bad request: '' @ e)), st)
          | Inr (username, host) \<Rightarrow>
             (case mint_for H username host st of
                (Inl e, st') \<Rightarrow> (Some (error_line e), st')
              | (Inr minted, st') \<Rightarrow> (Some (Obj [(''token'', Str (minted_token minted)),
                    (''session_id'', Str (session_id minted)), (''max_age'', Num (minted_max_age minted))]), st'))))"

subsection \<open>Who gets a session\<close>

lemma mint_cases:
  "case mint H username host contact secret st of (r, st') \<Rightarrow> mint_steps st' = mint_steps st \<and>
     (case r of Inl e \<Rightarrow> st' = st
      | Inr m \<Rightarrow> (\<exists>u pwd. username = Str u \<and> session_id m = short_hash H u @ token_hex H \<and>
          minted_max_age m = SESSION_VALIDITY - 600 \<and> encrypt_empty_password H secret = Inr pwd \<and>
          jwt_encode H (session_claims (session_id m) host u pwd contact) secret = Inr (minted_token m) \<and>
          session_files st' = List.insert (session_id m) (session_files st)))"
  by (auto simp: mint_def Let_def split: jsval.split sum.split option.split)

lemma did_files [simp]: "session_files (did x st) = session_files st"
  by (simp add: did_def)

text \<open>
  The minting process is guarded.  Whatever arrives on the socket, a peer of another user is
  answered \<open>forbidden\<close> (or not at all), and neither the directory nor the secret of the
  cookies nor the folder of the sessions is touched; a session is added only for a user that the
  request names and the directory knows exactly once, under a name that starts with the hash of
  this user, and then the answer is the token signed for this user, this host and this session.
\<close>

theorem mint_service_guarded:
  "case handle H line st of (answer, st') \<Rightarrow>
     (peer_uid H = Inr (allowed_uid H) \<or> st' = st \<and> answer \<in> {None, Some (error_line ''forbidden'')}) \<and>
     (session_files st' = session_files st \<or>
      (\<exists>u host contact secret pwd tok. mint_request_of line = Inr (Str u, host) \<and>
         get_user_contact_info H (Str u) = Inr contact \<and> read_session_secret H = Inr secret \<and>
         encrypt_empty_password H secret = Inr pwd \<and>
         jwt_encode H (session_claims (short_hash H u @ token_hex H) host u pwd contact) secret = Inr tok \<and>
         session_files st' = List.insert (short_hash H u @ token_hex H) (session_files st) \<and>
         answer = Some (Obj [(''token'', Str tok), (''session_id'', Str (short_hash H u @ token_hex H)),
           (''max_age'', Num (SESSION_VALIDITY - 600))])))"
proof (cases "peer_uid H = Inr (allowed_uid H)")
  case True
  show ?thesis
  proof (cases "mint_request_of line")
    case (Inr x)
    obtain username host where x: "x = (username, host)" by (cases x)
    show ?thesis
    proof (cases "get_user_contact_info H username")
      case contact: (Inr contact)
      show ?thesis
      proof (cases "read_session_secret H")
        case secret: (Inr secret)
        let ?st = "did Read_secret (did Asked_directory st)"
        show ?thesis
          using mint_cases [where H = H and username = username and host = host and contact = contact and secret = secret and st = ?st] True Inr x contact secret
          by (cases "mint H username host contact secret ?st") (auto simp: handle_def mint_for_def split: sum.splits)
      qed (use True Inr x contact in \<open>simp add: handle_def mint_for_def\<close>)
    qed (use True Inr x in \<open>simp add: handle_def mint_for_def\<close>)
  qed (use True in \<open>simp add: handle_def\<close>)
qed (auto simp: handle_def split: sum.split)

subsection \<open>The text of the password\<close>

text \<open>Base 64 has no bar, so the reader finds the two parts.\<close>

lemma b64_digit_no_bar: "b64_digit n \<noteq> CHR ''|''"
proof -
  have "chr k \<noteq> CHR ''|''" if "k < 124" for k
    using that by (simp add: chr_eq_iff code_of_def)
  then show ?thesis by (auto simp: b64_digit_def)
qed

lemma b64_no_bar: "CHR ''|'' \<notin> set (b64encode bs)"
  by (induction bs rule: b64encode.induct) (use b64_digit_no_bar in \<open>auto dest: sym\<close>)

lemma password_parts:
  assumes "encrypt_empty_password H secret = Inr pwd"
  obtains ct where "aes_cbc_empty H secret (random_iv H) = Inr ct" and "pwd = b64encode ct @ ''|'' @ b64encode (random_iv H)"
    and "takeWhile (\<lambda>c. c \<noteq> CHR ''|'') pwd = b64encode ct"
proof -
  obtain ct where ct: "aes_cbc_empty H secret (random_iv H) = Inr ct" "pwd = b64encode ct @ ''|'' @ b64encode (random_iv H)"
    using assms by (cases "aes_cbc_empty H secret (random_iv H)") (auto simp: encrypt_empty_password_def)
  moreover have "takeWhile (\<lambda>c. c \<noteq> CHR ''|'') pwd = b64encode ct"
    using b64_no_bar [of ct] unfolding ct(2) by (subst takeWhile_append2) auto
  ultimately show thesis by (rule that)
qed

end
