(* ===== verification/Mint_Flow.thy ===== *)
theory Mint_Flow
  imports Sign_In_Flow Mint_Service
begin

text \<open>
  The login page, the server and the minting process together: which session the browser gets.
\<close>

subsection \<open>The client and the process\<close>

text \<open>What the client of \<open>ynh/sessions.py\<close> reads when it asks the process: no answer is not JSON.\<close>

definition mint_line :: "string \<Rightarrow> string \<Rightarrow> string + jsval" where
  "mint_line u host = Inr (Obj [(''username'', Str u), (''host'', Str host)])"

definition minting :: "mint_host \<Rightarrow> mint_state \<Rightarrow> string \<Rightarrow> string \<Rightarrow> mint_reply" where
  "minting H st u host = (case fst (handle H (mint_line u host) st) of
      None \<Rightarrow> Mint_not_json ''Expecting value: line 1 column 1 (char 0)''
    | Some v \<Rightarrow> Mint_line v)"

text \<open>The process can mint for the user: the directory, the files and the libraries do their part.\<close>

definition can_mint :: "mint_host \<Rightarrow> string \<Rightarrow> string \<Rightarrow> string \<Rightarrow> bool" where
  "can_mint H u host tok \<longleftrightarrow> peer_uid H = Inr (allowed_uid H) \<and> touch_error H (short_hash H u @ token_hex H) = None \<and>
     (\<exists>contact secret pwd. get_user_contact_info H (Str u) = Inr contact \<and> read_session_secret H = Inr secret \<and>
        encrypt_empty_password H secret = Inr pwd \<and>
        jwt_encode H (session_claims (short_hash H u @ token_hex H) (Str host) u pwd contact) secret = Inr tok)"

lemma mint_line_request: "mint_request_of (mint_line u host) = Inr (Str u, Str host)"
  by (simp add: mint_request_of_def mint_line_def json_item_def)

lemma minted_by_process:
  assumes "can_mint H u host tok"
  shows "handle H (mint_line u host) st =
      (Some (Obj [(''token'', Str tok), (''session_id'', Str (short_hash H u @ token_hex H)), (''max_age'', Num 258600)]),
       (did Read_secret (did Asked_directory st))\<lparr>session_files := List.insert (short_hash H u @ token_hex H) (session_files st)\<rparr>)"
  using assms
  by (auto simp: can_mint_def handle_def mint_line_request mint_for_def mint_def Let_def SESSION_VALIDITY_def)

lemma minting_agrees:
  assumes "mint_helper svc = minting H st" and "can_mint H u host tok"
  shows "mint_result svc u host = Inr \<lparr>cookie_name = ''yunohost.portal'', token = Str tok, max_age = Num 258600\<rparr>"
  using assms(1) minted_by_process [OF assms(2), of st] by (simp add: mint_result_def minting_def minted_of_def)

text \<open>Otherwise the client raises with the text of the process.\<close>

lemma minting_fails:
  assumes "mint_helper svc = minting H st" and "fst (handle H (mint_line u host) st) = Some (error_line e)"
  shows "mint_result svc u host = Inl (SessionMintError (''session-mint helper failed: '' @ e))"
  using assms by (simp add: mint_result_def minting_def minted_of_def error_line_def str_value_def)

subsection \<open>Page, server and process\<close>

text \<open>
  C3. The session that the browser gets is the user's.  When the page has signed in against the
  server and the server asks the minting process, the one cookie that is set is the portal's, with
  the token that the process has signed for the user of the key, the host of the site and a session
  whose name starts with the hash of the user, as YunoHost's own revocation expects; the process has
  added exactly this session.
\<close>

theorem signed_in_session_is_the_users:
  assumes "ready W w rest pk" and "storage_writable s"
    and "get_by_pubkey pk (mappings (server_side w)) = Some x"
    and "mint_helper (next_service W w) = minting H st" and "can_mint H (ynh_username x) (site_host W) tok"
  shows "case run (network W) (performSignIn (\<lambda>e. signer_signEvent browser_signer e) busy) s w [] of (r, s', w', l) \<Rightarrow>
    href s' = ''/yunohost/sso/'' \<and>
    mint_requests (server_side w') = mint_requests (server_side w) @ [(ynh_username x, site_host W)] \<and>
    cookie_jar w' = cookie_jar w @ [\<lparr>set_name = ''yunohost.portal'', set_value = Str tok,
      set_max_age = Num 258600, set_domain = CHR ''.'' # site_host W\<rparr>] \<and>
    (\<exists>contact secret pwd ct. get_user_contact_info H (Str (ynh_username x)) = Inr contact \<and>
       read_session_secret H = Inr secret \<and> aes_cbc_empty H secret (random_iv H) = Inr ct \<and>
       takeWhile (\<lambda>c. c \<noteq> CHR ''|'') pwd = b64encode ct \<and>
       jwt_encode H [(''id'', Str (short_hash H (ynh_username x) @ token_hex H)), (''host'', Str (site_host W)),
         (''user'', Str (ynh_username x)), (''pwd'', Str pwd), (''email'', Str (email contact)),
         (''fullname'', Str (fullname contact))] secret = Inr tok) \<and>
    session_files (snd (handle H (mint_line (ynh_username x) (site_host W)) st)) =
      List.insert (short_hash H (ynh_username x) @ token_hex H) (session_files st)"
proof -
  let ?u = "ynh_username x" and ?h = "site_host W"
  obtain contact secret pwd where c: "get_user_contact_info H (Str ?u) = Inr contact" "read_session_secret H = Inr secret"
    "encrypt_empty_password H secret = Inr pwd"
    "jwt_encode H (session_claims (short_hash H ?u @ token_hex H) (Str ?h) ?u pwd contact) secret = Inr tok"
    using assms(5) by (auto simp: can_mint_def)
  obtain ct where ct: "aes_cbc_empty H secret (random_iv H) = Inr ct" "takeWhile (\<lambda>c. c \<noteq> CHR ''|'') pwd = b64encode ct"
    using password_parts [OF c(3)] by metis
  have "\<exists>contact secret pwd ct. get_user_contact_info H (Str ?u) = Inr contact \<and>
       read_session_secret H = Inr secret \<and> aes_cbc_empty H secret (random_iv H) = Inr ct \<and>
       takeWhile (\<lambda>c. c \<noteq> CHR ''|'') pwd = b64encode ct \<and>
       jwt_encode H [(''id'', Str (short_hash H ?u @ token_hex H)), (''host'', Str ?h), (''user'', Str ?u), (''pwd'', Str pwd),
         (''email'', Str (email contact)), (''fullname'', Str (fullname contact))] secret = Inr tok"
    using c ct unfolding session_claims_def by blast
  then show ?thesis
    using signs_in [OF assms(1-3) minting_agrees [OF assms(4,5)], of busy] minted_by_process [OF assms(5), of st]
    by (auto simp: exchange_ended_def answer_of_def JSONResponse_def session_cookie_def split: prod.splits)
qed

subsection \<open>A concrete process\<close>

definition sample_mint :: mint_host where
  "sample_mint =
     \<lparr>peer_uid = Inr 990, allowed_uid = 990, ldap_bind = None,
      escape_filter_chars = (\<lambda>v. case v of Str t \<Rightarrow> Inr t | _ \<Rightarrow> Inl (attribute_error v ''replace'')),
      ldap_search = (\<lambda>f. Inr (if f = ''(uid=ann)'' then [(''uid=ann'', [(''cn'', [''Ann'']), (''mail'', [''ann@ynh.test''])])] else [])),
      secret_text = Inr ''secret '', shake_256_hex = (\<lambda>t. ''h-'' @ t), token_hex = ''00'', random_iv = [1, 2, 3],
      aes_cbc_empty = (\<lambda>k iv. Inr [255, 0]), jwt_encode = (\<lambda>claims k. Inr (''jwt '' @ py_dumps (Obj claims) @ k)),
      touch_error = (\<lambda>n. None)\<rparr>"

definition mint_site :: site where
  "mint_site = sample_site\<lparr>services_at := (\<lambda>n. sample_services\<lparr>mint_helper := minting sample_mint \<lparr>session_files = [], mint_steps = []\<rparr>\<rparr>)\<rparr>"

lemma mint_site_ready: "ready mint_site (sample_web db) sample_proof ''k1''"
proof -
  let ?svc = "sample_services\<lparr>mint_helper := minting sample_mint \<lparr>session_files = [], mint_steps = []\<rparr>\<rparr>"
  have s: "service mint_site (sample_web db) = ?svc" "next_service mint_site (sample_web db) = ?svc"
    "service sample_site (sample_web db) = sample_services" "next_service sample_site (sample_web db) = sample_services"
    by (simp_all add: service_def next_service_def mint_site_def sample_site_def)
  have i: "issued LOGIN_ACTION mint_site (sample_web db) = issued LOGIN_ACTION sample_site (sample_web db)"
    by (simp add: issued_def s) (simp add: mint_site_def)
  have "signs_challenge mint_site = signs_challenge sample_site"
    by (simp add: signs_challenge_def fun_eq_iff mint_site_def)
  moreover have "site_host mint_site = site_host sample_site" "browser_ms mint_site = browser_ms sample_site"
    by (simp_all add: mint_site_def)
  ultimately show ?thesis using sample_ready [of db] unfolding ready_def challenge_fits_def Let_def s i by simp
qed

definition sample_token :: string where
  "sample_token = ''jwt '' @ py_dumps (Obj (session_claims ''h-ann00'' (Str ''ynh.test'') ''ann''
     (b64encode [255, 0] @ ''|'' @ b64encode [1, 2, 3]) \<lparr>fullname = ''Ann'', email = ''ann@ynh.test''\<rparr>)) @ ''secret''"

lemma sample_can_mint: "can_mint sample_mint ''ann'' ''ynh.test'' sample_token"
proof -
  have secret: "py_strip ''secret '' = ''secret''" by code_simp
  have "get_user_contact_info sample_mint (Str ''ann'') = Inr \<lparr>fullname = ''Ann'', email = ''ann@ynh.test''\<rparr>"
    by (simp add: get_user_contact_info_def sample_mint_def contact_of_def first_value_def)
  moreover have "read_session_secret sample_mint = Inr ''secret''"
    by (simp add: read_session_secret_def sample_mint_def secret)
  ultimately show ?thesis
    by (simp add: can_mint_def sample_token_def encrypt_empty_password_def short_hash_def)
      (simp add: sample_mint_def)
qed

theorem signed_in_session_is_the_users_witness:
  "case run (network mint_site) (performSignIn (\<lambda>e. signer_signEvent browser_signer e) Undefined) fresh_login (sample_web ann_db) [] of
    (r, s', w', l) \<Rightarrow> map set_value (cookie_jar w') = [Str sample_token]"
proof -
  let ?x = "row_to_identity ann_row"
  have key: "get_by_pubkey ''k1'' (mappings (server_side (sample_web ann_db))) = Some ?x"
    by (simp add: get_by_pubkey_def ann_db_def ann_row_def new_row_def sample_web_def)
  have helper: "mint_helper (next_service mint_site (sample_web ann_db)) = minting sample_mint \<lparr>session_files = [], mint_steps = []\<rparr>"
    by (simp add: next_service_def mint_site_def)
  have "ynh_username ?x = ''ann''" "site_host mint_site = ''ynh.test''"
    by (simp_all add: row_to_identity_def ann_row_def new_row_def mint_site_def sample_site_def)
  then have mint: "can_mint sample_mint (ynh_username ?x) (site_host mint_site) sample_token" using sample_can_mint by simp
  have "storage_writable fresh_login" by (simp add: fresh_login_def)
  from signed_in_session_is_the_users [OF mint_site_ready this key helper mint, of Undefined] show ?thesis
    by (auto simp: sample_web_def split: prod.splits)
qed

end
