(* ===== verification/Admin_Cli.thy ===== *)
theory Admin_Cli
  imports Server_Access
begin

text \<open>
  \<open>src/src/yunohost_nostr_auth/admin_cli.py\<close>: the command line of the administrator, on the database
  that the server reads.  \<open>argparse\<close> makes a \<open>cli_command\<close> of the arguments; an exit status is a
  value, an exception that nothing catches is \<open>Inl\<close>.  The clock is an argument.
\<close>

record cli =
  cli_db :: mapping_db
  stdout :: "string list"
  stderr :: "string list"

datatype cli_command =
    Cmd_link string string bool string "string option"
  | Cmd_unlink string
  | Cmd_revoke string int
  | Cmd_rename string int string
  | Cmd_list

subsection \<open>Printing\<close>

definition print_out :: "string \<Rightarrow> (cli, unit) py" where
  "print_out t = py_modify (\<lambda>s. s\<lparr>stdout := stdout s @ [t]\<rparr>)"

text \<open>\<open>print(f"error: ...", file=sys.stderr); return 1\<close>\<close>

definition cli_fails :: "string \<Rightarrow> (cli, int) py" where
  "cli_fails t = py_bind (py_modify (\<lambda>s. s\<lparr>stderr := stderr s @ [''error: '' @ t]\<rparr>)) (\<lambda>_. py_return 1)"

definition cli_says :: "string \<Rightarrow> (cli, int) py" where
  "cli_says t = py_bind (print_out t) (\<lambda>_. py_return 0)"

definition on_db :: "(mapping_db, 'a) py \<Rightarrow> (cli, 'a) py" where
  "on_db m = on_field cli_db (\<lambda>db s. s\<lparr>cli_db := db\<rparr>) m"

definition id_text :: "int option \<Rightarrow> string" where
  "id_text i = (case i of None \<Rightarrow> ''None'' | Some n \<Rightarrow> int_to_dec n)"

definition format_identity :: "nostr_sdk \<Rightarrow> Identity \<Rightarrow> exc + string" where
  "format_identity lib i =
     (case hex_to_npub lib (pubkey i) of
        Inl e \<Rightarrow> Inl e
      | Inr n \<Rightarrow> Inr (ynh_username i @ '': '' @ n @ '' ('' @ pubkey i @ '') - id '' @ id_text (identity_id i) @ '', '' @
          (if enabled i then ''enabled'' else ''revoked'') @ '', '' @ signer_type i @
          (case label i of None \<Rightarrow> [] | Some t \<Rightarrow> if t = [] then [] else '', label '' @ py_repr t) @
          '', linked '' @ int_to_dec (created_at i) @ '', last used '' @
          (case last_used i of None \<Rightarrow> ''never'' | Some t \<Rightarrow> int_to_dec t)))"

subsection \<open>The commands\<close>

definition label_option :: "string option \<Rightarrow> string option" where
  "label_option lab = (case lab of None \<Rightarrow> None | Some t \<Rightarrow> if t = [] then None else Some (py_strip t))"

text \<open>The \<open>try\<close> around the store: \<open>Some m\<close> is what \<open>PubkeyAlreadyLinked\<close> says.\<close>

definition cli_store_link :: "string \<Rightarrow> string \<Rightarrow> bool \<Rightarrow> string \<Rightarrow> string option \<Rightarrow> int \<Rightarrow> (cli, string option) py" where
  "cli_store_link u p add st lab now =
     py_except
       (py_bind (on_db (if add then py_bind (add_identity u p st (label_option lab) ''admin'' now) (\<lambda>_. py_return ())
                        else link u p st (label_option lab) ''admin'' now)) (\<lambda>_. py_return None))
       (\<lambda>e. case e of PubkeyAlreadyLinked m \<Rightarrow> Some (py_return (Some m)) | _ \<Rightarrow> None)"

definition cli_link :: "nostr_sdk \<Rightarrow> int \<Rightarrow> string \<Rightarrow> string \<Rightarrow> bool \<Rightarrow> string \<Rightarrow> string option \<Rightarrow> (cli, int) py" where
  "cli_link lib now u key add st lab =
     (if u = [] then cli_fails ''username is required''
      else if key = [] then cli_fails ''a Nostr public key (npub or hex) is required''
      else case parse_to_hex lib key of
          Inl e \<Rightarrow> (case e of ValueError m \<Rightarrow> cli_fails m | _ \<Rightarrow> py_raise e)
        | Inr p \<Rightarrow>
           py_bind (cli_store_link u p add st lab now) (\<lambda>refused.
           case refused of
             Some m \<Rightarrow> cli_fails m
           | None \<Rightarrow> py_bind (py_lift (hex_to_npub lib p)) (\<lambda>n.
               cli_says ((if add then ''added'' else ''linked'') @ '' '' @ u @ '' to '' @ n @ '' ('' @ p @ '')''))))"

definition cli_unlink :: "string \<Rightarrow> (cli, int) py" where
  "cli_unlink u =
     (if u = [] then cli_fails ''username is required''
      else py_bind (on_db (py_gets (get_by_username u))) (\<lambda>identity.
        if identity = None then cli_says (u @ '' has no linked identity - nothing to do'')
        else py_bind (on_db (unlink u)) (\<lambda>_. cli_says (''unlinked '' @ u))))"

text \<open>SQLite refuses an id that does not fit into 64 bits.\<close>

definition cli_id :: "int \<Rightarrow> (cli, unit) py" where
  "cli_id i = (if i < 2 ^ 63 then py_return () else py_raise Overflow_error)"

definition cli_revoke :: "int \<Rightarrow> string \<Rightarrow> int \<Rightarrow> (cli, int) py" where
  "cli_revoke now u i =
     (if u = [] then cli_fails ''username is required''
      else if i \<le> 0 then cli_fails ''identity id must be positive''
      else py_bind (cli_id i) (\<lambda>_. py_bind (on_db (revoke_identity i u now)) (\<lambda>done_so.
        if \<not> done_so then cli_fails ''identity not found or already revoked''
        else cli_says (''revoked identity '' @ int_to_dec i @ '' for '' @ u))))"

definition cli_rename :: "string \<Rightarrow> int \<Rightarrow> string \<Rightarrow> (cli, int) py" where
  "cli_rename u i lab =
     (if u = [] then cli_fails ''username is required''
      else if i \<le> 0 then cli_fails ''identity id must be positive''
      else if py_strip lab = [] \<or> code_points (py_strip lab) > 120
      then cli_fails ''label must be a non-empty string of at most 120 characters''
      else py_bind (cli_id i) (\<lambda>_. py_bind (on_db (update_identity_label i u (Some (py_strip lab)))) (\<lambda>identity.
        if identity = None then cli_fails ''identity not found or revoked''
        else cli_says (''renamed identity '' @ int_to_dec i @ '' for '' @ u @ '' to '' @ py_repr (py_strip lab)))))"

primrec print_identities :: "nostr_sdk \<Rightarrow> Identity list \<Rightarrow> (cli, int) py" where
  "print_identities lib [] = py_return 0"
| "print_identities lib (x # xs) =
     py_bind (py_lift (format_identity lib x)) (\<lambda>t. py_bind (print_out t) (\<lambda>_. print_identities lib xs))"

definition cli_list :: "nostr_sdk \<Rightarrow> (cli, int) py" where
  "cli_list lib = py_bind (on_db (py_gets list_all_identities)) (\<lambda>identities.
     if identities = [] then cli_says ''no identities linked'' else print_identities lib identities)"

fun cli_run :: "nostr_sdk \<Rightarrow> int \<Rightarrow> cli_command \<Rightarrow> (cli, int) py" where
  "cli_run lib now (Cmd_link u key add st lab) = cli_link lib now u key add st lab"
| "cli_run lib now (Cmd_revoke u i) = cli_revoke now u i"
| "cli_run lib now (Cmd_rename u i lab) = cli_rename u i lab"
| "cli_run lib now (Cmd_unlink u) = cli_unlink u"
| "cli_run lib now Cmd_list = cli_list lib"

definition cli_main :: "nostr_sdk \<Rightarrow> int \<Rightarrow> cli_command \<Rightarrow> mapping_db \<Rightarrow> (exc + int) \<times> cli" where
  "cli_main lib now cmd db = cli_run lib now cmd \<lparr>cli_db = MappingStore db, stdout = [], stderr = []\<rparr>"

subsection \<open>What a command means\<close>

fun cli_op :: "nostr_sdk \<Rightarrow> int \<Rightarrow> cli_command \<Rightarrow> map_op option" where
  "cli_op lib now (Cmd_link u key add st lab) = (case parse_to_hex lib key of
     Inl e \<Rightarrow> None
   | Inr p \<Rightarrow> Some (if add then Add_identity u p st (label_option lab) ''admin'' now
                     else Link u p st (label_option lab) ''admin'' now))"
| "cli_op lib now (Cmd_revoke u i) = Some (Revoke i u now)"
| "cli_op lib now (Cmd_rename u i lab) = Some (Relabel i u (Some (py_strip lab)))"
| "cli_op lib now (Cmd_unlink u) = Some (Unlink u)"
| "cli_op lib now Cmd_list = None"

definition cli_meant :: "nostr_sdk \<Rightarrow> int \<Rightarrow> cli_command \<Rightarrow> mapping_db \<Rightarrow> mapping_db" where
  "cli_meant lib now cmd db = (case cli_op lib now cmd of None \<Rightarrow> db | Some x \<Rightarrow> map_step x db)"

text \<open>How a command may end: done, refused, or by an exception.\<close>

definition ends_well :: "mapping_db \<Rightarrow> mapping_db \<Rightarrow> cli \<Rightarrow> (exc + int) \<times> cli \<Rightarrow> bool" where
  "ends_well db meant s0 res \<longleftrightarrow> (case res of (r, s) \<Rightarrow>
     (case r of
        Inr n \<Rightarrow> if n = 0 then stderr s = stderr s0 \<and> cli_db s = meant
          else n = 1 \<and> stdout s = stdout s0 \<and> cli_db s = db \<and> (\<exists>m. stderr s = stderr s0 @ [''error: '' @ m])
      | Inl e \<Rightarrow> stderr s = stderr s0 \<and> (cli_db s = db \<or> cli_db s = meant)))"

lemma fails_well [simp]: "ends_well (cli_db s) meant s (cli_fails t s)"
  by (simp add: ends_well_def cli_fails_def py_rules)

lemma says_well: "cli_db s = meant \<Longrightarrow> stderr s = stderr s0 \<Longrightarrow> ends_well db meant s0 (cli_says t s)"
  by (simp add: ends_well_def cli_says_def print_out_def py_rules)

lemma link_well:
  "ends_well (cli_db s) (cli_meant lib now (Cmd_link u key add st lab) (cli_db s)) s (cli_link lib now u key add st lab s)"
proof (cases "u = [] \<or> key = []")
  case False
  show ?thesis
  proof (cases "parse_to_hex lib key")
    case (Inl e)
    then show ?thesis using False
      by (cases e) (auto simp: cli_link_def py_rules ends_well_def cli_fails_def)
  next
    case (Inr p)
    let ?m = "if add then py_bind (add_identity u p st (label_option lab) ''admin'' now) (\<lambda>_. py_return ())
                     else link u p st (label_option lab) ''admin'' now"
    obtain r db where r: "?m (cli_db s) = (r, db)" by fastforce
    have db: "db = cli_meant lib now (Cmd_link u key add st lab) (cli_db s)"
      using r Inr by (auto simp: cli_meant_def py_rules split: if_splits prod.splits sum.splits)
    have kept: "db = cli_db s" if "r = Inl (PubkeyAlreadyLinked m)" for m
      using r that
      by (auto simp: add_identity_def link_def py_rules insert_row_def Let_def
          split: if_splits prod.splits sum.splits option.splits)
    show ?thesis
      using False Inr r db kept
      by (auto simp: cli_link_def cli_store_link_def on_db_def py_rules ends_well_def cli_fails_def cli_says_def print_out_def
          split: sum.splits exc.splits)
  qed
qed (auto simp: cli_link_def)

lemma unlink_well: "ends_well (cli_db s) (cli_meant lib now (Cmd_unlink u) (cli_db s)) s (cli_unlink u s)"
proof (cases "u = []")
  case False
  have "delete_user u (cli_db s) = cli_db s" if "get_by_username u (cli_db s) = None"
  proof -
    have "sort_key (\<lambda>r. (- row_enabled r, row_recency r)) (filter (\<lambda>r. row_username r = u) (id_rows (cli_db s))) = []"
      using that by (auto simp: get_by_username_def split: list.splits)
    then have "filter (\<lambda>r. row_username r = u) (id_rows (cli_db s)) = []"
      by (metis length_0_conv length_sort)
    then show ?thesis by (simp add: delete_user_def filter_empty_conv filter_id_conv)
  qed
  then show ?thesis
    using False
    by (auto simp: cli_unlink_def on_db_def py_rules unlink_def ends_well_def cli_says_def print_out_def cli_meant_def)
qed (simp add: cli_unlink_def)

text \<open>An update that changes no row.\<close>

lemma update_where_unique:
  assumes "table_ok db" and "fst (update_where (active_of i u) f db) \<noteq> 1"
  shows "snd (update_where (active_of i u) f db) = db"
proof -
  have "\<not> active_of i u r" if r: "r \<in> set (id_rows db)" for r
  proof
    assume a: "active_of i u r"
    then have "fst (update_where (active_of i u) f db) = 1"
      using assms(1) r
      by (intro update_where_one [where f = row_id and r = r and Q = "\<lambda>y. row_username y = u \<and> row_enabled y = 1"])
        (auto simp: table_ok_def active_of_def fun_eq_iff)
    with assms(2) show False by simp
  qed
  then have "map (\<lambda>r. if active_of i u r then f r else r) (id_rows db) = id_rows db"
    by (simp add: map_idI)
  then show ?thesis by (simp add: update_where_def)
qed

lemma revoke_well:
  assumes "table_ok (cli_db s)"
  shows "ends_well (cli_db s) (cli_meant lib now (Cmd_revoke u i) (cli_db s)) s (cli_revoke now u i s)"
  using update_where_unique [OF assms, of i u]
  by (auto simp: cli_revoke_def cli_id_def on_db_def py_rules revoke_identity_def ends_well_def cli_says_def print_out_def
      cli_fails_def cli_meant_def split: prod.splits) (metis fst_conv snd_conv One_nat_def)+

lemma relabel_run:
  assumes "table_ok db"
  obtains "update_identity_label i u lab db = (Inr None, db)"
  | x where "update_identity_label i u lab db = (Inr (Some x), map_step (Relabel i u lab) db)"
proof -
  let ?f = "\<lambda>r. r\<lparr>row_label := lab\<rparr>"
  obtain n db' where n: "update_where (active_of i u) ?f db = (n, db')" by fastforce
  show thesis
  proof (cases "n = 1")
    case True
    have "filter (active_of i u) (id_rows db) \<noteq> []" using n True by (auto simp: update_where_def)
    then obtain r where "r \<in> set (id_rows db)" "row_id r = i" by (auto simp: filter_empty_conv active_of_def)
    moreover have "map row_id (id_rows db') = map row_id (id_rows db)" using n by (auto simp: update_where_def)
    ultimately have "i \<in> row_id ` set (id_rows db')" by (metis image_eqI image_set)
    then obtain x where "get_by_id i db' = Some x"
      by (cases "find (\<lambda>r. row_id r = i) (id_rows db')") (auto simp: get_by_id_def find_None_iff)
    then show thesis using n True by (intro that(2)) (auto simp: update_identity_label_def py_rules)
  next
    case False
    then have "db' = db" using update_where_unique [OF assms, of i u ?f] n by simp
    then show thesis using n False by (intro that(1)) (simp add: update_identity_label_def py_rules)
  qed
qed

lemma rename_well:
  assumes "table_ok (cli_db s)"
  shows "ends_well (cli_db s) (cli_meant lib now (Cmd_rename u i lab) (cli_db s)) s (cli_rename u i lab s)"
proof -
  have overflow: "ends_well (cli_db s) m s (Inl e, s)" for m e by (simp add: ends_well_def)
  show ?thesis
    by (cases rule: relabel_run [OF assms, of i u "Some (py_strip lab)"])
      (simp_all add: cli_rename_def cli_id_def on_db_def py_rules overflow says_well cli_meant_def del: map_step.simps)
qed

lemma list_well: "ends_well (cli_db s) (cli_meant lib now Cmd_list (cli_db s)) s (cli_list lib s)"
proof -
  have "ends_well (cli_db s) (cli_db s) s (print_identities lib xs s1)"
    if "cli_db s1 = cli_db s" "stderr s1 = stderr s" for xs s1
    using that
  proof (induction xs arbitrary: s1)
    case (Cons x xs)
    show ?case
    proof (cases "format_identity lib x")
      case (Inr t)
      then show ?thesis using Cons.IH [of "s1\<lparr>stdout := stdout s1 @ [t]\<rparr>"] Cons.prems
        by (simp add: py_rules print_out_def)
    qed (use Cons.prems in \<open>simp add: ends_well_def py_rules\<close>)
  qed (simp add: ends_well_def py_rules)
  then show ?thesis
    by (simp add: cli_list_def on_db_def py_rules cli_meant_def says_well)
qed

lemma cli_well: "table_ok (cli_db s) \<Longrightarrow> ends_well (cli_db s) (cli_meant lib now cmd (cli_db s)) s (cli_run lib now cmd s)"
  by (cases cmd) (simp_all add: link_well unlink_well revoke_well rename_well list_well)

text \<open>What has been achieved when a command is done: on the table before and after it.\<close>

fun cli_achieved :: "nostr_sdk \<Rightarrow> cli_command \<Rightarrow> mapping_db \<Rightarrow> mapping_db \<Rightarrow> bool" where
  "cli_achieved lib (Cmd_link u key add st lab) db db' \<longleftrightarrow> (case parse_to_hex lib key of
     Inl e \<Rightarrow> False | Inr p \<Rightarrow> holder (db_keys db') p = Some u)"
| "cli_achieved lib (Cmd_unlink u) db db' \<longleftrightarrow> list_all (\<lambda>r. row_username r \<noteq> u) (id_rows db')"
| "cli_achieved lib (Cmd_revoke u i) db db' \<longleftrightarrow> list_ex (active_of i u) (id_rows db) \<and> \<not> list_ex (active_of i u) (id_rows db')"
| "cli_achieved lib (Cmd_rename u i lab) db db' \<longleftrightarrow>
     list_ex (\<lambda>r. active_of i u r \<and> row_label r = Some (py_strip lab)) (id_rows db')"
| "cli_achieved lib Cmd_list db db' \<longleftrightarrow> True"

lemma holder_linked: "\<not> owned_by_other u (k p) \<Longrightarrow> holder (book_step (Link u p st lab by now) (n, k)) p = Some u"
  by (simp add: holder_def)

lemma holder_added: "k p = None \<Longrightarrow> holder (book_step (Add_identity u p st lab by now) (n, k)) p = Some u"
  by (simp add: holder_def)

lemma absent_entry: "row_of_pubkey p db = None \<Longrightarrow> snd (db_keys db) p = None"
  by (simp add: db_keys_def)

lemma active_row:
  assumes "fst (update_where (active_of i u) f db) = 1"
  shows "list_ex (active_of i u) (id_rows db)"
proof -
  have "filter (active_of i u) (id_rows db) \<noteq> []" using assms by (auto simp: update_where_def)
  then show ?thesis by (simp add: filter_empty_conv list_ex_iff)
qed

lemma link_achieves:
  assumes ok: "table_ok (cli_db s)" and "cli_link lib now u key add st lab s = (Inr 0, s')"
  shows "cli_achieved lib (Cmd_link u key add st lab) db (cli_db s')"
proof (cases "parse_to_hex lib key")
  case (Inr p)
  have named: "u \<noteq> []" "key \<noteq> []"
    using assms(2) by (auto simp: cli_link_def cli_fails_def py_rules split: if_splits)
  show ?thesis
  proof (cases add)
    case True
    then have free: "row_of_pubkey p (cli_db s) = None"
      and s': "cli_db s' = map_step (Add_identity u p st (label_option lab) ''admin'' now) (cli_db s)"
      using assms(2) named Inr
      by (auto simp: cli_link_def cli_store_link_def on_db_def py_rules add_run [OF ok] cli_fails_def cli_says_def print_out_def
          linked_elsewhere_def split: option.splits sum.splits exc.splits if_splits)
    show ?thesis
      unfolding s' using holder_added [of "snd (db_keys (cli_db s))" p] free
      by (simp add: Inr map_step_keys [OF ok] del: map_step.simps book_step.simps) (metis absent_entry db_keys_pair)
  next
    case False
    then have mine: "\<not> owned_by_other u (snd (db_keys (cli_db s)) p)"
      and s': "cli_db s' = map_step (Link u p st (label_option lab) ''admin'' now) (cli_db s)"
      using assms(2) named Inr
      by (auto simp: cli_link_def cli_store_link_def on_db_def py_rules link_run [OF ok] cli_fails_def cli_says_def print_out_def
          linked_elsewhere_def split: sum.splits exc.splits if_splits)
    show ?thesis
      unfolding s' using holder_linked [where k = "snd (db_keys (cli_db s))" and p = p, OF mine]
      by (simp add: Inr map_step_keys [OF ok] del: map_step.simps book_step.simps) (metis db_keys_pair)
  qed
qed (use assms(2) in \<open>auto simp: cli_link_def cli_fails_def py_rules split: if_splits exc.splits\<close>)

lemma unlink_achieves:
  assumes "cli_unlink u s = (Inr 0, s')"
  shows "cli_achieved lib (Cmd_unlink u) db (cli_db s')"
proof -
  have "cli_db s' = delete_user u (cli_db s)"
    using unlink_well [of s _ _ u] assms
    by (simp add: ends_well_def cli_meant_def unlink_def py_rules)
  then show ?thesis by (simp add: delete_user_def list_all_iff)
qed

lemma revoke_achieves:
  assumes "cli_revoke now u i s = (Inr 0, s')"
  shows "cli_achieved lib (Cmd_revoke u i) (cli_db s) (cli_db s')"
proof -
  let ?up = "update_where (active_of i u) (\<lambda>r. r\<lparr>row_enabled := 0, row_revoked_at := Some now\<rparr>) (cli_db s)"
  obtain n db where up: "?up = (n, db)" by fastforce
  have n: "n = 1" "cli_db s' = db"
    using assms up
    by (auto simp: cli_revoke_def cli_id_def on_db_def py_rules revoke_identity_def cli_fails_def cli_says_def print_out_def
        split: if_splits)
  have "\<not> active_of i u (if active_of i u r then r\<lparr>row_enabled := 0, row_revoked_at := Some now\<rparr> else r)" for r
    by (simp add: active_of_def)
  then have "\<not> list_ex (active_of i u) (id_rows (snd ?up))"
    by (simp add: update_where_def list_ex_iff del: if_image_distrib)
  moreover have "list_ex (active_of i u) (id_rows (cli_db s))" using active_row up n by (metis fst_conv)
  ultimately show ?thesis using up n by simp
qed

lemma rename_achieves:
  assumes "cli_rename u i lab s = (Inr 0, s')"
  shows "cli_achieved lib (Cmd_rename u i lab) db (cli_db s')"
proof -
  let ?up = "update_where (active_of i u) (\<lambda>r. r\<lparr>row_label := Some (py_strip lab)\<rparr>) (cli_db s)"
  obtain n db where up: "?up = (n, db)" by fastforce
  have n: "n = 1" "cli_db s' = db"
    using assms up
    by (auto simp: cli_rename_def cli_id_def on_db_def py_rules update_identity_label_def cli_fails_def cli_says_def print_out_def
        split: if_splits)
  have "list_ex (active_of i u) (id_rows (cli_db s))" using active_row up n by (metis fst_conv)
  then obtain r where r: "r \<in> set (id_rows (cli_db s))" "active_of i u r" by (auto simp: list_ex_iff)
  then have "r\<lparr>row_label := Some (py_strip lab)\<rparr> \<in> set (id_rows (snd ?up))" by (force simp: update_where_def)
  moreover have "active_of i u (r\<lparr>row_label := Some (py_strip lab)\<rparr>)" using r(2) by (simp add: active_of_def)
  ultimately have "list_ex (\<lambda>r. active_of i u r \<and> row_label r = Some (py_strip lab)) (id_rows (snd ?up))"
    by (auto simp: list_ex_iff)
  then show ?thesis using up n by simp
qed

lemma cli_achieves:
  "table_ok (cli_db s) \<Longrightarrow> cli_run lib now cmd s = (Inr 0, s') \<Longrightarrow> cli_achieved lib cmd (cli_db s) (cli_db s')"
  using link_achieves unlink_achieves revoke_achieves rename_achieves
  by (cases cmd) (simp_all del: cli_achieved.simps, simp)

text \<open>
  C38. The exit status says what happened.  Status 0: nothing is on the error output, the table is changed
  exactly as the command means, and the command has achieved its end (the key signs in to the user, the user
  has no identity, the identity was active and is revoked, the active identity has the label).  Status 1: the table is
  as it was, the error output has one line, and nothing else is printed.  If an exception ends the program (the library
  cannot print a key, or an id has more than 64 bits), the table is as it was or as the command means.
\<close>

theorem cli_status_tells:
  assumes "table_ok db"
  shows "case cli_main lib now cmd db of (r, s) \<Rightarrow>
    (case r of
       Inr n \<Rightarrow> if n = 0 then stderr s = [] \<and> cli_db s = cli_meant lib now cmd (MappingStore db) \<and>
           cli_achieved lib cmd (MappingStore db) (cli_db s)
         else n = 1 \<and> stdout s = [] \<and> cli_db s = MappingStore db \<and> (\<exists>m. stderr s = [''error: '' @ m])
     | Inl e \<Rightarrow> stderr s = [] \<and> (cli_db s = MappingStore db \<or> cli_db s = cli_meant lib now cmd (MappingStore db)))"
  using cli_well [of "\<lparr>cli_db = MappingStore db, stdout = [], stderr = []\<rparr>" lib now cmd] MappingStore_ok [OF assms]
    cli_achieves [of "\<lparr>cli_db = MappingStore db, stdout = [], stderr = []\<rparr>" lib now cmd]
  by (auto simp: cli_main_def ends_well_def split: prod.splits sum.splits if_splits)

subsection \<open>A concrete command\<close>

definition sample_lib :: nostr_sdk where
  "sample_lib = \<lparr>Event_from_json = (\<lambda>s. Inl ''malformed''), Event_verify = (\<lambda>_. False),
     PublicKey_to_hex = (\<lambda>t. if t = ''npub1k'' then Inr ''k1'' else Inl ''no key''),
     PublicKey_to_bech32 = (\<lambda>t. Inr (''npub1'' @ t))\<rparr>"

theorem cli_status_tells_witness:
  "case cli_main sample_lib 7 (Cmd_link ''bob'' ''npub1k'' False ''nip07'' None) ann_db of (r, s) \<Rightarrow>
     r = Inr 1 \<and> cli_db s = ann_db \<and> stdout s = []"
proof -
  let ?r = "cli_main sample_lib 7 (Cmd_link ''bob'' ''npub1k'' False ''nip07'' None) ann_db"
  have db: "MappingStore ann_db = ann_db"
    by (simp add: MappingStore_def migrate_legacy_users_def ann_db_def LEGACY_MIGRATION_VERSION_def)
  have "table_ok ann_db" by (simp add: table_ok_def ann_db_def ann_row_def new_row_def)
  moreover have "fst ?r = Inr 1"
    unfolding cli_main_def db
    by (simp add: cli_link_def parse_to_hex_def sample_lib_def cli_store_link_def py_rules on_db_def
        link_def row_of_pubkey_def ann_db_def ann_row_def new_row_def linked_elsewhere_def cli_fails_def Let_def)
  ultimately show ?thesis
    using cli_status_tells [of ann_db sample_lib 7 "Cmd_link ''bob'' ''npub1k'' False ''nip07'' None"]
    by (cases ?r) (simp add: db)
qed

end
