(* ===== verification/Cli_Flow.thy ===== *)
theory Cli_Flow
  imports Link_Flow Admin_Cli
begin

text \<open>
  The administrator links a key on the command line, and its owner signs in on the login page of the
  running server.
\<close>

text \<open>The command has stored the key.\<close>

lemma cli_link_stores:
  assumes "table_ok db" and "cli_main lib now (Cmd_link u key add st lab) db = (Inr 0, c)"
    and "parse_to_hex lib key = Inr pk"
  shows "\<exists>x. get_by_pubkey pk (cli_db c) = Some x \<and> ynh_username x = u \<and> linked_by x = ''admin'' \<and> last_used x = None"
proof -
  let ?db = "MappingStore db" and ?row = "new_row u pk now st (label_option lab) ''admin'' (last_id (MappingStore db) + 1)"
  have ok: "table_ok ?db" by (rule MappingStore_ok [OF assms(1)])
  have ends: "u \<noteq> []" "key \<noteq> []" "cli_db c = cli_meant lib now (Cmd_link u key add st lab) ?db"
    using assms(2) link_well [of "\<lparr>cli_db = ?db, stdout = [], stderr = []\<rparr>" lib now u key add st lab]
    by (auto simp: cli_main_def ends_well_def cli_link_def cli_fails_def py_rules split: if_splits)
  have "get_by_pubkey pk (cli_db c) = Some (row_to_identity ?row)"
  proof (cases add)
    case True
    have free: "row_of_pubkey pk ?db = None"
    proof (rule ccontr)
      assume "row_of_pubkey pk ?db \<noteq> None"
      then have "fst (cli_main lib now (Cmd_link u key add st lab) db) = Inr 1"
        using True ends assms(3)
        by (auto simp: cli_main_def cli_link_def cli_store_link_def on_db_def py_rules add_run [OF ok] cli_fails_def
            linked_elsewhere_def)
      with assms(2) show False by simp
    qed
    have "find (\<lambda>r. row_pubkey r = pk \<and> row_enabled r = 1) (id_rows ?db) = None"
      using free by (auto simp: absent_key find_None_iff)
    moreover have "cli_db c = snd (add_identity u pk st (label_option lab) ''admin'' now ?db)"
      using True ends(3) assms(3) by (simp add: cli_meant_def)
    ultimately show ?thesis
      using free by (simp add: add_run [OF ok] insert_row_def Let_def absent_key get_by_pubkey_def find_append new_row_def)
  next
    case False
    have "\<not> owned_by_other u (snd (db_keys ?db) pk)"
    proof
      assume "owned_by_other u (snd (db_keys ?db) pk)"
      then have "fst (cli_main lib now (Cmd_link u key add st lab) db) = Inr 1"
        using False ends assms(3)
        by (simp add: cli_main_def cli_link_def cli_store_link_def on_db_def py_rules link_run [OF ok] cli_fails_def
            linked_elsewhere_def)
      with assms(2) show False by simp
    qed
    then show ?thesis
      using False ends(3) assms(3) link_gives(1) [OF ok] by (simp add: cli_meant_def)
  qed
  then show ?thesis by (simp add: row_to_identity_def new_row_def)
qed

text \<open>
  C4. A key that the administrator has linked signs in.  When the command line has linked or added a
  key, given as npub or in hexadecimal, with status 0, then the login page, run against the server that reads the
  same database, signs the owner of the key in as the user the command named: one session is asked for,
  its cookie is set, and the browser is at the portal.
\<close>

theorem cli_link_then_sign_in:
  assumes "table_ok (mappings (server_side w))"
    and "cli_main lib now (Cmd_link u key add st lab) (mappings (server_side w)) = (Inr 0, c)"
    and "parse_to_hex lib key = Inr pk"
    and "w1 = w\<lparr>server_side := (server_side w)\<lparr>mappings := cli_db c\<rparr>\<rparr>"
    and "ready W w1 rest pk" and "storage_writable s" and "mint_result (next_service W w1) u (site_host W) = Inr minted"
  shows "case run (network W) (performSignIn (\<lambda>e. signer_signEvent browser_signer e) busy) s w1 [] of (r, s', w', l) \<Rightarrow>
    href s' = ''/yunohost/sso/'' \<and> e_text (el s' L_messageEl) = [] \<and>
    mint_requests (server_side w') = mint_requests (server_side w) @ [(u, site_host W)] \<and>
    cookie_jar w' = cookie_jar w @ [\<lparr>set_name = cookie_name minted, set_value = token minted,
      set_max_age = max_age minted, set_domain = CHR ''.'' # site_host W\<rparr>]"
proof -
  obtain x where x: "get_by_pubkey pk (cli_db c) = Some x" "ynh_username x = u"
    using cli_link_stores [OF assms(1-3)] by blast
  have key: "get_by_pubkey pk (mappings (server_side w1)) = Some x" using x(1) by (simp add: assms(4))
  have "mint_result (next_service W w1) (ynh_username x) (site_host W) = Inr minted" using x(2) assms(7) by simp
  from signs_in [OF assms(5,6) key this, of busy] show ?thesis
    using x(2) by (auto simp: assms(4) exchange_ended_def answer_of_def JSONResponse_def session_cookie_def split: prod.splits)
qed

text \<open>Ann's key is linked on the command line, and she signs in.\<close>

definition linked_by_command :: cli where
  "linked_by_command = snd (cli_main sample_lib 7 (Cmd_link ''ann'' ''npub1k'' False ''nip07'' None) (MappingStore (fresh_file None)))"

theorem cli_link_then_sign_in_witness:
  "case run (network sample_site) (performSignIn (\<lambda>e. signer_signEvent browser_signer e) Undefined) fresh_login
      (sample_web (cli_db linked_by_command)) [] of
    (r, s', w', l) \<Rightarrow> mint_requests (server_side w') = [(''ann'', ''ynh.test'')]"
proof -
  let ?db = "MappingStore (fresh_file None)"
  have fresh: "MappingStore ?db = ?db" "id_rows ?db = []"
    by (simp_all add: MappingStore_def migrate_legacy_users_def fresh_file_def LEGACY_MIGRATION_VERSION_def)
  have ok: "table_ok ?db" by (intro MappingStore_ok fresh_ok)
  then have ok1: "table_ok (mappings (server_side (sample_web ?db)))" by (simp add: sample_web_def)
  have lib: "parse_to_hex sample_lib ''npub1k'' = Inr ''k1''" "hex_to_npub sample_lib ''k1'' = Inr ''npub1k1''"
    by (simp_all add: parse_to_hex_def hex_to_npub_def sample_lib_def)
  have "fst (cli_main sample_lib 7 (Cmd_link ''ann'' ''npub1k'' False ''nip07'' None) ?db) = Inr 0"
    unfolding cli_main_def fresh(1)
    by (simp add: cli_link_def lib cli_store_link_def on_db_def py_rules link_run [OF ok] owned_row row_of_pubkey_def
        fresh(2) cli_says_def print_out_def)
  then have c: "cli_main sample_lib 7 (Cmd_link ''ann'' ''npub1k'' False ''nip07'' None) (mappings (server_side (sample_web ?db))) =
      (Inr 0, linked_by_command)"
    by (simp add: linked_by_command_def sample_web_def prod_eq_iff)
  have w: "sample_web (cli_db linked_by_command) = (sample_web ?db)\<lparr>server_side := (server_side (sample_web ?db))
      \<lparr>mappings := cli_db linked_by_command\<rparr>\<rparr>"
    by (simp add: sample_web_def)
  have m: "mint_result (next_service sample_site (sample_web (cli_db linked_by_command))) ''ann'' (site_host sample_site) =
      Inr \<lparr>cookie_name = ''yunohost.portal'', token = Str ''t'', max_age = Num 60\<rparr>"
    by (simp add: next_service_def sample_site_def mint_result_def) (simp add: sample_services_def minted_of_def)
  have "storage_writable fresh_login" by (simp add: fresh_login_def)
  from cli_link_then_sign_in [OF ok1 c lib(1) w sample_ready this m, of Undefined] show ?thesis
    by (auto simp: sample_web_def sample_site_def split: prod.splits)
qed

end
