(* ===== verification/Host_History.thy ===== *)
theory Host_History
  imports Admin_Cli
begin

text \<open>
  The server and the command line on the same database: what the identities are after requests and
  commands in any order.  A request or a command is one step.
\<close>

datatype host_event = Served visit | Command nostr_sdk int cli_command

fun host_step :: "host_event \<Rightarrow> server \<Rightarrow> server" where
  "host_step (Served (svc, verb, path, req)) s = snd (dispatch svc verb path req s)"
| "host_step (Command lib now cmd) s = s\<lparr>mappings := cli_db (snd (cli_main lib now cmd (mappings s)))\<rparr>"

text \<open>What gives a key to an account: a request that may, or the administrator's command.\<close>

fun event_gives :: "host_event \<Rightarrow> server \<Rightarrow> string \<Rightarrow> string \<Rightarrow> bool" where
  "event_gives (Served (svc, verb, path, req)) s u pk \<longleftrightarrow> (\<exists>origin. may_give svc req (challenges s) u pk origin)"
| "event_gives (Command lib now cmd) s u pk \<longleftrightarrow>
     (case cmd of Cmd_link v key add st lab \<Rightarrow> v = u \<and> parse_to_hex lib key = Inr pk | _ \<Rightarrow> False)"

subsection \<open>The interface\<close>

text \<open>A history in which every new holder of a key was made by its step.\<close>

locale key_history =
  fixes ok :: "'s \<Rightarrow> bool"
    and who :: "'s \<Rightarrow> string \<Rightarrow> string option"
    and step :: "'e \<Rightarrow> 's \<Rightarrow> 's"
    and made :: "'e \<Rightarrow> 's \<Rightarrow> string \<Rightarrow> string \<Rightarrow> bool"
  assumes step_ok: "ok s \<Longrightarrow> ok (step e s)"
    and step_who: "ok s \<Longrightarrow> who (step e s) p = Some u \<Longrightarrow> who s p = Some u \<or> made e s u p"
begin

lemma history_ok: "ok s \<Longrightarrow> ok (fold step es s)"
  by (induction es arbitrary: s) (simp_all add: step_ok)

lemma history_who:
  "ok s \<Longrightarrow> who (fold step es s) p = Some u \<Longrightarrow>
     who s p = Some u \<or> (\<exists>earlier e later. es = earlier @ e # later \<and> made e (fold step earlier s) u p)"
proof (induction es rule: rev_induct)
  case (snoc e es)
  then have "who (step e (fold step es s)) p = Some u" by simp
  then consider "who (fold step es s) p = Some u" | "made e (fold step es s) u p"
    using step_who [OF history_ok [OF snoc.prems(1)]] by blast
  then show ?case
  proof cases
    case 1
    then show ?thesis using snoc.IH [OF snoc.prems(1)] by fastforce
  next
    case 2
    then show ?thesis by blast
  qed
qed simp

end

subsection \<open>Requests and commands\<close>

definition host_ok :: "server \<Rightarrow> bool" where
  "host_ok s \<longleftrightarrow> table_ok (mappings s) \<and> LEGACY_MIGRATION_VERSION \<le> user_version (mappings s)"

lemma map_step_version: "user_version (map_step x db) = user_version db"
  by (cases x)
    (auto simp: link_def add_identity_def unlink_def delete_user_def revoke_identity_def update_identity_label_def
      touch_last_used_def touch_identity_def update_where_def insert_row_def Let_def py_rules
      split: option.split sum.split prod.split)

lemma opened_again: "LEGACY_MIGRATION_VERSION \<le> user_version db \<Longrightarrow> MappingStore db = db"
  by (simp add: MappingStore_def migrate_legacy_users_def)

lemma command_changes:
  assumes "host_ok s"
  obtains "mappings (host_step (Command lib now cmd) s) = mappings s"
  | x where "cli_op lib now cmd = Some x" "mappings (host_step (Command lib now cmd) s) = map_step x (mappings s)"
proof -
  have m: "MappingStore (mappings s) = mappings s" using assms by (simp add: host_ok_def opened_again)
  have "cli_db (snd (cli_main lib now cmd (mappings s))) \<in> {mappings s, cli_meant lib now cmd (mappings s)}"
    using cli_well [of "\<lparr>cli_db = MappingStore (mappings s), stdout = [], stderr = []\<rparr>" lib now cmd] assms
    by (auto simp: cli_main_def ends_well_def host_ok_def m split: prod.splits sum.splits if_splits)
  then show thesis using that by (auto simp: cli_meant_def split: option.splits)
qed

lemma host_changes:
  assumes "host_ok s"
  shows "mappings (host_step e s) = mappings s \<or>
    (\<exists>x. mappings (host_step e s) = map_step x (mappings s) \<and> (\<forall>u p. gives u p x \<longrightarrow> event_gives e s u p))"
proof (cases e)
  case (Served v)
  obtain svc verb path req where v: "v = (svc, verb, path, req)" by (cases v)
  show ?thesis
    using change_authorised [of svc req s verb path] authorised_gives [of svc req "challenges s"]
    by (auto simp: Served v permitted_def)
next
  case (Command lib now cmd)
  have given: "event_gives (Command lib now cmd) s u p" if "cli_op lib now cmd = Some x" "gives u p x" for x u p
    using that by (cases cmd) (auto split: sum.splits if_splits)
  show ?thesis
    by (cases rule: command_changes [OF assms, of lib now cmd]) (use given in \<open>auto simp: Command simp del: host_step.simps map_step.simps event_gives.simps\<close>)
qed

interpretation host: key_history host_ok "\<lambda>s. holder (db_keys (mappings s))" host_step event_gives
proof unfold_locales
  show "host_ok (host_step e s)" if "host_ok s" for e s
    using host_changes [OF that, of e] that map_step_ok by (auto simp: host_ok_def map_step_version)
  show "holder (db_keys (mappings s)) p = Some u \<or> event_gives e s u p"
    if "host_ok s" "holder (db_keys (mappings (host_step e s))) p = Some u" for s e p u
    using host_changes [OF that(1), of e]
  proof (elim disjE exE conjE)
    fix x assume x: "mappings (host_step e s) = map_step x (mappings s)" "\<forall>u p. gives u p x \<longrightarrow> event_gives e s u p"
    then have "holder (book_step x (db_keys (mappings s))) p = Some u"
      using that by (simp add: host_ok_def map_step_keys)
    then show ?thesis using book_step_holder x(2) by blast
  qed (use that in simp)
qed

text \<open>
  C7. The key of an account was given to it.  On a new file of identities, whatever requests are
  served, whatever commands the administrator gives in between, and whatever the outside answers: if a
  public key signs in to an account, then one of those steps gave it: a request that was authorised
  to, by an administrator's session or by the user's session with a signature of this key, or a
  command that names this account and this key.
\<close>

theorem host_key_authorised:
  "case create_app st rows (fresh_file None) of Inl e \<Rightarrow> True
     | Inr s0 \<Rightarrow> (case get_by_pubkey pk (mappings (fold host_step es s0)) of
         None \<Rightarrow> True
       | Some x \<Rightarrow> pubkey x = pk \<and> enabled x \<and>
          (\<exists>earlier e later. es = earlier @ e # later \<and> event_gives e (fold host_step earlier s0) (ynh_username x) pk))"
proof (cases "create_app st rows (fresh_file None)")
  case (Inr s0)
  show ?thesis
  proof (cases "get_by_pubkey pk (mappings (fold host_step es s0))")
    case (Some x)
    have m: "mappings s0 = MappingStore (fresh_file None)"
      using Inr by (auto simp: create_app_def split: sum.splits)
    have "user_version (MappingStore (fresh_file None)) = LEGACY_MIGRATION_VERSION"
      by (simp add: MappingStore_def migrate_legacy_users_def fresh_file_def LEGACY_MIGRATION_VERSION_def)
    then have ok: "host_ok s0" by (simp add: host_ok_def m MappingStore_ok fresh_ok)
    have "holder (db_keys (mappings (fold host_step es s0))) pk = Some (ynh_username x)"
      using get_by_pubkey_holder [of "mappings (fold host_step es s0)" pk] host.history_ok [OF ok, of es] Some
      by (simp add: host_ok_def)
    then have "\<exists>earlier e later. es = earlier @ e # later \<and> event_gives e (fold host_step earlier s0) (ynh_username x) pk"
      using host.history_who [OF ok] by (auto simp: m fresh_keys)
    moreover have "pubkey x = pk \<and> enabled x"
      using Some by (auto simp: get_by_pubkey_def row_to_identity_def find_Some_iff)
    ultimately show ?thesis using Inr Some by simp
  qed (simp add: Inr)
qed simp

end
