(* ===== verification/Json_Dumps.thy ===== *)
theory Json_Dumps
  imports Json Nostr_Verify
begin

text \<open>
  Python's \<open>json.dumps\<close> as a printer of JSON: with its default separators and with
  \<open>separators=(",", ":")\<close>.  What it prints in ASCII is read back as the same text, for every valid UTF-8
  text, surrogate pairs included.
\<close>

subsection \<open>Compact output\<close>

fun compact_dumps :: "jsval \<Rightarrow> string" where
  "compact_dumps Null = ''null''"
| "compact_dumps (Bool b) = (if b then ''true'' else ''false'')"
| "compact_dumps (Num n) = int_to_dec n"
| "compact_dumps (Str s) = dumps_text s"
| "compact_dumps (Arr vs) = ''['' @ join '','' (map compact_dumps vs) @ '']''"
| "compact_dumps (Obj ps) = ''{'' @ join '','' (map (\<lambda>p. dumps_text (fst p) @ '':'' @ compact_dumps (snd p)) ps) @ ''}''"
| "compact_dumps _ = []"

subsection \<open>Reading escapes\<close>

definition scalar :: "nat \<Rightarrow> bool" where
  "scalar n \<longleftrightarrow> n < 0xD800 \<or> 0xE000 \<le> n \<and> n < 0x110000"

definition utf8_text :: "string \<Rightarrow> bool" where
  "utf8_text t \<longleftrightarrow> list_all scalar (utf8_points t) \<and> concat (map utf8 (utf8_points t)) = t"

lemma hex4_hex4_text: "n < 65536 \<Longrightarrow> hex4 (hex4_text n @ t) = Some (n, t)"
proof -
  assume n: "n < 65536"
  have d: "n div 256 = n div 16 div 16" "n div 4096 = n div 16 div 16 div 16"
    by (simp_all only: div_mult2_eq [symmetric]) simp_all
  have small: "n div 16 div 16 div 16 < 16" using n d(2) by simp
  have "((n div 16 div 16 div 16 * 16 + n div 16 div 16 mod 16) * 16 + n div 16 mod 16) * 16 + n mod 16 = n"
    by (simp only: div_mult_mod_eq)
  then show ?thesis by (simp add: hex4_text_def d small)
qed

lemma json_u_escape:
  assumes "scalar n" and "n < 65536"
  shows "json_u (hex4_text n @ t) = Some (utf8 n, t)"
  using assms by (auto simp: json_u_def hex4_hex4_text scalar_def)

lemma json_u_pair:
  assumes "65536 \<le> n" and "scalar n"
  shows "json_u (hex4_text (0xD800 + (n - 65536) div 1024) @ [CHR 0x5C, CHR ''u''] @
      hex4_text (0xDC00 + (n - 65536) mod 1024) @ t) = Some (utf8 n, t)"
proof -
  have h: "(n - 65536) div 1024 < 1024" using assms by (simp add: scalar_def)
  have "65536 + (n - 65536) div 1024 * 1024 + (n - 65536) mod 1024 = n" using assms(1) by simp
  then show ?thesis using h by (simp add: json_u_def hex4_hex4_text)
qed

lemma json_string_point:
  assumes "scalar n"
  shows "json_string (Suc k) (dumps_point n @ t) = map_option (\<lambda>(y, r). (utf8 n @ y, r)) (json_string k t)"
proof -
  have c: "chr 34 = CHR 0x22" "chr 92 = CHR 0x5C" "chr 8 = CHR 0x08" "chr 9 = CHR 0x09" "chr 10 = CHR 0x0A"
    "chr 12 = CHR 0x0C" "chr 13 = CHR 0x0D"
    by (simp_all add: chr_eq_iff code_of_def)
  consider "n \<in> {34, 92, 10, 13, 9, 12, 8}" | "32 \<le> n" "n \<le> 126" "n \<notin> {34, 92}"
    | "n < 65536" "n \<notin> {34, 92, 10, 13, 9, 12, 8}" "\<not> (32 \<le> n \<and> n \<le> 126)" | "65536 \<le> n" by force
  then show ?thesis
  proof cases
    case 1
    then show ?thesis by (auto simp: dumps_point_def utf8_def c Let_def json_string.simps)
  next
    case 2
    then have "chr n \<noteq> CHR 0x22" "chr n \<noteq> CHR 0x5C"
      by (simp_all add: chr_eq_iff code_of_def)
    with 2 show ?thesis by (simp add: dumps_point_def utf8_def json_string.simps)
  next
    case 3
    then have "dumps_point n = [CHR 0x5C, CHR ''u''] @ hex4_text n"
      by (auto simp: dumps_point_def unicode_escape_def c)
    then show ?thesis using json_u_escape [OF assms 3(1), of t] by (simp add: Let_def json_string.simps)
  next
    case 4
    then have "dumps_point n = [CHR 0x5C, CHR ''u''] @ hex4_text (0xD800 + (n - 65536) div 1024) @
        [CHR 0x5C, CHR ''u''] @ hex4_text (0xDC00 + (n - 65536) mod 1024)"
      by (simp add: dumps_point_def unicode_escape_def c)
    then show ?thesis using json_u_pair [OF 4 assms, of t] by (simp add: Let_def json_string.simps)
  qed
qed

lemma json_string_points:
  "list_all scalar ns \<Longrightarrow> length ns < k \<Longrightarrow>
     json_string k (concat (map dumps_point ns) @ CHR 0x22 # r) = Some (concat (map utf8 ns), r)"
proof (induction ns arbitrary: k)
  case Nil
  then show ?case by (cases k) (auto simp: json_string.simps)
next
  case (Cons n ns)
  then obtain k' where "k = Suc k'" "length ns < k'" by (cases k) auto
  then show ?case using Cons by (simp add: json_string_point)
qed

lemma points_length: "length ns \<le> length (concat (map dumps_point ns))"
proof (induction ns)
  case (Cons n ns)
  have "1 \<le> length (dumps_point n)" by (simp add: dumps_point_def unicode_escape_def)
  with Cons show ?case by simp
qed simp

lemma dumps_text_reads:
  assumes "utf8_text s" and "length (dumps_text s) \<le> Suc k"
  shows "json_string k (tl (dumps_text s) @ r) = Some (s, r)"
proof -
  have q: "chr 34 = CHR 0x22" by (simp add: chr_eq_iff code_of_def)
  have "length (utf8_points s) < k"
    using points_length [of "utf8_points s"] assms(2) by (simp add: dumps_text_def)
  then show ?thesis
    using json_string_points [of "utf8_points s" k r] assms(1) by (simp add: dumps_text_def utf8_text_def q)
qed

lemma dumps_text_head: "\<exists>b. dumps_text s = CHR 0x22 # b"
  by (simp add: dumps_text_def chr_eq_iff code_of_def)

subsection \<open>\<open>json.dumps\<close> is such a printer\<close>

interpretation py: json_printer py_dumps dumps_text "'' ''" utf8_text
  by unfold_locales (simp_all add: py_dumps.simps dumps_text_head dumps_text_reads json_space_def code_of_def)

interpretation wire: json_printer compact_dumps dumps_text "[]" utf8_text
  by unfold_locales (simp_all add: dumps_text_head dumps_text_reads)

text \<open>ASCII is UTF-8.\<close>

lemma ascii_points: "list_all (\<lambda>c. code_of c < 128) t \<Longrightarrow> utf8_points t = map code_of t"
  by (induction t rule: utf8_points.induct) simp_all

lemma ascii_text:
  assumes "list_all (\<lambda>c. code_of c < 128) t"
  shows "utf8_text t"
proof -
  have "concat (map (\<lambda>c. utf8 (code_of c)) t) = t"
    using assms by (induction t) (simp_all add: utf8_def chr_code_of)
  then show ?thesis
    using assms ascii_points [OF assms] by (force simp: utf8_text_def scalar_def list_all_iff o_def)
qed

declare compact_dumps.simps [simp del]

end
