(* ===== verification/Identity_Lookup.thy ===== *)
theory Identity_Lookup
  imports Json_Dumps Mint_Service
begin

text \<open>
  \<open>src/src/yunohost_nostr_auth/ynh/identity_lookup_server.py\<close> and its client \<open>identity_lookup.py\<close>: another
  program of the host asks on a socket who has linked a public key.  Parameters are the peer of the
  connection and the users and groups of the system; a connection is the list of the segments
  that the kernel delivers, in each direction.  A request in UTF-16 or UTF-32, which \<open>json.loads\<close> would detect, is
  not modelled.
\<close>

subsection \<open>Reading a line\<close>

definition MAX_REQUEST_BYTES :: nat where
  "MAX_REQUEST_BYTES = 256"

text \<open>\<open>conn.recv(n)\<close>: at most \<open>n\<close> bytes of the next segment; nothing at the end.\<close>

fun recv :: "nat \<Rightarrow> string list \<Rightarrow> string \<times> string list" where
  "recv n [] = ([], [])"
| "recv n (c # cs) = (take n c, if drop n c = [] then cs else drop n c # cs)"

lemma recv_take:
  assumes "recv n conn = (chunk, conn')"
  shows "chunk @ concat conn' = concat conn" and "length chunk \<le> n"
proof -
  have "fst (recv n conn) @ concat (snd (recv n conn)) = concat conn \<and> length (fst (recv n conn)) \<le> n"
  proof (cases conn)
    case (Cons c cs)
    have "drop n c = [] \<Longrightarrow> take n c = c" by simp
    then show ?thesis by (simp add: Cons flip: append_assoc)
  qed simp
  then show "chunk @ concat conn' = concat conn" "length chunk \<le> n" by (simp_all add: assms)
qed

lemma recv_shorter:
  assumes "recv n conn = (chunk, conn')" and "chunk \<noteq> []"
  shows "length (concat conn') < length (concat conn)"
  using arg_cong [OF recv_take(1) [OF assms(1)], of length] assms(2) by (cases chunk) simp_all

definition ends_line :: "string \<Rightarrow> bool" where
  "ends_line data \<longleftrightarrow> data \<noteq> [] \<and> last data = CHR 0x0A"

function read_data :: "string \<Rightarrow> string list \<Rightarrow> string" where
  "read_data data conn =
     (if ends_line data \<or> length data > MAX_REQUEST_BYTES then data
      else case recv (min 256 (MAX_REQUEST_BYTES + 1 - length data)) conn of
        (chunk, conn') \<Rightarrow> if chunk = [] then data else read_data (data @ chunk) conn')"
  by pat_completeness auto
termination
  by (relation "measure (\<lambda>(data, conn). MAX_REQUEST_BYTES + 1 - length data)") (auto simp flip: length_greater_0_conv)

declare read_data.simps [simp del]

definition read_line :: "string list \<Rightarrow> string + string" where
  "read_line conn = (let data = read_data [] conn
     in if length data > MAX_REQUEST_BYTES then Inl ''request exceeds size limit'' else Inr data)"

subsection \<open>Who may ask\<close>

record system_users =
  getgrnam :: "string \<Rightarrow> (int \<times> string list) option"
  getpwuid :: "int \<Rightarrow> string option"

definition uid_in_group :: "system_users \<Rightarrow> int \<Rightarrow> int \<Rightarrow> string \<Rightarrow> bool" where
  "uid_in_group U uid gid group_name =
     (if uid = 0 then True
      else case getgrnam U group_name of
          None \<Rightarrow> False
        | Some (gr_gid, gr_mem) \<Rightarrow> (case getpwuid U uid of
            None \<Rightarrow> False
          | Some username \<Rightarrow> gid = gr_gid \<or> username \<in> set gr_mem))"

subsection \<open>The handler\<close>

definition lower_hex_char :: "char \<Rightarrow> bool" where
  "lower_hex_char c \<longleftrightarrow> is_dec c \<or> 97 \<le> code_of c \<and> code_of c \<le> 102"

text \<open>\<open>_PUBKEY_RE.fullmatch\<close>\<close>

definition pubkey_text :: "string \<Rightarrow> bool" where
  "pubkey_text t \<longleftrightarrow> length t = 64 \<and> list_all lower_hex_char t"

text \<open>\<open>json.loads\<close>; the text of its error is not.\<close>

definition json_loads :: "string \<Rightarrow> string + jsval" where
  "json_loads t = (case json_parse t of None \<Rightarrow> Inl ''malformed JSON'' | Some v \<Rightarrow> Inr v)"

definition only_pubkey :: "jsval \<Rightarrow> bool" where
  "only_pubkey v \<longleftrightarrow> (case v of Obj ps \<Rightarrow> fst ` set ps = {''pubkey''} | _ \<Rightarrow> False)"

definition lookup_request_of :: "string list \<Rightarrow> string + string" where
  "lookup_request_of conn =
     (case read_line conn of Inl e \<Rightarrow> Inl e
      | Inr line \<Rightarrow> (case json_loads line of Inl e \<Rightarrow> Inl e
        | Inr request \<Rightarrow> (case json_item request ''pubkey'' of Inl e \<Rightarrow> Inl e
          | Inr key \<Rightarrow> (case key of
              Str t \<Rightarrow> (if only_pubkey request \<and> pubkey_text t then Inr t
                else Inl ''pubkey must be 64 lowercase hexadecimal characters'')
            | _ \<Rightarrow> Inl ''pubkey must be 64 lowercase hexadecimal characters''))))"

definition lookup_answer :: "Identity option \<Rightarrow> jsval" where
  "lookup_answer identity = Obj [(''linked'', Bool (identity \<noteq> None)),
     (''username'', case identity of None \<Rightarrow> Null | Some x \<Rightarrow> Str (ynh_username x))]"

text \<open>No answer if the peer of the connection cannot be read.\<close>

definition lookup_handle :: "system_users \<Rightarrow> string \<Rightarrow> (int \<times> int) option \<Rightarrow> string list \<Rightarrow> mapping_db \<Rightarrow> jsval option" where
  "lookup_handle U allowed_group peer conn db =
     (case peer of
        None \<Rightarrow> None
      | Some (uid, gid) \<Rightarrow>
         if \<not> uid_in_group U uid gid allowed_group then Some (error_line ''forbidden'')
         else (case lookup_request_of conn of
            Inl e \<Rightarrow> Some (error_line (''bad request: '' @ e))
          | Inr key \<Rightarrow> Some (lookup_answer (get_by_pubkey key db))))"

text \<open>\<open>_respond\<close>: the bytes of the answer.\<close>

definition respond :: "jsval option \<Rightarrow> string" where
  "respond answer = (case answer of None \<Rightarrow> [] | Some payload \<Rightarrow> compact_dumps payload @ [CHR 0x0A])"

subsection \<open>The client\<close>

datatype lookup_error = IdentityLookupError string | Uncaught string

record LinkedIdentity =
  linked :: bool
  linked_username :: "string option"

text \<open>\<open>json.dumps({"pubkey": pubkey}, separators=(",", ":")) + "\n"\<close>\<close>

definition lookup_text :: "string \<Rightarrow> string" where
  "lookup_text key = compact_dumps (Obj [(''pubkey'', Str key)]) @ [CHR 0x0A]"

text \<open>Reading until the line or the stream ends.\<close>

function read_reply :: "nat \<Rightarrow> string \<Rightarrow> string list \<Rightarrow> string" where
  "read_reply n raw conn =
     (if ends_line raw then raw
      else case recv n conn of (chunk, conn') \<Rightarrow> if chunk = [] then raw else read_reply n (raw @ chunk) conn')"
  by pat_completeness auto
termination
  by (relation "measure (\<lambda>(n, raw, conn). length (concat conn))") (use recv_shorter in \<open>force+\<close>)

declare read_reply.simps [simp del]

text \<open>What the client makes of the answer; nothing that is read back is empty text.\<close>

definition invalid_response :: "lookup_error + LinkedIdentity" where
  "invalid_response = Inl (IdentityLookupError ''identity lookup helper returned an invalid response'')"

definition linked_identity :: "(string \<times> jsval) list \<Rightarrow> lookup_error + LinkedIdentity" where
  "linked_identity ps =
     (case dict_get ps ''linked'' Null of
        Bool b \<Rightarrow> (case map_of ps ''username'' of
            None \<Rightarrow> Inl (Uncaught (single_quoted ''username''))
          | Some Null \<Rightarrow> Inr \<lparr>linked = b, linked_username = None\<rparr>
          | Some (Str u) \<Rightarrow> Inr \<lparr>linked = b, linked_username = Some u\<rparr>
          | Some v \<Rightarrow> invalid_response)
      | _ \<Rightarrow> invalid_response)"

definition lookup_result :: "string \<Rightarrow> lookup_error + LinkedIdentity" where
  "lookup_result raw =
     (case json_loads raw of
        Inl m \<Rightarrow> Inl (IdentityLookupError (''identity lookup helper returned invalid output: '' @ m))
      | Inr (Obj ps) \<Rightarrow> (case map_of ps ''error'' of
            Some e \<Rightarrow> Inl (IdentityLookupError (''identity lookup helper failed: '' @ str_value e))
          | None \<Rightarrow> linked_identity ps)
      | Inr (Arr vs) \<Rightarrow> Inl (Uncaught (if Str ''error'' \<in> set vs then ''list indices must be integers or slices, not str''
          else attribute_error (Arr vs) ''get''))
      | Inr (Str t) \<Rightarrow> Inl (Uncaught (if js_includes ''error'' t then ''string indices must be integers, not '' @ single_quoted ''str''
          else attribute_error (Str t) ''get''))
      | Inr v \<Rightarrow> Inl (Uncaught (''argument of type '' @ single_quoted (py_type_name v) @ '' is not iterable'')))"

text \<open>The connection is an error of the system, or the segments of the answer.\<close>

definition lookup_identity :: "string + string list \<Rightarrow> lookup_error + LinkedIdentity" where
  "lookup_identity conn =
     (case conn of
        Inl e \<Rightarrow> Inl (IdentityLookupError (''could not reach identity lookup helper: '' @ e))
      | Inr segments \<Rightarrow> lookup_result (read_reply 4096 [] segments))"

subsection \<open>What is read\<close>

text \<open>One round of the loop, and what holds at its end.\<close>

lemma read_data_round:
  assumes "\<not> ends_line data" and "length data \<le> MAX_REQUEST_BYTES"
  obtains chunk conn' where "recv (min 256 (MAX_REQUEST_BYTES + 1 - length data)) conn = (chunk, conn')"
    and "chunk @ concat conn' = concat conn" and "length (data @ chunk) \<le> MAX_REQUEST_BYTES + 1"
    and "read_data data conn = (if chunk = [] then data else read_data (data @ chunk) conn')"
proof -
  obtain chunk conn' where r: "recv (min 256 (MAX_REQUEST_BYTES + 1 - length data)) conn = (chunk, conn')"
    by fastforce
  have "length chunk \<le> MAX_REQUEST_BYTES + 1 - length data" using recv_take(2) [OF r] by simp
  then have "length (data @ chunk) \<le> MAX_REQUEST_BYTES + 1" using assms(2) by simp
  then show thesis using assms r by (intro that [OF r recv_take(1) [OF r]]) (simp_all add: read_data.simps [of data])
qed

lemma read_data_spec:
  "length data \<le> MAX_REQUEST_BYTES + 1 \<Longrightarrow>
     length (read_data data conn) \<le> MAX_REQUEST_BYTES + 1 \<and> (\<exists>rest. data @ concat conn = read_data data conn @ rest)"
proof (induction data conn rule: read_data.induct)
  case (1 data conn)
  show ?case
  proof (cases "ends_line data \<or> length data > MAX_REQUEST_BYTES")
    case False
    then obtain chunk conn' where r: "recv (min 256 (MAX_REQUEST_BYTES + 1 - length data)) conn = (chunk, conn')"
      and c: "chunk @ concat conn' = concat conn" and n: "length (data @ chunk) \<le> MAX_REQUEST_BYTES + 1"
      and d: "read_data data conn = (if chunk = [] then data else read_data (data @ chunk) conn')"
      using read_data_round [of data conn] by (metis linorder_not_less)
    show ?thesis
    proof (cases "chunk = []")
      case True
      then show ?thesis using d "1.prems" by simp
    next
      case ne: False
      from "1.IH" [OF False r [symmetric] ne n] show ?thesis using d ne by (simp flip: c)
    qed
  qed (use "1.prems" in \<open>simp add: read_data.simps [of data]\<close>)
qed

text \<open>A line that fits is read whole, however the kernel cuts it.\<close>

lemma line_complete:
  assumes "ends_line data" and "data @ rest = line" and "CHR 0x0A \<notin> set (butlast line)"
  shows "data = line"
proof (cases "rest = []")
  case False
  have "CHR 0x0A \<in> set data" using assms(1) by (metis ends_line_def last_in_set)
  moreover have "butlast line = data @ butlast rest" using False assms(2) by (auto simp: butlast_append)
  ultimately show ?thesis using assms(3) by simp
qed (use assms(2) in simp)

lemma read_data_line:
  assumes "length line \<le> MAX_REQUEST_BYTES" and "ends_line line" and "CHR 0x0A \<notin> set (butlast line)"
  shows "data @ concat conn = line \<Longrightarrow> [] \<notin> set conn \<Longrightarrow> read_data data conn = line"
proof (induction data conn rule: read_data.induct)
  case (1 data conn)
  show ?case
  proof (cases "ends_line data")
    case True
    have "data = line" using line_complete [OF True] "1.prems"(1) assms(3) by blast
    moreover have "read_data data conn = data" using True by (simp add: read_data.simps [of data])
    ultimately show ?thesis by simp
  next
    case False
    have l: "length data \<le> MAX_REQUEST_BYTES" using assms(1) "1.prems"(1) by (metis le_add1 le_trans length_append)
    obtain chunk conn' where r: "recv (min 256 (MAX_REQUEST_BYTES + 1 - length data)) conn = (chunk, conn')"
      and c: "chunk @ concat conn' = concat conn" and n: "length (data @ chunk) \<le> MAX_REQUEST_BYTES + 1"
      and d: "read_data data conn = (if chunk = [] then data else read_data (data @ chunk) conn')"
      using read_data_round [OF False l] by metis
    have "conn \<noteq> []" using False assms(2) "1.prems"(1) by auto
    then obtain x xs where x: "conn = x # xs" "x \<noteq> []" using "1.prems"(2) by (cases conn) auto
    then have ne: "chunk \<noteq> []" using r l by (auto split: if_splits)
    have "[] \<notin> set conn'" using r x "1.prems"(2) by (auto split: if_splits)
    moreover have "(data @ chunk) @ concat conn' = line" using "1.prems"(1) c by simp
    ultimately have "read_data (data @ chunk) conn' = line"
      using "1.IH" [OF _ r [symmetric] ne] False l by simp
    then show ?thesis using d ne by simp
  qed
qed

lemma read_reply_line:
  assumes "ends_line line" and "CHR 0x0A \<notin> set (butlast line)"
  shows "raw @ concat conn = line \<Longrightarrow> [] \<notin> set conn \<Longrightarrow> 0 < n \<Longrightarrow> read_reply n raw conn = line"
proof (induction n raw conn rule: read_reply.induct)
  case (1 n raw conn)
  show ?case
  proof (cases "ends_line raw")
    case True
    then have "raw = line" using line_complete [OF True] "1.prems"(1) assms(2) by blast
    moreover have "read_reply n raw conn = raw" using True by (simp add: read_reply.simps [of n raw])
    ultimately show ?thesis by simp
  next
    case False
    obtain chunk conn' where r: "recv n conn = (chunk, conn')" by fastforce
    have "conn \<noteq> []" using False assms(1) "1.prems"(1) by auto
    then obtain x xs where x: "conn = x # xs" "x \<noteq> []" using "1.prems"(2) by (cases conn) auto
    then have ne: "chunk \<noteq> []" using r "1.prems"(3) by auto
    have "[] \<notin> set conn'" using r x "1.prems"(2) by (auto split: if_splits)
    moreover have "(raw @ chunk) @ concat conn' = line" using "1.prems"(1) recv_take(1) [OF r] by simp
    ultimately have "read_reply n (raw @ chunk) conn' = line"
      using "1.IH" [OF False r [symmetric] ne] "1.prems"(3) by blast
    then show ?thesis using r ne False by (simp add: read_reply.simps [of n raw])
  qed
qed

subsection \<open>Lines of printable ASCII\<close>

definition printable :: "char \<Rightarrow> bool" where
  "printable c \<longleftrightarrow> 32 \<le> code_of c \<and> code_of c \<le> 126"

lemma printable_chars [simp]:
  "printable (CHR ''['')" "printable (CHR '']'')" "printable (CHR ''{'')" "printable (CHR ''}'')" "printable (CHR '','')"
  "printable (CHR '':'')" "printable (CHR ''-'')" "printable (CHR ''n'')" "printable (CHR ''u'')" "printable (CHR ''l'')"
  "printable (CHR ''t'')" "printable (CHR ''r'')" "printable (CHR ''e'')" "printable (CHR ''f'')" "printable (CHR ''a'')"
  "printable (CHR ''s'')" "printable (CHR ''b'')"
  by (simp_all add: printable_def code_of_def)

lemma printable_dec: "list_all printable (to_dec n)"
proof (induction n rule: to_dec.induct)
  case (1 n)
  have "printable (chr (48 + m))" if "m < 10" for m using that by (simp add: printable_def)
  with 1 show ?case by (subst to_dec.simps) auto
qed

lemma printable_int: "list_all printable (int_to_dec i)"
  by (simp add: int_to_dec_def printable_dec)

lemma printable_hex: "n < 16 \<Longrightarrow> printable (hex_digit n)"
  by (simp add: hex_digit_def printable_def)

lemma printable_point: "list_all printable (dumps_point n)"
  by (auto simp: dumps_point_def unicode_escape_def hex4_text_def printable_hex) (simp_all add: printable_def)

lemma printable_text: "list_all printable (dumps_text s)"
proof -
  have "list_all printable (concat (map dumps_point ns))" for ns
    by (induction ns) (simp_all add: printable_point)
  then show ?thesis by (simp add: dumps_text_def printable_def)
qed

lemma printable_join: "list_all printable sep \<Longrightarrow> \<forall>x \<in> set xs. list_all printable x \<Longrightarrow> list_all printable (join sep xs)"
  by (induction sep xs rule: join.induct) simp_all

lemma printable_dumps: "list_all printable (compact_dumps v)"
proof (induction v)
  case (Arr vs)
  then show ?case by (auto simp: compact_dumps.simps intro!: printable_join)
next
  case (Obj ps)
  have "list_all printable (dumps_text (fst p) @ '':'' @ compact_dumps (snd p))" if "p \<in> set ps" for p
    using Obj [of p "snd p"] that by (simp add: printable_text snds.simps)
  then show ?case by (auto simp: compact_dumps.simps intro!: printable_join)
qed (simp_all add: compact_dumps.simps printable_int printable_text)

lemma dumps_line: "ends_line (compact_dumps v @ [CHR 0x0A])" "CHR 0x0A \<notin> set (butlast (compact_dumps v @ [CHR 0x0A]))"
proof -
  show "ends_line (compact_dumps v @ [CHR 0x0A])" by (simp add: ends_line_def)
  have "\<not> printable (CHR 0x0A)" by (simp add: printable_def code_of_def)
  then show "CHR 0x0A \<notin> set (butlast (compact_dumps v @ [CHR 0x0A]))"
    using printable_dumps [of v] by (auto simp: list_all_iff)
qed

text \<open>What one side sends, the other reads, however the kernel cuts it.\<close>

lemma reply_read:
  assumes "json_ok v" and "json_texts utf8_text v" and "concat conn = respond (Some v)" and "[] \<notin> set conn" and "0 < n"
  shows "json_loads (read_reply n [] conn) = Inr v"
proof -
  have "read_reply n [] conn = compact_dumps v @ [CHR 0x0A]"
    using assms(3) by (intro read_reply_line [OF dumps_line _ assms(4,5)]) (simp add: respond_def)
  then show ?thesis using wire.line_round_trip [OF assms(1,2)] by (simp add: json_loads_def)
qed

subsection \<open>Client and server\<close>

lemma pubkey_quoted:
  assumes "pubkey_text key"
  shows "dumps_text key = CHR 0x22 # key @ [CHR 0x22]" and "utf8_text key"
proof -
  have c: "code_of c < 128 \<and> dumps_point (code_of c) = [c]" if "c \<in> set key" for c
    using assms that
    by (auto simp: pubkey_text_def list_all_iff lower_hex_char_def is_dec_code dumps_point_def chr_code_of)
  then have "list_all (\<lambda>c. code_of c < 128) key" by (simp add: list_all_iff)
  then have "utf8_points key = map code_of key" by (rule ascii_points)
  moreover have "concat (map (\<lambda>c. dumps_point (code_of c)) key) = key"
    using c by (induction key) simp_all
  ultimately show "dumps_text key = CHR 0x22 # key @ [CHR 0x22]"
    by (simp add: dumps_text_def o_def chr_eq_iff code_of_def)
  show "utf8_text key" using c by (intro ascii_text) (simp add: list_all_iff)
qed

text \<open>An answer without a user name is not reported as invalid.\<close>

lemma missing_username_uncaught:
  "lookup_result ''{\"linked\":true}'' = Inl (Uncaught (single_quoted ''username''))"
  by code_simp

lemma ascii_names: "utf8_text ''pubkey''" "utf8_text ''linked''" "utf8_text ''username''" "utf8_text ''error''"
  by (simp_all add: ascii_text code_of_def)

lemma lookup_text_length: "pubkey_text key \<Longrightarrow> length (lookup_text key) = 78"
proof -
  have "dumps_text ''pubkey'' = CHR 0x22 # ''pubkey'' @ [CHR 0x22]" by code_simp
  then show "pubkey_text key \<Longrightarrow> length (lookup_text key) = 78"
    by (simp add: lookup_text_def compact_dumps.simps pubkey_quoted pubkey_text_def)
qed

lemma lookup_request_read:
  assumes "pubkey_text key" and "concat conn = lookup_text key" and "[] \<notin> set conn"
  shows "lookup_request_of conn = Inr key"
proof -
  let ?v = "Obj [(''pubkey'', Str key)]"
  have len: "length (lookup_text key) = 78" by (rule lookup_text_length [OF assms(1)])
  then have "read_data [] conn = lookup_text key"
    using assms(2,3) dumps_line [of ?v] by (intro read_data_line) (simp_all add: MAX_REQUEST_BYTES_def lookup_text_def)
  moreover have "json_parse (lookup_text key) = Some ?v"
    unfolding lookup_text_def by (rule wire.line_round_trip) (simp_all add: ascii_names pubkey_quoted(2) [OF assms(1)])
  ultimately show ?thesis
    using assms(1) len
    by (simp add: lookup_request_of_def read_line_def Let_def MAX_REQUEST_BYTES_def json_loads_def json_item_def only_pubkey_def)
qed

text \<open>
  C36. Asking for a key.  For every key, every table and every way the kernel cuts request and answer into
  segments, what the client makes of the answer to a permitted caller is what the table says: whether
  the key is linked and enabled, and for which account.
\<close>

theorem lookup_agrees:
  assumes "pubkey_text key" and "concat conn = lookup_text key" and "[] \<notin> set conn" and "uid_in_group U uid gid grp"
    and "concat reply = respond (lookup_handle U grp (Some (uid, gid)) conn db)" and "[] \<notin> set reply"
    and "pred_option (\<lambda>x. utf8_text (ynh_username x)) (get_by_pubkey key db)"
  shows "lookup_identity (Inr reply) =
    Inr \<lparr>linked = get_by_pubkey key db \<noteq> None, linked_username = map_option ynh_username (get_by_pubkey key db)\<rparr>"
proof -
  let ?v = "lookup_answer (get_by_pubkey key db)"
  have "lookup_handle U grp (Some (uid, gid)) conn db = Some ?v"
    using assms(4) lookup_request_read [OF assms(1-3)] by (simp add: lookup_handle_def)
  moreover have "json_ok ?v" "json_texts utf8_text ?v"
    using assms(7) by (auto simp: lookup_answer_def ascii_names split: option.split)
  ultimately have "json_loads (read_reply 4096 [] reply) = Inr ?v"
    using assms(5,6) by (intro reply_read) simp_all
  then show ?thesis
    by (cases "get_by_pubkey key db")
      (simp_all add: lookup_identity_def lookup_result_def lookup_answer_def linked_identity_def dict_get_def)
qed

text \<open>
  What a caller can learn.  Whatever arrives on the socket, at most 257 bytes of it are read; a
  caller outside the group is answered \<open>forbidden\<close>; any other gets an error text or the one
  answer about a single complete key of the request, so the table cannot be listed.
\<close>

theorem lookup_tells_one_key:
  "length (read_data [] conn) \<le> MAX_REQUEST_BYTES + 1 \<and>
   (case lookup_handle U grp peer conn db of
      None \<Rightarrow> peer = None
    | Some v \<Rightarrow> (case peer of None \<Rightarrow> False
       | Some (uid, gid) \<Rightarrow>
          if uid_in_group U uid gid grp
          then (\<exists>e. v = error_line e) \<or>
            (\<exists>key. lookup_request_of conn = Inr key \<and> pubkey_text key \<and> v = lookup_answer (get_by_pubkey key db))
          else v = error_line ''forbidden''))"
proof -
  have "pubkey_text key" if "lookup_request_of conn = Inr key" for key
    using that by (auto simp: lookup_request_of_def split: sum.splits jsval.splits if_splits)
  then show ?thesis
    using read_data_spec [of "[]" conn] by (auto simp: lookup_handle_def split: option.split sum.splits)
qed

definition sample_key :: string where
  "sample_key = replicate 64 (CHR ''a'')"

definition sample_key_db :: mapping_db where
  "sample_key_db = \<lparr>id_rows = [new_row ''ann'' sample_key 50 ''nip07'' None ''self-service'' 1], last_id = 1,
     user_version = 1, legacy_users = None\<rparr>"

definition sample_users :: system_users where
  "sample_users = \<lparr>getgrnam = (\<lambda>g. Some (7, [])), getpwuid = (\<lambda>u. Some ''app'')\<rparr>"

text \<open>The request comes in two segments, the answer in two.\<close>

theorem lookup_agrees_witness:
  "lookup_identity (Inr [''{'', drop 1 (respond (lookup_handle sample_users ''nostr-auth-lookup'' (Some (1000, 7))
      [take 20 (lookup_text sample_key), drop 20 (lookup_text sample_key)] sample_key_db))]) =
     Inr \<lparr>linked = True, linked_username = Some ''ann''\<rparr>"
proof -
  have key: "pubkey_text sample_key"
    by (simp add: pubkey_text_def sample_key_def list_all_iff lower_hex_char_def code_of_def)
  let ?conn = "[take 20 (lookup_text sample_key), drop 20 (lookup_text sample_key)]"
  have conn: "concat ?conn = lookup_text sample_key" "[] \<notin> set ?conn"
    using lookup_text_length [OF key] by auto
  have group: "uid_in_group sample_users 1000 7 ''nostr-auth-lookup''"
    by (simp add: uid_in_group_def sample_users_def)
  have row: "get_by_pubkey sample_key sample_key_db =
      Some (row_to_identity (new_row ''ann'' sample_key 50 ''nip07'' None ''self-service'' 1))"
    by (simp add: get_by_pubkey_def sample_key_db_def new_row_def)
  let ?answer = "respond (lookup_handle sample_users ''nostr-auth-lookup'' (Some (1000, 7)) ?conn sample_key_db)"
  have answer: "?answer = compact_dumps (lookup_answer (get_by_pubkey sample_key sample_key_db)) @ [CHR 0x0A]"
    using lookup_request_read [OF key conn] group by (simp add: lookup_handle_def respond_def)
  then obtain rest where "?answer = CHR ''{'' # rest" "rest \<noteq> []"
    by (auto simp: lookup_answer_def compact_dumps.simps)
  then have reply: "concat [''{'', drop 1 ?answer] = ?answer" "[] \<notin> set [''{'', drop 1 ?answer]"
    by auto
  have "utf8_text ''ann''" by (simp add: ascii_text code_of_def)
  then have "pred_option (\<lambda>x. utf8_text (ynh_username x)) (get_by_pubkey sample_key sample_key_db)"
    by (simp add: row row_to_identity_def new_row_def)
  from lookup_agrees [OF key conn group reply this] show ?thesis
    by (simp add: row row_to_identity_def new_row_def)
qed

end
