(* ===== verification/Relay_Lookup.thy ===== *)
theory Relay_Lookup
  imports Identity_Lookup
begin

text \<open>
  The relays a linked user prefers: \<open>src/src/yunohost_nostr_auth/identity/relays.py\<close> (the list in an
  event), \<open>identity/relay_cache.py\<close> (the table of lists), \<open>ynh/relay_lookup_server.py\<close> and its client
  \<open>ynh/relay_lookup.py\<close>.  Parameters are the client of \<open>nostr-sdk\<close>, the clock, and what the lookup of
  identities has as parameters.  The table of lists is a map from keys to its columns.
\<close>

subsection \<open>The list in an event\<close>

text \<open>\<open>RelayEntry\<close> and \<open>LookedUpRelay\<close>; nothing checks the types of the fields that come from JSON.\<close>

record RelayEntry =
  url :: jsval
  read_ok :: jsval
  write_ok :: jsval

record relay_event =
  relay_tags :: "string list list"
  relay_created_at :: int

definition marked :: "string option \<Rightarrow> string \<Rightarrow> bool" where
  "marked marker m \<longleftrightarrow> marker = None \<or> marker = Some m"

fun relay_of_tag :: "string list \<Rightarrow> RelayEntry option" where
  "relay_of_tag (name # u # rest) =
     (if name \<noteq> ''r'' then None
      else let marker = (case rest of [] \<Rightarrow> None | m # _ \<Rightarrow> Some m)
        in Some \<lparr>url = Str u, read_ok = Bool (marked marker ''read''), write_ok = Bool (marked marker ''write'')\<rparr>)"
| "relay_of_tag _ = None"

definition parse_relay_list :: "relay_event \<Rightarrow> RelayEntry list" where
  "parse_relay_list event = List.map_filter relay_of_tag (relay_tags event)"

text \<open>\<open>max(events, key=...)\<close>: the first of the newest.\<close>

fun newest_relay_list_event :: "relay_event list \<Rightarrow> relay_event option" where
  "newest_relay_list_event [] = None"
| "newest_relay_list_event (e # es) =
     Some (fold (\<lambda>x best. if relay_created_at best < relay_created_at x then x else best) es e)"

subsection \<open>Fetching it\<close>

text \<open>The client of the library: whether it takes a key and a relay's address, and what a fetch gives.\<close>

record relay_sdk =
  key_error :: "string \<Rightarrow> string option"
  takes_relay :: "string \<Rightarrow> bool"
  fetch_events :: "string list \<Rightarrow> string \<Rightarrow> string + relay_event list"

datatype client_call = Add_relay string | Connect | Fetch_events string | Shutdown

text \<open>A relay that is not taken does not stop the others; the client is shut down however the fetch ends.\<close>

definition fetch_relay_list :: "relay_sdk \<Rightarrow> string list \<Rightarrow> string \<Rightarrow> (string + RelayEntry list) \<times> client_call list" where
  "fetch_relay_list K bootstrap key =
     (if bootstrap = [] then (Inr [], [])
      else case key_error K key of
          Some e \<Rightarrow> (Inl e, [])
        | None \<Rightarrow>
           (case fetch_events K (filter (takes_relay K) bootstrap) key of
              Inl e \<Rightarrow> Inl e
            | Inr events \<Rightarrow> Inr (case newest_relay_list_event events of None \<Rightarrow> [] | Some e \<Rightarrow> parse_relay_list e),
            map Add_relay bootstrap @ [Connect, Fetch_events key, Shutdown]))"

subsection \<open>The table of lists\<close>

type_synonym relay_cache = "string \<rightharpoonup> string \<times> int"

record CachedRelayList =
  relays :: "RelayEntry list"
  fetched_at :: int

definition age_seconds :: "CachedRelayList \<Rightarrow> int \<Rightarrow> int" where
  "age_seconds c now = max 0 (now - fetched_at c)"

definition entry_json :: "RelayEntry \<Rightarrow> jsval" where
  "entry_json r = Obj [(''url'', url r), (''read'', read_ok r), (''write'', write_ok r)]"

definition encode_relays :: "RelayEntry list \<Rightarrow> string" where
  "encode_relays rs = py_dumps (Arr (map entry_json rs))"

definition entry_of :: "jsval \<Rightarrow> string + RelayEntry" where
  "entry_of v =
     (case json_item v ''url'' of Inl e \<Rightarrow> Inl e
      | Inr u \<Rightarrow> (case json_item v ''read'' of Inl e \<Rightarrow> Inl e
        | Inr r \<Rightarrow> (case json_item v ''write'' of Inl e \<Rightarrow> Inl e
          | Inr w \<Rightarrow> Inr \<lparr>url = u, read_ok = r, write_ok = w\<rparr>)))"

primrec entries_of :: "jsval list \<Rightarrow> string + RelayEntry list" where
  "entries_of [] = Inr []"
| "entries_of (v # vs) = (case entry_of v of Inl e \<Rightarrow> Inl e
     | Inr x \<Rightarrow> (case entries_of vs of Inl e \<Rightarrow> Inl e | Inr xs \<Rightarrow> Inr (x # xs)))"

text \<open>A dict is iterated over its keys, a text over its characters.\<close>

definition decode_relays :: "string \<Rightarrow> string + RelayEntry list" where
  "decode_relays raw =
     (case json_loads raw of
        Inl e \<Rightarrow> Inl e
      | Inr v \<Rightarrow> (case v of
            Arr vs \<Rightarrow> entries_of vs
          | Obj ps \<Rightarrow> entries_of (map (\<lambda>p. Str (fst p)) ps)
          | Str t \<Rightarrow> entries_of (map (\<lambda>c. Str [c]) t)
          | _ \<Rightarrow> Inl (single_quoted (py_type_name v) @ '' object is not iterable'')))"

definition cache_get :: "string \<Rightarrow> relay_cache \<Rightarrow> string + CachedRelayList option" where
  "cache_get key cache =
     (case cache key of
        None \<Rightarrow> Inr None
      | Some (raw, t) \<Rightarrow> (case decode_relays raw of
            Inl e \<Rightarrow> Inl e | Inr rs \<Rightarrow> Inr (Some \<lparr>relays = rs, fetched_at = t\<rparr>)))"

definition cache_store :: "string \<Rightarrow> RelayEntry list \<Rightarrow> int \<Rightarrow> relay_cache \<Rightarrow> relay_cache" where
  "cache_store key rs now cache = cache(key \<mapsto> (encode_relays rs, now))"

subsection \<open>The server\<close>

record relay_service =
  client :: relay_sdk
  bootstrap_relays :: "string list"
  cache_ttl_seconds :: int
  now_for_age :: int
  now_for_store :: int

definition relay_response :: "bool \<Rightarrow> RelayEntry list \<Rightarrow> jsval \<Rightarrow> jsval" where
  "relay_response is_linked rs t =
     Obj [(''linked'', Bool is_linked), (''relays'', Arr (map entry_json rs)), (''fetched_at'', t)]"

definition cached_response :: "CachedRelayList \<Rightarrow> jsval" where
  "cached_response c = relay_response True (relays c) (Num (fetched_at c))"

definition still_fresh :: "relay_service \<Rightarrow> CachedRelayList option \<Rightarrow> bool" where
  "still_fresh V cached \<longleftrightarrow> (case cached of None \<Rightarrow> False | Some c \<Rightarrow> age_seconds c (now_for_age V) < cache_ttl_seconds V)"

text \<open>After a fetch: what was fetched is stored and read back; a failed fetch falls back to a stale list.\<close>

definition after_fetch :: "relay_service \<Rightarrow> string \<Rightarrow> relay_cache \<Rightarrow> CachedRelayList option \<Rightarrow>
    string + RelayEntry list \<Rightarrow> (string + jsval) \<times> relay_cache" where
  "after_fetch V key cache cached fetched =
     (case fetched of
        Inl e \<Rightarrow> (Inr (case cached of Some c \<Rightarrow> cached_response c | None \<Rightarrow> relay_response True [] Null), cache)
      | Inr rs \<Rightarrow>
          let cache' = cache_store key rs (now_for_store V) cache
          in (case cache_get key cache' of
                Inl e \<Rightarrow> (Inl e, cache')
              | Inr None \<Rightarrow> (Inl (attribute_error Null ''relays''), cache')
              | Inr (Some c) \<Rightarrow> (Inr (cached_response c), cache')))"

definition resolve_relays :: "relay_service \<Rightarrow> string \<Rightarrow> mapping_db \<Rightarrow> relay_cache \<Rightarrow>
    (string + jsval) \<times> relay_cache \<times> client_call list" where
  "resolve_relays V key db cache =
     (if get_by_pubkey key db = None then (Inr (relay_response False [] Null), cache, [])
      else case cache_get key cache of
          Inl e \<Rightarrow> (Inl e, cache, [])
        | Inr cached \<Rightarrow>
            if still_fresh V cached then (Inr (cached_response (the cached)), cache, [])
            else (case fetch_relay_list (client V) (bootstrap_relays V) key of (fetched, calls) \<Rightarrow>
                (case after_fetch V key cache cached fetched of (r, cache') \<Rightarrow> (r, cache', calls))))"

definition relay_handle :: "relay_service \<Rightarrow> system_users \<Rightarrow> string \<Rightarrow> (int \<times> int) option \<Rightarrow> string list \<Rightarrow> mapping_db \<Rightarrow>
    relay_cache \<Rightarrow> jsval option \<times> relay_cache \<times> client_call list" where
  "relay_handle V U allowed_group peer conn db cache =
     (case peer of
        None \<Rightarrow> (None, cache, [])
      | Some (uid, gid) \<Rightarrow>
         if \<not> uid_in_group U uid gid allowed_group then (Some (error_line ''forbidden''), cache, [])
         else (case lookup_request_of conn of
            Inl e \<Rightarrow> (Some (error_line (''bad request: '' @ e)), cache, [])
          | Inr key \<Rightarrow> (case resolve_relays V key db cache of (r, cache', calls) \<Rightarrow>
              (Some (case r of Inl e \<Rightarrow> error_line ''lookup failed'' | Inr payload \<Rightarrow> payload), cache', calls))))"

subsection \<open>The client\<close>

datatype relay_error = RelayLookupError string | Relay_uncaught string

record RelayLookupResult =
  result_linked :: bool
  result_relays :: "RelayEntry list"
  result_fetched_at :: jsval

definition relays_found :: "(string \<times> jsval) list \<Rightarrow> relay_error + RelayLookupResult" where
  "relays_found ps =
     (case (dict_get ps ''linked'' Null, dict_get ps ''relays'' Null) of
        (Bool b, Arr vs) \<Rightarrow> (case entries_of vs of
            Inl e \<Rightarrow> Inl (RelayLookupError ''relay lookup helper returned an invalid relay entry'')
          | Inr rs \<Rightarrow> Inr \<lparr>result_linked = b, result_relays = rs, result_fetched_at = dict_get ps ''fetched_at'' Null\<rparr>)
      | _ \<Rightarrow> Inl (RelayLookupError ''relay lookup helper returned an invalid response''))"

definition relay_result :: "string \<Rightarrow> relay_error + RelayLookupResult" where
  "relay_result raw =
     (case json_loads raw of
        Inl m \<Rightarrow> Inl (RelayLookupError (''relay lookup helper returned invalid output: '' @ m))
      | Inr (Obj ps) \<Rightarrow> (case map_of ps ''error'' of
            Some e \<Rightarrow> Inl (RelayLookupError (''relay lookup helper failed: '' @ str_value e))
          | None \<Rightarrow> relays_found ps)
      | Inr (Arr vs) \<Rightarrow> Inl (Relay_uncaught (if Str ''error'' \<in> set vs then ''list indices must be integers or slices, not str''
          else attribute_error (Arr vs) ''get''))
      | Inr (Str t) \<Rightarrow> Inl (Relay_uncaught (if js_includes ''error'' t then ''string indices must be integers, not '' @ single_quoted ''str''
          else attribute_error (Str t) ''get''))
      | Inr v \<Rightarrow> Inl (Relay_uncaught (''argument of type '' @ single_quoted (py_type_name v) @ '' is not iterable'')))"

definition lookup_relays :: "string + string list \<Rightarrow> relay_error + RelayLookupResult" where
  "lookup_relays conn =
     (case conn of
        Inl e \<Rightarrow> Inl (RelayLookupError (''could not reach relay lookup helper: '' @ e))
      | Inr segments \<Rightarrow> relay_result (read_reply 65536 [] segments))"

subsection \<open>Lists survive the table and the wire\<close>

definition entry_ok :: "RelayEntry \<Rightarrow> bool" where
  "entry_ok r \<longleftrightarrow> json_ok (entry_json r) \<and> json_texts utf8_text (entry_json r)"

lemma entries_of_json: "entries_of (map entry_json rs) = Inr rs"
  by (induction rs) (simp_all add: entry_of_def entry_json_def json_item_def)

lemma decode_encode: "list_all entry_ok rs \<Longrightarrow> decode_relays (encode_relays rs) = Inr rs"
  using py.round_trip [of "Arr (map entry_json rs)"]
  by (simp add: decode_relays_def encode_relays_def json_loads_def entries_of_json list_all_iff entry_ok_def)

text \<open>The texts of the library's events are texts.\<close>

definition event_texts :: "relay_event \<Rightarrow> bool" where
  "event_texts e \<longleftrightarrow> list_all (list_all utf8_text) (relay_tags e)"

lemma relay_names: "utf8_text ''url''" "utf8_text ''read''" "utf8_text ''write''" "utf8_text ''linked''" "utf8_text ''relays''"
    "utf8_text ''fetched_at''"
  by (simp_all add: ascii_text code_of_def)

lemma relay_of_tag_ok: "list_all utf8_text tag \<Longrightarrow> relay_of_tag tag = Some r \<Longrightarrow> entry_ok r"
  by (induction tag rule: relay_of_tag.induct) (auto simp: entry_ok_def entry_json_def relay_names Let_def split: if_splits)

lemma parse_ok: "event_texts e \<Longrightarrow> list_all entry_ok (parse_relay_list e)"
  using relay_of_tag_ok by (auto simp: event_texts_def parse_relay_list_def list_all_iff List.map_filter_def)

lemma newest_of: "newest_relay_list_event es = Some e \<Longrightarrow> e \<in> set es"
proof (cases es)
  case (Cons x xs)
  have "fold (\<lambda>x best. if relay_created_at best < relay_created_at x then x else best) ys b \<in> insert b (set ys)" for ys b
    by (induction ys arbitrary: b) auto
  then show "newest_relay_list_event es = Some e \<Longrightarrow> e \<in> set es" using Cons by auto
qed simp

text \<open>It is a newest one.\<close>

lemma newest_is_newest: "newest_relay_list_event es = Some e \<Longrightarrow> x \<in> set es \<Longrightarrow> relay_created_at x \<le> relay_created_at e"
proof (cases es)
  case (Cons y ys)
  let ?best = "fold (\<lambda>x best. if relay_created_at best < relay_created_at x then x else best)"
  have "relay_created_at b \<le> relay_created_at (?best ys b) \<and> (\<forall>x \<in> set ys. relay_created_at x \<le> relay_created_at (?best ys b))" for ys b
  proof (induction ys arbitrary: b)
    case (Cons z zs)
    then show ?case by (smt (verit) fold_simps(2) set_ConsD)
  qed simp
  then show "newest_relay_list_event es = Some e \<Longrightarrow> x \<in> set es \<Longrightarrow> relay_created_at x \<le> relay_created_at e"
    using Cons by auto
qed simp

definition client_texts :: "relay_sdk \<Rightarrow> bool" where
  "client_texts K \<longleftrightarrow> (\<forall>urls key. case fetch_events K urls key of Inl e \<Rightarrow> True | Inr events \<Rightarrow> list_all event_texts events)"

lemma fetched_ok:
  assumes "client_texts K" and "fetch_relay_list K bootstrap key = (Inr rs, calls)"
  shows "list_all entry_ok rs"
proof (cases "bootstrap = []")
  case False
  then obtain events where events: "fetch_events K (filter (takes_relay K) bootstrap) key = Inr events"
    and rs: "rs = (case newest_relay_list_event events of None \<Rightarrow> [] | Some e \<Rightarrow> parse_relay_list e)"
    using assms(2) by (auto simp: fetch_relay_list_def split: option.splits sum.splits)
  have "list_all event_texts events"
    using assms(1) events unfolding client_texts_def by (metis sum.simps(6))
  then show ?thesis using newest_of [of events] parse_ok by (cases "newest_relay_list_event events") (auto simp: rs list_all_iff)
qed (use assms(2) in \<open>simp add: fetch_relay_list_def\<close>)

subsection \<open>The contract\<close>

text \<open>The table holds lists that were encoded; it stands for a book of lists.\<close>

definition cache_ok :: "relay_cache \<Rightarrow> bool" where
  "cache_ok cache \<longleftrightarrow> (\<forall>key raw t. cache key = Some (raw, t) \<longrightarrow> (\<exists>rs. list_all entry_ok rs \<and> raw = encode_relays rs))"

definition cache_book :: "relay_cache \<Rightarrow> string \<rightharpoonup> CachedRelayList" where
  "cache_book cache key = (case cache_get key cache of Inl e \<Rightarrow> None | Inr c \<Rightarrow> c)"

lemma cache_row:
  assumes "cache_ok cache" and "cache key = Some row"
  obtains rs where "list_all entry_ok rs" "decode_relays (fst row) = Inr rs"
  using assms decode_encode unfolding cache_ok_def by (metis prod.collapse)

lemma cache_get_book: "cache_ok cache \<Longrightarrow> cache_get key cache = Inr (cache_book cache key)"
  by (cases "cache key") (auto simp: cache_book_def cache_get_def elim: cache_row)

lemma cache_book_ok:
  assumes "cache_ok cache" and "cache_book cache key = Some c"
  shows "list_all entry_ok (relays c)"
proof -
  obtain row where row: "cache key = Some row"
    using assms(2) by (cases "cache key") (auto simp: cache_book_def cache_get_def)
  then obtain rs where "list_all entry_ok rs" "decode_relays (fst row) = Inr rs" using cache_row [OF assms(1)] by blast
  then show ?thesis using assms(2) row by (cases row) (auto simp: cache_book_def cache_get_def)
qed

lemma cache_store_ok:
  assumes "cache_ok cache" and "list_all entry_ok rs"
  shows "cache_ok (cache_store key rs now cache)"
    and "cache_book (cache_store key rs now cache) = (cache_book cache)(key \<mapsto> \<lparr>relays = rs, fetched_at = now\<rparr>)"
  using assms by (auto simp: cache_ok_def cache_store_def cache_book_def cache_get_def decode_encode fun_eq_iff)

text \<open>What the lookup promises: nothing for a stranger, a fresh list from the book, else a fetched one, which
  goes into the book, and the old one if the fetch fails.\<close>

definition found :: "CachedRelayList \<Rightarrow> RelayLookupResult" where
  "found c = \<lparr>result_linked = True, result_relays = relays c, result_fetched_at = Num (fetched_at c)\<rparr>"

definition nothing_found :: "bool \<Rightarrow> RelayLookupResult" where
  "nothing_found is_linked = \<lparr>result_linked = is_linked, result_relays = [], result_fetched_at = Null\<rparr>"

definition relays_promised :: "relay_service \<Rightarrow> string \<Rightarrow> bool \<Rightarrow> (string \<rightharpoonup> CachedRelayList) \<Rightarrow>
    RelayLookupResult \<times> (string \<rightharpoonup> CachedRelayList)" where
  "relays_promised V key is_linked book =
     (if \<not> is_linked then (nothing_found False, book)
      else if still_fresh V (book key) then (found (the (book key)), book)
      else case fst (fetch_relay_list (client V) (bootstrap_relays V) key) of
          Inl e \<Rightarrow> (case book key of None \<Rightarrow> nothing_found True | Some c \<Rightarrow> found c, book)
        | Inr rs \<Rightarrow> let c = \<lparr>relays = rs, fetched_at = now_for_store V\<rparr> in (found c, book(key \<mapsto> c)))"

text \<open>The payload that says a result.\<close>

definition says :: "jsval \<Rightarrow> RelayLookupResult \<Rightarrow> bool" where
  "says v res \<longleftrightarrow> v = relay_response (result_linked res) (result_relays res) (result_fetched_at res) \<and>
     list_all entry_ok (result_relays res) \<and> (result_fetched_at res = Null \<or> (\<exists>t. result_fetched_at res = Num t))"

lemma says_simps:
  "list_all entry_ok (relays c) \<Longrightarrow> says (cached_response c) (found c)"
  "says (relay_response b [] Null) (nothing_found b)"
  by (simp_all add: says_def cached_response_def found_def nothing_found_def)

lemma still_fresh_some: "still_fresh V cached \<Longrightarrow> \<exists>c. cached = Some c"
  by (auto simp: still_fresh_def split: option.splits)

lemma resolve_refines:
  assumes "cache_ok cache" and "client_texts (client V)"
    and "relays_promised V key (get_by_pubkey key db \<noteq> None) (cache_book cache) = (res, book')"
  obtains v cache' calls where "resolve_relays V key db cache = (Inr v, cache', calls)"
    and "says v res" and "cache_ok cache'" and "cache_book cache' = book'"
proof (cases "get_by_pubkey key db = None \<or> still_fresh V (cache_book cache key)")
  case True
  then show thesis
    using assms cache_book_ok [OF assms(1), of key] still_fresh_some [of V "cache_book cache key"]
    by (intro that [of "if get_by_pubkey key db = None then relay_response False [] Null
        else cached_response (the (cache_book cache key))" cache "[]"])
      (auto simp: resolve_relays_def relays_promised_def cache_get_book says_simps split: if_splits)
next
  case False
  obtain fetched calls where f: "fetch_relay_list (client V) (bootstrap_relays V) key = (fetched, calls)" by fastforce
  show thesis
  proof (cases fetched)
    case (Inl e)
    then show ?thesis
      using assms False f cache_book_ok [OF assms(1), of key]
      by (intro that [of "case cache_book cache key of Some c \<Rightarrow> cached_response c | None \<Rightarrow> relay_response True [] Null" cache calls])
        (auto simp: resolve_relays_def relays_promised_def cache_get_book after_fetch_def says_simps split: option.splits)
  next
    case (Inr rs)
    let ?c = "\<lparr>relays = rs, fetched_at = now_for_store V\<rparr>" and ?cache = "cache_store key rs (now_for_store V) cache"
    have rs: "list_all entry_ok rs" using fetched_ok [OF assms(2)] f Inr by blast
    note stored = cache_store_ok [OF assms(1) rs, of key "now_for_store V"]
    have "resolve_relays V key db cache = (Inr (cached_response ?c), ?cache, calls)"
      using False f Inr
      by (auto simp: resolve_relays_def cache_get_book [OF assms(1)] after_fetch_def cache_get_book [OF stored(1)] stored(2) Let_def)
    moreover have "says (cached_response ?c) res" "cache_book ?cache = book'"
      using assms(3) False f Inr rs says_simps(1) [of ?c] by (auto simp: relays_promised_def stored(2) Let_def)
    ultimately show ?thesis using that stored(1) by blast
  qed
qed

text \<open>The client reads what the payload says.\<close>

lemma says_read:
  assumes "says v res" and "concat reply = respond (Some v)" and "[] \<notin> set reply"
  shows "lookup_relays (Inr reply) = Inr res"
proof -
  have "json_ok v" "json_texts utf8_text v"
    using assms(1) by (auto simp: says_def relay_response_def relay_names entry_ok_def list_all_iff)
  then have "json_loads (read_reply 65536 [] reply) = Inr v"
    using assms(2,3) by (intro reply_read) simp_all
  then show ?thesis
    using assms(1)
    by (simp add: lookup_relays_def relay_result_def says_def relay_response_def relays_found_def dict_get_def entries_of_json)
qed

text \<open>
  C37. Asking for a user's relays.  For every key, every table of identities, every way the kernel cuts request
  and answer, and every library: what the client of a permitted caller returns is what the
  book of lists promises, and the table of lists then stands for the promised book.  A list passes from
  the event through the table and over the socket unchanged, whatever text its addresses are.
\<close>

theorem relay_lookup_refines_book:
  assumes "pubkey_text key" and "concat conn = lookup_text key" and "[] \<notin> set conn" and "uid_in_group U uid gid grp"
    and "cache_ok cache" and "client_texts (client V)"
    and "relay_handle V U grp (Some (uid, gid)) conn db cache = (answer, cache', calls)"
    and "concat reply = respond answer" and "[] \<notin> set reply"
  shows "case relays_promised V key (get_by_pubkey key db \<noteq> None) (cache_book cache) of (res, book') \<Rightarrow>
    lookup_relays (Inr reply) = Inr res \<and> cache_ok cache' \<and> cache_book cache' = book'"
proof -
  obtain res book' where p: "relays_promised V key (get_by_pubkey key db \<noteq> None) (cache_book cache) = (res, book')"
    by fastforce
  obtain v c2 calls2 where r: "resolve_relays V key db cache = (Inr v, c2, calls2)"
    and v: "says v res" "cache_ok c2" "cache_book c2 = book'"
    using resolve_refines [OF assms(5,6) p] by blast
  have "answer = Some v" "cache' = c2"
    using assms(4,7) lookup_request_read [OF assms(1-3)] r by (simp_all add: relay_handle_def)
  then show ?thesis using v says_read [OF v(1) _ assms(9)] assms(8) by (simp add: p del: not_None_eq)
qed

text \<open>
  When the outside is asked.  Whatever arrives on the socket: the library is called and the table of
  lists is changed only for a permitted caller's request for one key that is linked and enabled and has no fresh
  list; it is then called for this key alone, over the configured relays, and shut down at the end, and no
  other row of the table changes.
\<close>

theorem relay_fetch_guarded:
  "case relay_handle V U grp peer conn db cache of (answer, cache', calls) \<Rightarrow>
     if calls = [] \<and> cache' = cache then True
     else \<exists>uid gid key cached. peer = Some (uid, gid) \<and> uid_in_group U uid gid grp \<and> lookup_request_of conn = Inr key \<and>
       get_by_pubkey key db \<noteq> None \<and> cache_get key cache = Inr cached \<and> \<not> still_fresh V cached \<and>
       cache'(key := cache key) = cache \<and>
       calls \<in> {[], map Add_relay (bootstrap_relays V) @ [Connect, Fetch_events key, Shutdown]}"
proof -
  have calls: "snd (fetch_relay_list K bootstrap key) \<in> {[], map Add_relay bootstrap @ [Connect, Fetch_events key, Shutdown]}"
    for K bootstrap key
    by (simp add: fetch_relay_list_def split: option.split)
  have row: "(snd (after_fetch V key cache cached fetched))(key := cache key) = cache" for key cached fetched
    by (auto simp: after_fetch_def cache_store_def Let_def split: sum.split option.split)
  show ?thesis
  proof (cases "\<exists>uid gid key cached. peer = Some (uid, gid) \<and> uid_in_group U uid gid grp \<and> lookup_request_of conn = Inr key \<and>
       get_by_pubkey key db \<noteq> None \<and> cache_get key cache = Inr cached \<and> \<not> still_fresh V cached")
    case True
    then obtain uid gid key cached where t: "peer = Some (uid, gid)" "uid_in_group U uid gid grp"
      "lookup_request_of conn = Inr key" "get_by_pubkey key db \<noteq> None" "cache_get key cache = Inr cached"
      "\<not> still_fresh V cached" by blast
    obtain fetched cs where f: "fetch_relay_list (client V) (bootstrap_relays V) key = (fetched, cs)" by fastforce
    obtain r cache' where c: "after_fetch V key cache cached fetched = (r, cache')" by fastforce
    have "cs \<in> {[], map Add_relay (bootstrap_relays V) @ [Connect, Fetch_events key, Shutdown]}"
      using calls [of "client V" "bootstrap_relays V" key] f by simp
    moreover have "cache'(key := cache key) = cache" using row [of key cached fetched] c by simp
    ultimately show ?thesis using t f c by (auto simp: relay_handle_def resolve_relays_def)
  next
    case False
    then have "snd (relay_handle V U grp peer conn db cache) = (cache, [])"
      by (auto simp: relay_handle_def resolve_relays_def split: option.split sum.split prod.split)
    then show ?thesis by (simp add: split_beta)
  qed
qed

text \<open>
  C40. An outage erases a stored list.  When no relay answers, the library reports no events and no error; the
  stored list that is due for renewal is then overwritten with the empty list, which counts as fresh, although the code
  means to fall back to a stale list when a fetch fails.  Only a fetch that raises keeps it.
\<close>

theorem outage_erases_list:
  assumes "get_by_pubkey key db \<noteq> None" and "cache_ok cache" and "cache_book cache key = Some c"
    and "\<not> still_fresh V (Some c)" and "bootstrap_relays V \<noteq> []" and "key_error (client V) key = None"
  shows "case resolve_relays V key db cache of (r, cache', calls) \<Rightarrow>
    (case fetch_events (client V) (filter (takes_relay (client V)) (bootstrap_relays V)) key of
       Inl e \<Rightarrow> r = Inr (cached_response c) \<and> cache' = cache
     | Inr [] \<Rightarrow> r = Inr (relay_response True [] (Num (now_for_store V))) \<and>
         cache_book cache' = (cache_book cache)(key \<mapsto> \<lparr>relays = [], fetched_at = now_for_store V\<rparr>)
     | Inr events \<Rightarrow> True)"
proof -
  let ?cache = "cache_store key [] (now_for_store V) cache"
  have "cache_ok ?cache" "cache_book ?cache = (cache_book cache)(key \<mapsto> \<lparr>relays = [], fetched_at = now_for_store V\<rparr>)"
    using cache_store_ok [OF assms(2), of "[]"] by simp_all
  then show ?thesis
    using assms(1,3-)
    by (auto simp: resolve_relays_def cache_get_book [OF assms(2)] fetch_relay_list_def after_fetch_def cache_get_book
        cached_response_def Let_def split: sum.split list.split)
qed

subsection \<open>A concrete lookup\<close>

text \<open>Nothing is stored; one relay of the configuration is taken and has two events.\<close>

definition sample_relay_sdk :: relay_sdk where
  "sample_relay_sdk = \<lparr>key_error = (\<lambda>k. None), takes_relay = (\<lambda>u. u = ''wss://a''),
     fetch_events = (\<lambda>urls k. if urls = [''wss://a'']
       then Inr [\<lparr>relay_tags = [[''r'', ''wss://old'']], relay_created_at = 1\<rparr>,
         \<lparr>relay_tags = [[''r'', ''wss://x'', ''read''], [''e'', ''0''], [''r'', ''wss://y'']], relay_created_at = 2\<rparr>]
       else Inl ''no relay'')\<rparr>"

definition sample_relay_service :: relay_service where
  "sample_relay_service = \<lparr>client = sample_relay_sdk, bootstrap_relays = [''nonsense'', ''wss://a''], cache_ttl_seconds = 3600,
     now_for_age = 100, now_for_store = 101\<rparr>"

definition sample_relays :: "RelayEntry list" where
  "sample_relays = [\<lparr>url = Str ''wss://x'', read_ok = Bool True, write_ok = Bool False\<rparr>,
     \<lparr>url = Str ''wss://y'', read_ok = Bool True, write_ok = Bool True\<rparr>]"

theorem relay_lookup_refines_book_witness:
  "lookup_relays (Inr [respond (fst (relay_handle sample_relay_service sample_users ''nostr-auth-lookup'' (Some (1000, 7))
      [lookup_text sample_key] sample_key_db Map.empty))]) =
    Inr \<lparr>result_linked = True, result_relays = sample_relays, result_fetched_at = Num 101\<rparr>"
proof -
  let ?V = sample_relay_service
  let ?h = "relay_handle ?V sample_users ''nostr-auth-lookup'' (Some (1000, 7)) [lookup_text sample_key] sample_key_db Map.empty"
  obtain answer cache' calls where h: "?h = (answer, cache', calls)" by (metis prod_cases3)
  have key: "pubkey_text sample_key"
    by (simp add: pubkey_text_def sample_key_def list_all_iff lower_hex_char_def code_of_def)
  have conn: "concat [lookup_text sample_key] = lookup_text sample_key" "[] \<notin> set [lookup_text sample_key]"
    using lookup_text_length [OF key] by auto
  have group: "uid_in_group sample_users 1000 7 ''nostr-auth-lookup''"
    by (simp add: uid_in_group_def sample_users_def)
  have row: "get_by_pubkey sample_key sample_key_db \<noteq> None"
    by (simp add: get_by_pubkey_def sample_key_db_def new_row_def)
  have texts: "client_texts (client ?V)"
    by (simp add: client_texts_def sample_relay_service_def sample_relay_sdk_def event_texts_def ascii_text code_of_def)
  have cache: "cache_ok Map.empty" by (simp add: cache_ok_def)
  have "answer \<noteq> None"
    using h group by (auto simp: relay_handle_def split: sum.splits prod.splits)
  then have reply: "concat [respond answer] = respond answer" "[] \<notin> set [respond answer]"
    by (auto simp: respond_def)
  have "cache_book Map.empty sample_key = None" by (simp add: cache_book_def cache_get_def)
  then have "fst (relays_promised ?V sample_key True (cache_book Map.empty)) =
      \<lparr>result_linked = True, result_relays = sample_relays, result_fetched_at = Num 101\<rparr>"
    by (simp add: relays_promised_def still_fresh_def fetch_relay_list_def sample_relay_service_def sample_relay_sdk_def
        parse_relay_list_def List.map_filter_def marked_def found_def sample_relays_def Let_def)
  then show ?thesis
    using relay_lookup_refines_book [OF key conn group cache texts h reply] row
    by (simp add: h split_beta del: not_None_eq)
qed

definition outage_service :: relay_service where
  "outage_service = sample_relay_service\<lparr>client := sample_relay_sdk\<lparr>fetch_events := (\<lambda>urls k. Inr [])\<rparr>, now_for_age := 4000,
     now_for_store := 4001\<rparr>"

theorem outage_erases_list_witness:
  "fst (resolve_relays outage_service sample_key sample_key_db [sample_key \<mapsto> (encode_relays sample_relays, 0)]) =
     Inr (relay_response True [] (Num 4001))"
proof -
  let ?cache = "[sample_key \<mapsto> (encode_relays sample_relays, 0)]"
  have ok: "list_all entry_ok sample_relays"
    by (simp add: sample_relays_def entry_ok_def entry_json_def relay_names ascii_text code_of_def)
  then have cache: "cache_ok ?cache" by (auto simp: cache_ok_def)
  have book: "cache_book ?cache sample_key = Some \<lparr>relays = sample_relays, fetched_at = 0\<rparr>"
    using ok by (simp add: cache_book_def cache_get_def decode_encode)
  have row: "get_by_pubkey sample_key sample_key_db \<noteq> None"
    by (simp add: get_by_pubkey_def sample_key_db_def new_row_def)
  have stale: "\<not> still_fresh outage_service (Some \<lparr>relays = sample_relays, fetched_at = 0\<rparr>)"
    by (simp add: still_fresh_def age_seconds_def outage_service_def sample_relay_service_def)
  have V: "bootstrap_relays outage_service \<noteq> []" "key_error (client outage_service) sample_key = None"
    "fetch_events (client outage_service) us sample_key = Inr []" "now_for_store outage_service = 4001" for us
    by (simp_all add: outage_service_def sample_relay_service_def sample_relay_sdk_def)
  show ?thesis
    using outage_erases_list [OF row cache book stale V(1,2)] by (simp add: V split_beta)
qed

end
