(* ===== verification/Spec2Isabelle.thy ===== *)
theory Spec2Isabelle
  imports Account_Laws Admin_Laws Unlink_Flow Web_Pages Mint_Flow Cli_Flow Host_History Relay_Lookup
begin

text \<open>
  Verification of yunohost-nostr-auth: a user of a YunoHost server links Nostr public keys to the
  account and signs in by signing a challenge of the server.

  The program.  Four scripts under \<open>src/src/yunohost_nostr_auth/web/static/\<close> are its JavaScript.
  \<open>nostr-connect-ui.js\<close> defines \<open>window.NostrConnectUI\<close>: remote signers over NIP-46, local keys,
  and the two slots of \<open>localStorage\<close> that remember them.  \<open>nostr-login-page.js\<close>,
  \<open>nostr-account-page.js\<close> and \<open>nostr-admin-page.js\<close> drive one page each; they call the
  helpers, the vendored libraries, the browser, and the endpoints of the server.  The server is
  \<open>src/src/yunohost_nostr_auth/server.py\<close> in Python: it issues challenges and consumes them once
  (\<open>auth/challenge.py\<close>), checks signed events (\<open>auth/nostr_verify.py\<close>), keeps the table of linked
  keys (\<open>identity/mappings.py\<close>), links and unlinks them for the user of a YunoHost session
  (\<open>identity/linking.py\<close>), and asks another process to mint a session (\<open>auth/login.py\<close>,
  \<open>ynh/sessions.py\<close>).  That process (\<open>ynh/mint_session_server.py\<close>) runs as the user of the portal; two
  more (\<open>ynh/identity_lookup_server.py\<close>, \<open>ynh/relay_lookup_server.py\<close>) answer other programs of the host,
  from the same table, who has linked a key and which relays this user prefers; and the administrator changes the
  table on the command line (\<open>admin_cli.py\<close>).

  The theories of the scripts.
  \<^item> \<open>Prelude\<close>, \<open>Text_Util\<close>: characters, numerals, and the string functions of the standard
    libraries (trimming, slices, \<open>encodeURIComponent\<close>, padding) on UTF-8 text.
  \<^item> \<open>Js_Value\<close>, \<open>Json\<close>: JavaScript values, \<open>JSON.stringify\<close> and \<open>JSON.parse\<close>; the locale
    \<open>json_printer\<close> is what the parser relies on in a printer, and has the round trip.
  \<^item> \<open>Js_Effect\<close>: a piece of JavaScript as a tree that reads and writes the state of the page,
    calls the host, awaits promises and throws; \<open>run\<close> evaluates it against an environment, \<open>wp\<close>
    is its weakest precondition with rely and guarantee, and the locale \<open>event_inv\<close> holds the
    rules for invariants.
  \<^item> \<open>Event_Loop\<close>: the interleavings of the handlers of a page as a step relation; the locale
    \<open>page_loop\<close> lifts an invariant of the handlers to every reachable page.
  \<^item> \<open>Browser\<close>: elements, \<open>localStorage\<close>, abort controllers, global objects, promises of methods.
  \<^item> \<open>Connect_UI\<close>: every function of \<open>nostr-connect-ui.js\<close>.
  \<^item> \<open>Page_Script\<close>: what the login and the account page have in common (\<open>fetchJSON\<close>, the event
    to sign, signers); the locale \<open>script_inv\<close> says when this code keeps an invariant of a page.
  \<^item> \<open>Login_Page\<close>: \<open>nostr-login-page.js\<close> and its properties.
  \<^item> \<open>Account_Page\<close>, \<open>Account_Laws\<close>: \<open>nostr-account-page.js\<close> and its properties.
  \<^item> \<open>Admin_Page\<close>, \<open>Admin_Laws\<close>: \<open>nostr-admin-page.js\<close> and its properties.

  The theories of the server.
  \<^item> \<open>Py_Effect\<close>: Python functions as functions from a state to an exception or a value and the
    new state; transactions, \<open>except\<close> clauses, \<open>repr\<close>, and code that leaves a part of the state.
  \<^item> \<open>Challenge_Store\<close>: both backends of the challenge store; the locale \<open>challenge_book\<close> is their
    contract (a map of the open challenges), interpreted for the dict and for the table.
  \<^item> \<open>Mappings\<close>: the table of identities with its operations and queries and the migration; the
    locale \<open>key_directory\<close> is its contract, a book of who holds which key.
  \<^item> \<open>Nostr_Verify\<close>: the checks of a signed event, \<open>json.dumps\<close>, the validators of \<open>config.py\<close>.
  \<^item> \<open>Login_Linking\<close>: signing in, linking, and the clients of the portal and of the minting process.
  \<^item> \<open>Server\<close>: the endpoints, the routes, and the answer to an exception.
  \<^item> \<open>Server_Laws\<close>: who gets a session and how many.  \<open>Server_Access\<close>: who changes which keys.
  \<^item> \<open>Server_Answers\<close>: what every answer looks like, and which requests need a JSON body.
  \<^item> \<open>Web_Pages\<close>: pages, static files and their policy; \<open>serve_web\<close> is the server with all its routes.

  The theories of the other processes.
  \<^item> \<open>Json_Dumps\<close>: \<open>json.dumps\<close> with both kinds of separators, as interpretations of \<open>json_printer\<close>: what
    it prints in ASCII is read back as the same UTF-8 text.
  \<^item> \<open>Mint_Service\<close>: the minting process, with the portal's cookie and the directory.
  \<^item> \<open>Identity_Lookup\<close>: the lookup of identities, server and client with the bytes between them.
  \<^item> \<open>Relay_Lookup\<close>: relay lists in events, in their table and over the socket; the table stands for a book of lists.
  \<^item> \<open>Admin_Cli\<close>: the commands of the administrator, their output and their exit status.

  The theories of both together.
  \<^item> \<open>Site\<close>: the server behind \<open>fetch\<close> of the pages' environment (\<open>network\<close>), with the signer, the
    clocks and YunoHost as parameters, and what every exchange of a challenge has in common.
  \<^item> \<open>Sign_In_Flow\<close>, \<open>Link_Flow\<close>, \<open>Unlink_Flow\<close>: the login and the account page run against the
    server, one after the other; \<open>Mint_Flow\<close> adds the minting process, \<open>Cli_Flow\<close> a command before the
    sign-in; \<open>Host_History\<close> has histories of requests and commands (locale \<open>key_history\<close>); \<open>account_views\<close> (in \<open>Account_Laws\<close>) is the locale of what the
    account page only reads.

  State and operations.  The state of a page is a record: the elements the script looks up (their
  text, class, value, hidden, disabled and checked flags), the storage, the location, the
  globals, and the script's own \<open>let\<close> variables.  Every function of the source is a definition
  with its name (prefixed with \<open>login_\<close>, \<open>account_\<close> or \<open>admin_\<close> where two scripts use one name, and
  \<open>_on_\<close> for an anonymous listener); \<open>if ... return\<close> is a nested conditional, \<open>try\<close>, \<open>catch\<close> and
  \<open>finally\<close> are operations on trees, an awaited function of the source is its own tree, and
  every function of the host or of a vendored library is an answered call, so that a theorem
  about all environments holds whatever those answer, exceptions included.  The handlers of a
  page and when they may start are \<open>login_handler\<close>, \<open>login_enabled\<close> and so on.  The state of the
  server is the record \<open>server\<close>: the challenge store, the table of identities, the requests to
  the minting process and the log.  An endpoint is a function of the services outside (the record
  \<open>services\<close>: portal, minting process, \<open>nostr-sdk\<close>, clock, random token, settings), of a request
  and of this state; \<open>dispatch\<close> is one request, \<open>serve\<close> a history of them.  The handlers have no
  \<open>await\<close> between reading and writing their state but the one for the body of the request, which
  comes before, so a request is one step.

  What the lemmas show.  Invariants of every interleaving: the portal is entered only after an
  accepted authentication, the account page sends only the listed requests, the administration is
  shown only to an administrator.  Single flows on all their branches: sign-in, linking,
  unlinking, renaming, revoking, restoring; what the page shows and sends afterwards, errors
  included, and that controls are usable again.  Secrets: what is saved of a generated key, a
  recovery key, a signer.  Round trips: saved signers and keys, escaped text.  On the server, over
  all histories: a challenge counts once, sessions are asked for only with a signed challenge
  and at most once for each, every change of the keys is authorised, and a key that signs in was
  given to the account; every answer has the type of its request.  Both stores refine their
  books; pages are sent under a policy that runs the server's own scripts only.  The other processes answer
  permitted callers only, and a client gets what the table says; a failed command changes nothing.  Together: with an honest signer the page and the server sign the user in, and refuse
  an unknown key with the reason; a key that the account page links signs in, and one that it unlinks
  does not; a key linked on the command line signs in; the cookie holds the session that was minted for the user
  of the key.  Each flow is also run on concrete inputs.

  Bounds and fuel.  Trees are finite, so a handler ends once its promises have settled; the poll
  for an extension is a recursion that ends by a measure, within thirty periods of 100 ms.  The
  parser of JSON takes fuel: \<open>json_parse\<close> gives twice the length of the text, and \<open>json_value_fuel\<close>
  shows that more makes no difference.  The loops that read a socket end by measures: the room left in the
  buffer of 257 bytes, or the bytes still to come.  The functions of the server are total.

  Not modelled.  The vendored bundles (\<open>nostr-tools\<close> and the passkey library; minified third-party
  code) and the functions of the browser are answered calls.  The HTML pages only fix which
  elements start hidden, which is arbitrary here.  The case folding of \<open>toLowerCase\<close> is a
  parameter.  Numbers are the integers; a text is its UTF-8 bytes, so \<open>slice\<close> and \<open>length\<close> are
  exact on the ASCII texts they are applied to.  Of the server: the redirects of
  the framework for a trailing slash, headers of answers other than cookies and the policy, the set-up of logging
  and of the settings; digits outside ASCII in the id of a path; SQLite failures other than a refused key or
  parameter (a full disk, a busy file).  Of the other processes: the set-up of their sockets, requests in
  UTF-16 or UTF-32, values of the directory that are not UTF-8, the text of a JSON error, the fields of
  \<open>argparse\<close>; a command or a lookup is one step, although the server may run between its transactions.  \<open>ynh/permissions.py\<close> is
  a docstring.
\<close>

end
